(* ===== verification/Prelude.thy ===== *)
theory Prelude
  imports Main "HOL-Library.Word" "HOL-Library.AList"
begin

text \<open>
  Shared vocabulary of the development: results with explicit errors, the slice and vector
  operations the engine uses (\<open>iter().find\<close>, \<open>iter_mut().find\<close>, \<open>position\<close>,
  \<open>retain\<close>), association lists for \<open>HashMap\<close>, UTF-8 strings as byte lists with the
  \<open>str\<close> operations the engine calls (\<open>trim\<close>, \<open>split_once\<close>, \<open>starts_with\<close>,
  \<open>ends_with\<close>, \<open>chars().any(char::is_control)\<close>), decimal and hexadecimal formatting,
  and 64-bit clock arithmetic.
\<close>

named_theorems str_defs \<open>definitions of the string operations\<close>
named_theorems list_ops \<open>facts on vectors changed in place\<close>

section \<open>Results\<close>

type_synonym ('e, 'a) result = "'e + 'a"

abbreviation Ok :: "'a \<Rightarrow> 'e + 'a" where
  "Ok \<equiv> Inr"

abbreviation Err :: "'e \<Rightarrow> 'e + 'a" where
  "Err \<equiv> Inl"

definition is_ok :: "'e + 'a \<Rightarrow> bool" where
  "is_ok r = (case r of Inl _ \<Rightarrow> False | Inr _ \<Rightarrow> True)"

lemma is_ok_simps [simp]: "is_ok (Ok x)" "\<not> is_ok (Err e)"
  by (simp_all add: is_ok_def)

lemma is_ok_iff: "is_ok r \<longleftrightarrow> (\<exists>x. r = Ok x)"
  by (cases r) auto

section \<open>Vectors\<close>

text \<open>\<open>iter_mut().find(p)\<close> followed by a mutation: the first match is changed.\<close>

fun update_first :: "('a \<Rightarrow> bool) \<Rightarrow> ('a \<Rightarrow> 'a) \<Rightarrow> 'a list \<Rightarrow> 'a list" where
  "update_first p f [] = []"
| "update_first p f (x # xs) = (if p x then f x # xs else x # update_first p f xs)"

text \<open>\<open>iter().position(p)\<close>.\<close>

fun position :: "('a \<Rightarrow> bool) \<Rightarrow> 'a list \<Rightarrow> nat option" where
  "position p [] = None"
| "position p (x # xs) = (if p x then Some 0 else map_option Suc (position p xs))"

text \<open>\<open>Vec::remove\<close>.\<close>

fun remove_nth :: "nat \<Rightarrow> 'a list \<Rightarrow> 'a list" where
  "remove_nth n [] = []"
| "remove_nth 0 (x # xs) = xs"
| "remove_nth (Suc n) (x # xs) = x # remove_nth n xs"

lemma length_update_first [simp]: "length (update_first p f xs) = length xs"
  by (induction xs) auto

lemma map_update_first [list_ops]:
  "(\<And>x. p x \<Longrightarrow> g (f x) = g x) \<Longrightarrow> map g (update_first p f xs) = map g xs"
  by (induction xs) auto

lemma update_first_none [simp]: "\<forall>x \<in> set xs. \<not> p x \<Longrightarrow> update_first p f xs = xs"
  by (induction xs) auto

lemma set_update_firstD:
  "y \<in> set (update_first p f xs) \<Longrightarrow> y \<in> set xs \<or> (\<exists>x \<in> set xs. p x \<and> y = f x)"
  by (induction xs) (auto split: if_splits)

lemma set_update_first_other:
  "x \<in> set xs \<Longrightarrow> \<not> p x \<Longrightarrow> x \<in> set (update_first p f xs)"
  by (induction xs) auto

lemma find_update_first_other [list_ops]:
  "(\<And>x. p x \<Longrightarrow> \<not> q x) \<Longrightarrow> (\<And>x. p x \<Longrightarrow> \<not> q (f x)) \<Longrightarrow>
   List.find q (update_first p f xs) = List.find q xs"
  by (induction xs) auto

lemma find_update_first_same [list_ops]:
  "(\<And>x. p x \<Longrightarrow> p (f x)) \<Longrightarrow>
   List.find p (update_first p f xs) = map_option f (List.find p xs)"
  by (induction xs) auto

lemma update_first_twice:
  "(\<And>x. p x \<Longrightarrow> p (f x)) \<Longrightarrow> update_first p g (update_first p f xs) = update_first p (\<lambda>x. g (f x)) xs"
  by (induction xs) auto

lemma find_SomeD: "List.find p xs = Some x \<Longrightarrow> x \<in> set xs \<and> p x"
  by (induction xs) (auto split: if_splits)

lemma find_None_iff_all: "List.find p xs = None \<longleftrightarrow> (\<forall>x \<in> set xs. \<not> p x)"
  by (induction xs) auto

lemma find_append: "List.find p (xs @ ys) =
   (case List.find p xs of None \<Rightarrow> List.find p ys | Some x \<Rightarrow> Some x)"
  by (induction xs) auto

lemma find_distinct_key:
  "distinct (map k xs) \<Longrightarrow> x \<in> set xs \<Longrightarrow> List.find (\<lambda>y. k y = k x) xs = Some x"
proof (induction xs)
  case (Cons a xs)
  then show ?case by (auto simp: image_iff)
qed simp

lemma position_Some_nth: "position p xs = Some i \<Longrightarrow> i < length xs \<and> p (xs ! i)"
  by (induction xs arbitrary: i) (auto split: if_splits)

lemma position_None_iff: "position p xs = None \<longleftrightarrow> (\<forall>x \<in> set xs. \<not> p x)"
  by (induction xs) auto

lemma distinct_map_filter: "distinct (map k xs) \<Longrightarrow> distinct (map k (filter p xs))"
  by (induction xs) auto

lemma length_filter_eq_iff: "length (filter p xs) = length xs \<longleftrightarrow> (\<forall>x \<in> set xs. p x)"
  by (metis filter_True filter_cong length_filter_less less_irrefl)

section \<open>Hash maps\<close>

text \<open>
  A \<open>HashMap\<close> is an association list read through \<open>map_of\<close> and changed by
  \<open>AList.update\<close> and \<open>AList.delete\<close>. The order of its entries stands for the
  unspecified iteration order.
\<close>

definition get_or :: "'v \<Rightarrow> 'k \<Rightarrow> ('k \<times> 'v) list \<Rightarrow> 'v" where
  "get_or d k m = (case map_of m k of None \<Rightarrow> d | Some v \<Rightarrow> v)"

lemma get_or_update [simp]:
  "get_or d k (AList.update k' v m) = (if k = k' then v else get_or d k m)"
  by (simp add: get_or_def update_conv')

lemma get_or_delete [simp]:
  "get_or d k (AList.delete k' m) = (if k = k' then d else get_or d k m)"
  by (simp add: get_or_def delete_conv')

lemma get_or_Nil [simp]: "get_or d k [] = d"
  by (simp add: get_or_def)

section \<open>Options\<close>

text \<open>\<open>if let Some(x) = o\<close> guards: the predicate holds of the value, if there is one.\<close>

fun opt_all :: "('a \<Rightarrow> bool) \<Rightarrow> 'a option \<Rightarrow> bool" where
  "opt_all P None = True"
| "opt_all P (Some x) = P x"

lemma opt_all_iff: "opt_all P o' \<longleftrightarrow> (\<forall>x. o' = Some x \<longrightarrow> P x)"
  by (cases o') simp_all

end
