(* ===== verification/Rust_Str.thy ===== *)
theory Rust_Str
  imports Prelude
begin

text \<open>
  Rust's \<open>str\<close> as the list of its UTF-8 bytes (\<open>string\<close>, one \<open>char\<close> per byte), so
  that \<open>length\<close> is \<open>str::len\<close>. Predicates on Unicode scalars (\<open>char::is_control\<close>,
  \<open>char::is_whitespace\<close>) are read off the encodings of the scalars they hold of.
\<close>

section \<open>Bytes\<close>

abbreviation byte :: "char \<Rightarrow> nat" where
  "byte c \<equiv> of_char c"

definition is_ascii_digit :: "char \<Rightarrow> bool" where
  "is_ascii_digit c = (48 \<le> byte c \<and> byte c \<le> 57)"

definition is_ascii_lower :: "char \<Rightarrow> bool" where
  "is_ascii_lower c = (97 \<le> byte c \<and> byte c \<le> 122)"

definition is_ascii_upper :: "char \<Rightarrow> bool" where
  "is_ascii_upper c = (65 \<le> byte c \<and> byte c \<le> 90)"

definition is_ascii_alphanumeric :: "char \<Rightarrow> bool" where
  "is_ascii_alphanumeric c = (is_ascii_digit c \<or> is_ascii_lower c \<or> is_ascii_upper c)"

definition to_ascii_lowercase :: "string \<Rightarrow> string" where
  "to_ascii_lowercase = map (\<lambda>c. if is_ascii_upper c then char_of (byte c + 32) else c)"

definition eq_ignore_ascii_case :: "string \<Rightarrow> string \<Rightarrow> bool" where
  "eq_ignore_ascii_case s t = (to_ascii_lowercase s = to_ascii_lowercase t)"

lemmas ascii_defs [str_defs] =
  is_ascii_digit_def is_ascii_lower_def is_ascii_upper_def is_ascii_alphanumeric_def

section \<open>Prefixes, suffixes and splitting\<close>

definition starts_with :: "string \<Rightarrow> string \<Rightarrow> bool" where
  [str_defs]: "starts_with s p = (take (length p) s = p)"

definition ends_with :: "string \<Rightarrow> string \<Rightarrow> bool" where
  [str_defs]: "ends_with s p = (length p \<le> length s \<and> drop (length s - length p) s = p)"

lemma starts_with_append [simp]: "starts_with (p @ s) p"
  by (simp add: starts_with_def)

lemma starts_with_iff: "starts_with s p \<longleftrightarrow> (\<exists>r. s = p @ r)"
proof
  assume "starts_with s p"
  then have "s = p @ drop (length p) s"
    using append_take_drop_id [of "length p" s] by (simp add: starts_with_def)
  then show "\<exists>r. s = p @ r" ..
qed (auto simp: starts_with_def)

lemma ends_with_iff: "ends_with s p \<longleftrightarrow> (\<exists>r. s = r @ p)"
proof
  assume "ends_with s p"
  then have "s = take (length s - length p) s @ p"
    using append_take_drop_id [of "length s - length p" s] by (simp add: ends_with_def)
  then show "\<exists>r. s = r @ p" ..
qed (auto simp: ends_with_def)

fun split_once :: "char \<Rightarrow> string \<Rightarrow> (string \<times> string) option" where
  "split_once d [] = None"
| "split_once d (c # cs) =
     (if c = d then Some ([], cs) else map_option (apfst ((#) c)) (split_once d cs))"

lemma split_once_None_iff: "split_once d s = None \<longleftrightarrow> d \<notin> set s"
  by (induction s) auto

lemma split_once_SomeD: "split_once d s = Some (a, b) \<Longrightarrow> s = a @ d # b \<and> d \<notin> set a"
  by (induction s arbitrary: a) (auto split: if_splits)

lemma split_once_append [simp]: "d \<notin> set a \<Longrightarrow> split_once d (a @ d # b) = Some (a, b)"
  by (induction a) auto

text \<open>\<open>s.split(d)\<close>: always at least one piece.\<close>

fun split_on :: "char \<Rightarrow> string \<Rightarrow> string list" where
  "split_on d [] = [[]]"
| "split_on d (c # cs) =
     (case split_on d cs of
        [] \<Rightarrow> [[c]]
      | p # ps \<Rightarrow> if c = d then [] # p # ps else (c # p) # ps)"

text \<open>\<open>[..].join(sep)\<close>.\<close>

fun join :: "string \<Rightarrow> string list \<Rightarrow> string" where
  "join sep [] = []"
| "join sep [s] = s"
| "join sep (s # t # ss) = s @ sep @ join sep (t # ss)"

lemma set_join: "set (join sep ss) \<subseteq> set sep \<union> (\<Union>s \<in> set ss. set s)"
  by (induction sep ss rule: join.induct) auto

text \<open>The non-ASCII characters of the engine's messages: an em dash and a right arrow.\<close>

definition em_dash :: string where
  "em_dash = [CHR 0xE2, CHR 0x80, CHR 0x94]"

definition right_arrow :: string where
  "right_arrow = [CHR 0xE2, CHR 0x86, CHR 0x92]"

section \<open>Control characters and white space\<close>

text \<open>
  \<open>chars().any(char::is_control)\<close>: the category Cc is U+0000..U+001F, U+007F and
  U+0080..U+009F; the last block is encoded as the byte C2 followed by 80..9F.
\<close>

fun has_control :: "string \<Rightarrow> bool" where
  "has_control [] = False"
| "has_control (c # cs) =
     (byte c < 32 \<or> byte c = 127
      \<or> (byte c = 194 \<and> (case cs of [] \<Rightarrow> False | d # _ \<Rightarrow> 128 \<le> byte d \<and> byte d < 160))
      \<or> has_control cs)"

text \<open>The encodings of the scalars with the property White\_Space.\<close>

definition white_space :: "nat list list" where
  "white_space = [[9], [10], [11], [12], [13], [32], [194, 133], [194, 160], [225, 154, 128],
     [226, 128, 128], [226, 128, 129], [226, 128, 130], [226, 128, 131], [226, 128, 132],
     [226, 128, 133], [226, 128, 134], [226, 128, 135], [226, 128, 136], [226, 128, 137],
     [226, 128, 138], [226, 128, 168], [226, 128, 169], [226, 128, 175], [226, 129, 159],
     [227, 128, 128]]"

text \<open>The byte length of the white-space scalar at the front (at the end) of a string, or 0.\<close>

definition ws_front :: "string \<Rightarrow> nat" where
  "ws_front s = (case List.find (\<lambda>w. map byte (take (length w) s) = w) white_space of
     None \<Rightarrow> 0 | Some w \<Rightarrow> length w)"

definition ws_back :: "string \<Rightarrow> nat" where
  "ws_back s = (case List.find (\<lambda>w. map byte (take (length w) (rev s)) = rev w) white_space of
     None \<Rightarrow> 0 | Some w \<Rightarrow> length w)"

lemma take_map_eq_length: "map f (take (length w) s) = v \<Longrightarrow> length v = length w \<Longrightarrow> length w \<le> length s"
  by auto

lemma ws_front_le: "ws_front s \<le> length s"
proof (cases "List.find (\<lambda>w. map byte (take (length w) s) = w) white_space")
  case (Some w)
  then have "map byte (take (length w) s) = w" by (auto dest: find_SomeD)
  then have "length w \<le> length s" by (rule take_map_eq_length) simp
  with Some show ?thesis by (simp add: ws_front_def)
qed (simp add: ws_front_def)

lemma ws_back_le: "ws_back s \<le> length s"
proof (cases "List.find (\<lambda>w. map byte (take (length w) (rev s)) = rev w) white_space")
  case (Some w)
  then have "map byte (take (length w) (rev s)) = rev w" by (auto dest: find_SomeD)
  then have "length w \<le> length (rev s)" by (rule take_map_eq_length) simp
  with Some show ?thesis by (simp add: ws_back_def)
qed (simp add: ws_back_def)

function trim_start :: "string \<Rightarrow> string" where
  "trim_start s = (if ws_front s = 0 then s else trim_start (drop (ws_front s) s))"
  by pat_completeness auto
termination
proof (relation "measure length")
  fix s assume "ws_front s \<noteq> 0"
  with ws_front_le [of s] show "(drop (ws_front s) s, s) \<in> measure length"
    by simp
qed simp

function trim_end :: "string \<Rightarrow> string" where
  "trim_end s = (if ws_back s = 0 then s else trim_end (take (length s - ws_back s) s))"
  by pat_completeness auto
termination
proof (relation "measure length")
  fix s assume "ws_back s \<noteq> 0"
  with ws_back_le [of s] show "(take (length s - ws_back s) s, s) \<in> measure length"
    by simp
qed simp

declare trim_start.simps [simp del] trim_end.simps [simp del]

definition trim :: "string \<Rightarrow> string" where
  "trim s = trim_end (trim_start s)"

lemma trim_start_suffix: "\<exists>p. s = p @ trim_start s"
proof (induction s rule: trim_start.induct)
  case (1 s)
  show ?case
  proof (cases "ws_front s = 0")
    case False
    with 1 obtain p where "drop (ws_front s) s = p @ trim_start (drop (ws_front s) s)" by blast
    then have "s = (take (ws_front s) s @ p) @ trim_start (drop (ws_front s) s)"
      by (metis append.assoc append_take_drop_id)
    moreover from False have "trim_start s = trim_start (drop (ws_front s) s)"
      by (simp add: trim_start.simps [of s])
    ultimately show ?thesis by metis
  qed (simp add: trim_start.simps)
qed

lemma trim_end_prefix: "\<exists>q. s = trim_end s @ q"
proof (induction s rule: trim_end.induct)
  case (1 s)
  let ?t = "take (length s - ws_back s) s"
  show ?case
  proof (cases "ws_back s = 0")
    case False
    with 1 obtain q where "?t = trim_end ?t @ q" by blast
    then have "s = trim_end ?t @ (q @ drop (length s - ws_back s) s)"
      by (metis append.assoc append_take_drop_id)
    moreover from False have "trim_end s = trim_end ?t"
      by (simp add: trim_end.simps [of s])
    ultimately show ?thesis by metis
  qed (simp add: trim_end.simps)
qed

lemma trim_infix: "\<exists>p q. s = p @ trim s @ q"
  using trim_start_suffix [of s] trim_end_prefix [of "trim_start s"]
  unfolding trim_def by metis

lemma length_trim_le: "length (trim s) \<le> length s"
proof -
  obtain p q where "s = p @ trim s @ q" using trim_infix [of s] by blast
  then have "length s = length p + length (trim s) + length q"
    by (metis add.assoc length_append)
  then show ?thesis by simp
qed

lemma has_control_append1: "has_control s \<Longrightarrow> has_control (s @ t)"
proof (induction s)
  case (Cons c cs)
  then show ?case by (cases cs) auto
qed simp

lemma has_control_append2: "has_control t \<Longrightarrow> has_control (s @ t)"
  by (induction s) auto

lemma has_control_trim:
  assumes "has_control (trim s)"
  shows "has_control s"
proof -
  obtain p q where s: "s = p @ trim s @ q" using trim_infix [of s] by blast
  from assms have "has_control (p @ trim s @ q)"
    by (intro has_control_append2 has_control_append1)
  with s show ?thesis by simp
qed

lemma split_on_single: "d \<notin> set s \<Longrightarrow> split_on d s = [s]"
  by (induction s) auto

lemma white_space_nonempty: "[] \<notin> set white_space"
  by (simp add: white_space_def)

lemma byte_front:
  assumes "\<And>w. w \<in> set white_space \<Longrightarrow> hd w \<noteq> byte c"
  shows "ws_front (c # s) = 0"
proof -
  have "map byte (take (length w) (c # s)) \<noteq> w" if w0: "w \<in> set white_space" for w
  proof -
    have "w \<noteq> []" using w0 white_space_nonempty by metis
    then obtain x v where w: "w = x # v" by (metis list.exhaust)
    then have "x \<noteq> byte c" using assms [OF w0] by simp
    then show ?thesis by (simp add: w)
  qed
  then have "List.find (\<lambda>w. map byte (take (length w) (c # s)) = w) white_space = None"
    by (simp add: find_None_iff)
  then show ?thesis by (simp add: ws_front_def)
qed

lemma byte_back:
  assumes "\<And>w. w \<in> set white_space \<Longrightarrow> last w \<noteq> byte c"
  shows "ws_back (s @ [c]) = 0"
proof -
  have "map byte (take (length w) (rev (s @ [c]))) \<noteq> rev w" if w0: "w \<in> set white_space" for w
  proof -
    have "w \<noteq> []" using w0 white_space_nonempty by metis
    then obtain x v where w: "w = v @ [x]" by (metis rev_exhaust)
    then have "x \<noteq> byte c" using assms [OF w0] by simp
    then show ?thesis by (simp add: w)
  qed
  then have "List.find (\<lambda>w. map byte (take (length w) (rev (s @ [c]))) = rev w) white_space = None"
    by (simp add: find_None_iff)
  then show ?thesis by (simp add: ws_back_def)
qed

text \<open>Graphic characters of ASCII: neither control nor white space.\<close>

definition graphic :: "char \<Rightarrow> bool" where
  "graphic c \<longleftrightarrow> 32 < byte c \<and> byte c < 127"

lemma graphic_ends: "graphic c \<Longrightarrow> w \<in> set white_space \<Longrightarrow> hd w \<noteq> byte c \<and> last w \<noteq> byte c"
  by (auto simp: graphic_def white_space_def)

lemma trim_graphic: "list_all graphic s \<Longrightarrow> trim s = s"
proof (cases "s = []")
  case False
  assume g: "list_all graphic s"
  obtain a t where a: "s = a # t" using False by (cases s) auto
  obtain b u where b: "s = u @ [b]" using False by (cases s rule: rev_cases) auto
  have "graphic a" using g a by simp
  then have "ws_front s = 0" unfolding a using graphic_ends byte_front by blast
  moreover have "graphic b" using g b by simp
  then have "ws_back s = 0" unfolding b using graphic_ends byte_back by blast
  ultimately show ?thesis by (simp add: trim_def trim_start.simps [of s] trim_end.simps [of s])
qed (simp add: trim_def trim_start.simps trim_end.simps ws_front_def ws_back_def white_space_def)

lemma trim_space [simp]: "trim (CHR '' '' # s) = trim s"
proof -
  have "ws_front (CHR '' '' # s) = 1" by (simp add: ws_front_def white_space_def)
  then have "trim_start (CHR '' '' # s) = trim_start s" by (simp add: trim_start.simps [of "CHR '' '' # s"])
  then show ?thesis by (simp add: trim_def)
qed

lemma split_on_nonempty [simp]: "split_on d s \<noteq> []"
  by (induction s) (auto split: list.split)

lemma split_on_same: "split_on d (d # s) = [] # split_on d s"
  by (cases "split_on d s") auto

lemma split_on_other: "c \<noteq> d \<Longrightarrow> split_on d (c # s) = (c # hd (split_on d s)) # tl (split_on d s)"
  by (cases "split_on d s") auto

lemma split_on_before: "d \<notin> set p \<Longrightarrow> split_on d (p @ d # s) = p # split_on d s"
  by (induction p) (auto simp: split_on_same split_on_other simp del: split_on.simps)

section \<open>Numbers\<close>

fun show_nat :: "nat \<Rightarrow> string" where
  "show_nat n = (if n < 10 then [char_of (48 + n)]
                 else show_nat (n div 10) @ [char_of (48 + n mod 10)])"

declare show_nat.simps [simp del]

definition read_dec :: "string \<Rightarrow> nat" where
  "read_dec s = foldl (\<lambda>acc c. 10 * acc + (byte c - 48)) 0 s"

lemma byte_char_of [simp]: "n < 256 \<Longrightarrow> byte (char_of n) = n"
  by simp

lemma read_dec_show_nat [simp]: "read_dec (show_nat n) = n"
proof (induction n rule: show_nat.induct)
  case (1 n)
  then show ?case
    by (subst show_nat.simps) (auto simp: read_dec_def)
qed

lemma show_nat_inject [simp]: "show_nat m = show_nat n \<longleftrightarrow> m = n"
  by (metis read_dec_show_nat)

lemma show_nat_digits: "\<forall>c \<in> set (show_nat n). is_ascii_digit c"
proof (induction n rule: show_nat.induct)
  case (1 n)
  then show ?case
    by (subst show_nat.simps) (auto simp: is_ascii_digit_def)
qed

text \<open>\<open>format!("{b:02x}")\<close> on a byte.\<close>

definition hex_digit :: "nat \<Rightarrow> char" where
  "hex_digit n = (if n < 10 then char_of (48 + n) else char_of (87 + n))"

definition hex2 :: "8 word \<Rightarrow> string" where
  "hex2 b = [hex_digit (unat b div 16), hex_digit (unat b mod 16)]"

section \<open>Clocks\<close>

type_synonym u64 = "64 word"
type_synonym u16 = "16 word"

text \<open>\<open>u64::saturating_sub\<close>; plain subtraction wraps, as in the release profile.\<close>

definition saturating_sub :: "u64 \<Rightarrow> u64 \<Rightarrow> u64" where
  "saturating_sub a b = (if a < b then 0 else a - b)"

lemma unat_saturating_sub: "unat (saturating_sub a b) = unat a - unat b"
  by (auto simp: saturating_sub_def word_less_nat_alt unat_sub_if_size)

end
