(* ===== verification/Auth_State.thy ===== *)
theory Auth_State
  imports Rust_Str
begin

text \<open>
  The data and the pure functions of authentication (\<open>nasty-engine/src/auth.rs\<close>): users,
  sessions, API tokens, the failed-login windows, the endpoint authorization policy, the binding
  of a standard user to a file principal, and the choice of a username for an OIDC identity.
  \<open>Auth_Store\<close> adds persistence and \<open>Auth\<close> the service. A passkey is an opaque value
  of the webauthn library, the type parameter \<open>'k\<close>.
\<close>

section \<open>Data\<close>

datatype role = Admin | ReadOnly | Operator | User

record 'k webauthn_credential =
  wc_label :: string
  wc_created_at :: u64
  wc_passkey :: 'k

record 'k user =
  u_username :: string
  u_password_hash :: "string option"
  u_role :: role
  u_file_principal :: "string option"
  u_must_change_password :: bool
  u_oidc_subject :: "string option"
  u_oidc_issuer :: "string option"
  u_webauthn_credentials :: "'k webauthn_credential list"

definition SESSION_TTL_SECS :: u64 where
  "SESSION_TTL_SECS = 8 * 3600"

record session =
  s_token :: string
  s_username :: string
  s_role :: role
  s_file_principal :: "string option"
  s_filesystem :: "string option"
  s_owner :: "string option"
  s_created_at :: u64
  s_must_change_password :: bool
  s_client_ip :: "string option"

record api_token =
  t_id :: string
  t_name :: string
  t_token :: string
  t_role :: role
  t_created_at :: u64
  t_filesystem :: "string option"
  t_expires_at :: "u64 option"
  t_allowed_ips :: "string list"

record 'k auth_state =
  as_users :: "'k user list"
  as_sessions :: "session list"
  as_api_tokens :: "api_token list"
  as_initialized :: bool

datatype auth_error =
    InvalidCredentials | AccountLocked | InvalidToken | TokenExpired | Forbidden | UserNotFound | UserExists
  | NotFound | WeakPassword | InvalidFilePrincipal string | HashError string | StateCorrupt string string
  | StateUninitialized string | StateUnsafe string string | StateIo string string string
  | StateSerialize string | Io string

fun auth_error_message :: "auth_error \<Rightarrow> string" where
  "auth_error_message InvalidCredentials = ''invalid username or password''"
| "auth_error_message AccountLocked = ''account temporarily locked due to too many failed attempts''"
| "auth_error_message InvalidToken = ''invalid token''"
| "auth_error_message TokenExpired = ''token has expired''"
| "auth_error_message Forbidden = ''forbidden''"
| "auth_error_message UserNotFound = ''user not found''"
| "auth_error_message UserExists = ''user already exists''"
| "auth_error_message NotFound = ''not found''"
| "auth_error_message WeakPassword = ''password must be at least 8 characters''"
| "auth_error_message (InvalidFilePrincipal x) = ''invalid file principal: '' @ x"
| "auth_error_message (HashError x) = ''password hash error: '' @ x"
| "auth_error_message (StateCorrupt path src) = ''auth state at '' @ path @ '' is corrupt: '' @ src"
| "auth_error_message (StateUninitialized path) = ''auth state at '' @ path @ '' exists but is not initialized''"
| "auth_error_message (StateUnsafe path reason) = ''unsafe auth state at '' @ path @ '': '' @ reason"
| "auth_error_message (StateIo op path src) =
     ''failed to '' @ op @ '' auth state at '' @ path @ '': '' @ src"
| "auth_error_message (StateSerialize x) = ''failed to serialize auth state: '' @ x"
| "auth_error_message (Io x) = ''io error: '' @ x"

section \<open>Endpoint authorization\<close>

datatype endpoint_access = Read | Mutation | UnscopedMutation | RootEquivalent | SelfService | PortalFiles

datatype access_denied =
    PasswordChangeRequired | InsufficientRole | ScopedCredential | MissingFilePrincipal | InteractiveSessionRequired

fun access_denied_message :: "access_denied \<Rightarrow> string" where
  "access_denied_message PasswordChangeRequired = ''Password change required''"
| "access_denied_message InsufficientRole = ''Permission denied''"
| "access_denied_message ScopedCredential = ''Scoped credentials cannot access this endpoint''"
| "access_denied_message MissingFilePrincipal = ''A file principal is required''"
| "access_denied_message InteractiveSessionRequired = ''An interactive session is required''"

definition role_allowed :: "role \<Rightarrow> endpoint_access \<Rightarrow> bool" where
  "role_allowed r access =
     (case access of
        Read \<Rightarrow> r \<noteq> User
      | SelfService \<Rightarrow> True
      | Mutation \<Rightarrow> r = Admin \<or> r = Operator
      | UnscopedMutation \<Rightarrow> r = Admin \<or> r = Operator
      | RootEquivalent \<Rightarrow> r = Admin
      | PortalFiles \<Rightarrow> r = User)"

definition authorize_session :: "session \<Rightarrow> endpoint_access \<Rightarrow> access_denied + unit" where
  "authorize_session s access =
     (if s_must_change_password s \<and> access \<noteq> SelfService then Err PasswordChangeRequired
      else if \<not> role_allowed (s_role s) access then Err InsufficientRole
      else if (access = UnscopedMutation \<or> access = RootEquivalent \<or> access = PortalFiles)
              \<and> (s_filesystem s \<noteq> None \<or> s_owner s \<noteq> None) then Err ScopedCredential
      else if access = PortalFiles then
        (if s_client_ip s = None then Err InteractiveSessionRequired
         else if s_file_principal s = None \<or> s_file_principal s = Some [] then Err MissingFilePrincipal
         else Ok ())
      else Ok ())"

section \<open>Failed-login windows\<close>

definition MAX_FAILED_ATTEMPTS :: nat where
  "MAX_FAILED_ATTEMPTS = 5"

definition LOCKOUT_WINDOW_SECS :: u64 where
  "LOCKOUT_WINDOW_SECS = 15 * 60"

definition MAX_IP_FAILED_ATTEMPTS :: nat where
  "MAX_IP_FAILED_ATTEMPTS = 20"

definition IP_LOCKOUT_WINDOW_SECS :: u64 where
  "IP_LOCKOUT_WINDOW_SECS = 60 * 60"

record rate_limit =
  by_user :: "(string \<times> u64 list) list"
  by_ip :: "(string \<times> u64 list) list"

definition rate_limit_default :: rate_limit where
  "rate_limit_default = \<lparr>by_user = [], by_ip = []\<rparr>"

definition within :: "u64 \<Rightarrow> u64 \<Rightarrow> u64 \<Rightarrow> bool" where
  "within window now t = (saturating_sub now t < window)"

definition prune_entries :: "u64 \<Rightarrow> u64 \<Rightarrow> (string \<times> u64 list) list \<Rightarrow> (string \<times> u64 list) list" where
  "prune_entries window now m =
     filter (\<lambda>(k, v). v \<noteq> []) (map (\<lambda>(k, v). (k, filter (within window now) v)) m)"

definition prune :: "u64 \<Rightarrow> rate_limit \<Rightarrow> rate_limit" where
  "prune now rl =
     \<lparr>by_user = prune_entries LOCKOUT_WINDOW_SECS now (by_user rl),
      by_ip = prune_entries IP_LOCKOUT_WINDOW_SECS now (by_ip rl)\<rparr>"

definition user_failures :: "rate_limit \<Rightarrow> string \<Rightarrow> u64 \<Rightarrow> nat" where
  "user_failures rl username now =
     length (filter (within LOCKOUT_WINDOW_SECS now) (get_or [] username (by_user rl)))"

definition ip_failures :: "rate_limit \<Rightarrow> string \<Rightarrow> u64 \<Rightarrow> nat" where
  "ip_failures rl ip now =
     length (filter (within IP_LOCKOUT_WINDOW_SECS now) (get_or [] ip (by_ip rl)))"

definition unknown_ip :: string where
  "unknown_ip = ''unknown''"

text \<open>The in-memory half of \<open>record_failed_attempt\<close> and of \<open>clear_failed_attempts\<close>.\<close>

definition push_recent :: "u64 \<Rightarrow> u64 \<Rightarrow> string \<Rightarrow> (string \<times> u64 list) list \<Rightarrow> (string \<times> u64 list) list" where
  "push_recent window now k m = AList.update k (filter (within window now) (get_or [] k m @ [now])) m"

definition note_failure :: "string \<Rightarrow> string \<Rightarrow> u64 \<Rightarrow> rate_limit \<Rightarrow> rate_limit" where
  "note_failure username client_ip now rl =
     \<lparr>by_user = push_recent LOCKOUT_WINDOW_SECS now username (by_user rl),
      by_ip = (if client_ip \<noteq> unknown_ip
               then push_recent IP_LOCKOUT_WINDOW_SECS now client_ip (by_ip rl) else by_ip rl)\<rparr>"

definition forget_failures :: "string \<Rightarrow> rate_limit \<Rightarrow> rate_limit" where
  "forget_failures username rl = rl\<lparr>by_user := AList.delete username (by_user rl)\<rparr>"

section \<open>Users and sessions\<close>

definition is_only_admin :: "'k user list \<Rightarrow> string \<Rightarrow> bool" where
  "is_only_admin users username =
     (case filter (\<lambda>u. u_role u = Admin) users of [a] \<Rightarrow> u_username a = username | _ \<Rightarrow> False)"

text \<open>Two strings are compared byte by byte once their lengths agree.\<close>

fun ct_eq :: "string \<Rightarrow> string \<Rightarrow> bool" where
  "ct_eq [] [] = True"
| "ct_eq (a # as) (b # bs) = ((a = b) \<and> ct_eq as bs)"
| "ct_eq _ _ = False"

definition ct_eq_str :: "string \<Rightarrow> string \<Rightarrow> bool" where
  "ct_eq_str a b = (if length a \<noteq> length b then False else ct_eq a b)"

lemma ct_eq_iff: "ct_eq a b \<longleftrightarrow> a = b"
  by (induction a b rule: ct_eq.induct) auto

lemma ct_eq_str_iff [simp]: "ct_eq_str a b \<longleftrightarrow> a = b"
  by (auto simp: ct_eq_str_def ct_eq_iff)

definition has_username :: "string \<Rightarrow> 'k user \<Rightarrow> bool" where
  "has_username n u = (u_username u = n)"

definition bound_principal :: "role \<Rightarrow> string option \<Rightarrow> string option" where
  "bound_principal r p = (if r = User then p else None)"

text \<open>\<open>now - s.created_at <= SESSION_TTL_SECS\<close>: the subtraction wraps in a release build.\<close>

definition session_fresh :: "u64 \<Rightarrow> session \<Rightarrow> bool" where
  "session_fresh now s = (now - s_created_at s \<le> SESSION_TTL_SECS)"

definition revoke_user_sessions :: "string \<Rightarrow> session list \<Rightarrow> session list" where
  "revoke_user_sessions username ss = filter (\<lambda>s. s_username s \<noteq> username) ss"

definition revoke_sessions_after_password_change ::
    "string \<Rightarrow> string \<Rightarrow> string \<Rightarrow> session list \<Rightarrow> session list" where
  "revoke_sessions_after_password_change target actor current_token ss =
     (let own = (target = actor);
          kept = filter (\<lambda>s. s_username s \<noteq> target \<or> (own \<and> ct_eq_str (s_token s) current_token)) ss
      in if own then
           update_first (\<lambda>s. ct_eq_str (s_token s) current_token) (\<lambda>s. s\<lparr>s_must_change_password := False\<rparr>) kept
         else kept)"

definition validate_file_principal_binding :: "role \<Rightarrow> string option \<Rightarrow> auth_error + string option" where
  "validate_file_principal_binding r fp =
     (case r of
        User \<Rightarrow>
          (case (case fp of None \<Rightarrow> None | Some p \<Rightarrow> if trim p = [] then None else Some (trim p)) of
             None \<Rightarrow> Err (InvalidFilePrincipal ''Role::User requires a non-empty file_principal'')
           | Some p \<Rightarrow>
               if length p > 256 \<or> has_control p then
                 Err (InvalidFilePrincipal ''principal is too long or contains control characters'')
               else Ok (Some p))
      | _ \<Rightarrow>
          (if fp \<noteq> None then Err (InvalidFilePrincipal ''file_principal is only valid for Role::User'')
           else Ok None))"

definition parse_role_str :: "string \<Rightarrow> role option" where
  "parse_role_str s =
     (let l = to_ascii_lowercase (trim s) in
      if l = ''admin'' then Some Admin
      else if l = ''operator'' then Some Operator
      else if l = ''readonly'' \<or> l = ''read_only'' \<or> l = ''read-only'' then Some ReadOnly
      else if l = ''user'' then Some User
      else None)"

text \<open>\<open>{role:?}\<close>.\<close>

fun role_debug :: "role \<Rightarrow> string" where
  "role_debug Admin = ''Admin''"
| "role_debug ReadOnly = ''ReadOnly''"
| "role_debug Operator = ''Operator''"
| "role_debug User = ''User''"

section \<open>Usernames for OIDC identities\<close>

record oidc_identity =
  oi_issuer :: string
  oi_subject :: string
  oi_email :: "string option"
  oi_preferred_username :: "string option"
  oi_groups :: "string list"

definition numbered :: "string \<Rightarrow> nat \<Rightarrow> string" where
  "numbered base n = base @ ''-'' @ show_nat n"

lemma numbered_inject [simp]: "numbered b m = numbered b n \<longleftrightarrow> m = n"
  by (simp add: numbered_def)

text \<open>The numbers from \<open>n\<close> on whose candidate is taken: finitely many, and fewer each time.\<close>

definition taken_from :: "string list \<Rightarrow> string \<Rightarrow> nat \<Rightarrow> nat set" where
  "taken_from names base n = {m. n \<le> m \<and> numbered base m \<in> set names}"

lemma finite_taken_from: "finite (taken_from names base n)"
proof -
  have "numbered base ` taken_from names base n \<subseteq> set names" by (auto simp: taken_from_def)
  moreover have "inj_on (numbered base) (taken_from names base n)" by (simp add: inj_on_def)
  ultimately show ?thesis using finite_subset inj_on_finite by blast
qed

function first_free :: "string list \<Rightarrow> string \<Rightarrow> nat \<Rightarrow> string" where
  "first_free names base n =
     (if numbered base n \<in> set names then first_free names base (Suc n) else numbered base n)"
  by pat_completeness auto
termination
proof (relation "measure (\<lambda>(names, base, n). card (taken_from names base n))")
  fix names base n
  assume "numbered base n \<in> set names"
  then have "n \<in> taken_from names base n" "n \<notin> taken_from names base (Suc n)"
      "taken_from names base (Suc n) \<subseteq> taken_from names base n"
    by (auto simp: taken_from_def)
  then have "taken_from names base (Suc n) \<subset> taken_from names base n" by blast
  then show "((names, base, Suc n), names, base, n) \<in> measure (\<lambda>(names, base, n). card (taken_from names base n))"
    by (simp add: psubset_card_mono finite_taken_from)
qed simp

declare first_free.simps [simp del]

definition username_base :: "oidc_identity \<Rightarrow> string" where
  "username_base i =
     (let base = trim (case oi_preferred_username i of
            Some p \<Rightarrow> p
          | None \<Rightarrow> (case oi_email i of Some e \<Rightarrow> hd (split_on CHR ''@'' e) | None \<Rightarrow> oi_subject i))
      in if base = [] then oi_subject i else base)"

definition pick_username :: "'k user list \<Rightarrow> oidc_identity \<Rightarrow> string" where
  "pick_username existing i =
     (let base = username_base i; names = map u_username existing
      in if base \<notin> set names then base else first_free names base 2)"

lemma first_free_new: "first_free names base n \<notin> set names"
proof (induction names base n rule: first_free.induct)
  case (1 names base n)
  then show ?case by (subst first_free.simps) simp
qed

lemma pick_username_new: "pick_username us i \<notin> u_username ` set us"
  using first_free_new [of "map u_username us"] by (auto simp: pick_username_def Let_def)

end
