(* ===== verification/State_Dir.thy ===== *)
theory State_Dir
  imports Rust_Str
begin

text \<open>
  The state files of \<open>nasty-common/src/state.rs\<close>: a singleton JSON file that recovers to its
  default, and \<open>StateDir\<close>, a directory with one JSON file per item. What reading and parsing a
  file gives is a value of \<open>json_file\<close>, so that \<open>serde_json\<close> appears only through the
  results the code distinguishes.
\<close>

section \<open>Files\<close>

datatype 'a json_file = Absent | Unreadable string | Malformed string | Parses 'a

text \<open>
  \<open>load_singleton_or_recover\<close>: the value, the file afterwards and the content saved aside.
  The argument \<open>rename_fails\<close> is the outcome of moving a corrupt file away.
\<close>

fun load_singleton_or_recover :: "'a \<Rightarrow> bool \<Rightarrow> 'a json_file \<Rightarrow> 'a \<times> 'a json_file \<times> 'a json_file option" where
  "load_singleton_or_recover dflt rename_fails Absent = (dflt, Absent, None)"
| "load_singleton_or_recover dflt rename_fails (Unreadable e) = (dflt, Unreadable e, None)"
| "load_singleton_or_recover dflt rename_fails (Parses v) = (v, Parses v, None)"
| "load_singleton_or_recover dflt rename_fails (Malformed e) =
     (if rename_fails then (dflt, Malformed e, None) else (dflt, Absent, Some (Malformed e)))"

section \<open>A directory of items\<close>

datatype 'a dir_state = Dir_Missing | Dir "(string \<times> 'a json_file) list"

text \<open>Errors of the calls of one operation; \<open>de_entry\<close> is an error of the directory stream and
  the number of entries read before it.\<close>

record dir_env =
  de_read_dir :: "string option"
  de_create_dir :: "string option"
  de_serialize :: "string option"
  de_write :: "string option"
  de_rename :: "string option"
  de_remove :: "string option"
  de_entry :: "(nat \<times> string) option"

definition item_file :: "string \<Rightarrow> string" where
  "item_file i = i @ ''.json''"

definition tmp_file :: "string \<Rightarrow> string" where
  "tmp_file i = ''.'' @ i @ ''.tmp''"

text \<open>\<open>Path::extension\<close> of a file name: what follows the last dot, unless the dot is the
  first character or there is none.\<close>

definition extension :: "string \<Rightarrow> string option" where
  "extension name =
     (case split_once CHR ''.'' (rev name) of
        None \<Rightarrow> None
      | Some (ext, stem) \<Rightarrow> if stem = [] \<or> name = ''..'' then None else Some (rev ext))"

definition is_json :: "string \<Rightarrow> bool" where
  "is_json name = (extension name = Some ''json'')"

fun entries :: "'a dir_state \<Rightarrow> (string \<times> 'a json_file) list" where
  "entries (Dir fs) = fs"
| "entries Dir_Missing = []"

text \<open>The entries a stream yields before it ends or fails.\<close>

definition readable_entries :: "dir_env \<Rightarrow> (string \<times> 'a json_file) list \<Rightarrow> (string \<times> 'a json_file) list" where
  "readable_entries e fs = (case de_entry e of None \<Rightarrow> fs | Some (n, _) \<Rightarrow> take n fs)"

fun parsed :: "'a json_file \<Rightarrow> 'a option" where
  "parsed (Parses v) = Some v"
| "parsed _ = None"

definition load_all :: "dir_env \<Rightarrow> 'a dir_state \<Rightarrow> 'a list" where
  "load_all e d =
     (if de_read_dir e \<noteq> None then []
      else List.map_filter (\<lambda>(name, f). if is_json name then parsed f else None)
             (readable_entries e (entries d)))"

fun strict_items :: "string \<Rightarrow> (string \<times> 'a json_file) list \<Rightarrow> string + 'a list" where
  "strict_items path [] = Ok []"
| "strict_items path ((name, f) # fs) =
     (if \<not> is_json name then strict_items path fs
      else case f of
        Absent \<Rightarrow> Err ''No such file or directory (os error 2)''
      | Unreadable x \<Rightarrow> Err x
      | Malformed x \<Rightarrow> Err (''parse '' @ path @ ''/'' @ name @ '': '' @ x)
      | Parses v \<Rightarrow> (case strict_items path fs of Err x \<Rightarrow> Err x | Ok vs \<Rightarrow> Ok (v # vs)))"

definition load_all_strict :: "dir_env \<Rightarrow> string \<Rightarrow> 'a dir_state \<Rightarrow> string + 'a list" where
  "load_all_strict e path d =
     (case d of
        Dir_Missing \<Rightarrow> Ok []
      | Dir fs \<Rightarrow>
          (case de_read_dir e of Some x \<Rightarrow> Err x | None \<Rightarrow>
           case strict_items path (readable_entries e fs) of
             Err x \<Rightarrow> Err x
           | Ok vs \<Rightarrow> (case de_entry e of None \<Rightarrow> Ok vs | Some (_, x) \<Rightarrow> Err x)))"

definition file_at :: "'a dir_state \<Rightarrow> string \<Rightarrow> 'a json_file" where
  "file_at d name = get_or Absent name (entries d)"

definition load :: "'a dir_state \<Rightarrow> string \<Rightarrow> 'a option" where
  "load d i = parsed (file_at d (item_file i))"

text \<open>The directory is created on the first write; a failed write leaves no readable temporary
  file, a failed rename leaves a complete one.\<close>

definition save :: "dir_env \<Rightarrow> string \<Rightarrow> 'a \<Rightarrow> 'a dir_state \<Rightarrow> (string + unit) \<times> 'a dir_state" where
  "save e i v d =
     (case de_create_dir e of Some x \<Rightarrow> (Err x, d) | None \<Rightarrow>
      let fs = entries d in
      case de_serialize e of Some x \<Rightarrow> (Err x, Dir fs) | None \<Rightarrow>
      case de_write e of Some x \<Rightarrow> (Err x, Dir fs) | None \<Rightarrow>
      case de_rename e of
        Some x \<Rightarrow> (Err x, Dir (AList.update (tmp_file i) (Parses v) fs))
      | None \<Rightarrow> (Ok (), Dir (AList.update (item_file i) (Parses v) (AList.delete (tmp_file i) fs))))"

definition remove :: "dir_env \<Rightarrow> string \<Rightarrow> 'a dir_state \<Rightarrow> (string + unit) \<times> 'a dir_state" where
  "remove e i d =
     (if file_at d (item_file i) = Absent then (Ok (), d)
      else case de_remove e of
        Some x \<Rightarrow> (Err x, d)
      | None \<Rightarrow> (Ok (), Dir (AList.delete (item_file i) (entries d))))"

section \<open>The store as an interface\<close>

text \<open>What the clients of a store rely on: a successful save is read back, nothing else changes,
  and an operation that fails changes nothing a load can see.\<close>

locale item_store =
  fixes lookup :: "'d \<Rightarrow> string \<Rightarrow> 'a option"
    and put :: "'e \<Rightarrow> string \<Rightarrow> 'a \<Rightarrow> 'd \<Rightarrow> (string + unit) \<times> 'd"
    and drop_item :: "'e \<Rightarrow> string \<Rightarrow> 'd \<Rightarrow> (string + unit) \<times> 'd"
  assumes lookup_put: "put e i v d = (Ok (), d') \<Longrightarrow> lookup d' j = (if j = i then Some v else lookup d j)"
    and put_err: "put e i v d = (Err x, d') \<Longrightarrow> lookup d' j = lookup d j"
    and lookup_drop: "drop_item e i d = (Ok (), d') \<Longrightarrow> lookup d' j = (if j = i then None else lookup d j)"
    and drop_err: "drop_item e i d = (Err x, d') \<Longrightarrow> lookup d' j = lookup d j"
begin

lemma put_frame: "j \<noteq> i \<Longrightarrow> lookup (snd (put e i v d)) j = lookup d j"
  by (cases "put e i v d"; cases "fst (put e i v d)") (auto simp: lookup_put put_err)

lemma drop_frame: "j \<noteq> i \<Longrightarrow> lookup (snd (drop_item e i d)) j = lookup d j"
  by (cases "drop_item e i d"; cases "fst (drop_item e i d)") (auto simp: lookup_drop drop_err)

text \<open>A sequence of saves: the last value that was written successfully is the one read back.\<close>

primrec put_all :: "('e \<times> string \<times> 'a) list \<Rightarrow> 'd \<Rightarrow> 'd" where
  "put_all [] d = d"
| "put_all (p # ps) d = put_all ps (snd (put (fst p) (fst (snd p)) (snd (snd p)) d))"

lemma put_all_frame: "j \<notin> (\<lambda>p. fst (snd p)) ` set ps \<Longrightarrow> lookup (put_all ps d) j = lookup d j"
  by (induction ps arbitrary: d) (auto simp: put_frame)

end

lemma files_differ [simp]:
  "item_file i \<noteq> tmp_file j" "tmp_file j \<noteq> item_file i" "item_file i = item_file j \<longleftrightarrow> i = j"
proof -
  have "last (item_file i) \<noteq> last (tmp_file j)" by (simp add: item_file_def tmp_file_def)
  then show "item_file i \<noteq> tmp_file j" "tmp_file j \<noteq> item_file i" by metis+
qed (simp add: item_file_def)

lemma file_at_Dir [simp]:
  "file_at (Dir (AList.update n f fs)) m = (if m = n then f else file_at (Dir fs) m)"
  "file_at (Dir (AList.delete n fs)) m = (if m = n then Absent else file_at (Dir fs) m)"
  "file_at (Dir (entries d)) m = file_at d m"
  by (simp_all add: file_at_def)

interpretation sd: item_store load save remove
proof
  fix e :: dir_env and i j :: string and v :: 'a and d d' :: "'a dir_state"
  assume "save e i v d = (Ok (), d')"
  then show "load d' j = (if j = i then Some v else load d j)"
    by (auto simp: save_def load_def Let_def split: option.splits)
next
  fix e :: dir_env and i j x :: string and v :: 'a and d d' :: "'a dir_state"
  assume "save e i v d = (Err x, d')"
  then show "load d' j = load d j"
    by (auto simp: save_def load_def Let_def split: option.splits)
next
  fix e :: dir_env and i j :: string and d d' :: "'a dir_state"
  assume "remove e i d = (Ok (), d')"
  then show "load d' j = (if j = i then None else load d j)"
    by (auto simp: remove_def load_def split: option.splits if_splits)
next
  fix e :: dir_env and i j x :: string and d d' :: "'a dir_state"
  assume "remove e i d = (Err x, d')"
  then show "load d' j = load d j"
    by (auto simp: remove_def split: option.splits if_splits)
qed

text \<open>
  (C30) The item store is crash safe: whatever step of a save fails, every item is read back as
  before the save or, for the saved item, as the new value; a save that reports success is read
  back exactly, and no other item is touched.
\<close>

theorem save_load_exact:
  "load (snd (save e i v d)) j =
     (if j = i \<and> is_ok (fst (save e i v d)) then Some v else load d j)"
proof (cases "save e i v d")
  case (Pair r d')
  then show ?thesis by (cases r) (simp_all add: sd.lookup_put sd.put_err)
qed

section \<open>Strict loading\<close>

lemma strict_items_ok:
  "strict_items path fs = Ok vs \<Longrightarrow>
     map Parses vs = map snd (filter (\<lambda>(name, f). is_json name) fs)"
  by (induction path fs arbitrary: vs rule: strict_items.induct)
    (auto split: if_splits json_file.splits sum.splits)

lemma map_filter_parsed:
  "map Parses vs = map snd (filter (\<lambda>(name, f). is_json name) fs) \<Longrightarrow>
     List.map_filter (\<lambda>(name, f). if is_json name then parsed f else None) fs = vs"
proof (induction fs arbitrary: vs)
  case (Cons nf fs)
  then show ?case by (cases nf; cases vs) (auto simp: List.map_filter_simps split: if_splits)
qed (simp add: List.map_filter_simps)

text \<open>
  Strict loading is all or nothing: when it succeeds, the directory stream ended without an
  error, every JSON file of the directory was read and parsed, the result lists their items in the
  order of the directory, and the tolerant load returns the same items.
\<close>

theorem load_all_strict_complete:
  assumes "load_all_strict e path d = Ok vs"
  shows "map Parses vs = map snd (filter (\<lambda>(name, f). is_json name) (entries d)) \<and> load_all e d = vs"
proof (cases d)
  case (Dir fs)
  with assms have ok: "de_read_dir e = None" "de_entry e = None" "strict_items path fs = Ok vs"
    by (auto simp: load_all_strict_def readable_entries_def split: option.splits sum.splits)
  from strict_items_ok [OF ok(3)] map_filter_parsed [OF strict_items_ok [OF ok(3)]] ok(1,2)
  show ?thesis by (simp add: load_all_def readable_entries_def Dir)
next
  case Dir_Missing
  with assms show ?thesis
    by (simp add: load_all_strict_def load_all_def readable_entries_def List.map_filter_simps split: option.splits)
qed

definition two_files :: "nat dir_state" where
  "two_files = Dir [(''a.json'', Parses 1), (''.b.tmp'', Malformed ''eof''), (''b.json'', Parses 2)]"

definition calm_dir :: dir_env where
  "calm_dir = \<lparr>de_read_dir = None, de_create_dir = None, de_serialize = None, de_write = None,
     de_rename = None, de_remove = None, de_entry = None\<rparr>"

theorem load_all_strict_complete_witness: "load_all calm_dir two_files = [1, 2]"
proof -
  have "load_all_strict calm_dir ''/var/lib'' two_files = Ok [1, 2]" by code_simp
  from load_all_strict_complete [OF this] show ?thesis by (simp add: two_files_def)
qed

end
