(* ===== verification/Auth_Store.thy ===== *)
theory Auth_Store
  imports Auth_State State_Dir
begin

text \<open>
  Persistence of the authentication state (\<open>auth.rs\<close>, the functions below the service): the
  guarded read of \<open>auth.json\<close>, the write through a temporary file with the flag that says
  whether the new state became visible, and the commit that keeps memory and disk together. The
  environment holds the outcome of every system call of one operation.
\<close>

section \<open>World and environment\<close>

text \<open>A regular or special file with the metadata the loader checks.\<close>

record 'k auth_node =
  an_regular :: bool
  an_mode :: nat
  an_uid :: nat
  an_content :: "'k auth_state json_file"

datatype 'k auth_file = No_File | Symlink | Open_Error string | Node "'k auth_node"

record audit_event =
  ev_ts :: u64
  ev_event :: string
  ev_user :: string
  ev_ip :: string
  ev_detail :: string

record 'k auth_world =
  aw_state :: "'k auth_state"
  aw_rate :: rate_limit
  aw_file :: "'k auth_file"
  aw_rate_file :: "rate_limit json_file"
  aw_temps :: "string list"
  aw_audit :: "audit_event list"

text \<open>The clock, the random bytes and the outcomes (\<open>None\<close> is success) of the calls.\<close>

record auth_env =
  ae_now :: u64
  ae_salt :: string
  ae_token :: string
  ae_id :: "8 word list"
  ae_uuid :: string
  ae_uid :: nat
  ae_stat :: "string option"
  ae_read :: "string option"
  ae_serialize :: "string option"
  ae_create :: "string option"
  ae_write :: "string option"
  ae_sync :: "string option"
  ae_publish :: "string option"
  ae_unlink :: "string option"
  ae_open_dir :: "string option"
  ae_sync_dir :: "string option"
  ae_cleanup :: "string option"
  ae_rate_dir :: "string option"
  ae_rate_write :: "string option"
  ae_rate_mode :: "string option"

text \<open>
  What the engine calls in other crates: the salt encoding, the password hash and its check of
  \<open>argon2\<close>, the digest of \<open>sha2\<close>, the text encoding of \<open>base64\<close> and the credential
  id of a passkey of \<open>webauthn-rs\<close>.
\<close>

record 'k auth_lib =
  lib_salt :: "string \<Rightarrow> string + string"
  lib_hash :: "string \<Rightarrow> string \<Rightarrow> string + string"
  lib_parse_hash :: "string \<Rightarrow> string option"
  lib_verify :: "string \<Rightarrow> string \<Rightarrow> bool"
  lib_sha256 :: "string \<Rightarrow> 8 word list"
  lib_b64url :: "string \<Rightarrow> string"
  lib_cred_id :: "'k \<Rightarrow> string"

definition auth_path :: string where
  "auth_path = ''/var/lib/nasty/auth.json''"

definition audit :: "auth_env \<Rightarrow> string \<Rightarrow> string \<Rightarrow> string \<Rightarrow> string \<Rightarrow> 'k auth_world \<Rightarrow> 'k auth_world" where
  "audit e event user ip detail w =
     w\<lparr>aw_audit := aw_audit w @
         [\<lparr>ev_ts = ae_now e, ev_event = event, ev_user = user, ev_ip = ip, ev_detail = detail\<rparr>]\<rparr>"

section \<open>Hashing and tokens\<close>

definition hash_password :: "'k auth_lib \<Rightarrow> auth_env \<Rightarrow> string \<Rightarrow> auth_error + string" where
  "hash_password lib e password =
     (case lib_salt lib (ae_salt e) of Err x \<Rightarrow> Err (HashError x) | Ok salt \<Rightarrow>
      case lib_hash lib salt password of Err x \<Rightarrow> Err (HashError x) | Ok h \<Rightarrow> Ok h)"

text \<open>\<open>lib_parse_hash\<close> is the error of parsing a stored hash, if it has one.\<close>

definition verify_password :: "'k auth_lib \<Rightarrow> string \<Rightarrow> string \<Rightarrow> auth_error + unit" where
  "verify_password lib password h =
     (case lib_parse_hash lib h of
        Some x \<Rightarrow> Err (HashError x)
      | None \<Rightarrow> if lib_verify lib password h then Ok () else Err InvalidCredentials)"

definition hash_token :: "'k auth_lib \<Rightarrow> string \<Rightarrow> string" where
  "hash_token lib token = ''sha256:'' @ concat (map hex2 (lib_sha256 lib token))"

definition generate_token :: "'k auth_lib \<Rightarrow> auth_env \<Rightarrow> string" where
  "generate_token lib e = lib_b64url lib (ae_token e)"

definition generate_id :: "auth_env \<Rightarrow> string" where
  "generate_id e = concat (map hex2 (ae_id e))"

section \<open>Reading\<close>

text \<open>The text of a mode in octal, \<open>{mode:o}\<close>.\<close>

fun show_oct :: "nat \<Rightarrow> string" where
  "show_oct n = (if n < 8 then [char_of (48 + n)] else show_oct (n div 8) @ [char_of (48 + n mod 8)])"

declare show_oct.simps [simp del]

definition load_state_from :: "auth_env \<Rightarrow> nat option \<Rightarrow> 'k auth_file \<Rightarrow> auth_error + 'k auth_state option" where
  "load_state_from e expected_owner f =
     (case f of
        No_File \<Rightarrow> Ok None
      | Symlink \<Rightarrow> Err (StateUnsafe auth_path ''refusing to follow an auth state symlink'')
      | Open_Error x \<Rightarrow> Err (StateIo ''open without following symlinks'' auth_path x)
      | Node n \<Rightarrow>
          (case ae_stat e of Some x \<Rightarrow> Err (StateIo ''inspect'' auth_path x) | None \<Rightarrow>
           if \<not> an_regular n then
             Err (StateUnsafe auth_path ''expected a regular file, not a symlink or special file'')
           else
             let mode = an_mode n mod 512 in
             if mode mod 64 \<noteq> 0 then
               Err (StateUnsafe auth_path (''permissions '' @ show_oct mode @ '' expose authentication secrets''))
             else if (case expected_owner of Some u \<Rightarrow> an_uid n \<noteq> u | None \<Rightarrow> False) then
               Err (StateUnsafe auth_path (''owner UID '' @ show_nat (an_uid n) @ '' does not match expected UID ''
                 @ show_nat (the expected_owner)))
             else case ae_read e of Some x \<Rightarrow> Err (StateIo ''read'' auth_path x) | None \<Rightarrow>
             case an_content n of
               Parses s \<Rightarrow> Ok (Some s)
             | Malformed x \<Rightarrow> Err (StateCorrupt auth_path x)
             | Unreadable x \<Rightarrow> Err (StateIo ''read'' auth_path x)
             | Absent \<Rightarrow> Err (StateIo ''read'' auth_path [])))"

section \<open>Writing\<close>

definition auth_temp :: "auth_env \<Rightarrow> string" where
  "auth_temp e = ''/var/lib/nasty/.auth.json.'' @ ae_uuid e @ ''.tmp''"

definition cleanup_temp :: "auth_env \<Rightarrow> 'k auth_world \<Rightarrow> 'k auth_world" where
  "cleanup_temp e w =
     (if ae_cleanup e = None then w\<lparr>aw_temps := removeAll (auth_temp e) (aw_temps w)\<rparr> else w)"

text \<open>The directory steps after the new state is visible: the error they end in, if any.\<close>

definition sync_parent :: "auth_env \<Rightarrow> auth_error option" where
  "sync_parent e =
     (case ae_open_dir e of Some x \<Rightarrow> Some (StateIo ''open parent directory for'' auth_path x) | None \<Rightarrow>
      case ae_sync_dir e of Some x \<Rightarrow> Some (StateIo ''sync parent directory for'' auth_path x) | None \<Rightarrow> None)"

definition put_state :: "auth_env \<Rightarrow> 'k auth_state \<Rightarrow> 'k auth_world \<Rightarrow> 'k auth_world" where
  "put_state e s w =
     w\<lparr>aw_file := Node \<lparr>an_regular = True, an_mode = 384, an_uid = ae_uid e, an_content = Parses s\<rparr>\<rparr>"

text \<open>A hard link fails when the destination exists; a rename replaces it.\<close>

definition publish_error :: "auth_env \<Rightarrow> bool \<Rightarrow> 'k auth_world \<Rightarrow> string option" where
  "publish_error e replace w =
     (if replace then ae_publish e
      else case aw_file w of No_File \<Rightarrow> ae_publish e | _ \<Rightarrow> Some ''File exists (os error 17)'')"

text \<open>\<open>persist_state_to\<close>: \<open>None\<close>, or the failure and whether the state was committed.\<close>

definition persist_state :: "auth_env \<Rightarrow> 'k auth_state \<Rightarrow> bool \<Rightarrow> 'k auth_world \<Rightarrow>
    (auth_error \<times> bool) option \<times> 'k auth_world" where
  "persist_state e s replace w =
     (let io = (\<lambda>op x. StateIo op auth_path x);
          w1 = w\<lparr>aw_temps := auth_temp e # aw_temps w\<rparr>
      in case ae_serialize e of Some x \<Rightarrow> (Some (StateSerialize x, False), w) | None \<Rightarrow>
         case ae_create e of Some x \<Rightarrow> (Some (io ''create temporary file for'' x, False), cleanup_temp e w) | None \<Rightarrow>
         case ae_write e of Some x \<Rightarrow> (Some (io ''write temporary file for'' x, False), cleanup_temp e w1) | None \<Rightarrow>
         case ae_sync e of Some x \<Rightarrow> (Some (io ''sync temporary file for'' x, False), cleanup_temp e w1) | None \<Rightarrow>
         if replace then
           (case publish_error e True w of
              Some x \<Rightarrow> (Some (io ''replace'' x, False), cleanup_temp e w1)
            | None \<Rightarrow>
                (map_option (\<lambda>x. (x, True)) (sync_parent e),
                 put_state e s (w1\<lparr>aw_temps := removeAll (auth_temp e) (aw_temps w1)\<rparr>)))
         else
           (case publish_error e False w of
              Some x \<Rightarrow> (Some (io ''create'' x, False), cleanup_temp e w1)
            | None \<Rightarrow>
                (case ae_unlink e of
                   Some x \<Rightarrow> (Some (io ''remove temporary file for'' x, True), put_state e s w1)
                 | None \<Rightarrow>
                     (map_option (\<lambda>x. (x, True)) (sync_parent e),
                      put_state e s (w1\<lparr>aw_temps := removeAll (auth_temp e) (aw_temps w1)\<rparr>)))))"

definition finish_state_commit :: "auth_env \<Rightarrow> 'k auth_state \<Rightarrow> (auth_error \<times> bool) option \<Rightarrow>
    'k auth_world \<Rightarrow> (auth_error + unit) \<times> 'k auth_world" where
  "finish_state_commit e s r w =
     (case r of
        None \<Rightarrow> (Ok (), w\<lparr>aw_state := s\<rparr>)
      | Some (x, committed) \<Rightarrow>
          (Err x,
           if committed then
             audit e ''auth_state_committed_with_durability_error'' ''system'' ''local'' (auth_error_message x)
               (w\<lparr>aw_state := s\<rparr>)
           else w))"

definition commit_state :: "auth_env \<Rightarrow> 'k auth_state \<Rightarrow> 'k auth_world \<Rightarrow> (auth_error + unit) \<times> 'k auth_world" where
  "commit_state e s w = (case persist_state e s True w of (r, w1) \<Rightarrow> finish_state_commit e s r w1)"

definition create_state :: "auth_env \<Rightarrow> 'k auth_state \<Rightarrow> 'k auth_world \<Rightarrow> (auth_error + unit) \<times> 'k auth_world" where
  "create_state e s w =
     (case persist_state e s False w of
        (None, w1) \<Rightarrow> (Ok (), w1)
      | (Some (x, _), w1) \<Rightarrow> (Err x, w1))"

section \<open>Start-up\<close>

definition default_admin :: "string \<Rightarrow> 'k user" where
  "default_admin h =
     \<lparr>u_username = ''admin'', u_password_hash = Some h, u_role = Admin, u_file_principal = None,
      u_must_change_password = True, u_oidc_subject = None, u_oidc_issuer = None,
      u_webauthn_credentials = []\<rparr>"

definition initialize_state :: "'k auth_lib \<Rightarrow> auth_env \<Rightarrow> nat option \<Rightarrow> 'k auth_world \<Rightarrow>
    (auth_error + 'k auth_state) \<times> 'k auth_world" where
  "initialize_state lib e expected_owner w =
     (case load_state_from e expected_owner (aw_file w) of
        Err x \<Rightarrow> (Err x, w)
      | Ok (Some s) \<Rightarrow> (if \<not> as_initialized s then Err (StateUninitialized auth_path) else Ok s, w)
      | Ok None \<Rightarrow>
          (case hash_password lib e ''admin'' of
             Err x \<Rightarrow> (Err x, w)
           | Ok h \<Rightarrow>
               let s = \<lparr>as_users = [default_admin h], as_sessions = [], as_api_tokens = [], as_initialized = True\<rparr>
               in case create_state e s w of
                    (Err x, w1) \<Rightarrow> (Err x, w1)
                  | (Ok _, w1) \<Rightarrow> (Ok s, w1)))"

definition save_rate_limit :: "auth_env \<Rightarrow> rate_limit \<Rightarrow> 'k auth_world \<Rightarrow> 'k auth_world" where
  "save_rate_limit e rl w =
     (if ae_rate_dir e = None \<and> ae_rate_write e = None then w\<lparr>aw_rate_file := Parses rl\<rparr> else w)"

text \<open>\<open>AuthService::new\<close>: a service, or the reason the engine refuses to start.\<close>

definition auth_new :: "'k auth_lib \<Rightarrow> auth_env \<Rightarrow> bool \<Rightarrow> 'k auth_world \<Rightarrow> (auth_error + unit) \<times> 'k auth_world" where
  "auth_new lib e rename_fails w =
     (case initialize_state lib e (Some 0) w of
        (Err x, w1) \<Rightarrow> (Err x, w1)
      | (Ok s, w1) \<Rightarrow>
          (case load_singleton_or_recover rate_limit_default rename_fails (aw_rate_file w1) of
             (rl, f, _) \<Rightarrow>
               (Ok (), w1\<lparr>aw_state := s, aw_rate := prune (ae_now e) rl, aw_rate_file := f\<rparr>)))"

section \<open>Memory and disk\<close>

text \<open>The state a restart would load is the state in memory.\<close>

definition synced :: "'k auth_world \<Rightarrow> bool" where
  "synced w \<longleftrightarrow> (\<exists>uid. aw_file w =
     Node \<lparr>an_regular = True, an_mode = 384, an_uid = uid, an_content = Parses (aw_state w)\<rparr>)"

lemma audit_frame [simp]:
  "aw_state (audit e a b c d w) = aw_state w" "aw_file (audit e a b c d w) = aw_file w"
  "aw_rate (audit e a b c d w) = aw_rate w" "aw_rate_file (audit e a b c d w) = aw_rate_file w"
  "aw_temps (audit e a b c d w) = aw_temps w"
  by (simp_all add: audit_def)

lemma cleanup_temp_frame [simp]:
  "aw_state (cleanup_temp e w) = aw_state w" "aw_file (cleanup_temp e w) = aw_file w"
  "aw_rate (cleanup_temp e w) = aw_rate w"
  by (simp_all add: cleanup_temp_def)

lemma put_state_frame [simp]:
  "aw_state (put_state e s w) = aw_state w" "aw_rate (put_state e s w) = aw_rate w"
  by (simp_all add: put_state_def)

text \<open>A replacing write either leaves the file alone or puts the new state there, and its result
  says which.\<close>

lemma persist_replace_cases [case_names failed visible]:
  obtains x w1 where "persist_state e s True w = (Some (x, False), w1)" "aw_file w1 = aw_file w"
      "aw_state w1 = aw_state w" "aw_rate w1 = aw_rate w"
  | r w1 where "persist_state e s True w = (r, w1)" "r = None \<or> (\<exists>x. r = Some (x, True))"
      "aw_file w1 = Node \<lparr>an_regular = True, an_mode = 384, an_uid = ae_uid e, an_content = Parses s\<rparr>"
      "aw_state w1 = aw_state w" "aw_rate w1 = aw_rate w"
proof -
  let ?failed = "ae_serialize e \<noteq> None \<or> ae_create e \<noteq> None \<or> ae_write e \<noteq> None \<or> ae_sync e \<noteq> None \<or> ae_publish e \<noteq> None"
  show ?thesis
  proof (cases ?failed)
    case True
    then have "\<exists>x w1. persist_state e s True w = (Some (x, False), w1) \<and> aw_file w1 = aw_file w
        \<and> aw_state w1 = aw_state w \<and> aw_rate w1 = aw_rate w"
      by (cases "ae_serialize e"; cases "ae_create e"; cases "ae_write e"; cases "ae_sync e"; cases "ae_publish e")
        (simp_all add: persist_state_def Let_def publish_error_def)
    then show ?thesis using that(1) by blast
  next
    case False
    then have "\<exists>w1. persist_state e s True w = (map_option (\<lambda>x. (x, True)) (sync_parent e), w1)
        \<and> aw_file w1 = Node \<lparr>an_regular = True, an_mode = 384, an_uid = ae_uid e, an_content = Parses s\<rparr>
        \<and> aw_state w1 = aw_state w \<and> aw_rate w1 = aw_rate w"
      by (simp add: persist_state_def Let_def publish_error_def put_state_def)
    then show ?thesis using that(2) by (cases "sync_parent e") auto
  qed
qed

text \<open>A commit either changes neither memory nor disk and fails, or changes both.\<close>

lemma commit_state_cases [case_names unchanged changed]:
  obtains x w' where "commit_state e s w = (Err x, w')" "aw_state w' = aw_state w" "aw_file w' = aw_file w"
      "aw_rate w' = aw_rate w"
  | r w' where "commit_state e s w = (r, w')" "aw_state w' = s" "synced w'" "aw_rate w' = aw_rate w"
proof (cases rule: persist_replace_cases [where e = e and s = s and w = w])
  case (failed x w1)
  then show ?thesis using that(1) by (simp add: commit_state_def finish_state_commit_def)
next
  case (visible r w1)
  then show ?thesis
    using that(2) by (auto simp: commit_state_def finish_state_commit_def synced_def)
qed

lemma commit_state_synced: "synced w \<Longrightarrow> synced (snd (commit_state e s w))"
  by (cases rule: commit_state_cases [where e = e and s = s and w = w])
    (auto simp: synced_def)

lemma commit_state_ok:
  assumes "commit_state e s w = (Ok (), w')"
  shows "aw_state w' = s" "synced w'" "aw_rate w' = aw_rate w"
  using assms by (cases rule: commit_state_cases [where e = e and s = s and w = w]; simp)+

end
