(* ===== verification/Auth.thy ===== *)
theory Auth
  imports Auth_Store
begin

text \<open>
  The operations of \<open>AuthService\<close> (\<open>auth.rs\<close>): login with a password, with a verified OIDC
  identity and with a passkey, token validation, API tokens, user and password management and the
  stored passkeys. An operation takes the external functions, the environment of the call and the
  world, and returns its result and the world; each holds the state lock from its first read to
  its commit.
\<close>

section \<open>Failed attempts\<close>

definition record_failed_attempt :: "auth_env \<Rightarrow> string \<Rightarrow> string \<Rightarrow> 'k auth_world \<Rightarrow> 'k auth_world" where
  "record_failed_attempt e username client_ip w =
     (let rl = note_failure username client_ip (ae_now e) (aw_rate w)
      in save_rate_limit e rl (w\<lparr>aw_rate := rl\<rparr>))"

definition clear_failed_attempts :: "auth_env \<Rightarrow> string \<Rightarrow> 'k auth_world \<Rightarrow> 'k auth_world" where
  "clear_failed_attempts e username w =
     (if map_of (by_user (aw_rate w)) username = None then w
      else let rl = forget_failures username (aw_rate w) in save_rate_limit e rl (w\<lparr>aw_rate := rl\<rparr>))"

definition attempts_detail :: "nat \<Rightarrow> string" where
  "attempts_detail n = show_nat n @ '' failed attempts''"

section \<open>Sessions\<close>

definition new_session :: "string \<Rightarrow> 'k user \<Rightarrow> u64 \<Rightarrow> bool \<Rightarrow> string \<Rightarrow> session" where
  "new_session token u now must_change client_ip =
     \<lparr>s_token = token, s_username = u_username u, s_role = u_role u,
      s_file_principal = bound_principal (u_role u) (u_file_principal u),
      s_filesystem = None, s_owner = None, s_created_at = now,
      s_must_change_password = must_change, s_client_ip = Some client_ip\<rparr>"

text \<open>Expired sessions are dropped before the new one is pushed.\<close>

definition add_session :: "u64 \<Rightarrow> session \<Rightarrow> 'k auth_state \<Rightarrow> 'k auth_state" where
  "add_session now s st = st\<lparr>as_sessions := filter (session_fresh now) (as_sessions st) @ [s]\<rparr>"

text \<open>The part of a login after the locks: \<open>w1\<close> is the world they leave.\<close>

definition password_login :: "'k auth_lib \<Rightarrow> auth_env \<Rightarrow> string \<Rightarrow> string \<Rightarrow> string \<Rightarrow> 'k auth_world \<Rightarrow>
    (auth_error + string) \<times> 'k auth_world" where
  "password_login lib e username password client_ip w1 =
     (let now = ae_now e;
          failed = (\<lambda>why. record_failed_attempt e username client_ip (audit e ''login_failed'' username client_ip why w1))
      in case List.find (has_username username) (as_users (aw_state w1)) of
           None \<Rightarrow> (Err InvalidCredentials, failed ''user not found'')
         | Some u \<Rightarrow>
             (case u_password_hash u of
                None \<Rightarrow> (Err InvalidCredentials, failed ''no local password (OIDC-only user)'')
              | Some h \<Rightarrow>
                  (case verify_password lib password h of
                     Err x \<Rightarrow> (Err x, failed ''wrong password'')
                   | Ok _ \<Rightarrow>
                       let w2 = clear_failed_attempts e username w1;
                           token = generate_token lib e;
                           s = new_session token u now (u_must_change_password u) client_ip
                       in case commit_state e (add_session now s (aw_state w1)) w2 of
                            (Err x, w3) \<Rightarrow> (Err x, w3)
                          | (Ok _, w3) \<Rightarrow> (Ok token, audit e ''login_success'' username client_ip [] w3))))"

definition login :: "'k auth_lib \<Rightarrow> auth_env \<Rightarrow> string \<Rightarrow> string \<Rightarrow> string \<Rightarrow> 'k auth_world \<Rightarrow>
    (auth_error + string) \<times> 'k auth_world" where
  "login lib e username password client_ip w =
     (let now = ae_now e; ip_fails = ip_failures (aw_rate w) client_ip now in
      if client_ip \<noteq> unknown_ip \<and> ip_fails \<ge> MAX_IP_FAILED_ATTEMPTS then
        (Err AccountLocked, audit e ''login_ip_locked'' username client_ip (attempts_detail ip_fails) w)
      else
        let only_admin = is_only_admin (as_users (aw_state w)) username;
            user_fails = user_failures (aw_rate w) username now in
        if user_fails \<ge> MAX_FAILED_ATTEMPTS \<and> \<not> only_admin then
          (Err AccountLocked, audit e ''login_locked'' username client_ip (attempts_detail user_fails) w)
        else
          password_login lib e username password client_ip
            (if user_fails \<ge> MAX_FAILED_ATTEMPTS then
               audit e ''login_lockout_suppressed_only_admin'' username client_ip (attempts_detail user_fails) w
             else w))"

definition identity_name :: "oidc_identity \<Rightarrow> string" where
  "identity_name i = (case oi_preferred_username i of Some p \<Rightarrow> p | None \<Rightarrow> oi_subject i)"

definition matches_identity :: "oidc_identity \<Rightarrow> 'k user \<Rightarrow> bool" where
  "matches_identity i u = (u_oidc_subject u = Some (oi_subject i) \<and> u_oidc_issuer u = Some (oi_issuer i))"

definition oidc_user :: "string \<Rightarrow> role \<Rightarrow> oidc_identity \<Rightarrow> 'k user" where
  "oidc_user name r i =
     \<lparr>u_username = name, u_password_hash = None, u_role = r, u_file_principal = None,
      u_must_change_password = False, u_oidc_subject = Some (oi_subject i), u_oidc_issuer = Some (oi_issuer i),
      u_webauthn_credentials = []\<rparr>"

text \<open>A changed role replaces the old one, and only a standard user keeps a principal.\<close>

definition with_role :: "role \<Rightarrow> 'k user \<Rightarrow> 'k user" where
  "with_role r u =
     (if u_role u = r then u
      else if r \<noteq> User then u\<lparr>u_role := r, u_file_principal := None\<rparr> else u\<lparr>u_role := r\<rparr>)"

text \<open>The record that serves the identity: the user linked to it, or one provisioned for it.\<close>

definition oidc_index :: "oidc_identity \<Rightarrow> 'k auth_state \<Rightarrow> nat option" where
  "oidc_index i st = position (matches_identity i) (as_users st)"

definition oidc_users :: "oidc_identity \<Rightarrow> role \<Rightarrow> 'k auth_state \<Rightarrow> 'k user list \<times> nat" where
  "oidc_users i r st =
     (case oidc_index i st of
        Some n \<Rightarrow> (as_users st, n)
      | None \<Rightarrow> (as_users st @ [oidc_user (pick_username (as_users st) i) r i], length (as_users st)))"

definition safely_bound :: "oidc_identity \<Rightarrow> 'k auth_state \<Rightarrow> bool" where
  "safely_bound i st =
     (case oidc_index i st of
        None \<Rightarrow> False
      | Some n \<Rightarrow> (case u_file_principal (as_users st ! n) of None \<Rightarrow> False | Some p \<Rightarrow> p \<noteq> []))"

text \<open>The next state: the role is brought up to date, a change revokes the user's sessions, and
  the new session is added.\<close>

definition oidc_next :: "string \<Rightarrow> u64 \<Rightarrow> oidc_identity \<Rightarrow> role \<Rightarrow> string \<Rightarrow> 'k auth_state \<Rightarrow> 'k auth_state" where
  "oidc_next token now i r client_ip st =
     (let (users, n) = oidc_users i r st;
          u = with_role r (users ! n);
          sessions = (if u_role (users ! n) \<noteq> r then revoke_user_sessions (u_username u) (as_sessions st)
                      else as_sessions st)
      in add_session now (new_session token u now False client_ip)
           (st\<lparr>as_users := users[n := u], as_sessions := sessions\<rparr>))"

definition login_or_provision_oidc :: "'k auth_lib \<Rightarrow> auth_env \<Rightarrow> oidc_identity \<Rightarrow> role option \<Rightarrow> bool \<Rightarrow> string \<Rightarrow>
    'k auth_world \<Rightarrow> (auth_error + string) \<times> 'k auth_world" where
  "login_or_provision_oidc lib e i derived_role auto_provision client_ip w =
     (case derived_role of
        None \<Rightarrow> (Err Forbidden, audit e ''oidc_login_denied_no_role'' (identity_name i) client_ip
                  (''issuer='' @ oi_issuer i @ '' sub='' @ oi_subject i) w)
      | Some r \<Rightarrow>
          let st = aw_state w in
          if r = User \<and> \<not> safely_bound i st then
            (Err Forbidden, audit e ''oidc_login_denied_unbound_user'' (identity_name i) client_ip
               ''standard User role requires a pre-provisioned file principal'' w)
          else if oidc_index i st = None \<and> \<not> auto_provision then
            (Err UserNotFound, audit e ''oidc_login_failed'' (identity_name i) client_ip
               ''user not provisioned and auto_provision disabled'' w)
          else
            let token = generate_token lib e in
            (case commit_state e (oidc_next token (ae_now e) i r client_ip st) w of
               (Err x, w1) \<Rightarrow> (Err x, w1)
             | (Ok _, w1) \<Rightarrow>
                 let (users, n) = oidc_users i r st;
                     old = users ! n;
                     w2 = (if oidc_index i st = None then
                             audit e ''oidc_user_provisioned'' (u_username old) client_ip (''issuer='' @ oi_issuer i
                               @ '' sub='' @ oi_subject i @ '' role='' @ role_debug r) w1
                           else w1);
                     w3 = (if u_role old \<noteq> r then
                             audit e ''oidc_role_updated_on_login'' (u_username old) client_ip
                               (''from='' @ role_debug (u_role old) @ '' to='' @ role_debug r) w2
                           else w2)
                 in (Ok token, audit e ''oidc_login_success'' (u_username old) client_ip [] w3)))"

text \<open>\<open>{:?}\<close> of a list of strings, for strings of printable characters.\<close>

definition debug_char :: "char \<Rightarrow> string" where
  "debug_char c =
     (if c = CHR 34 then [CHR 92, CHR 34]
      else if c = CHR 92 then [CHR 92, CHR 92]
      else if c = CHR 9 then [CHR 92, CHR ''t'']
      else if c = CHR 10 then [CHR 92, CHR ''n'']
      else if c = CHR 13 then [CHR 92, CHR ''r'']
      else [c])"

definition debug_string :: "string \<Rightarrow> string" where
  "debug_string s = CHR 34 # concat (map debug_char s) @ [CHR 34]"

definition debug_strings :: "string list \<Rightarrow> string" where
  "debug_strings ss = ''['' @ join '', '' (map debug_string ss) @ '']''"

definition token_session :: "string \<Rightarrow> api_token \<Rightarrow> session" where
  "token_session token t =
     \<lparr>s_token = token, s_username = t_name t, s_role = t_role t, s_file_principal = None,
      s_filesystem = t_filesystem t, s_owner = (if t_role t = Operator then Some (t_name t) else None),
      s_created_at = t_created_at t, s_must_change_password = False, s_client_ip = None\<rparr>"

definition validate :: "'k auth_lib \<Rightarrow> auth_env \<Rightarrow> string \<Rightarrow> string \<Rightarrow> 'k auth_world \<Rightarrow>
    (auth_error + session) \<times> 'k auth_world" where
  "validate lib e token client_ip w =
     (let st = aw_state w; now = ae_now e in
      case List.find (\<lambda>s. ct_eq_str (s_token s) token) (as_sessions st) of
        Some s \<Rightarrow>
          if \<not> session_fresh now s then
            (Err TokenExpired,
             snd (commit_state e (st\<lparr>as_sessions := filter (\<lambda>s. \<not> ct_eq_str (s_token s) token) (as_sessions st)\<rparr>) w))
          else
            (case s_client_ip s of
               Some bound_ip \<Rightarrow>
                 if bound_ip \<noteq> client_ip then
                   (Err InvalidToken, audit e ''session_ip_mismatch'' (s_username s) client_ip (''bound='' @ bound_ip) w)
                 else (Ok s, w)
             | None \<Rightarrow> (Ok s, w))
      | None \<Rightarrow>
          (case List.find (\<lambda>t. ct_eq_str (t_token t) (hash_token lib token)) (as_api_tokens st) of
             None \<Rightarrow> (Err InvalidToken, w)
           | Some t \<Rightarrow>
               if (case t_expires_at t of Some x \<Rightarrow> now \<ge> x | None \<Rightarrow> False) then (Err TokenExpired, w)
               else if t_allowed_ips t \<noteq> [] \<and> client_ip \<notin> set (t_allowed_ips t) then
                 (Err InvalidToken, audit e ''token_ip_rejected'' (t_name t) client_ip
                    (''allowed='' @ debug_strings (t_allowed_ips t)) w)
               else (Ok (token_session token t), w)))"

section \<open>API tokens\<close>

record api_token_info =
  ti_id :: string
  ti_name :: string
  ti_role :: role
  ti_created_at :: u64
  ti_filesystem :: "string option"
  ti_expires_at :: "u64 option"
  ti_allowed_ips :: "string list"

definition session_ip :: "session \<Rightarrow> string" where
  "session_ip s = (case s_client_ip s of Some ip \<Rightarrow> ip | None \<Rightarrow> [])"

text \<open>The expiry is \<open>created_at + s\<close>, an addition on 64 bits.\<close>

definition create_api_token :: "'k auth_lib \<Rightarrow> auth_env \<Rightarrow> session \<Rightarrow> string \<Rightarrow> role \<Rightarrow> string option \<Rightarrow> u64 option \<Rightarrow>
    string list \<Rightarrow> 'k auth_world \<Rightarrow> (auth_error + api_token) \<times> 'k auth_world" where
  "create_api_token lib e session name r filesystem expires_in_secs allowed_ips w =
     (if s_role session \<noteq> Admin then (Err Forbidden, w)
      else if r = User then (Err Forbidden, w)
      else
        let st = aw_state w in
        if list_ex (\<lambda>t. t_name t = name) (as_api_tokens st) \<or> list_ex (has_username name) (as_users st) then
          (Err UserExists, w)
        else
          let raw = generate_token lib e;
              t = \<lparr>t_id = generate_id e, t_name = name, t_token = hash_token lib raw, t_role = r,
                   t_created_at = ae_now e, t_filesystem = filesystem,
                   t_expires_at = map_option (\<lambda>s. ae_now e + s) expires_in_secs, t_allowed_ips = allowed_ips\<rparr>
          in case commit_state e (st\<lparr>as_api_tokens := as_api_tokens st @ [t]\<rparr>) w of
               (Err x, w1) \<Rightarrow> (Err x, w1)
             | (Ok _, w1) \<Rightarrow>
                 (Ok (t\<lparr>t_token := raw\<rparr>),
                  audit e ''token_created'' (s_username session) (session_ip session) (''name='' @ name) w1))"

definition list_api_tokens :: "session \<Rightarrow> 'k auth_world \<Rightarrow> auth_error + api_token_info list" where
  "list_api_tokens session w =
     (if s_role session \<noteq> Admin then Err Forbidden
      else Ok (map (\<lambda>t. \<lparr>ti_id = t_id t, ti_name = t_name t, ti_role = t_role t, ti_created_at = t_created_at t,
                 ti_filesystem = t_filesystem t, ti_expires_at = t_expires_at t, ti_allowed_ips = t_allowed_ips t\<rparr>)
               (as_api_tokens (aw_state w))))"

definition delete_api_token :: "auth_env \<Rightarrow> session \<Rightarrow> string \<Rightarrow> 'k auth_world \<Rightarrow> (auth_error + unit) \<times> 'k auth_world" where
  "delete_api_token e session tid w =
     (if s_role session \<noteq> Admin then (Err Forbidden, w)
      else
        let st = aw_state w; kept = filter (\<lambda>t. t_id t \<noteq> tid) (as_api_tokens st) in
        if length kept = length (as_api_tokens st) then (Err UserNotFound, w)
        else case commit_state e (st\<lparr>as_api_tokens := kept\<rparr>) w of
               (Err x, w1) \<Rightarrow> (Err x, w1)
             | (Ok _, w1) \<Rightarrow>
                 (Ok (), audit e ''token_deleted'' (s_username session) (session_ip session) (''id='' @ tid) w1))"

section \<open>Logout, passwords and users\<close>

definition logout :: "auth_env \<Rightarrow> string \<Rightarrow> 'k auth_world \<Rightarrow> (auth_error + unit) \<times> 'k auth_world" where
  "logout e token w =
     (let st = aw_state w; kept = filter (\<lambda>s. s_token s \<noteq> token) (as_sessions st) in
      if length kept = length (as_sessions st) then (Err InvalidToken, w)
      else commit_state e (st\<lparr>as_sessions := kept\<rparr>) w)"

definition change_password :: "'k auth_lib \<Rightarrow> auth_env \<Rightarrow> session \<Rightarrow> string \<Rightarrow> string \<Rightarrow> 'k auth_world \<Rightarrow>
    (auth_error + unit) \<times> 'k auth_world" where
  "change_password lib e session username new_password w =
     (if s_client_ip session = None then (Err Forbidden, w)
      else if s_role session \<noteq> Admin \<and> s_username session \<noteq> username then (Err Forbidden, w)
      else if length new_password < 8 then (Err WeakPassword, w)
      else
        let st = aw_state w in
        case List.find (has_username username) (as_users st) of
          None \<Rightarrow> (Err UserNotFound, w)
        | Some _ \<Rightarrow>
            (case hash_password lib e new_password of
               Err x \<Rightarrow> (Err x, w)
             | Ok h \<Rightarrow>
                 (case commit_state e
                    (st\<lparr>as_users := update_first (has_username username)
                          (\<lambda>u. u\<lparr>u_password_hash := Some h, u_must_change_password := False\<rparr>) (as_users st),
                        as_sessions := revoke_sessions_after_password_change username (s_username session)
                          (s_token session) (as_sessions st)\<rparr>) w of
                    (Err x, w1) \<Rightarrow> (Err x, w1)
                  | (Ok _, w1) \<Rightarrow>
                      (Ok (), audit e ''password_changed'' (s_username session) (session_ip session)
                         (''target='' @ username) w1))))"

text \<open>\<open>smb_denies\<close> is the error of the SMB service for a principal it cannot resolve.\<close>

definition create_user :: "'k auth_lib \<Rightarrow> (string \<Rightarrow> string option) \<Rightarrow> auth_env \<Rightarrow> session \<Rightarrow> string \<Rightarrow> string \<Rightarrow> role \<Rightarrow>
    string option \<Rightarrow> 'k auth_world \<Rightarrow> (auth_error + unit) \<times> 'k auth_world" where
  "create_user lib smb_denies e session username password r file_principal w =
     (if s_role session \<noteq> Admin then (Err Forbidden, w)
      else if length password < 8 then (Err WeakPassword, w)
      else case validate_file_principal_binding r file_principal of
        Err x \<Rightarrow> (Err x, w)
      | Ok fp \<Rightarrow>
          (case Option.bind fp smb_denies of
             Some x \<Rightarrow> (Err (InvalidFilePrincipal x), w)
           | None \<Rightarrow>
               let st = aw_state w in
               if list_ex (has_username username) (as_users st) \<or> list_ex (\<lambda>t. t_name t = username) (as_api_tokens st) then
                 (Err UserExists, w)
               else case hash_password lib e password of
                 Err x \<Rightarrow> (Err x, w)
               | Ok h \<Rightarrow>
                   let u = \<lparr>u_username = username, u_password_hash = Some h, u_role = r, u_file_principal = fp,
                            u_must_change_password = False, u_oidc_subject = None, u_oidc_issuer = None,
                            u_webauthn_credentials = []\<rparr>
                   in case commit_state e (st\<lparr>as_users := as_users st @ [u]\<rparr>) w of
                        (Err x, w1) \<Rightarrow> (Err x, w1)
                      | (Ok _, w1) \<Rightarrow>
                          (Ok (), audit e ''user_created'' (s_username session) (session_ip session)
                             (''target='' @ username @ '', role='' @ role_debug r) w1)))"

definition delete_user :: "auth_env \<Rightarrow> session \<Rightarrow> string \<Rightarrow> 'k auth_world \<Rightarrow> (auth_error + unit) \<times> 'k auth_world" where
  "delete_user e session username w =
     (if s_role session \<noteq> Admin then (Err Forbidden, w)
      else if s_username session = username then (Err Forbidden, w)
      else
        let st = aw_state w; kept = filter (\<lambda>u. u_username u \<noteq> username) (as_users st) in
        if length kept = length (as_users st) then (Err UserNotFound, w)
        else case commit_state e (st\<lparr>as_users := kept,
                   as_sessions := filter (\<lambda>s. s_username s \<noteq> username) (as_sessions st)\<rparr>) w of
               (Err x, w1) \<Rightarrow> (Err x, w1)
             | (Ok _, w1) \<Rightarrow>
                 (Ok (), audit e ''user_deleted'' (s_username session) (session_ip session) (''target='' @ username) w1))"

record user_info =
  ui_username :: string
  ui_role :: role
  ui_file_principal :: "string option"
  ui_webauthn_credential_count :: nat

definition list_users :: "'k auth_world \<Rightarrow> user_info list" where
  "list_users w =
     map (\<lambda>u. \<lparr>ui_username = u_username u, ui_role = u_role u,
         ui_file_principal = bound_principal (u_role u) (u_file_principal u),
         ui_webauthn_credential_count = length (u_webauthn_credentials u)\<rparr>) (as_users (aw_state w))"

definition require_admin :: "'k auth_lib \<Rightarrow> auth_env \<Rightarrow> string \<Rightarrow> string \<Rightarrow> 'k auth_world \<Rightarrow>
    (auth_error + session) \<times> 'k auth_world" where
  "require_admin lib e token client_ip w =
     (case validate lib e token client_ip w of
        (Err x, w1) \<Rightarrow> (Err x, w1)
      | (Ok s, w1) \<Rightarrow> (if s_role s \<noteq> Admin then Err Forbidden else Ok s, w1))"

section \<open>Passkeys\<close>

definition any_webauthn_credentials_registered :: "'k auth_world \<Rightarrow> bool" where
  "any_webauthn_credentials_registered w = list_ex (\<lambda>u. u_webauthn_credentials u \<noteq> []) (as_users (aw_state w))"

definition webauthn_credentials_for :: "string \<Rightarrow> 'k auth_world \<Rightarrow> 'k webauthn_credential list" where
  "webauthn_credentials_for username w =
     (case List.find (has_username username) (as_users (aw_state w)) of
        Some u \<Rightarrow> u_webauthn_credentials u | None \<Rightarrow> [])"

text \<open>The common shape: rewrite the named user's record and commit.\<close>

definition update_user :: "string \<Rightarrow> ('k user \<Rightarrow> 'k user) \<Rightarrow> 'k auth_state \<Rightarrow> 'k auth_state" where
  "update_user username f st = st\<lparr>as_users := update_first (has_username username) f (as_users st)\<rparr>"

definition add_webauthn_credential :: "auth_env \<Rightarrow> string \<Rightarrow> 'k webauthn_credential \<Rightarrow> 'k auth_world \<Rightarrow>
    (auth_error + unit) \<times> 'k auth_world" where
  "add_webauthn_credential e username credential w =
     (case List.find (has_username username) (as_users (aw_state w)) of
        None \<Rightarrow> (Err UserNotFound, w)
      | Some _ \<Rightarrow>
          commit_state e (update_user username
            (\<lambda>u. u\<lparr>u_webauthn_credentials := u_webauthn_credentials u @ [credential]\<rparr>) (aw_state w)) w)"

definition remove_webauthn_credential :: "'k auth_lib \<Rightarrow> auth_env \<Rightarrow> string \<Rightarrow> string \<Rightarrow> 'k auth_world \<Rightarrow>
    (auth_error + unit) \<times> 'k auth_world" where
  "remove_webauthn_credential lib e username credential_id w =
     (case List.find (has_username username) (as_users (aw_state w)) of
        None \<Rightarrow> (Err UserNotFound, w)
      | Some u \<Rightarrow>
          let kept = filter (\<lambda>c. lib_cred_id lib (wc_passkey c) \<noteq> credential_id) (u_webauthn_credentials u) in
          if length kept = length (u_webauthn_credentials u) then (Err NotFound, w)
          else commit_state e (update_user username (\<lambda>u. u\<lparr>u_webauthn_credentials := kept\<rparr>) (aw_state w)) w)"

definition has_non_webauthn_factor :: "string \<Rightarrow> 'k auth_world \<Rightarrow> bool" where
  "has_non_webauthn_factor username w =
     (case List.find (has_username username) (as_users (aw_state w)) of
        Some u \<Rightarrow> u_password_hash u \<noteq> None \<or> (u_oidc_subject u \<noteq> None \<and> u_oidc_issuer u \<noteq> None)
      | None \<Rightarrow> False)"

definition reset_webauthn_credentials :: "auth_env \<Rightarrow> session \<Rightarrow> string \<Rightarrow> 'k auth_world \<Rightarrow>
    (auth_error + nat) \<times> 'k auth_world" where
  "reset_webauthn_credentials e actor target w =
     (if s_role actor \<noteq> Admin then (Err Forbidden, w)
      else case List.find (has_username target) (as_users (aw_state w)) of
        None \<Rightarrow> (Err UserNotFound, w)
      | Some u \<Rightarrow>
          let removed = length (u_webauthn_credentials u) in
          (case commit_state e (update_user target (\<lambda>u. u\<lparr>u_webauthn_credentials := []\<rparr>) (aw_state w)) w of
             (Err x, w1) \<Rightarrow> (Err x, w1)
           | (Ok _, w1) \<Rightarrow>
               (Ok removed, audit e ''webauthn_reset_for_user'' (s_username actor) (session_ip actor)
                  (''target='' @ target @ '' removed='' @ show_nat removed) w1)))"

text \<open>The result of an assertion is its credential id and the update it makes to a passkey.\<close>

definition update_webauthn_sign_count :: "'k auth_lib \<Rightarrow> auth_env \<Rightarrow> string \<Rightarrow> string \<Rightarrow> ('k \<Rightarrow> 'k) \<Rightarrow> 'k auth_world \<Rightarrow>
    (auth_error + unit) \<times> 'k auth_world" where
  "update_webauthn_sign_count lib e username result_id update_credential w =
     (case List.find (has_username username) (as_users (aw_state w)) of
        None \<Rightarrow> (Err UserNotFound, w)
      | Some u \<Rightarrow>
          let same = (\<lambda>c. lib_cred_id lib (wc_passkey c) = result_id) in
          (case List.find same (u_webauthn_credentials u) of
             None \<Rightarrow> (Err NotFound, w)
           | Some _ \<Rightarrow>
               commit_state e (update_user username
                 (\<lambda>u. u\<lparr>u_webauthn_credentials := update_first same
                    (\<lambda>c. c\<lparr>wc_passkey := update_credential (wc_passkey c)\<rparr>) (u_webauthn_credentials u)\<rparr>)
                 (aw_state w)) w))"

definition mint_session_for_webauthn :: "'k auth_lib \<Rightarrow> auth_env \<Rightarrow> string \<Rightarrow> string \<Rightarrow> 'k auth_world \<Rightarrow>
    (auth_error + string) \<times> 'k auth_world" where
  "mint_session_for_webauthn lib e username client_ip w =
     (let now = ae_now e; ip_fails = ip_failures (aw_rate w) client_ip now in
      if client_ip \<noteq> unknown_ip \<and> ip_fails \<ge> MAX_IP_FAILED_ATTEMPTS then
        (Err AccountLocked, audit e ''login_webauthn_ip_locked'' username client_ip (attempts_detail ip_fails) w)
      else
        let user_fails = user_failures (aw_rate w) username now in
        if user_fails \<ge> MAX_FAILED_ATTEMPTS \<and> \<not> is_only_admin (as_users (aw_state w)) username then
          (Err AccountLocked, audit e ''login_webauthn_locked'' username client_ip (attempts_detail user_fails) w)
        else case List.find (has_username username) (as_users (aw_state w)) of
          None \<Rightarrow> (Err UserNotFound, w)
        | Some u \<Rightarrow>
            let token = generate_token lib e; s = new_session token u now False client_ip in
            (case commit_state e (add_session now s (aw_state w)) w of
               (Err x, w1) \<Rightarrow> (Err x, w1)
             | (Ok _, w1) \<Rightarrow>
                 (Ok token, audit e ''login_webauthn_success'' username client_ip [] (clear_failed_attempts e username w1))))"

definition record_webauthn_failure :: "auth_env \<Rightarrow> string \<Rightarrow> string \<Rightarrow> 'k auth_world \<Rightarrow> 'k auth_world" where
  "record_webauthn_failure e username client_ip w = record_failed_attempt e username client_ip w"

end
