(* ===== verification/Json_Rpc.thy ===== *)
theory Json_Rpc
  imports Rust_Str
begin

text \<open>
  JSON values and the JSON-RPC envelopes of \<open>nasty-common/src/jsonrpc.rs\<close>: requests,
  responses and error codes, and the access to parameters the router's handlers share. Texts are
  turned into values and back by \<open>serde_json\<close>, which is not modelled here; a number that is
  not an integer is kept as its text.
\<close>

datatype json =
    JNull | JBool bool | JInt int | JFloat string | JStr string | JArr "json list" | JObj "(string \<times> json) list"

fun json_get :: "json \<Rightarrow> string \<Rightarrow> json option" where
  "json_get (JObj m) k = map_of m k"
| "json_get _ k = None"

fun as_str :: "json \<Rightarrow> string option" where
  "as_str (JStr s) = Some s"
| "as_str _ = None"

fun as_i64 :: "json \<Rightarrow> int option" where
  "as_i64 (JInt n) = (if - (2 ^ 63) \<le> n \<and> n < 2 ^ 63 then Some n else None)"
| "as_i64 _ = None"

record rpc_request =
  rq_jsonrpc :: string
  rq_method :: string
  rq_params :: "json option"
  rq_id :: json

record rpc_error =
  re_code :: int
  re_message :: string
  re_data :: "json option"

record rpc_response =
  rs_jsonrpc :: string
  rs_result :: "json option"
  rs_error :: "rpc_error option"
  rs_id :: json

record rpc_notification =
  rn_jsonrpc :: string
  rn_method :: string
  rn_params :: "json option"

datatype error_code = ParseError | InvalidRequest | MethodNotFound | InvalidParams | InternalError

fun error_number :: "error_code \<Rightarrow> int" where
  "error_number ParseError = - 32700"
| "error_number InvalidRequest = - 32600"
| "error_number MethodNotFound = - 32601"
| "error_number InvalidParams = - 32602"
| "error_number InternalError = - 32603"

definition response_success :: "json \<Rightarrow> json \<Rightarrow> rpc_response" where
  "response_success i v = \<lparr>rs_jsonrpc = ''2.0'', rs_result = Some v, rs_error = None, rs_id = i\<rparr>"

definition response_error :: "json \<Rightarrow> error_code \<Rightarrow> string \<Rightarrow> rpc_response" where
  "response_error i c m =
     \<lparr>rs_jsonrpc = ''2.0'', rs_result = None,
      rs_error = Some \<lparr>re_code = error_number c, re_message = m, re_data = None\<rparr>, rs_id = i\<rparr>"

definition notification_new :: "string \<Rightarrow> json option \<Rightarrow> rpc_notification" where
  "notification_new m p = \<lparr>rn_jsonrpc = ''2.0'', rn_method = m, rn_params = p\<rparr>"

lemma response_simps [simp]:
  "rs_error (response_success i v) = None" "rs_result (response_success i v) = Some v" "rs_id (response_success i v) = i"
  "rs_error (response_error i c m) = Some \<lparr>re_code = error_number c, re_message = m, re_data = None\<rparr>"
  "rs_result (response_error i c m) = None" "rs_id (response_error i c m) = i"
  by (simp_all add: response_success_def response_error_def)

section \<open>Answers and parameters\<close>

definition ok :: "rpc_request \<Rightarrow> json \<Rightarrow> rpc_response" where
  "ok req v = response_success (rq_id req) v"

definition err :: "rpc_request \<Rightarrow> string \<Rightarrow> rpc_response" where
  "err req e = response_error (rq_id req) InternalError e"

definition invalid :: "rpc_request \<Rightarrow> string \<Rightarrow> rpc_response" where
  "invalid req msg = response_error (rq_id req) InvalidParams (''Invalid params: '' @ msg)"

definition str_param :: "rpc_request \<Rightarrow> string \<Rightarrow> string option" where
  "str_param req key =
     (case rq_params req of
        None \<Rightarrow> None
      | Some p \<Rightarrow> (case json_get p key of None \<Rightarrow> None | Some v \<Rightarrow> as_str v))"

text \<open>\<open>parse\<close> is \<open>serde_json::from_value\<close> at the type of the parameters.\<close>

definition parse_params :: "(json \<Rightarrow> string + 'a) \<Rightarrow> rpc_request \<Rightarrow> string + 'a" where
  "parse_params parse req = (case rq_params req of None \<Rightarrow> Err ''missing params'' | Some p \<Rightarrow> parse p)"

definition require_str :: "rpc_request \<Rightarrow> string \<Rightarrow> rpc_response + string" where
  "require_str req key =
     (case str_param req key of
        Some s \<Rightarrow> Ok s
      | None \<Rightarrow> Err (response_error (rq_id req) InvalidParams (''Missing required param: '' @ key)))"

lemma answer_simps [simp]:
  "rs_id (ok req v) = rq_id req" "rs_id (err req m) = rq_id req" "rs_id (invalid req m) = rq_id req"
  "rs_error (ok req v) = None" "rs_error (err req m) \<noteq> None" "rs_error (invalid req m) \<noteq> None"
  "rs_result (ok req v) = Some v" "rs_result (err req m) = None" "rs_result (invalid req m) = None"
  by (simp_all add: ok_def err_def invalid_def)

lemma require_str_error:
  "require_str req key = Err r \<Longrightarrow> rs_id r = rq_id req \<and> rs_error r \<noteq> None \<and> rs_result r = None"
  by (auto simp: require_str_def split: option.splits)

end
