(* ===== verification/Router.thy ===== *)
theory Router
  imports Auth Json_Rpc
begin

text \<open>
  The front door of the engine (\<open>nasty-engine/src/router/mod.rs\<close>): which roles may call which
  methods, the wall in front of an expired password, the dispatch of a method to its domain, the
  audit and the broadcast of changes. A domain's \<open>try_route\<close> is an argument of the
  dispatch; \<open>Auth_Routes\<close> and \<open>Service_Routes\<close> model two of them.
\<close>

section \<open>Which methods a role may call\<close>

definition privileged_reads :: "string list" where
  "privileged_reads =
    [''domain.user.list'', ''domain.group.list'', ''dc.user.list'', ''dc.group.list'', ''dc.computer.list'',
     ''auth.token.list'', ''guestshare.list'', ''guestshare.get'', ''system.custom_config.get'']"

definition listed_reads :: "string list" where
  "listed_reads =
    [''system.info'', ''system.health'', ''system.hardware.iommu'', ''system.hardware.summary'',
     ''system.secure_boot.enrollment.status'', ''system.secure_boot.readiness'', ''system.passthrough.get'',
     ''system.rdma.status'', ''system.stats'', ''system.disks'', ''system.network.get'', ''system.logs'',
     ''system.logs.units'', ''system.ssh.status'', ''system.alerts'', ''system.settings.get'', ''system.tuning.get'',
     ''system.nut.config.get'', ''system.nut.status'', ''system.watchdog.config.get'', ''system.tailscale.get'',
     ''system.acme.status'', ''system.tls.local_ca_root'', ''system.tls.host_statuses'', ''system.metrics.history'',
     ''system.metrics.prometheus'', ''alert.rules.list'', ''device.list'', ''auth.me'', ''auth.list_users'',
     ''fs.dependents'', ''fs.locked_dependents'', ''fs.usage'', ''fs.scrub.status'', ''fs.reconcile.status'',
     ''bcachefs.usage'', ''service.protocol.list'', ''subvolume.list_all'', ''subvolume.list_dependents'',
     ''subvolume.find_by_property'', ''subvolume.children'', ''smb.user.list'', ''smb.group.list'',
     ''service.rest_server.config'', ''service.base_names.get'', ''system.update.version'', ''system.update.check'',
     ''system.update.check_cached'', ''backup.secrets_status'', ''system.update.status'',
     ''system.update.build_dir.get'', ''system.reboot_required'', ''system.generations.list'', ''system.version.get'',
     ''system.version.tagged_release_notice'', ''system.log.level'', ''system.settings.timezones'', ''audit.list'',
     ''audit.mine'', ''apps.check_ports'', ''apps.check_devices'', ''apps.check_volumes'', ''apps.check_compose'',
     ''apps.status'', ''apps.stats'', ''apps.logs'', ''apps.compose.logs'', ''apps.container.logs'', ''apps.inspect'',
     ''system.firewall.status'', ''vm.capabilities'', ''vm.images.import_info'', ''firmware.available'',
     ''firmware.constraints'', ''firmware.check'', ''firmware.devices'', ''notifications.config.get'',
     ''apps.config'', ''apps.inspect_image'', ''apps.caddy.routes'', ''apps.ingress.check_conflict'',
     ''bcachefs.timestats'', ''bcachefs.top'', ''backup.profile.list'', ''backup.profile.get'', ''backup.status'',
     ''backup.snapshots'', ''backup.jobs.list'', ''backup.jobs.get'', ''auth.oidc.config_status'',
     ''auth.webauthn.config'', ''auth.webauthn.list'']"

definition is_read_only :: "string \<Rightarrow> bool" where
  "is_read_only method =
     (if method \<in> set privileged_reads then False
      else ends_with method ''.list'' \<or> ends_with method ''.get'' \<or> ends_with method ''.status''
        \<or> method \<in> set listed_reads)"

definition self_service :: "string list" where
  "self_service =
    [''auth.logout'', ''auth.change_password'', ''auth.webauthn.register.start'', ''auth.webauthn.register.finish'',
     ''auth.webauthn.delete'']"

definition is_universally_allowed :: "string \<Rightarrow> bool" where
  "is_universally_allowed method = (is_read_only method \<or> method \<in> set self_service)"

definition user_methods :: "string list" where
  "user_methods =
    [''auth.me'', ''auth.logout'', ''auth.change_password'', ''auth.webauthn.config'', ''auth.webauthn.list'',
     ''auth.webauthn.register.start'', ''auth.webauthn.register.finish'', ''auth.webauthn.delete'', ''audit.mine'']"

definition is_user_allowed :: "string \<Rightarrow> bool" where
  "is_user_allowed method = (method \<in> set user_methods)"

definition operator_methods :: "string list" where
  "operator_methods =
    [''subvolume.create'', ''subvolume.delete'', ''subvolume.attach'', ''subvolume.detach'', ''subvolume.resize'',
     ''subvolume.update'', ''subvolume.clone'', ''subvolume.set_properties'', ''subvolume.remove_properties'',
     ''snapshot.create'', ''snapshot.delete'', ''snapshot.clone'', ''share.nfs.create'', ''share.nfs.update'',
     ''share.nfs.delete'', ''guestshare.list'', ''guestshare.get'', ''guestshare.create'', ''guestshare.revoke'',
     ''guestshare.remove'', ''share.smb.create'', ''share.smb.update'', ''share.smb.delete'', ''smb.user.create'',
     ''smb.user.delete'', ''smb.user.set_password'', ''smb.group.create'', ''smb.group.delete'',
     ''smb.group.add_member'', ''smb.group.remove_member'', ''share.iscsi.create'', ''share.iscsi.delete'',
     ''share.iscsi.add_lun'', ''share.iscsi.remove_lun'', ''share.iscsi.add_acl'', ''share.iscsi.remove_acl'',
     ''share.iscsi.add_portal'', ''share.iscsi.remove_portal'', ''share.nvmeof.create'', ''share.nvmeof.delete'',
     ''share.nvmeof.add_namespace'', ''share.nvmeof.remove_namespace'', ''share.nvmeof.add_port'',
     ''share.nvmeof.remove_port'', ''share.nvmeof.add_host'', ''share.nvmeof.remove_host'', ''vm.create'',
     ''vm.update'', ''vm.delete'', ''vm.start'', ''vm.stop'', ''vm.kill'', ''vm.snapshot'', ''vm.clone'',
     ''apps.install'', ''apps.update'', ''apps.remove'', ''apps.stop'', ''apps.start'', ''apps.restart'',
     ''apps.pull'', ''apps.prune'', ''apps.ingress.set'', ''apps.ingress.remove'', ''apps.networks.create'',
     ''apps.networks.remove'', ''backup.profile.create'', ''backup.profile.update'', ''backup.profile.delete'',
     ''backup.run'', ''backup.repo.check'', ''backup.repo.init'', ''backup.restore'', ''service.protocol.enable'',
     ''service.protocol.disable'', ''alert.acknowledge'', ''vm.images.ensure'', ''firmware.update'']"

definition is_operator_allowed :: "string \<Rightarrow> bool" where
  "is_operator_allowed method = (is_universally_allowed method \<or> method \<in> set operator_methods)"

fun denied :: "role \<Rightarrow> string \<Rightarrow> bool" where
  "denied Admin method = False"
| "denied ReadOnly method = (\<not> is_universally_allowed method)"
| "denied Operator method = (\<not> is_operator_allowed method)"
| "denied User method = (\<not> is_user_allowed method)"

section \<open>What changed\<close>

definition collections :: "(string \<times> string) list" where
  "collections =
    [(''fs.'', ''filesystem''), (''device.'', ''filesystem''), (''subvolume.'', ''subvolume''),
     (''snapshot.'', ''snapshot''), (''share.nfs.'', ''share.nfs''), (''share.smb.'', ''share.smb''),
     (''share.iscsi.'', ''share.iscsi''), (''share.nvmeof.'', ''share.nvmeof''),
     (''service.protocol.'', ''protocol''), (''system.settings.'', ''settings''), (''system.tuning.'', ''tuning''),
     (''system.nut.'', ''nut''), (''system.watchdog.'', ''watchdog''), (''system.tailscale.'', ''tailscale''),
     (''alert.'', ''alert'')]"

definition collection_for_method :: "string \<Rightarrow> string option" where
  "collection_for_method m =
     (if starts_with m ''fs.device.'' then Some ''filesystem''
      else map_option snd (List.find (\<lambda>(p, c). starts_with m p \<and> \<not> is_read_only m) collections))"

definition audit_keys :: "string list" where
  "audit_keys = [''name'', ''username'', ''filesystem'', ''target'', ''id'', ''path'', ''device'']"

fun first_str :: "rpc_request \<Rightarrow> string list \<Rightarrow> string" where
  "first_str req [] = []"
| "first_str req (k # ks) = (case str_param req k of Some v \<Rightarrow> v | None \<Rightarrow> first_str req ks)"

definition audit_detail :: "rpc_request \<Rightarrow> string" where
  "audit_detail req = first_str req audit_keys"

section \<open>Dispatch\<close>

datatype domain =
    D_auth | D_audit | D_alerts | D_notifications | D_backup | D_fs | D_bcachefs | D_subvolume | D_snapshot
  | D_share | D_guestshare | D_smb | D_domain | D_dc | D_service | D_system | D_vm | D_apps

definition method_prefix :: "string \<Rightarrow> string" where
  "method_prefix m = (case split_once CHR ''.'' m of Some (p, _) \<Rightarrow> p | None \<Rightarrow> m)"

definition domains :: "(string \<times> domain) list" where
  "domains =
    [(''auth'', D_auth), (''audit'', D_audit), (''alert'', D_alerts), (''telemetry'', D_alerts),
     (''notifications'', D_notifications), (''backup'', D_backup), (''fs'', D_fs), (''device'', D_fs),
     (''bcachefs'', D_bcachefs), (''subvolume'', D_subvolume), (''snapshot'', D_snapshot), (''share'', D_share),
     (''guestshare'', D_guestshare), (''smb'', D_smb), (''domain'', D_domain), (''dc'', D_dc),
     (''service'', D_service), (''system'', D_system), (''firmware'', D_system), (''vm'', D_vm), (''apps'', D_apps)]"

definition domain_of :: "string \<Rightarrow> domain option" where
  "domain_of m = (if m = ''system.alerts'' then Some D_alerts else map_of domains (method_prefix m))"

text \<open>The state behind the router: authentication with its audit log, the broadcast events, and
  everything the other domains work on.\<close>

record ('k, 'o) app_state =
  app_auth :: "'k auth_world"
  app_events :: "string list"
  app_other :: 'o

type_synonym ('k, 'o) try_route =
  "rpc_request \<Rightarrow> session \<Rightarrow> ('k, 'o) app_state \<Rightarrow> rpc_response option \<times> ('k, 'o) app_state"

definition unknown_method :: "rpc_request \<Rightarrow> rpc_response" where
  "unknown_method req = response_error (rq_id req) MethodNotFound (''Unknown method: '' @ rq_method req)"

definition route :: "(domain \<Rightarrow> ('k, 'o) try_route) \<Rightarrow> rpc_request \<Rightarrow> session \<Rightarrow> ('k, 'o) app_state \<Rightarrow>
    rpc_response \<times> ('k, 'o) app_state" where
  "route handlers req s w =
     (case domain_of (rq_method req) of
        None \<Rightarrow> (unknown_method req, w)
      | Some d \<Rightarrow>
          (case handlers d req s w of
             (Some r, w1) \<Rightarrow> (r, w1)
           | (None, w1) \<Rightarrow> (unknown_method req, w1)))"

definition audit_app :: "auth_env \<Rightarrow> string \<Rightarrow> string \<Rightarrow> string \<Rightarrow> string \<Rightarrow> ('k, 'o) app_state \<Rightarrow> ('k, 'o) app_state" where
  "audit_app e event user ip detail w = w\<lparr>app_auth := audit e event user ip detail (app_auth w)\<rparr>"

definition ip_of :: "session \<Rightarrow> string" where
  "ip_of s = (case s_client_ip s of Some ip \<Rightarrow> ip | None \<Rightarrow> ''unknown'')"

definition before_password_change :: "string list" where
  "before_password_change = [''auth.change_password'', ''auth.me'', ''auth.logout'']"

text \<open>The trail of a successful request: an audit entry and a broadcast.\<close>

definition announce :: "auth_env \<Rightarrow> rpc_request \<Rightarrow> session \<Rightarrow> rpc_response \<Rightarrow> ('k, 'o) app_state \<Rightarrow> ('k, 'o) app_state" where
  "announce e req s r w =
     (if rs_error r \<noteq> None then w
      else
        let w1 = (if \<not> is_read_only (rq_method req) \<and> \<not> starts_with (rq_method req) ''auth.''
                  then audit_app e (rq_method req) (s_username s) (ip_of s) (audit_detail req) w else w)
        in case collection_for_method (rq_method req) of
             Some c \<Rightarrow> w1\<lparr>app_events := app_events w1 @ [c]\<rparr>
           | None \<Rightarrow> w1)"

text \<open>\<open>None\<close> is a text that is no JSON-RPC request.\<close>

definition handle_rpc_request :: "auth_env \<Rightarrow> (domain \<Rightarrow> ('k, 'o) try_route) \<Rightarrow> rpc_request option \<Rightarrow> session \<Rightarrow>
    ('k, 'o) app_state \<Rightarrow> rpc_response \<times> ('k, 'o) app_state" where
  "handle_rpc_request e handlers raw s w =
     (case raw of
        None \<Rightarrow> (response_error JNull ParseError ''Failed to parse JSON-RPC request'', w)
      | Some req \<Rightarrow>
          if s_must_change_password s \<and> rq_method req \<notin> set before_password_change then
            (response_error (rq_id req) InternalError ''Password change required'', w)
          else if denied (s_role s) (rq_method req) then
            (response_error (rq_id req) InternalError ''Permission denied'',
             audit_app e ''permission_denied'' (s_username s) (ip_of s)
               (''method='' @ rq_method req @ '' role='' @ role_debug (s_role s)) w)
          else
            (case route handlers req s w of (r, w1) \<Rightarrow> (r, announce e req s r w1)))"

section \<open>Gates inside handlers\<close>

definition require_endpoint_access :: "auth_env \<Rightarrow> rpc_request \<Rightarrow> session \<Rightarrow> endpoint_access \<Rightarrow> string \<Rightarrow> bool \<Rightarrow>
    ('k, 'o) app_state \<Rightarrow> rpc_response option \<times> ('k, 'o) app_state" where
  "require_endpoint_access e req s access reason audit_allowed w =
     (case authorize_session s access of
        Ok _ \<Rightarrow>
          (None, if audit_allowed
                 then audit_app e ''root_equivalent_requested'' (s_username s) (ip_of s)
                   (''method='' @ rq_method req @ '' reason='' @ reason) w
                 else w)
      | Err d \<Rightarrow>
          (Some (err req (access_denied_message d)),
           audit_app e ''permission_denied'' (s_username s) (ip_of s)
             (''method='' @ rq_method req @ '' role='' @ role_debug (s_role s) @ '' reason='' @ reason) w))"

definition require_root_equivalent :: "auth_env \<Rightarrow> rpc_request \<Rightarrow> session \<Rightarrow> string \<Rightarrow> ('k, 'o) app_state \<Rightarrow>
    rpc_response option \<times> ('k, 'o) app_state" where
  "require_root_equivalent e req s reason w = require_endpoint_access e req s RootEquivalent reason True w"

definition require_unscoped_mutation :: "auth_env \<Rightarrow> rpc_request \<Rightarrow> session \<Rightarrow> string \<Rightarrow> ('k, 'o) app_state \<Rightarrow>
    rpc_response option \<times> ('k, 'o) app_state" where
  "require_unscoped_mutation e req s reason w = require_endpoint_access e req s UnscopedMutation reason False w"

end
