(* ===== verification/Registry.thy ===== *)
theory Registry
  imports Rust_Str
begin

text \<open>
  The method registry of the engine (\<open>nasty-engine/src/registry\<close>): the declared role, the shape
  of the parameters and of the result of every RPC method, group by group in the order of
  \<open>methods.rs\<close>. The documentation texts are left out, and a JSON schema is represented by
  the Rust type it is derived from or, where it is written out, by its required and its optional
  fields. \<open>paths.rs\<close>, which gives a method its URL and HTTP verb, follows at the end.
\<close>

section \<open>Methods\<close>

datatype method_role = MAny | MOperator | MAdmin

fun method_role_str :: "method_role \<Rightarrow> string" where
  "method_role_str MAny = ''any''"
| "method_role_str MOperator = ''operator''"
| "method_role_str MAdmin = ''admin''"

datatype method_params =
    NoParams | Schema string | InlineSchema "string list" "string list" | AdHoc "string list" "string list"

datatype method_result = NoResult | Typed string | Inline

datatype rpc_method = Method (m_name: string) (m_role: method_role) (m_params: method_params) (m_result: method_result)

section \<open>The groups\<close>

definition registry_authentication :: "rpc_method list" where
  "registry_authentication =
    [Method ''auth.me'' MAny NoParams (Typed ''AuthMeResult''),
     Method ''auth.logout'' MAny NoParams NoResult,
     Method ''auth.change_password'' MAny (Schema ''ChangePasswordRequest'') NoResult,
     Method ''auth.create_user'' MAdmin (Schema ''CreateUserRequest'') NoResult,
     Method ''auth.delete_user'' MAdmin (AdHoc [''username''] []) NoResult,
     Method ''auth.list_users'' MAny NoParams (Typed ''Vec<UserInfo>''),
     Method ''auth.token.list'' MAdmin NoParams (Typed ''Vec<ApiTokenInfo>''),
     Method ''auth.token.create'' MAdmin (AdHoc [''name'', ''role''] [''filesystem'', ''expires_in_secs'']) (Typed ''ApiToken''),
     Method ''auth.token.delete'' MAdmin (AdHoc [''id''] []) NoResult]"

definition registry_system :: "rpc_method list" where
  "registry_system =
    [Method ''system.info'' MAny NoParams (Typed ''SystemInfo''),
     Method ''system.health'' MAny NoParams (Typed ''SystemHealth''),
     Method ''system.status'' MAny NoParams (Typed ''SystemStatus''),
     Method ''system.operations.list'' MAny NoParams (Typed ''Vec<Operation>''),
     Method ''system.custom_config.get'' MAdmin NoParams (Typed ''nasty_system::CustomConfig''),
     Method ''system.stats'' MAny NoParams (Typed ''SystemStats''),
     Method ''system.disks'' MAny NoParams (Typed ''Vec<DiskHealth>''),
     Method ''system.alerts'' MAny NoParams (Typed ''Vec<AlertOccurrence>''),
     Method ''system.reboot'' MAdmin NoParams NoResult,
     Method ''system.shutdown'' MAdmin NoParams NoResult]"

definition registry_system_update :: "rpc_method list" where
  "registry_system_update =
    [Method ''system.update.version'' MAny NoParams (Typed ''UpdateInfo''),
     Method ''system.update.check'' MAny NoParams (Typed ''UpdateInfo''),
     Method ''system.update.check_cached'' MAny NoParams (Typed ''UpdateInfo''),
     Method ''system.update.apply'' MAdmin NoParams NoResult,
     Method ''system.update.rollback'' MAdmin NoParams NoResult,
     Method ''system.update.status'' MAny NoParams (Typed ''UpdateStatus''),
     Method ''system.update.build_dir.get'' MAny NoParams (Typed ''UpdateBuildDirConfig''),
     Method ''system.update.build_dir.set'' MAdmin (AdHoc [''path''] []) (Typed ''UpdateBuildDirConfig''),
     Method ''system.version.get'' MAny NoParams (Typed ''VersionInfo''),
     Method ''system.version.tagged_release_notice'' MAny NoParams (Typed ''VersionTaggedReleaseStatus''),
     Method ''system.version.upgrade_tagged_release'' MAdmin NoParams NoResult,
     Method ''system.version.switch'' MAdmin (Schema ''VersionSwitchRequest'') NoResult]"

definition registry_settings :: "rpc_method list" where
  "registry_settings =
    [Method ''system.settings.get'' MAny NoParams (Typed ''Settings''),
     Method ''system.settings.update'' MAdmin (Schema ''SettingsUpdate'') (Typed ''Settings''),
     Method ''system.settings.timezones'' MAny NoParams (Typed ''Vec<String>'')]"

definition registry_network :: "rpc_method list" where
  "registry_network =
    [Method ''system.network.get'' MAny NoParams (Typed ''NetworkConfig''),
     Method ''system.network.update'' MAdmin (Schema ''NetworkConfig'') NoResult]"

definition registry_protocols_services :: "rpc_method list" where
  "registry_protocols_services =
    [Method ''service.protocol.list'' MAny NoParams (Typed ''Vec<ProtocolStatus>''),
     Method ''service.protocol.enable'' MOperator (AdHoc [''name''] []) (Typed ''ProtocolStatus''),
     Method ''service.protocol.disable'' MOperator (AdHoc [''name''] []) (Typed ''ProtocolStatus'')]"

definition registry_alert_rules :: "rpc_method list" where
  "registry_alert_rules =
    [Method ''alert.acknowledge'' MOperator (AdHoc [''instance_id''] []) (Typed ''AlertAcknowledgement''),
     Method ''alert.rules.list'' MAny NoParams (Typed ''Vec<AlertRule>''),
     Method ''alert.rules.create'' MAdmin (Schema ''AlertRule'') (Typed ''AlertRule''),
     Method ''alert.rules.update'' MAdmin (Schema ''AlertRuleUpdate'') (Typed ''AlertRule''),
     Method ''alert.rules.delete'' MAdmin (AdHoc [''id''] []) NoResult]"

definition registry_block_devices :: "rpc_method list" where
  "registry_block_devices =
    [Method ''device.list'' MAny NoParams (Typed ''Vec<BlockDevice>''),
     Method ''device.wipe'' MAdmin (AdHoc [''path''] []) NoResult,
     Method ''device.set_type'' MAdmin (Schema ''DiskTypeUpdate'') NoResult,
     Method ''device.set_io_scheduler'' MAdmin (Schema ''IoSchedulerUpdate'') (Typed ''IoSchedulerResult'')]"

definition registry_filesystems :: "rpc_method list" where
  "registry_filesystems =
    [Method ''fs.list'' MAny NoParams (Typed ''Vec<Filesystem>''),
     Method ''fs.unavailable.list'' MAny NoParams (Typed ''Vec<UnavailableFilesystem>''),
     Method ''fs.get'' MAny (AdHoc [''name''] []) (Typed ''Filesystem''),
     Method ''fs.create'' MAdmin (Schema ''CreateFilesystemRequest'') (Typed ''Filesystem''),
     Method ''fs.destroy'' MAdmin (Schema ''DestroyFilesystemRequest'') NoResult,
     Method ''fs.forget'' MAdmin (Schema ''ForgetUnavailableRequest'') NoResult,
     Method ''fs.mount'' MAdmin (AdHoc [''name''] []) (Typed ''Filesystem''),
     Method ''fs.unmount'' MAdmin (AdHoc [''name''] []) NoResult,
     Method ''fs.options.update'' MAdmin (Schema ''UpdateFilesystemOptionsRequest'') (Typed ''Filesystem''),
     Method ''fs.usage'' MAny (AdHoc [''name''] []) (Typed ''FsUsage''),
     Method ''fs.scrub.start'' MAdmin (AdHoc [''name''] []) NoResult,
     Method ''fs.scrub.status'' MAny (AdHoc [''name''] []) (Typed ''ScrubStatus''),
     Method ''fs.scrub.cancel'' MAdmin (AdHoc [''name''] []) NoResult,
     Method ''fs.fsck.start'' MAdmin (AdHoc [''name''] []) NoResult,
     Method ''fs.fsck.status'' MAny (AdHoc [''name''] []) (Typed ''FsckStatus''),
     Method ''fs.reconcile.status'' MAny (AdHoc [''name''] []) (Typed ''ReconcileStatus''),
     Method ''bcachefs.usage'' MAny (AdHoc [''name''] []) (Typed ''FsUsage''),
     Method ''fs.tpm.status'' MAny (AdHoc [''name''] []) (Typed ''TpmBindStatus''),
     Method ''fs.tpm.bind'' MAdmin (AdHoc [''name''] []) (Typed ''TpmBindStatus''),
     Method ''fs.tpm.unbind'' MAdmin (AdHoc [''name''] []) (Typed ''TpmBindStatus'')]"

definition registry_filesystem_devices :: "rpc_method list" where
  "registry_filesystem_devices =
    [Method ''fs.device.add'' MAdmin (Schema ''DeviceAddRequest'') (Typed ''Filesystem''),
     Method ''fs.device.remove'' MAdmin (Schema ''DeviceActionRequest'') (Typed ''Filesystem''),
     Method ''fs.device.evacuate'' MAdmin (Schema ''DeviceActionRequest'') NoResult,
     Method ''fs.device.set_state'' MAdmin (Schema ''DeviceSetStateRequest'') (Typed ''Filesystem''),
     Method ''fs.device.set_label'' MAdmin (Schema ''DeviceSetLabelRequest'') (Typed ''Filesystem''),
     Method ''fs.device.online'' MAdmin (Schema ''DeviceActionRequest'') (Typed ''Filesystem''),
     Method ''fs.device.offline'' MAdmin (Schema ''DeviceActionRequest'') (Typed ''Filesystem'')]"

definition registry_subvolumes :: "rpc_method list" where
  "registry_subvolumes =
    [Method ''subvolume.list'' MAny (AdHoc [''filesystem''] []) (Typed ''Vec<Subvolume>''),
     Method ''subvolume.list_all'' MAny NoParams (Typed ''Vec<Subvolume>''),
     Method ''subvolume.get'' MAny (AdHoc [''filesystem'', ''name''] []) (Typed ''Subvolume''),
     Method ''subvolume.create'' MOperator (Schema ''CreateSubvolumeRequest'') (Typed ''Subvolume''),
     Method ''subvolume.delete'' MOperator (Schema ''DeleteSubvolumeRequest'') NoResult,
     Method ''subvolume.attach'' MOperator (AdHoc [''filesystem'', ''name''] []) (Typed ''Subvolume''),
     Method ''subvolume.detach'' MOperator (AdHoc [''filesystem'', ''name''] []) (Typed ''Subvolume''),
     Method ''subvolume.resize'' MOperator (Schema ''ResizeSubvolumeRequest'') (Typed ''Subvolume''),
     Method ''subvolume.set_properties'' MOperator (Schema ''SetPropertiesRequest'') (Typed ''Subvolume''),
     Method ''subvolume.remove_properties'' MOperator (Schema ''RemovePropertiesRequest'') (Typed ''Subvolume''),
     Method ''subvolume.find_by_property'' MAny (Schema ''FindByPropertyRequest'') (Typed ''Vec<Subvolume>'')]"

definition registry_snapshots :: "rpc_method list" where
  "registry_snapshots =
    [Method ''snapshot.list'' MAny (AdHoc [''filesystem''] []) (Typed ''Vec<Snapshot>''),
     Method ''snapshot.create'' MOperator (Schema ''CreateSnapshotRequest'') (Typed ''Snapshot''),
     Method ''snapshot.delete'' MOperator (Schema ''DeleteSnapshotRequest'') NoResult,
     Method ''snapshot.clone'' MOperator (Schema ''CloneSnapshotRequest'') (Typed ''Subvolume''),
     Method ''snapshot.rollback'' MAdmin (Schema ''RollbackSnapshotRequest'') (Typed ''RollbackResult'')]"

definition registry_nfs_shares :: "rpc_method list" where
  "registry_nfs_shares =
    [Method ''share.nfs.list'' MAny NoParams (Typed ''Vec<NfsShare>''),
     Method ''share.nfs.get'' MAny (AdHoc [''id''] []) (Typed ''NfsShare''),
     Method ''share.nfs.create'' MOperator (Schema ''CreateNfsShareRequest'') (Typed ''NfsShare''),
     Method ''share.nfs.update'' MOperator (Schema ''UpdateNfsShareRequest'') (Typed ''NfsShare''),
     Method ''share.nfs.delete'' MOperator (Schema ''DeleteNfsShareRequest'') NoResult]"

definition registry_smb_shares :: "rpc_method list" where
  "registry_smb_shares =
    [Method ''share.smb.list'' MAny NoParams (Typed ''Vec<SmbShare>''),
     Method ''share.smb.get'' MAny (AdHoc [''id''] []) (Typed ''SmbShare''),
     Method ''share.smb.create'' MOperator (Schema ''CreateSmbShareRequest'') (Typed ''SmbShare''),
     Method ''share.smb.update'' MOperator (Schema ''UpdateSmbShareRequest'') (Typed ''SmbShare''),
     Method ''share.smb.delete'' MOperator (Schema ''DeleteSmbShareRequest'') NoResult]"

definition registry_iscsi_targets :: "rpc_method list" where
  "registry_iscsi_targets =
    [Method ''share.iscsi.list'' MAny NoParams (Typed ''Vec<IscsiTarget>''),
     Method ''share.iscsi.get'' MAny (AdHoc [''id''] []) (Typed ''IscsiTarget''),
     Method ''share.iscsi.create'' MOperator (Schema ''CreateTargetRequest'') (Typed ''IscsiTarget''),
     Method ''share.iscsi.delete'' MOperator (Schema ''DeleteTargetRequest'') NoResult,
     Method ''share.iscsi.add_lun'' MOperator (Schema ''AddLunRequest'') (Typed ''IscsiTarget''),
     Method ''share.iscsi.remove_lun'' MOperator (Schema ''RemoveLunRequest'') (Typed ''IscsiTarget''),
     Method ''share.iscsi.repair_lun'' MAdmin (Schema ''RepairLunRequest'') (Typed ''IscsiTarget''),
     Method ''share.iscsi.add_acl'' MOperator (Schema ''AddAclRequest'') (Typed ''IscsiTarget''),
     Method ''share.iscsi.remove_acl'' MOperator (Schema ''RemoveAclRequest'') (Typed ''IscsiTarget''),
     Method ''share.iscsi.add_portal'' MOperator (Schema ''AddPortalRequest'') (Typed ''IscsiTarget''),
     Method ''share.iscsi.remove_portal'' MOperator (Schema ''RemovePortalRequest'') (Typed ''IscsiTarget''),
     Method ''share.iscsi.set_portals'' MAdmin (Schema ''SetPortalsRequest'') (Typed ''IscsiTarget'')]"

definition registry_nvme_of_subsystems :: "rpc_method list" where
  "registry_nvme_of_subsystems =
    [Method ''share.nvmeof.list'' MAny NoParams (Typed ''Vec<NvmeofSubsystem>''),
     Method ''share.nvmeof.get'' MAny (AdHoc [''id''] []) (Typed ''NvmeofSubsystem''),
     Method ''share.nvmeof.create'' MOperator (Schema ''CreateSubsystemRequest'') (Typed ''NvmeofSubsystem''),
     Method ''share.nvmeof.delete'' MOperator (Schema ''DeleteSubsystemRequest'') NoResult,
     Method ''share.nvmeof.add_namespace'' MOperator (Schema ''AddNamespaceRequest'') (Typed ''NvmeofSubsystem''),
     Method ''share.nvmeof.remove_namespace'' MOperator (Schema ''RemoveNamespaceRequest'') (Typed ''NvmeofSubsystem''),
     Method ''share.nvmeof.repair_namespace'' MAdmin (Schema ''RepairNamespaceRequest'') (Typed ''NvmeofSubsystem''),
     Method ''share.nvmeof.add_port'' MOperator (Schema ''AddPortRequest'') (Typed ''NvmeofSubsystem''),
     Method ''share.nvmeof.remove_port'' MOperator (Schema ''RemovePortRequest'') (Typed ''NvmeofSubsystem''),
     Method ''share.nvmeof.add_host'' MOperator (Schema ''AddHostRequest'') (Typed ''NvmeofSubsystem''),
     Method ''share.nvmeof.remove_host'' MOperator (Schema ''RemoveHostRequest'') (Typed ''NvmeofSubsystem'')]"

definition registry_guest_shares :: "rpc_method list" where
  "registry_guest_shares =
    [Method ''guestshare.list'' MOperator NoParams (Typed ''Vec<GuestShareInfo>''),
     Method ''guestshare.get'' MOperator (AdHoc [''id''] []) (Typed ''GuestShareInfo''),
     Method ''guestshare.create'' MOperator (Schema ''CreateGuestShareRequest'') (Typed ''CreateGuestShareResult''),
     Method ''guestshare.revoke'' MOperator (AdHoc [''id''] []) (Typed ''GuestShareInfo''),
     Method ''guestshare.remove'' MOperator (AdHoc [''id''] []) NoResult]"

definition registry_oidc :: "rpc_method list" where
  "registry_oidc =
    [Method ''auth.oidc.config_status'' MAny NoParams (Typed ''OidcSettings''),
     Method ''auth.oidc.test'' MAdmin (Schema ''OidcTestClaims'') Inline,
     Method ''auth.oidc.update_config'' MAdmin (Schema ''OidcSettings'') (Typed ''OidcSettings'')]"

definition registry_webauthn :: "rpc_method list" where
  "registry_webauthn =
    [Method ''auth.webauthn.config'' MAny NoParams Inline,
     Method ''auth.webauthn.list'' MAny NoParams Inline,
     Method ''auth.webauthn.register.start'' MAny (Schema ''WebauthnRegisterStartRequest'') Inline,
     Method ''auth.webauthn.register.finish'' MAny (AdHoc [''registration_id'', ''response''] []) Inline,
     Method ''auth.webauthn.delete'' MAny (AdHoc [''credential_id''] []) NoResult,
     Method ''auth.webauthn.reset_for_user'' MAdmin (AdHoc [''username''] []) Inline]"

definition registry_audit :: "rpc_method list" where
  "registry_audit =
    [Method ''audit.list'' MAny (AdHoc [] [''limit'']) Inline,
     Method ''audit.mine'' MAny (AdHoc [] [''limit'']) Inline]"

definition registry_system_continued :: "rpc_method list" where
  "registry_system_continued =
    [Method ''system.reboot_required'' MAny NoParams Inline]"

definition registry_system_generations :: "rpc_method list" where
  "registry_system_generations =
    [Method ''system.generations.list'' MAny NoParams (Typed ''Vec<Generation>''),
     Method ''system.generations.label'' MAdmin (AdHoc [''generation''] [''label'']) NoResult,
     Method ''system.generations.delete'' MAdmin (AdHoc [''generation''] []) NoResult,
     Method ''system.generations.switch'' MAdmin (AdHoc [''generation''] []) Inline]"

definition registry_system_hardware :: "rpc_method list" where
  "registry_system_hardware =
    [Method ''system.hardware.iommu'' MAny NoParams (Typed ''Vec<IommuGroup>''),
     Method ''system.hardware.summary'' MAny NoParams (Typed ''HardwareSummary'')]"

definition registry_system_logs :: "rpc_method list" where
  "registry_system_logs =
    [Method ''system.logs'' MAny (AdHoc [] [''unit'', ''lines'', ''grep'']) Inline,
     Method ''system.logs.units'' MAny NoParams Inline,
     Method ''system.log.level'' MAny NoParams Inline,
     Method ''system.log.set_level'' MAdmin (AdHoc [''filter''] []) NoResult]"

definition registry_system_metrics :: "rpc_method list" where
  "registry_system_metrics =
    [Method ''system.metrics.history'' MAny (AdHoc [] [''kind'', ''name'', ''range'', ''offset'']) Inline,
     Method ''system.metrics.prometheus'' MAny NoParams Inline]"

definition registry_system_acme :: "rpc_method list" where
  "registry_system_acme =
    [Method ''system.acme.status'' MAny NoParams (Typed ''AcmeStatus''),
     Method ''system.acme.reset'' MAdmin NoParams NoResult,
     Method ''system.acme.retry'' MAdmin NoParams NoResult]"

definition registry_system_tls :: "rpc_method list" where
  "registry_system_tls =
    [Method ''system.tls.host_statuses'' MAny NoParams (Typed ''Vec<HostTlsStatus>''),
     Method ''system.tls.local_ca_root'' MAny NoParams Inline]"

definition registry_system_nut_ups :: "rpc_method list" where
  "registry_system_nut_ups =
    [Method ''system.nut.config.get'' MAny NoParams (Typed ''NutConfig''),
     Method ''system.nut.config.update'' MAdmin (Schema ''NutConfigUpdate'') (Typed ''NutConfig''),
     Method ''system.nut.status'' MAny NoParams (Typed ''UpsStatus'')]"

definition registry_system_watchdog :: "rpc_method list" where
  "registry_system_watchdog =
    [Method ''system.watchdog.config.get'' MAny NoParams (Typed ''WatchdogConfig''),
     Method ''system.watchdog.config.update'' MAdmin (Schema ''WatchdogConfigUpdate'') (Typed ''WatchdogConfig'')]"

definition registry_system_rdma :: "rpc_method list" where
  "registry_system_rdma =
    [Method ''system.rdma.status'' MAny NoParams (Typed ''RdmaStatus''),
     Method ''system.rdma.set'' MAdmin (Schema ''RdmaSetRequest'') (Typed ''RdmaStatus'')]"

definition registry_system_passthrough :: "rpc_method list" where
  "registry_system_passthrough =
    [Method ''system.passthrough.get'' MAny NoParams (Typed ''PassthroughConfig''),
     Method ''system.passthrough.update'' MAdmin (Schema ''PassthroughUpdate'') (Typed ''PassthroughConfig'')]"

definition registry_system_guest_tools :: "rpc_method list" where
  "registry_system_guest_tools =
    [Method ''system.guest_tools.status'' MAny NoParams (Typed ''GuestToolsStatus''),
     Method ''system.guest_tools.set'' MAdmin (Schema ''GuestToolsUpdate'') (Typed ''GuestToolsStatus'')]"

definition registry_system_secure_boot :: "rpc_method list" where
  "registry_system_secure_boot =
    [Method ''system.secure_boot.readiness'' MAny NoParams (Typed ''ReadinessReport''),
     Method ''system.secure_boot.enrollment.status'' MAny NoParams (Typed ''EnrollmentStatusResponse''),
     Method ''system.secure_boot.enrollment.begin'' MAdmin NoParams (Typed ''EnrollmentState''),
     Method ''system.secure_boot.enrollment.rebuild'' MAdmin NoParams Inline,
     Method ''system.secure_boot.enrollment.complete'' MAdmin NoParams (Typed ''EnrollmentState''),
     Method ''system.secure_boot.enrollment.abort'' MAdmin (AdHoc [] [''reason'']) (Typed ''EnrollmentState'')]"

definition registry_system_ssh :: "rpc_method list" where
  "registry_system_ssh =
    [Method ''system.ssh.status'' MAny NoParams Inline,
     Method ''system.ssh.add_key'' MAdmin (AdHoc [''key''] []) NoResult,
     Method ''system.ssh.remove_key'' MAdmin (AdHoc [''key''] []) NoResult,
     Method ''system.ssh.set_password_auth'' MAdmin (AdHoc [] [''enabled'']) NoResult]"

definition registry_system_tailscale :: "rpc_method list" where
  "registry_system_tailscale =
    [Method ''system.tailscale.get'' MAny NoParams (Typed ''TailscaleStatus''),
     Method ''system.tailscale.connect'' MAdmin (Schema ''TailscaleConnectRequest'') (Typed ''TailscaleStatus''),
     Method ''system.tailscale.disconnect'' MAdmin NoParams (Typed ''TailscaleStatus'')]"

definition registry_system_tuning :: "rpc_method list" where
  "registry_system_tuning =
    [Method ''system.tuning.get'' MAny NoParams (Typed ''TuningConfig''),
     Method ''system.tuning.update'' MAdmin (Schema ''TuningUpdate'') (Typed ''TuningConfig'')]"

definition registry_system_firewall :: "rpc_method list" where
  "registry_system_firewall =
    [Method ''system.firewall.status'' MAny NoParams (Typed ''FirewallStatus''),
     Method ''system.firewall.restrict'' MAdmin (AdHoc [''service''] [''sources'', ''interfaces'']) NoResult,
     Method ''system.firewall.custom.add'' MAdmin (Schema ''nasty_system::firewall::CustomRuleInput,'') NoResult,
     Method ''system.firewall.custom.update'' MAdmin (AdHoc [''id'', ''label'', ''transport'', ''from'', ''to'', ''enabled''] [''source'', ''iface'']) NoResult,
     Method ''system.firewall.custom.remove'' MAdmin (AdHoc [''id''] []) NoResult]"

definition registry_system_update_channel :: "rpc_method list" where
  "registry_system_update_channel =
    [Method ''system.update.channel.get'' MAny NoParams (Typed ''ReleaseChannel''),
     Method ''system.update.channel.set'' MAdmin (AdHoc [''channel''] []) (Typed ''ReleaseChannel'')]"

definition registry_network_continued :: "rpc_method list" where
  "registry_network_continued =
    [Method ''system.network.pending'' MAdmin NoParams (Typed ''Vec<NetworkPendingTxn>''),
     Method ''system.network.confirm'' MAdmin (Schema ''ConfirmRequest'') NoResult,
     Method ''system.network.nm_preview'' MAdmin NoParams (Typed ''NmDiff''),
     Method ''system.network.nm_apply'' MAdmin NoParams (Typed ''NmApplyOutcome'')]"

definition registry_protocols_services_continued :: "rpc_method list" where
  "registry_protocols_services_continued =
    [Method ''service.base_names.get'' MAny NoParams Inline,
     Method ''service.base_names.update'' MAdmin (AdHoc [] [''iqn_prefix'', ''nqn_prefix'']) NoResult,
     Method ''service.rest_server.config'' MAny NoParams Inline,
     Method ''service.rest_server.configure'' MAdmin (AdHoc [''path''] []) NoResult,
     Method ''service.rest_server.credentials'' MAdmin NoParams (Typed ''nasty_system::rest_server::RestServerCredentials''),
     Method ''service.rest_server.rotate_credentials'' MAdmin (AdHoc [] [''username'']) (Typed ''nasty_system::rest_server::RestServerCredentials'')]"

definition registry_telemetry :: "rpc_method list" where
  "registry_telemetry =
    [Method ''telemetry.send'' MAdmin NoParams Inline]"

definition registry_notifications :: "rpc_method list" where
  "registry_notifications =
    [Method ''notifications.config.get'' MAny NoParams (Typed ''NotificationConfig''),
     Method ''notifications.config.update'' MAdmin (Schema ''NotificationConfig'') NoResult,
     Method ''notifications.test'' MAdmin (Schema ''ChannelType'') Inline,
     Method ''notifications.test_saved'' MAdmin (InlineSchema [''id''] []) Inline]"

definition registry_firmware :: "rpc_method list" where
  "registry_firmware =
    [Method ''firmware.available'' MAny NoParams Inline,
     Method ''firmware.devices'' MAny NoParams (Typed ''Vec<FirmwareDevice>''),
     Method ''firmware.check'' MAny NoParams (Typed ''Vec<FirmwareDevice>''),
     Method ''firmware.constraints'' MAny NoParams (Typed ''FirmwareConstraints''),
     Method ''firmware.update'' MOperator (AdHoc [''device_id''] []) (Typed ''FirmwareUpdateResult'')]"

definition registry_filesystem_encryption :: "rpc_method list" where
  "registry_filesystem_encryption =
    [Method ''fs.lock'' MAdmin (AdHoc [''name''] []) (Typed ''Filesystem''),
     Method ''fs.unlock'' MAdmin (AdHoc [''name'', ''passphrase''] []) (Typed ''Filesystem''),
     Method ''fs.key.export'' MAdmin (AdHoc [''name''] []) Inline,
     Method ''fs.key.delete'' MAdmin (AdHoc [''name''] []) NoResult]"

definition registry_filesystem_reconcile :: "rpc_method list" where
  "registry_filesystem_reconcile =
    [Method ''fs.reconcile.enable'' MAdmin (AdHoc [''name''] []) NoResult,
     Method ''fs.reconcile.disable'' MAdmin (AdHoc [''name''] []) NoResult,
     Method ''fs.copygc.enable'' MAdmin (AdHoc [''name''] []) NoResult,
     Method ''fs.copygc.disable'' MAdmin (AdHoc [''name''] []) NoResult,
     Method ''fs.device.evacuate.cancel'' MAdmin (Schema ''DeviceActionRequest'') NoResult]"

definition registry_filesystem_dependents :: "rpc_method list" where
  "registry_filesystem_dependents =
    [Method ''fs.dependents'' MAny (AdHoc [''name''] []) (Typed ''FsDependents''),
     Method ''fs.locked_dependents'' MAny NoParams (Typed ''Vec<FsDependents>'')]"

definition registry_bcachefs_tools :: "rpc_method list" where
  "registry_bcachefs_tools =
    [Method ''bcachefs.top'' MAny (AdHoc [''name''] []) Inline,
     Method ''bcachefs.timestats'' MAny (AdHoc [''name''] []) Inline]"

definition registry_subvolumes_continued :: "rpc_method list" where
  "registry_subvolumes_continued =
    [Method ''subvolume.children'' MAny (AdHoc [''filesystem'', ''name''] []) Inline,
     Method ''subvolume.clone'' MOperator (Schema ''CloneSubvolumeRequest'') (Typed ''Subvolume''),
     Method ''subvolume.update'' MOperator (Schema ''UpdateSubvolumeRequest'') (Typed ''Subvolume''),
     Method ''subvolume.list_dependents'' MAny NoParams (Typed ''Vec<SubvolumeDependents>'')]"

definition registry_smb_users :: "rpc_method list" where
  "registry_smb_users =
    [Method ''smb.user.list'' MAny NoParams (Typed ''Vec<SmbUser>''),
     Method ''smb.user.create'' MOperator (Schema ''CreateSmbUserRequest'') (Typed ''SmbUser''),
     Method ''smb.user.delete'' MOperator (AdHoc [''username''] []) NoResult,
     Method ''smb.user.set_password'' MOperator (AdHoc [''username'', ''password''] []) NoResult]"

definition registry_smb_groups :: "rpc_method list" where
  "registry_smb_groups =
    [Method ''smb.group.list'' MAny NoParams (Typed ''Vec<SmbGroup>''),
     Method ''smb.group.create'' MOperator (AdHoc [''name''] []) (Typed ''SmbGroup''),
     Method ''smb.group.delete'' MOperator (AdHoc [''name''] []) NoResult,
     Method ''smb.group.add_member'' MOperator (AdHoc [''group'', ''user''] []) NoResult,
     Method ''smb.group.remove_member'' MOperator (AdHoc [''group'', ''user''] []) NoResult]"

definition registry_active_directory :: "rpc_method list" where
  "registry_active_directory =
    [Method ''domain.status'' MAny NoParams (Typed ''DomainStatus''),
     Method ''domain.join'' MAdmin (Schema ''JoinDomainRequest'') (Typed ''DomainStatus''),
     Method ''domain.leave'' MAdmin (Schema ''LeaveDomainRequest'') NoResult,
     Method ''domain.user.list'' MAdmin (AdHoc [''prefix''] []) (Typed ''Vec<DomainPrincipal>''),
     Method ''domain.group.list'' MAdmin (AdHoc [''prefix''] []) (Typed ''Vec<DomainPrincipal>'')]"

definition registry_active_directory_domain_controller :: "rpc_method list" where
  "registry_active_directory_domain_controller =
    [Method ''dc.status'' MAny NoParams (Typed ''DcStatus''),
     Method ''dc.provision'' MAdmin (Schema ''ProvisionRequest'') Inline,
     Method ''dc.demote'' MAdmin (Schema ''DemoteRequest'') NoResult,
     Method ''dc.backup'' MAdmin (AdHoc [''dest''] []) Inline,
     Method ''dc.user.list'' MAdmin NoParams (Typed ''Vec<DcPrincipal>''),
     Method ''dc.user.create'' MAdmin (AdHoc [''name'', ''password''] [''given_name'', ''surname'']) NoResult,
     Method ''dc.user.delete'' MAdmin (AdHoc [''name''] []) NoResult,
     Method ''dc.user.set_password'' MAdmin (AdHoc [''name'', ''password''] []) NoResult,
     Method ''dc.user.enable'' MAdmin (AdHoc [''name''] []) NoResult,
     Method ''dc.user.disable'' MAdmin (AdHoc [''name''] []) NoResult,
     Method ''dc.group.list'' MAdmin NoParams (Typed ''Vec<DcPrincipal>''),
     Method ''dc.group.create'' MAdmin (AdHoc [''name''] []) NoResult,
     Method ''dc.group.delete'' MAdmin (AdHoc [''name''] []) NoResult,
     Method ''dc.group.add_member'' MAdmin (AdHoc [''group'', ''member''] []) NoResult,
     Method ''dc.group.remove_member'' MAdmin (AdHoc [''group'', ''member''] []) NoResult,
     Method ''dc.computer.list'' MAdmin NoParams (Typed ''Vec<DcPrincipal>'')]"

definition registry_backup :: "rpc_method list" where
  "registry_backup =
    [Method ''backup.status'' MAny NoParams (Typed ''BackupStatus''),
     Method ''backup.profile.list'' MAny NoParams (Typed ''Vec<BackupProfile>''),
     Method ''backup.schedule.list'' MAny NoParams (Typed ''Vec<BackupScheduleEntry>''),
     Method ''backup.profile.get'' MAny (AdHoc [''id''] []) (Typed ''BackupProfile''),
     Method ''backup.profile.create'' MOperator (Schema ''BackupProfile'') (Typed ''BackupProfile''),
     Method ''backup.profile.update'' MOperator (Schema ''BackupProfile'') (Typed ''BackupProfile''),
     Method ''backup.profile.delete'' MOperator (AdHoc [''id''] []) NoResult,
     Method ''backup.run'' MOperator (AdHoc [''id''] []) (Typed ''nasty_backup::jobs::BackupJob''),
     Method ''backup.snapshots'' MAny (AdHoc [''id''] []) (Typed ''Vec<BackupSnapshot>''),
     Method ''backup.restore'' MOperator (AdHoc [''id'', ''snapshot_id'', ''dest''] [''allow_overwrite'']) (Typed ''nasty_backup::jobs::BackupJob''),
     Method ''backup.repo.init'' MOperator (AdHoc [''id''] []) (Typed ''nasty_backup::jobs::BackupJob''),
     Method ''backup.repo.check'' MOperator (AdHoc [''id''] []) (Typed ''nasty_backup::jobs::BackupJob''),
     Method ''backup.jobs.list'' MAny (AdHoc [] [''profile_id'']) (Typed ''Vec<nasty_backup::jobs::BackupJob>''),
     Method ''backup.jobs.get'' MAny (AdHoc [''id''] []) (Typed ''nasty_backup::jobs::BackupJob''),
     Method ''backup.secrets_status'' MAny NoParams (Typed ''nasty_common::secrets::SecretsStatus'')]"

definition registry_vms :: "rpc_method list" where
  "registry_vms =
    [Method ''vm.capabilities'' MAny NoParams (Typed ''VmCapabilities''),
     Method ''vm.list'' MAny NoParams (Typed ''Vec<VmStatus>''),
     Method ''vm.get'' MAny (AdHoc [''id''] []) (Typed ''VmStatus''),
     Method ''vm.create'' MOperator (Schema ''CreateVmRequest'') (Typed ''VmConfig''),
     Method ''vm.update'' MOperator (Schema ''UpdateVmRequest'') (Typed ''VmConfig''),
     Method ''vm.delete'' MOperator (AdHoc [''id''] []) NoResult,
     Method ''vm.start'' MOperator (AdHoc [''id''] []) (Typed ''VmStatus''),
     Method ''vm.stop'' MOperator (AdHoc [''id''] []) NoResult,
     Method ''vm.kill'' MOperator (AdHoc [''id''] []) NoResult,
     Method ''vm.snapshot'' MOperator (Schema ''SnapshotVmRequest'') (Typed ''Vec<VmDiskSubvolume>''),
     Method ''vm.clone'' MOperator (Schema ''CloneVmRequest'') (Typed ''VmConfig'')]"

definition registry_vm_disk_images :: "rpc_method list" where
  "registry_vm_disk_images =
    [Method ''vm.images.list'' MAny NoParams Inline,
     Method ''vm.images.ensure'' MOperator (AdHoc [''filesystem''] []) Inline,
     Method ''vm.images.import_info'' MAny (AdHoc [''filesystem'', ''name''] []) Inline]"

definition registry_apps :: "rpc_method list" where
  "registry_apps =
    [Method ''apps.status'' MAny NoParams (Typed ''AppsStatus''),
     Method ''apps.list'' MAny NoParams (Typed ''Vec<App>''),
     Method ''apps.get'' MAny (AdHoc [''name''] []) (Typed ''App''),
     Method ''apps.config'' MAny (AdHoc [''name''] []) (Typed ''AppConfig''),
     Method ''apps.stats'' MAny NoParams (Typed ''Vec<AppStats>''),
     Method ''apps.logs'' MAny (AdHoc [''name''] [''tail'']) Inline,
     Method ''apps.container.logs'' MAny (AdHoc [''container_id''] [''tail'']) Inline,
     Method ''apps.inspect'' MAny (AdHoc [''name''] []) Inline,
     Method ''apps.inspect_image'' MAny (AdHoc [''image''] []) (Typed ''ImageInspectResult''),
     Method ''apps.caddy.routes'' MAny NoParams (Typed ''Vec<CaddyRouteSummary>''),
     Method ''apps.check_ports'' MAny (Schema ''CheckPortsRequest'') (Typed ''Vec<PortConflict>''),
     Method ''apps.check_devices'' MAny (Schema ''CheckDevicesRequest'') (Typed ''Vec<DeviceMissing>''),
     Method ''apps.check_volumes'' MAny (Schema ''CheckVolumesRequest'') (Typed ''Vec<VolumeMismatch>''),
     Method ''apps.check_compose'' MAny (Schema ''CheckComposeRequest'') (Typed ''CheckComposeResult''),
     Method ''apps.appdata.status'' MAny NoParams (Typed ''Option<AppdataRelocateStatus>''),
     Method ''apps.appdata.relocate'' MAdmin (AdHoc [''filesystem''] []) NoResult,
     Method ''apps.enable'' MAdmin (Schema ''EnableAppsRequest'') NoResult,
     Method ''apps.disable'' MAdmin NoParams NoResult,
     Method ''apps.install'' MOperator (Schema ''InstallAppRequest'') (Typed ''App''),
     Method ''apps.update'' MOperator (Schema ''InstallAppRequest'') (Typed ''App''),
     Method ''apps.remove'' MOperator (AdHoc [''name''] []) NoResult,
     Method ''apps.start'' MOperator (AdHoc [''name''] []) NoResult,
     Method ''apps.stop'' MOperator (AdHoc [''name''] []) NoResult,
     Method ''apps.restart'' MOperator (AdHoc [''name''] []) NoResult,
     Method ''apps.pull'' MOperator (AdHoc [''name''] []) (Typed ''App''),
     Method ''apps.prune'' MOperator NoParams (Typed ''PruneResult''),
     Method ''apps.exec_command'' MAdmin (AdHoc [''name''] []) Inline,
     Method ''apps.fix_volume_perms'' MAdmin (Schema ''FixVolumePermsRequest'') Inline,
     Method ''apps.compose.get'' MAny (AdHoc [''name''] []) Inline,
     Method ''apps.compose.logs'' MAny (AdHoc [''name''] [''tail'']) Inline,
     Method ''apps.compose.install'' MAdmin (Schema ''InstallComposeRequest'') (Typed ''App''),
     Method ''apps.compose.update'' MAdmin (Schema ''InstallComposeRequest'') (Typed ''App''),
     Method ''apps.compose.remove'' MAdmin (AdHoc [''name''] []) NoResult,
     Method ''apps.compose.set_startup'' MAdmin (Schema ''SetComposeStartupRequest'') NoResult,
     Method ''apps.compose.startup.list'' MAny NoParams (Typed ''Vec<ComposeStartupEntry>''),
     Method ''apps.ingress.list'' MAny NoParams (Typed ''Vec<AppIngress>''),
     Method ''apps.ingress.set'' MOperator (Schema ''SetIngressRequest'') (Typed ''AppIngress''),
     Method ''apps.ingress.remove'' MOperator (AdHoc [''name''] []) NoResult,
     Method ''apps.ingress.check_conflict'' MAny (AdHoc [''name'', ''subdomain''] []) Inline,
     Method ''apps.networks.list'' MAny NoParams (Typed ''Vec<NetworkSummary>''),
     Method ''apps.networks.create'' MOperator (Schema ''ManagedNetwork'') NoResult,
     Method ''apps.networks.remove'' MOperator (AdHoc [''name''] []) NoResult]"

definition registry :: "(string \<times> rpc_method list) list" where
  "registry =
    [(''Authentication'', registry_authentication),
     (''System'', registry_system),
     (''System Update'', registry_system_update),
     (''Settings'', registry_settings),
     (''Network'', registry_network),
     (''Protocols & Services'', registry_protocols_services),
     (''Alert Rules'', registry_alert_rules),
     (''Block Devices'', registry_block_devices),
     (''Filesystems'', registry_filesystems),
     (''Filesystem Devices'', registry_filesystem_devices),
     (''Subvolumes'', registry_subvolumes),
     (''Snapshots'', registry_snapshots),
     (''NFS Shares'', registry_nfs_shares),
     (''SMB Shares'', registry_smb_shares),
     (''iSCSI Targets'', registry_iscsi_targets),
     (''NVMe-oF Subsystems'', registry_nvme_of_subsystems),
     (''Guest Shares'', registry_guest_shares),
     (''OIDC'', registry_oidc),
     (''WebAuthn'', registry_webauthn),
     (''Audit'', registry_audit),
     (''System (continued)'', registry_system_continued),
     (''System Generations'', registry_system_generations),
     (''System Hardware'', registry_system_hardware),
     (''System Logs'', registry_system_logs),
     (''System Metrics'', registry_system_metrics),
     (''System ACME'', registry_system_acme),
     (''System TLS'', registry_system_tls),
     (''System NUT (UPS)'', registry_system_nut_ups),
     (''System Watchdog'', registry_system_watchdog),
     (''System RDMA'', registry_system_rdma),
     (''System Passthrough'', registry_system_passthrough),
     (''System Guest Tools'', registry_system_guest_tools),
     (''System Secure Boot'', registry_system_secure_boot),
     (''System SSH'', registry_system_ssh),
     (''System Tailscale'', registry_system_tailscale),
     (''System Tuning'', registry_system_tuning),
     (''System Firewall'', registry_system_firewall),
     (''System Update Channel'', registry_system_update_channel),
     (''Network (continued)'', registry_network_continued),
     (''Protocols & Services (continued)'', registry_protocols_services_continued),
     (''Telemetry'', registry_telemetry),
     (''Notifications'', registry_notifications),
     (''Firmware'', registry_firmware),
     (''Filesystem Encryption'', registry_filesystem_encryption),
     (''Filesystem Reconcile'', registry_filesystem_reconcile),
     (''Filesystem Dependents'', registry_filesystem_dependents),
     (''bcachefs Tools'', registry_bcachefs_tools),
     (''Subvolumes (continued)'', registry_subvolumes_continued),
     (''SMB Users'', registry_smb_users),
     (''SMB Groups'', registry_smb_groups),
     (''Active Directory'', registry_active_directory),
     (''Active Directory: Domain Controller'', registry_active_directory_domain_controller),
     (''Backup'', registry_backup),
     (''VMs'', registry_vms),
     (''VM Disk Images'', registry_vm_disk_images),
     (''Apps'', registry_apps)]"

definition registered :: "rpc_method list" where
  "registered = concat (map snd registry)"

section \<open>URLs and verbs\<close>

datatype http_verb = Get | Post | Put | Delete

fun verb_str :: "http_verb \<Rightarrow> string" where
  "verb_str Get = ''get''"
| "verb_str Post = ''post''"
| "verb_str Put = ''put''"
| "verb_str Delete = ''delete''"

definition action_verbs :: "(string \<times> http_verb) list" where
  "action_verbs =
    [(''get'', Get), (''list'', Get), (''status'', Get), (''check'', Get), (''find'', Get), (''delete'', Delete),
     (''destroy'', Delete), (''forget'', Delete), (''remove'', Delete), (''set'', Put), (''update'', Put)]"

definition read_nouns :: "string list" where
  "read_nouns =
    [''info'', ''health'', ''stats'', ''version'', ''alerts'', ''disks'', ''usage'', ''timezones'', ''notice'',
     ''me'', ''config'', ''available'', ''routes'', ''logs'', ''summary'', ''iommu'', ''level'', ''history'',
     ''prometheus'', ''pending'', ''devices'', ''capabilities'', ''constraints'', ''readiness'', ''snapshots'',
     ''dependents'', ''children'', ''top'', ''timestats'', ''required'']"

text \<open>\<open>str::replace\<close> of one character by another.\<close>

definition replace_char :: "char \<Rightarrow> char \<Rightarrow> string \<Rightarrow> string" where
  "replace_char a b s = map (\<lambda>c. if c = a then b else c) s"

definition infer_verb :: "string \<Rightarrow> http_verb" where
  "infer_verb method =
     (let words = split_on CHR ''_'' (last (split_on CHR ''.'' method))
      in case map_of action_verbs (hd words) of
           Some v \<Rightarrow> v
         | None \<Rightarrow> if last words \<in> set read_nouns then Get else Post)"

definition api_prefix :: string where
  "api_prefix = ''/api/v1/''"

definition translate :: "string \<Rightarrow> http_verb \<times> string" where
  "translate method = (infer_verb method, api_prefix @ replace_char CHR ''.'' CHR ''/'' method)"

definition method_from_segments :: "string \<Rightarrow> string" where
  "method_from_segments segments = replace_char CHR ''/'' CHR ''.'' segments"

end
