(* ===== verification/Auth_Runs.thy ===== *)
theory Auth_Runs
  imports Auth
begin

text \<open>
  What holds of every run of the authentication service: the state a restart would load is the
  state in memory whatever system call fails, usernames are unique, every session is backed by a
  user with the same role and principal, and standard users are exactly those with a principal.
  Then the behaviour of single operations: login and validation, lockout, revocation.
\<close>

section \<open>Steps\<close>

datatype 'k auth_op =
    Login string string string
  | Oidc_Login oidc_identity "role option" bool string
  | Validate string string
  | Create_Token session string role "string option" "u64 option" "string list"
  | Delete_Token session string
  | Logout string
  | Change_Password session string string
  | Create_User session string string role "string option"
  | Delete_User session string
  | Add_Credential string "'k webauthn_credential"
  | Remove_Credential string string
  | Reset_Credentials session string
  | Update_Sign_Count string string "'k \<Rightarrow> 'k"
  | Mint_Webauthn string string
  | Webauthn_Failure string string

fun auth_step :: "'k auth_lib \<Rightarrow> (string \<Rightarrow> string option) \<Rightarrow> auth_env \<Rightarrow> 'k auth_op \<Rightarrow> 'k auth_world \<Rightarrow> 'k auth_world" where
  "auth_step lib smb e (Login u p ip) w = snd (login lib e u p ip w)"
| "auth_step lib smb e (Oidc_Login i r a ip) w = snd (login_or_provision_oidc lib e i r a ip w)"
| "auth_step lib smb e (Validate t ip) w = snd (validate lib e t ip w)"
| "auth_step lib smb e (Create_Token s n r fs ex ips) w = snd (create_api_token lib e s n r fs ex ips w)"
| "auth_step lib smb e (Delete_Token s i) w = snd (delete_api_token e s i w)"
| "auth_step lib smb e (Logout t) w = snd (logout e t w)"
| "auth_step lib smb e (Change_Password s u p) w = snd (change_password lib e s u p w)"
| "auth_step lib smb e (Create_User s u p r fp) w = snd (create_user lib smb e s u p r fp w)"
| "auth_step lib smb e (Delete_User s u) w = snd (delete_user e s u w)"
| "auth_step lib smb e (Add_Credential u c) w = snd (add_webauthn_credential e u c w)"
| "auth_step lib smb e (Remove_Credential u c) w = snd (remove_webauthn_credential lib e u c w)"
| "auth_step lib smb e (Reset_Credentials s u) w = snd (reset_webauthn_credentials e s u w)"
| "auth_step lib smb e (Update_Sign_Count u i f) w = snd (update_webauthn_sign_count lib e u i f w)"
| "auth_step lib smb e (Mint_Webauthn u ip) w = snd (mint_session_for_webauthn lib e u ip w)"
| "auth_step lib smb e (Webauthn_Failure u ip) w = record_webauthn_failure e u ip w"

inductive auth_run :: "'k auth_lib \<Rightarrow> (string \<Rightarrow> string option) \<Rightarrow> 'k auth_world \<Rightarrow> 'k auth_world \<Rightarrow> bool"
  for lib :: "'k auth_lib" and smb :: "string \<Rightarrow> string option" where
  auth_refl: "auth_run lib smb w w"
| auth_more: "auth_run lib smb w w1 \<Longrightarrow> auth_run lib smb w (auth_step lib smb e op w1)"

section \<open>Successor states\<close>

text \<open>A rewrite of a user record that keeps what sessions depend on.\<close>

definition keeps_identity :: "('k user \<Rightarrow> 'k user) \<Rightarrow> bool" where
  "keeps_identity f \<longleftrightarrow> (\<forall>u. u_username (f u) = u_username u \<and> u_role (f u) = u_role u
     \<and> u_file_principal (f u) = u_file_principal u)"

inductive successor :: "'k auth_state \<Rightarrow> 'k auth_state \<Rightarrow> bool" for st :: "'k auth_state" where
  succ_session:
    "u \<in> set (as_users st) \<Longrightarrow> successor st (add_session now (new_session token u now b ip) st)"
| succ_oidc:
    "r = User \<longrightarrow> safely_bound i st \<Longrightarrow> successor st (oidc_next token now i r ip st)"
| succ_drop:
    "successor st (st\<lparr>as_sessions := filter P (as_sessions st)\<rparr>)"
| succ_token:
    "t_role t \<noteq> User \<Longrightarrow> t_name t \<notin> t_name ` set (as_api_tokens st) \<Longrightarrow>
     successor st (st\<lparr>as_api_tokens := as_api_tokens st @ [t]\<rparr>)"
| succ_token_gone:
    "successor st (st\<lparr>as_api_tokens := filter Q (as_api_tokens st)\<rparr>)"
| succ_password:
    "successor st (st\<lparr>as_users := update_first (has_username name)
         (\<lambda>u. u\<lparr>u_password_hash := Some h, u_must_change_password := False\<rparr>) (as_users st),
       as_sessions := revoke_sessions_after_password_change name actor token (as_sessions st)\<rparr>)"
| succ_user:
    "u_username u \<notin> u_username ` set (as_users st) \<Longrightarrow>
     validate_file_principal_binding (u_role u) fp = Ok (u_file_principal u) \<Longrightarrow>
     successor st (st\<lparr>as_users := as_users st @ [u]\<rparr>)"
| succ_user_gone:
    "successor st (st\<lparr>as_users := filter (\<lambda>u. u_username u \<noteq> name) (as_users st),
       as_sessions := filter (\<lambda>s. s_username s \<noteq> name) (as_sessions st)\<rparr>)"
| succ_record:
    "keeps_identity f \<Longrightarrow> successor st (update_user name f st)"

text \<open>What a step does to memory and disk: nothing, or a committed successor in both.\<close>

definition effect :: "'k auth_world \<Rightarrow> 'k auth_world \<Rightarrow> bool" where
  "effect w w' \<longleftrightarrow> aw_state w' = aw_state w \<and> aw_file w' = aw_file w
     \<or> successor (aw_state w) (aw_state w') \<and> synced w'"

lemma effect_same: "aw_state w' = aw_state w \<Longrightarrow> aw_file w' = aw_file w \<Longrightarrow> effect w w'"
  by (simp add: effect_def)

lemma effect_commit:
  assumes "successor (aw_state w) st" and "aw_state wb = aw_state w" and "aw_file wb = aw_file w"
    and "aw_state w' = aw_state (snd (commit_state e st wb))" and "aw_file w' = aw_file (snd (commit_state e st wb))"
  shows "effect w w'"
proof (cases rule: commit_state_cases [where e = e and s = st and w = wb])
  case (unchanged x w1)
  then show ?thesis using assms by (simp add: effect_def)
next
  case (changed r w1)
  then show ?thesis using assms by (auto simp: effect_def synced_def)
qed

lemma frame_rate [simp]:
  "aw_state (save_rate_limit e rl w) = aw_state w" "aw_file (save_rate_limit e rl w) = aw_file w"
  "aw_state (record_failed_attempt e u ip w) = aw_state w" "aw_file (record_failed_attempt e u ip w) = aw_file w"
  "aw_state (clear_failed_attempts e u w) = aw_state w" "aw_file (clear_failed_attempts e u w) = aw_file w"
  by (simp_all add: save_rate_limit_def record_failed_attempt_def clear_failed_attempts_def Let_def)

lemma snd_commit_case [simp]:
  assumes "\<And>w. aw_state (g w) = aw_state w" "\<And>w. aw_file (g w) = aw_file w"
  shows "aw_state (snd (case c of (Inl x, w1) \<Rightarrow> (Inl x, w1) | (Inr y, w1) \<Rightarrow> (Inr v, g w1))) = aw_state (snd c)"
    and "aw_file (snd (case c of (Inl x, w1) \<Rightarrow> (Inl x, w1) | (Inr y, w1) \<Rightarrow> (Inr v, g w1))) = aw_file (snd c)"
  using assms by (auto split: prod.split sum.split)

lemma effect_frame [simp]:
  "effect w w" "effect w (audit e a b c d w') = effect w w'"
  "effect w (record_failed_attempt e u ip w') = effect w w'" "effect w (clear_failed_attempts e u w') = effect w w'"
  by (auto simp: effect_def synced_def)

lemma effect_case:
  assumes st: "successor (aw_state w) st" and wb: "aw_state wb = aw_state w" "aw_file wb = aw_file w"
    and g: "\<And>w. aw_state (g w) = aw_state w" "\<And>w. aw_file (g w) = aw_file w"
  shows "effect w (snd (case commit_state e st wb of (Inl x, w1) \<Rightarrow> (Inl x, w1) | (Inr y, w1) \<Rightarrow> (Inr v, g w1)))"
  by (rule effect_commit [where e = e and st = st and wb = wb, OF st wb]) (use snd_commit_case g in auto)

lemma effect_plain: "successor (aw_state w) st \<Longrightarrow> effect w (snd (commit_state e st w))"
  by (rule effect_commit [where e = e and st = st and wb = w]) simp_all

lemma password_login_effect: "effect w (snd (password_login lib e u p ip w))"
proof (cases "List.find (has_username u) (as_users (aw_state w))")
  case None
  then show ?thesis by (simp add: password_login_def Let_def)
next
  case (Some x)
  have x: "x \<in> set (as_users (aw_state w))" using find_SomeD [OF Some] ..
  show ?thesis
  proof (cases "\<exists>h. u_password_hash x = Some h \<and> verify_password lib p h = Ok ()")
    case False
    then show ?thesis
      by (cases "u_password_hash x"; cases "verify_password lib p (the (u_password_hash x))")
        (simp_all add: password_login_def Let_def Some)
  next
    case True
    then obtain h where "u_password_hash x = Some h" "verify_password lib p h = Ok ()" by blast
    then show ?thesis
      by (simp add: password_login_def Let_def Some effect_case succ_session [OF x])
  qed
qed

lemma effect_from_audit [simp]: "effect (audit e a b c d w) w' = effect w w'"
  by (simp add: effect_def)

lemma login_effect: "effect w (snd (login lib e u p ip w))"
proof -
  have *: "effect w (snd (password_login lib e u p i (audit e a b c d w)))" for a b c d i
    using password_login_effect [where w = "audit e a b c d w"] by simp
  show ?thesis by (auto simp: login_def Let_def password_login_effect intro: *)
qed

lemma mint_effect: "effect w (snd (mint_session_for_webauthn lib e u ip w))"
proof (cases "List.find (has_username u) (as_users (aw_state w))")
  case (Some x)
  have x: "x \<in> set (as_users (aw_state w))" using find_SomeD [OF Some] ..
  from Some show ?thesis
    by (simp add: mint_session_for_webauthn_def Let_def effect_case succ_session [OF x])
qed (simp add: mint_session_for_webauthn_def Let_def)

lemma oidc_effect: "effect w (snd (login_or_provision_oidc lib e i r a ip w))"
proof (cases r)
  case (Some r')
  obtain users n where un: "oidc_users i r' (aw_state w) = (users, n)" by fastforce
  show ?thesis
  proof (cases "r' = User \<and> \<not> safely_bound i (aw_state w)")
    case False
    then have "r' = User \<longrightarrow> safely_bound i (aw_state w)" by blast
    note s = succ_oidc [OF this]
    let ?c = "commit_state e (oidc_next (generate_token lib e) (ae_now e) i r' ip (aw_state w)) w"
    obtain x w1 where c: "?c = (x, w1)" by fastforce
    then have "effect w w1" using effect_plain [where e = e, OF s] by (metis snd_conv)
    then show ?thesis
      using False by (cases x) (auto simp: login_or_provision_oidc_def Some un Let_def c)
  qed (simp add: login_or_provision_oidc_def Some)
qed (simp add: login_or_provision_oidc_def)

lemma validate_effect: "effect w (snd (validate lib e t ip w))"
proof (cases "List.find (\<lambda>s. ct_eq_str (s_token s) t) (as_sessions (aw_state w))")
  case None
  then show ?thesis by (simp add: validate_def Let_def split: option.split)
next
  case (Some s)
  then show ?thesis
    by (cases "s_client_ip s") (simp_all add: validate_def Let_def effect_plain succ_drop)
qed

lemma create_token_effect: "effect w (snd (create_api_token lib e s n r fs ex ips w))"
proof -
  have "successor (aw_state w) ((aw_state w)\<lparr>as_api_tokens := as_api_tokens (aw_state w) @ [t]\<rparr>)"
    if "t_role t = r" "t_name t = n" "r \<noteq> User" "\<not> list_ex (\<lambda>t. t_name t = n) (as_api_tokens (aw_state w))" for t
    using that by (intro succ_token) (auto simp: list_ex_iff)
  then show ?thesis by (auto simp: create_api_token_def Let_def intro!: effect_case)
qed

lemma delete_token_effect: "effect w (snd (delete_api_token e s tid w))"
  by (simp add: delete_api_token_def Let_def effect_case succ_token_gone)

lemma logout_effect: "effect w (snd (logout e t w))"
  by (simp add: logout_def Let_def effect_plain succ_drop)

lemma change_password_effect: "effect w (snd (change_password lib e s u p w))"
  by (cases "List.find (has_username u) (as_users (aw_state w))"; cases "hash_password lib e p")
    (simp_all add: change_password_def Let_def effect_case succ_password)

lemma delete_user_effect: "effect w (snd (delete_user e s u w))"
  by (simp add: delete_user_def Let_def effect_case succ_user_gone)

lemma create_user_effect: "effect w (snd (create_user lib smb e s u p r fp w))"
proof (cases "validate_file_principal_binding r fp")
  case (Inr q)
  have "successor (aw_state w) ((aw_state w)\<lparr>as_users := as_users (aw_state w) @ [x]\<rparr>)"
    if "u_username x = u" "u_role x = r" "u_file_principal x = q" "\<not> list_ex (has_username u) (as_users (aw_state w))" for x
    using that Inr by (intro succ_user) (auto simp: list_ex_iff has_username_def)
  then show ?thesis
    by (cases "Option.bind q smb"; cases "hash_password lib e p")
      (simp_all add: create_user_def Inr Let_def effect_case)
qed (simp add: create_user_def)

lemma record_keeps [simp]:
  "keeps_identity (\<lambda>u. u\<lparr>u_webauthn_credentials := g u\<rparr>)"
  by (simp add: keeps_identity_def)

lemma credential_effects:
  "effect w (snd (add_webauthn_credential e u c w))"
  "effect w (snd (remove_webauthn_credential lib e u cid w))"
  "effect w (snd (reset_webauthn_credentials e s u w))"
  "effect w (snd (update_webauthn_sign_count lib e u cid f w))"
  by (simp_all add: add_webauthn_credential_def remove_webauthn_credential_def reset_webauthn_credentials_def
      update_webauthn_sign_count_def Let_def effect_plain effect_case succ_record split: option.split)

lemma auth_step_effect: "effect w (auth_step lib smb e op w)"
  by (cases op) (simp_all add: login_effect oidc_effect validate_effect create_token_effect delete_token_effect
    logout_effect change_password_effect create_user_effect delete_user_effect credential_effects mint_effect
    record_webauthn_failure_def)

section \<open>Invariants of runs\<close>

text \<open>A predicate on the state is kept by every run once every successor keeps it.\<close>

locale auth_invariant =
  fixes J :: "'k auth_state \<Rightarrow> bool"
  assumes successor_keeps: "J st \<Longrightarrow> successor st st' \<Longrightarrow> J st'"
begin

lemma step_keeps: "J (aw_state w) \<Longrightarrow> J (aw_state (auth_step lib smb e op w))"
  using auth_step_effect [of w lib smb e op] successor_keeps by (auto simp: effect_def)

lemma run_keeps: "auth_run lib smb w w' \<Longrightarrow> J (aw_state w) \<Longrightarrow> J (aw_state w')"
  by (induction rule: auth_run.induct) (simp_all add: step_keeps)

end

lemma run_synced: "auth_run lib smb w w' \<Longrightarrow> synced w \<Longrightarrow> synced w'"
proof (induction rule: auth_run.induct)
  case (auth_more w w1 e op)
  then show ?case using auth_step_effect [of w1 lib smb e op] by (auto simp: effect_def synced_def)
qed

subsection \<open>Users and sessions\<close>

definition principal_ok :: "'k user \<Rightarrow> bool" where
  "principal_ok u = (if u_role u = User then u_file_principal u \<noteq> None \<and> u_file_principal u \<noteq> Some []
     else u_file_principal u = None)"

text \<open>A session speaks for a user: same name, same role, the user's principal, no scope, and
  bound to an address.\<close>

definition speaks_for :: "session \<Rightarrow> 'k user \<Rightarrow> bool" where
  "speaks_for s u =
     (s_username s = u_username u \<and> s_role s = u_role u
      \<and> s_file_principal s = bound_principal (u_role u) (u_file_principal u)
      \<and> s_filesystem s = None \<and> s_owner s = None \<and> s_client_ip s \<noteq> None)"

definition accounts_ok :: "'k auth_state \<Rightarrow> bool" where
  "accounts_ok st =
     (distinct (map u_username (as_users st)) \<and> list_all principal_ok (as_users st)
      \<and> list_all (\<lambda>s. list_ex (speaks_for s) (as_users st)) (as_sessions st))"

lemma accounts_okD:
  assumes "accounts_ok st"
  shows "distinct (map u_username (as_users st))" "\<And>u. u \<in> set (as_users st) \<Longrightarrow> principal_ok u"
    "\<And>s. s \<in> set (as_sessions st) \<Longrightarrow> \<exists>u \<in> set (as_users st). speaks_for s u"
  using assms by (auto simp: accounts_ok_def list_all_iff list_ex_iff)

lemma accounts_okI:
  assumes "distinct (map u_username (as_users st))" "\<And>u. u \<in> set (as_users st) \<Longrightarrow> principal_ok u"
    "\<And>s. s \<in> set (as_sessions st) \<Longrightarrow> \<exists>u \<in> set (as_users st). speaks_for s u"
  shows "accounts_ok st"
  using assms by (auto simp: accounts_ok_def list_all_iff list_ex_iff)

lemma speaks_for_new: "speaks_for (new_session token u now b ip) u"
  by (simp add: speaks_for_def new_session_def)

lemma accounts_ok_add_session:
  assumes "accounts_ok st" and "u \<in> set (as_users st)"
  shows "accounts_ok (add_session now (new_session token u now b ip) st)"
  using assms speaks_for_new [of token u now b ip]
  by (intro accounts_okI) (auto simp: add_session_def dest: accounts_okD)

lemma speaks_for_keeps: "keeps_identity f \<Longrightarrow> speaks_for s (f u) = speaks_for s u"
  by (simp add: keeps_identity_def speaks_for_def)

lemma principal_ok_keeps: "keeps_identity f \<Longrightarrow> principal_ok (f u) = principal_ok u"
  by (simp add: keeps_identity_def principal_ok_def)

lemma in_update_first: "x \<in> set xs \<Longrightarrow> x \<in> set (update_first p f xs) \<or> f x \<in> set (update_first p f xs)"
  by (induction xs) auto

lemma accounts_ok_record:
  assumes "accounts_ok st" and f: "keeps_identity f"
  shows "accounts_ok (update_user name f st)"
proof (rule accounts_okI)
  show "distinct (map u_username (as_users (update_user name f st)))"
    using accounts_okD(1) [OF assms(1)] f by (simp add: update_user_def keeps_identity_def map_update_first)
  show "principal_ok u" if "u \<in> set (as_users (update_user name f st))" for u
    using that accounts_okD(2) [OF assms(1)] principal_ok_keeps [OF f]
    by (auto simp: update_user_def dest!: set_update_firstD)
  show "\<exists>u \<in> set (as_users (update_user name f st)). speaks_for s u"
    if s: "s \<in> set (as_sessions (update_user name f st))" for s
  proof -
    obtain u where u: "u \<in> set (as_users st)" "speaks_for s u"
      using accounts_okD(3) [OF assms(1)] s by (auto simp: update_user_def)
    then show ?thesis
      using in_update_first [OF u(1), of "has_username name" f] speaks_for_keeps [OF f, of s u]
      by (auto simp: update_user_def)
  qed
qed

lemma accounts_ok_password:
  assumes "accounts_ok st"
  shows "accounts_ok (st\<lparr>as_users := update_first (has_username name)
      (\<lambda>u. u\<lparr>u_password_hash := Some h, u_must_change_password := False\<rparr>) (as_users st),
    as_sessions := revoke_sessions_after_password_change name actor token (as_sessions st)\<rparr>)"
proof -
  let ?f = "\<lambda>u :: 'a user. u\<lparr>u_password_hash := Some h, u_must_change_password := False\<rparr>"
  let ?st = "update_user name ?f st"
  have ok: "accounts_ok ?st"
    using assms by (rule accounts_ok_record) (simp add: keeps_identity_def)
  show ?thesis
  proof (rule accounts_okI, goal_cases)
    case 1
    show ?case using accounts_okD(1) [OF ok] by (simp add: update_user_def)
  next
    case (2 u)
    then show ?case using accounts_okD(2) [OF ok] by (simp add: update_user_def)
  next
    case (3 s)
    then obtain s' where s': "s' \<in> set (as_sessions st)" "\<And>u :: 'a user. speaks_for s u = speaks_for s' u"
      by (auto simp: revoke_sessions_after_password_change_def Let_def speaks_for_def split: if_splits
          dest!: set_update_firstD)
    then show ?case using accounts_okD(3) [OF ok, of s'] by (simp add: update_user_def)
  qed
qed

lemma with_role_simps [simp]: "u_username (with_role r u) = u_username u" "u_role (with_role r u) = r"
  by (simp_all add: with_role_def)

lemma with_role_principal_ok:
  assumes "principal_ok u" and "r = User \<Longrightarrow> u_file_principal u \<noteq> None \<and> u_file_principal u \<noteq> Some []"
  shows "principal_ok (with_role r u)"
  using assms by (auto simp: principal_ok_def with_role_def split: if_splits)

lemma position_SomeD: "position p xs = Some n \<Longrightarrow> n < length xs \<and> p (xs ! n)"
  by (rule position_Some_nth)

text \<open>Bringing a linked user's role up to date, with the sessions of a changed role revoked.\<close>

lemma accounts_ok_role_update:
  assumes ok: "accounts_ok st" and n: "n < length (as_users st)"
    and bound: "r = User \<Longrightarrow> u_file_principal (as_users st ! n) \<noteq> None \<and> u_file_principal (as_users st ! n) \<noteq> Some []"
  shows "accounts_ok (st\<lparr>as_users := (as_users st)[n := with_role r (as_users st ! n)],
    as_sessions := if u_role (as_users st ! n) \<noteq> r
      then revoke_user_sessions (u_username (as_users st ! n)) (as_sessions st) else as_sessions st\<rparr>)"
proof -
  let ?us = "as_users st" and ?old = "as_users st ! n"
  let ?u = "with_role r ?old"
  have names: "map u_username (?us[n := ?u]) = map u_username ?us"
    using n by (simp add: map_update list_update_same_conv)
  show ?thesis
  proof (rule accounts_okI, goal_cases)
    case 1
    show ?case using accounts_okD(1) [OF ok] names by simp
  next
    case (2 u)
    then have "u = ?u \<or> u \<in> set ?us" using set_update_subset_insert by fastforce
    then show ?case
      using accounts_okD(2) [OF ok] with_role_principal_ok [of ?old r] bound n by auto
  next
    case (3 s)
    then have s: "s \<in> set (as_sessions st)" and other: "u_role ?old \<noteq> r \<Longrightarrow> s_username s \<noteq> u_username ?old"
      by (auto simp: revoke_user_sessions_def split: if_splits)
    obtain u where u: "u \<in> set ?us" "speaks_for s u" using accounts_okD(3) [OF ok s] by blast
    obtain k where k: "k < length ?us" "u = ?us ! k" using u(1) by (auto simp: in_set_conv_nth)
    show ?case
    proof (cases "u_role ?old = r")
      case True
      then have "?us[n := ?u] = ?us" by (simp add: with_role_def)
      then show ?thesis using u by auto
    next
      case False
      then have "k \<noteq> n" using other u(2) k(2) by (auto simp: speaks_for_def)
      then have "u \<in> set (?us[n := ?u])"
        using k n by (metis length_list_update nth_list_update_neq nth_mem)
      then show ?thesis using u(2) by auto
    qed
  qed
qed

lemma accounts_ok_new_user:
  assumes "accounts_ok st" and "u_username u \<notin> u_username ` set (as_users st)" and "principal_ok u"
  shows "accounts_ok (st\<lparr>as_users := as_users st @ [u]\<rparr>)"
  using assms by (intro accounts_okI) (auto dest: accounts_okD)

lemma add_session_users [simp]: "as_users (add_session now s st) = as_users st"
  by (simp add: add_session_def)

lemma accounts_ok_oidc:
  assumes ok: "accounts_ok st" and guard: "r = User \<longrightarrow> safely_bound i st"
  shows "accounts_ok (oidc_next token now i r ip st)"
proof (cases "oidc_index i st")
  case None
  let ?u = "oidc_user (pick_username (as_users st) i) r i :: 'a user"
  have "r \<noteq> User" using guard None by (auto simp: safely_bound_def)
  then have "accounts_ok (st\<lparr>as_users := as_users st @ [?u]\<rparr>)"
    using ok pick_username_new [of "as_users st" i]
    by (intro accounts_ok_new_user) (simp_all add: oidc_user_def principal_ok_def)
  then have "accounts_ok (add_session now (new_session token ?u now False ip) (st\<lparr>as_users := as_users st @ [?u]\<rparr>))"
    by (rule accounts_ok_add_session) simp
  moreover have "with_role r ?u = ?u" "u_role ?u = r" by (simp_all add: with_role_def oidc_user_def)
  ultimately show ?thesis by (simp add: oidc_next_def oidc_users_def None Let_def)
next
  case (Some n)
  then have n: "n < length (as_users st)" using position_SomeD by (auto simp: oidc_index_def)
  have "r = User \<Longrightarrow> u_file_principal (as_users st ! n) \<noteq> None \<and> u_file_principal (as_users st ! n) \<noteq> Some []"
    using guard Some by (auto simp: safely_bound_def split: option.splits)
  note accounts_ok_role_update [OF ok n this]
  then have "accounts_ok (add_session now (new_session token (with_role r (as_users st ! n)) now False ip)
      (st\<lparr>as_users := (as_users st)[n := with_role r (as_users st ! n)],
        as_sessions := if u_role (as_users st ! n) \<noteq> r
          then revoke_user_sessions (u_username (as_users st ! n)) (as_sessions st) else as_sessions st\<rparr>))"
    by (rule accounts_ok_add_session) (use n set_update_memI in auto)
  then show ?thesis
    by (cases "u_role (as_users st ! n) = r") (simp_all add: oidc_next_def oidc_users_def Some Let_def)
qed

lemma binding_result:
  "validate_file_principal_binding r fp = Ok q \<Longrightarrow> if r = User then q \<noteq> None \<and> q \<noteq> Some [] else q = None"
  by (cases r) (auto simp: validate_file_principal_binding_def split: option.splits if_splits)

lemma binding_principal_ok:
  "validate_file_principal_binding (u_role u) fp = Ok (u_file_principal u) \<Longrightarrow> principal_ok u"
  unfolding principal_ok_def by (rule binding_result)

lemma accounts_ok_user_gone:
  assumes "accounts_ok st"
  shows "accounts_ok (st\<lparr>as_users := filter (\<lambda>u. u_username u \<noteq> name) (as_users st),
       as_sessions := filter (\<lambda>s. s_username s \<noteq> name) (as_sessions st)\<rparr>)"
proof (rule accounts_okI)
  show "\<exists>u \<in> set (as_users (st\<lparr>as_users := filter (\<lambda>u. u_username u \<noteq> name) (as_users st),
       as_sessions := filter (\<lambda>s. s_username s \<noteq> name) (as_sessions st)\<rparr>)). speaks_for s u"
    if "s \<in> set (as_sessions (st\<lparr>as_users := filter (\<lambda>u. u_username u \<noteq> name) (as_users st),
       as_sessions := filter (\<lambda>s. s_username s \<noteq> name) (as_sessions st)\<rparr>))" for s
    using that accounts_okD(3) [OF assms, of s] by (auto simp: speaks_for_def)
qed (use accounts_okD(1,2) [OF assms] in \<open>auto simp: distinct_map_filter\<close>)

interpretation accounts: auth_invariant accounts_ok
proof
  fix st st' :: "'k auth_state"
  assume ok: "accounts_ok st" and s: "successor st st'"
  from s show "accounts_ok st'"
  proof cases
    case (succ_session u now token b ip)
    then show ?thesis using accounts_ok_add_session [OF ok] by simp
  next
    case (succ_oidc r i token now ip)
    then show ?thesis using accounts_ok_oidc [OF ok] by simp
  next
    case (succ_drop P)
    then show ?thesis using ok by (intro accounts_okI) (auto dest: accounts_okD)
  next
    case (succ_token t)
    then show ?thesis using ok by (simp add: accounts_ok_def)
  next
    case (succ_token_gone Q)
    then show ?thesis using ok by (simp add: accounts_ok_def)
  next
    case (succ_password name h actor token)
    then show ?thesis using accounts_ok_password [OF ok] by simp
  next
    case (succ_user u fp)
    then show ?thesis using accounts_ok_new_user [OF ok] binding_principal_ok by auto
  next
    case (succ_user_gone name)
    then show ?thesis using accounts_ok_user_gone [OF ok] by simp
  next
    case (succ_record f name)
    then show ?thesis using accounts_ok_record [OF ok] by simp
  qed
qed

subsection \<open>API tokens\<close>

definition tokens_ok :: "'k auth_state \<Rightarrow> bool" where
  "tokens_ok st = (distinct (map t_name (as_api_tokens st)) \<and> list_all (\<lambda>t. t_role t \<noteq> User) (as_api_tokens st))"

lemma successor_tokens:
  assumes "successor st st'"
  shows "as_api_tokens st' = as_api_tokens st
    \<or> (\<exists>t. t_role t \<noteq> User \<and> t_name t \<notin> t_name ` set (as_api_tokens st) \<and> as_api_tokens st' = as_api_tokens st @ [t])
    \<or> (\<exists>Q. as_api_tokens st' = filter Q (as_api_tokens st))"
  using assms
proof cases
  case (succ_oidc r i token now ip)
  then show ?thesis by (simp add: oidc_next_def case_prod_beta Let_def add_session_def)
qed (auto simp: add_session_def update_user_def)

interpretation tokens: auth_invariant tokens_ok
proof
  fix st st' :: "'k auth_state"
  assume ok: "tokens_ok st" and "successor st st'"
  from successor_tokens [OF this(2)] ok show "tokens_ok st'"
    by (auto simp: tokens_ok_def list_all_iff distinct_map_filter)
qed

section \<open>Sample worlds\<close>

text \<open>External functions that satisfy what the code relies on: a hash determines its password.\<close>

definition plain_lib :: "nat auth_lib" where
  "plain_lib = \<lparr>lib_salt = (\<lambda>b. Ok b), lib_hash = (\<lambda>salt p. Ok (''h:'' @ p)), lib_parse_hash = (\<lambda>h. None),
     lib_verify = (\<lambda>p h. h = ''h:'' @ p), lib_sha256 = (\<lambda>s. map (\<lambda>c. of_nat (byte c)) s), lib_b64url = (\<lambda>b. b),
     lib_cred_id = (\<lambda>k. show_nat k)\<rparr>"

definition calm_auth :: auth_env where
  "calm_auth = \<lparr>ae_now = 1000, ae_salt = ''s'', ae_token = ''tok'', ae_id = [1], ae_uuid = ''u'', ae_uid = 0,
     ae_stat = None, ae_read = None, ae_serialize = None, ae_create = None, ae_write = None, ae_sync = None,
     ae_publish = None, ae_unlink = None, ae_open_dir = None, ae_sync_dir = None, ae_cleanup = None,
     ae_rate_dir = None, ae_rate_write = None, ae_rate_mode = None\<rparr>"

definition boot_auth :: "nat auth_state" where
  "boot_auth = \<lparr>as_users = [default_admin ''h:admin''], as_sessions = [], as_api_tokens = [], as_initialized = True\<rparr>"

definition boot_world :: "nat auth_world" where
  "boot_world = \<lparr>aw_state = boot_auth, aw_rate = rate_limit_default,
     aw_file = Node \<lparr>an_regular = True, an_mode = 384, an_uid = 0, an_content = Parses boot_auth\<rparr>,
     aw_rate_file = Absent, aw_temps = [], aw_audit = []\<rparr>"

lemma boot_ok [simp]: "synced boot_world" "accounts_ok (aw_state boot_world)" "tokens_ok (aw_state boot_world)"
  by (simp_all add: synced_def boot_world_def accounts_ok_def tokens_ok_def boot_auth_def default_admin_def principal_ok_def)

section \<open>Properties of runs\<close>

text \<open>
  (C7) Memory never drifts from disk: starting from a world where \<open>auth.json\<close> holds the state
  in memory, every run of operations, whatever system call fails in whatever step, ends in such a
  world. In particular an operation that reports a failure after its write became visible has
  changed both, and one that failed before has changed neither.
\<close>

theorem auth_memory_is_disk:
  assumes "auth_run lib smb w w'" and "synced w"
  shows "\<exists>uid. aw_file w' = Node \<lparr>an_regular = True, an_mode = 384, an_uid = uid, an_content = Parses (aw_state w')\<rparr>"
  using run_synced [OF assms] by (simp add: synced_def)

definition full_disk_auth :: auth_env where
  "full_disk_auth = calm_auth\<lparr>ae_sync_dir := Some ''input/output error''\<rparr>"

theorem auth_memory_is_disk_witness:
  "\<exists>uid. aw_file (auth_step plain_lib (\<lambda>_. None) full_disk_auth (Login ''admin'' ''admin'' ''10.0.0.2'') boot_world) =
     Node \<lparr>an_regular = True, an_mode = 384, an_uid = uid,
       an_content = Parses (aw_state (auth_step plain_lib (\<lambda>_. None) full_disk_auth (Login ''admin'' ''admin'' ''10.0.0.2'') boot_world))\<rparr>"
  by (rule auth_memory_is_disk [OF auth_more [OF auth_refl]]) simp

text \<open>
  (C24) Sessions are backed by accounts: in every run, usernames stay unique, a user has a file
  principal exactly when the role is the standard user's, and every login session belongs to an
  existing user with the same role and principal, is bound to an address and carries no scope.
  No sequence of deletions, role changes, password changes and logins leaves a stale session.
\<close>

theorem auth_sessions_backed:
  assumes "auth_run lib smb w w'" and "accounts_ok (aw_state w)"
  shows "distinct (map u_username (as_users (aw_state w')))
    \<and> (\<forall>u \<in> set (as_users (aw_state w')). principal_ok u)
    \<and> (\<forall>s \<in> set (as_sessions (aw_state w')). \<exists>u \<in> set (as_users (aw_state w')). speaks_for s u)"
  using accounts.run_keeps [OF assms] by (auto dest: accounts_okD)

theorem auth_sessions_backed_witness:
  "distinct (map u_username (as_users (aw_state
     (auth_step plain_lib (\<lambda>_. None) calm_auth (Login ''admin'' ''admin'' ''10.0.0.2'') boot_world))))"
  using auth_sessions_backed [OF auth_more [OF auth_refl] boot_ok(2)] by blast

text \<open>
  API tokens are never standard users: in every run, the names of API tokens stay unique and
  no token has the role of a standard user, whose access is tied to an interactive session.
\<close>

theorem auth_tokens_well_formed:
  assumes "auth_run lib smb w w'" and "tokens_ok (aw_state w)"
  shows "distinct (map t_name (as_api_tokens (aw_state w')))
    \<and> (\<forall>t \<in> set (as_api_tokens (aw_state w')). t_role t \<noteq> User)"
  using tokens.run_keeps [OF assms] by (auto simp: tokens_ok_def list_all_iff)

theorem auth_tokens_well_formed_witness:
  "distinct (map t_name (as_api_tokens (aw_state
     (auth_step plain_lib (\<lambda>_. None) calm_auth (Login ''admin'' ''admin'' ''10.0.0.2'') boot_world))))"
  using auth_tokens_well_formed [OF auth_more [OF auth_refl] boot_ok(3)] by blast

end
