(* ===== verification/Auth_Behaviour.thy ===== *)
theory Auth_Behaviour
  imports Auth_Runs
begin

text \<open>
  Properties of the operations of authentication one by one: what a login needs and what its token
  is worth, when an account or an address is locked and how the failures are counted, what a
  password change and a deletion revoke, how the engine starts, and which name an OIDC identity
  gets.
\<close>

section \<open>Locking\<close>

definition locked :: "u64 \<Rightarrow> string \<Rightarrow> string \<Rightarrow> 'k auth_world \<Rightarrow> bool" where
  "locked now username client_ip w \<longleftrightarrow>
     client_ip \<noteq> unknown_ip \<and> ip_failures (aw_rate w) client_ip now \<ge> MAX_IP_FAILED_ATTEMPTS
     \<or> user_failures (aw_rate w) username now \<ge> MAX_FAILED_ATTEMPTS \<and> \<not> is_only_admin (as_users (aw_state w)) username"

lemma commit_not_locked: "fst (commit_state e s w) \<noteq> Err AccountLocked"
proof -
  have "sync_parent e \<noteq> Some AccountLocked"
    by (auto simp: sync_parent_def split: option.split)
  then have *: "fst (persist_state e s True w) \<noteq> Some (AccountLocked, b)" for b
    by (auto simp: persist_state_def Let_def split: option.split)
  show ?thesis
    using * [of True] * [of False]
    by (auto simp: commit_state_def finish_state_commit_def split: prod.split option.split)
qed

lemma fst_commit_case:
  "fst (case c of (Inl x, w1) \<Rightarrow> (Inl x, w1) | (Inr y, w1) \<Rightarrow> (Inr v, g w1)) =
   (case fst c of Inl x \<Rightarrow> Inl x | Inr y \<Rightarrow> Inr v)"
  by (simp add: case_prod_beta split: sum.split)

lemma verify_not_locked: "verify_password lib p h \<noteq> Err AccountLocked"
  by (simp add: verify_password_def split: option.split)

lemma password_login_not_locked: "fst (password_login lib e u p ip w) \<noteq> Err AccountLocked"
proof (cases "List.find (has_username u) (as_users (aw_state w))")
  case (Some x)
  show ?thesis
  proof (cases "u_password_hash x")
    case h: (Some h)
    show ?thesis
      using verify_not_locked [of lib p h] commit_not_locked
      by (cases "verify_password lib p h")
        (auto simp: password_login_def Let_def Some h fst_commit_case split: sum.split)
  qed (simp add: password_login_def Let_def Some)
qed (simp add: password_login_def Let_def)

text \<open>A login that is not locked goes on to the password in the same state.\<close>

lemma login_unlocked:
  assumes "\<not> locked (ae_now e) u ip w"
  obtains w1 where "aw_state w1 = aw_state w" "aw_file w1 = aw_file w"
    "login lib e u p ip w = password_login lib e u p ip w1"
proof -
  let ?w1 = "if user_failures (aw_rate w) u (ae_now e) \<ge> MAX_FAILED_ATTEMPTS
     then audit e ''login_lockout_suppressed_only_admin'' u ip (attempts_detail (user_failures (aw_rate w) u (ae_now e))) w
     else w"
  have "login lib e u p ip w = password_login lib e u p ip ?w1"
    using assms by (auto simp: login_def locked_def Let_def)
  then show ?thesis using that [of ?w1] by simp
qed

lemma login_locked: "locked (ae_now e) u ip w \<Longrightarrow> fst (login lib e u p ip w) = Err AccountLocked"
  by (auto simp: login_def locked_def Let_def)

text \<open>
  (C20) Lockout is exact: a login is refused as locked if and only if the address (when it is
  known) has at least twenty failures inside its hour, or the username has at least five inside
  its quarter of an hour and is not the only administrator's. No password, right or wrong, and no
  failure of the disk changes that, and nothing else is reported as locked.
\<close>

theorem login_locked_iff:
  "fst (login lib e u p ip w) = Err AccountLocked \<longleftrightarrow>
     ip \<noteq> unknown_ip \<and> ip_failures (aw_rate w) ip (ae_now e) \<ge> 20
     \<or> user_failures (aw_rate w) u (ae_now e) \<ge> 5 \<and> \<not> is_only_admin (as_users (aw_state w)) u"
proof (cases "locked (ae_now e) u ip w")
  case True
  then show ?thesis
    using login_locked [OF True] by (simp add: locked_def MAX_IP_FAILED_ATTEMPTS_def MAX_FAILED_ATTEMPTS_def)
next
  case False
  obtain w1 where "login lib e u p ip w = password_login lib e u p ip w1"
    using login_unlocked [OF False, of lib p] by blast
  then have "fst (login lib e u p ip w) \<noteq> Err AccountLocked"
    by (simp add: password_login_not_locked)
  then show ?thesis
    using False by (simp add: locked_def MAX_IP_FAILED_ATTEMPTS_def MAX_FAILED_ATTEMPTS_def)
qed

section \<open>Counting failures\<close>

lemma within_earlier: "t \<le> now \<Longrightarrow> within W now x \<Longrightarrow> within W t x"
  by (simp add: within_def word_less_nat_alt word_le_nat_alt unat_saturating_sub)

lemma filter_within_earlier:
  "t \<le> now \<Longrightarrow> filter (within W now) (filter (within W t) xs) = filter (within W now) xs"
  using within_earlier by (induction xs) auto

text \<open>A window that is pruned at every push loses nothing a later question counts.\<close>

lemma push_recent_counts:
  assumes "t \<le> now"
  shows "filter (within W now) (get_or [] k (push_recent W t k' m)) =
    filter (within W now) (get_or [] k m @ (if k' = k then [t] else []))"
  using filter_within_earlier [OF assms] by (simp add: push_recent_def flip: filter_append)

abbreviation note_all :: "(string \<times> string \<times> u64) list \<Rightarrow> rate_limit \<Rightarrow> rate_limit" where
  "note_all \<equiv> fold (\<lambda>(u, ip, t). note_failure u ip t)"

lemma note_failure_counts:
  assumes "t \<le> now"
  shows "user_failures (note_failure u' ip t rl) u now =
      user_failures rl u now + (if u' = u \<and> within LOCKOUT_WINDOW_SECS now t then 1 else 0)"
    and "ip_failures (note_failure u' ip' t rl) ip now =
      ip_failures rl ip now + (if ip' = ip \<and> ip' \<noteq> unknown_ip \<and> within IP_LOCKOUT_WINDOW_SECS now t then 1 else 0)"
  by (simp_all add: user_failures_def ip_failures_def note_failure_def push_recent_counts [OF assms])

lemma note_all_counts:
  assumes "list_all (\<lambda>(u, ip, t). t \<le> now) attempts"
  shows "user_failures (note_all attempts rl) u now = user_failures rl u now
      + length (filter (\<lambda>(u', ip, t). u' = u \<and> within LOCKOUT_WINDOW_SECS now t) attempts)"
    and "ip_failures (note_all attempts rl) ip now = ip_failures rl ip now
      + length (filter (\<lambda>(u, ip', t). ip' = ip \<and> ip' \<noteq> unknown_ip \<and> within IP_LOCKOUT_WINDOW_SECS now t) attempts)"
  using assms by (induction attempts arbitrary: rl) (auto simp: note_failure_counts split: if_splits)

lemma no_failures [simp]: "user_failures rate_limit_default u now = 0" "ip_failures rate_limit_default ip now = 0"
  by (simp_all add: user_failures_def ip_failures_def rate_limit_default_def)

lemma within_nat: "t \<le> now \<Longrightarrow> within W now t \<longleftrightarrow> unat now - unat t < unat W"
  by (simp add: within_def word_less_nat_alt unat_saturating_sub)

text \<open>
  (C31) Failures are counted exactly: after any sequence of failed attempts, none of them later
  than now, the number of failures of a user is the number of attempts under that name in the
  last 900 seconds, and the number of a known address the attempts from it in the last 3600,
  although the windows are pruned at every attempt; attempts from an unknown address lock no
  address.
\<close>

theorem failures_counted_exactly:
  assumes "list_all (\<lambda>(u, ip, t). t \<le> now) attempts"
  shows "user_failures (note_all attempts rate_limit_default) u now =
      length (filter (\<lambda>(u', ip, t). u' = u \<and> unat now - unat t < 900) attempts)
    \<and> ip_failures (note_all attempts rate_limit_default) ip now =
      (if ip = unknown_ip then 0 else length (filter (\<lambda>(u, ip', t). ip' = ip \<and> unat now - unat t < 3600) attempts))"
proof
  have w: "within LOCKOUT_WINDOW_SECS now t \<longleftrightarrow> unat now - unat t < 900"
      "within IP_LOCKOUT_WINDOW_SECS now t \<longleftrightarrow> unat now - unat t < 3600"
    if "(u, ip, t) \<in> set attempts" for u ip t
    using assms that by (auto simp: list_all_iff within_nat LOCKOUT_WINDOW_SECS_def IP_LOCKOUT_WINDOW_SECS_def)
  show "user_failures (note_all attempts rate_limit_default) u now =
      length (filter (\<lambda>(u', ip, t). u' = u \<and> unat now - unat t < 900) attempts)"
    using w by (auto simp: note_all_counts [OF assms] intro!: arg_cong [where f = length] filter_cong)
  show "ip_failures (note_all attempts rate_limit_default) ip now =
      (if ip = unknown_ip then 0 else length (filter (\<lambda>(u, ip', t). ip' = ip \<and> unat now - unat t < 3600) attempts))"
    using w by (auto simp: note_all_counts [OF assms] filter_empty_conv intro!: arg_cong [where f = length] filter_cong)
qed

theorem failures_counted_exactly_witness:
  "user_failures (note_all [(''bob'', ''10.0.0.2'', 5), (''eve'', ''10.0.0.2'', 7), (''bob'', unknown_ip, 901)] rate_limit_default) ''bob'' 905 = 1
   \<and> ip_failures (note_all [(''bob'', ''10.0.0.2'', 5), (''eve'', ''10.0.0.2'', 7), (''bob'', unknown_ip, 901)] rate_limit_default) ''10.0.0.2'' 905 = 2"
  using failures_counted_exactly [of 905 "[(''bob'', ''10.0.0.2'', 5), (''eve'', ''10.0.0.2'', 7), (''bob'', unknown_ip, 901)]" "''bob''" "''10.0.0.2''"]
  by (simp add: unknown_ip_def del: fold_simps)

section \<open>Login and validation\<close>

lemma commit_case_ok:
  assumes "(case commit_state e s w of (Inl x, w1) \<Rightarrow> (Inl x, w1) | (Inr y, w1) \<Rightarrow> (Inr v, g w1)) = (Ok r, w')"
  obtains w1 where "commit_state e s w = (Ok (), w1)" "r = v" "w' = g w1" "aw_state w1 = s" "synced w1"
  using assms by (auto split: prod.splits sum.splits dest: commit_state_ok)

lemma clear_state [simp]: "aw_state (clear_failed_attempts e u w) = aw_state w"
  by (rule frame_rate)

lemma password_login_ok:
  assumes "password_login lib e u p ip w = (Ok t, w')"
  obtains x h where "List.find (has_username u) (as_users (aw_state w)) = Some x" "u_password_hash x = Some h"
    "verify_password lib p h = Ok ()" "t = generate_token lib e"
    "aw_state w' = add_session (ae_now e) (new_session t x (ae_now e) (u_must_change_password x) ip) (aw_state w)"
proof (cases "List.find (has_username u) (as_users (aw_state w))")
  case None
  then show ?thesis using assms by (simp add: password_login_def Let_def)
next
  case (Some x)
  show ?thesis
  proof (cases "u_password_hash x")
    case None
    then show ?thesis using assms Some by (simp add: password_login_def Let_def)
  next
    case h: (Some h)
    show ?thesis
    proof (cases "verify_password lib p h")
      case (Inl y)
      then show ?thesis using assms Some h by (simp add: password_login_def Let_def)
    next
      case (Inr y)
      then show ?thesis
        using assms Some h that [OF Some h]
        by (auto simp: password_login_def Let_def elim!: commit_case_ok)
    qed
  qed
qed

lemma login_ok:
  assumes "login lib e u p ip w = (Ok t, w')"
  obtains x h where "List.find (has_username u) (as_users (aw_state w)) = Some x" "u_password_hash x = Some h"
    "verify_password lib p h = Ok ()" "t = generate_token lib e" "\<not> locked (ae_now e) u ip w"
    "aw_state w' = add_session (ae_now e) (new_session t x (ae_now e) (u_must_change_password x) ip) (aw_state w)"
proof -
  have n: "\<not> locked (ae_now e) u ip w" using assms login_locked [of e u ip w lib p] by auto
  obtain w1 where "aw_state w1 = aw_state w" "login lib e u p ip w = password_login lib e u p ip w1"
    using login_unlocked [OF n] by blast
  then show ?thesis using assms n password_login_ok [of lib e u p ip w1 t w'] that by metis
qed

text \<open>What the last session of the list is worth when no other has its token.\<close>

lemma find_last:
  "\<forall>y \<in> set xs. \<not> p y \<Longrightarrow> p x \<Longrightarrow> List.find p (xs @ [x]) = Some x"
  by (induction xs) auto

lemma validate_session:
  assumes "List.find (\<lambda>s. s_token s = t) (as_sessions (aw_state w)) = Some s" and "s_client_ip s = Some ip"
  shows "fst (validate lib e t ip' w) =
    (if \<not> session_fresh (ae_now e) s then Err TokenExpired else if ip' = ip then Ok s else Err InvalidToken)"
  using assms by (simp add: validate_def Let_def)

text \<open>
  (C32) A login and what it is worth: a login that succeeds was not locked, names a user whose
  stored hash accepts the password, and returns a token that validates from then on to a session
  with the user's name, role and principal for exactly eight hours and from exactly the address
  that logged in; later it is expired and from elsewhere it is invalid. The token is assumed
  unused, as 32 random bytes are.
\<close>

theorem login_then_validate:
  assumes "login lib e u p ip w = (Ok t, w')" and "t \<notin> s_token ` set (as_sessions (aw_state w))"
  shows "\<exists>x h. x \<in> set (as_users (aw_state w)) \<and> u_username x = u \<and> u_password_hash x = Some h
    \<and> verify_password lib p h = Ok ()
    \<and> (\<forall>e' ip'. fst (validate lib e' t ip' w') =
         (if ae_now e' - ae_now e > 28800 then Err TokenExpired
          else if ip' = ip then
            Ok \<lparr>s_token = t, s_username = u, s_role = u_role x,
                s_file_principal = (if u_role x = User then u_file_principal x else None),
                s_filesystem = None, s_owner = None, s_created_at = ae_now e,
                s_must_change_password = u_must_change_password x, s_client_ip = Some ip\<rparr>
          else Err InvalidToken))"
proof -
  obtain x h where x: "List.find (has_username u) (as_users (aw_state w)) = Some x" "u_password_hash x = Some h"
      "verify_password lib p h = Ok ()" "t = generate_token lib e"
      and w': "aw_state w' = add_session (ae_now e) (new_session t x (ae_now e) (u_must_change_password x) ip) (aw_state w)"
    using login_ok [OF assms(1)] .
  let ?s = "new_session t x (ae_now e) (u_must_change_password x) ip"
  have u: "x \<in> set (as_users (aw_state w))" "u_username x = u"
    using find_SomeD [OF x(1)] by (simp_all add: has_username_def)
  have "List.find (\<lambda>s. s_token s = t) (as_sessions (aw_state w')) = Some ?s"
    unfolding w' add_session_def by simp (rule find_last, use assms(2) in \<open>auto simp: new_session_def\<close>)
  moreover have "s_client_ip ?s = Some ip" by (simp add: new_session_def)
  ultimately have "fst (validate lib e' t ip' w') =
      (if \<not> session_fresh (ae_now e') ?s then Err TokenExpired else if ip' = ip then Ok ?s else Err InvalidToken)" for e' ip'
    by (rule validate_session)
  then show ?thesis
    using u x(2,3) by (auto simp: new_session_def session_fresh_def SESSION_TTL_SECS_def bound_principal_def not_le)
qed

theorem login_then_validate_witness:
  "fst (login plain_lib calm_auth ''admin'' ''admin'' ''10.0.0.2'' boot_world) = Ok ''tok''
   \<and> (\<exists>s. fst (validate plain_lib calm_auth ''tok'' ''10.0.0.2''
        (snd (login plain_lib calm_auth ''admin'' ''admin'' ''10.0.0.2'' boot_world))) = Ok s \<and> s_role s = u_role (default_admin []))"
proof -
  have l: "fst (login plain_lib calm_auth ''admin'' ''admin'' ''10.0.0.2'' boot_world) = Ok ''tok''" by code_simp
  then have "login plain_lib calm_auth ''admin'' ''admin'' ''10.0.0.2'' boot_world =
      (Ok ''tok'', snd (login plain_lib calm_auth ''admin'' ''admin'' ''10.0.0.2'' boot_world))"
    by (metis prod.collapse)
  from login_then_validate [OF this] have "\<exists>x \<in> set (as_users boot_auth). fst (validate plain_lib calm_auth ''tok'' ''10.0.0.2''
      (snd (login plain_lib calm_auth ''admin'' ''admin'' ''10.0.0.2'' boot_world))) =
      Ok \<lparr>s_token = ''tok'', s_username = ''admin'', s_role = u_role x,
        s_file_principal = (if u_role x = User then u_file_principal x else None),
        s_filesystem = None, s_owner = None, s_created_at = 1000,
        s_must_change_password = u_must_change_password x, s_client_ip = Some ''10.0.0.2''\<rparr>"
    by (auto simp: boot_world_def boot_auth_def calm_auth_def)
  with l show ?thesis by (auto simp: boot_auth_def default_admin_def)
qed

section \<open>Passwords and deletion\<close>

lemma filter_update_first_other:
  "(\<And>x. x \<in> set xs \<Longrightarrow> p x \<Longrightarrow> \<not> q x) \<Longrightarrow> (\<And>x. q (f x) = q x) \<Longrightarrow> filter q (update_first p f xs) = filter q xs"
  by (induction xs) auto

lemma filter_implied: "(\<And>x. q x \<Longrightarrow> p x) \<Longrightarrow> filter q (filter p xs) = filter q xs"
  by (induction xs) auto

lemma kept_sessions_of_others:
  assumes "\<forall>x \<in> set ss. s_token x = s_token s \<longrightarrow> s_username x = s_username s"
  shows "filter (\<lambda>x. s_username x \<noteq> u) (revoke_sessions_after_password_change u (s_username s) (s_token s) ss) =
    filter (\<lambda>x. s_username x \<noteq> u) ss"
proof (cases "u = s_username s")
  case True
  let ?kept = "filter (\<lambda>x. s_username x \<noteq> u \<or> s_token x = s_token s) ss"
  have "filter (\<lambda>x. s_username x \<noteq> u) (update_first (\<lambda>x. s_token x = s_token s) (\<lambda>x. x\<lparr>s_must_change_password := False\<rparr>) ?kept) =
      filter (\<lambda>x. s_username x \<noteq> u) ?kept"
    by (rule filter_update_first_other) (use assms True in auto)
  also have "\<dots> = filter (\<lambda>x. s_username x \<noteq> u) ss" by (rule filter_implied) simp
  finally show ?thesis using True by (simp add: revoke_sessions_after_password_change_def Let_def)
next
  case False
  then show ?thesis by (simp add: revoke_sessions_after_password_change_def filter_implied)
qed

lemma kept_sessions_of_user:
  assumes "x \<in> set (revoke_sessions_after_password_change u actor token ss)" and "s_username x = u"
  shows "actor = u \<and> s_token x = token"
  using assms by (auto simp: revoke_sessions_after_password_change_def Let_def split: if_splits dest!: set_update_firstD)

lemma change_password_ok:
  assumes "change_password lib e s u p w = (Ok (), w')"
  obtains h where "s_client_ip s \<noteq> None" "s_role s = Admin \<or> s_username s = u" "8 \<le> length p"
    "hash_password lib e p = Ok h"
    "aw_state w' = (aw_state w)\<lparr>as_users := update_first (has_username u)
        (\<lambda>x. x\<lparr>u_password_hash := Some h, u_must_change_password := False\<rparr>) (as_users (aw_state w)),
      as_sessions := revoke_sessions_after_password_change u (s_username s) (s_token s) (as_sessions (aw_state w))\<rparr>"
    "List.find (has_username u) (as_users (aw_state w)) \<noteq> None"
proof -
  obtain ip where 1: "s_client_ip s = Some ip" using assms by (cases "s_client_ip s") (simp_all add: change_password_def)
  have 2: "s_role s = Admin \<or> s_username s = u"
    by (rule ccontr) (use assms 1 in \<open>simp add: change_password_def\<close>)
  then have g: "(if s_role s \<noteq> Admin \<and> s_username s \<noteq> u then a else b) = b" for a b :: "(auth_error + unit) \<times> 'a auth_world"
    by auto
  have 3: "8 \<le> length p" using assms 1 by (cases "length p < 8") (simp_all add: change_password_def g)
  obtain x where x: "List.find (has_username u) (as_users (aw_state w)) = Some x"
    using assms 1 3 by (cases "List.find (has_username u) (as_users (aw_state w))") (simp_all add: change_password_def g Let_def)
  obtain h where h: "hash_password lib e p = Ok h"
    using assms 1 3 x by (cases "hash_password lib e p") (simp_all add: change_password_def g Let_def)
  have "(case commit_state e ((aw_state w)\<lparr>as_users := update_first (has_username u)
        (\<lambda>x. x\<lparr>u_password_hash := Some h, u_must_change_password := False\<rparr>) (as_users (aw_state w)),
      as_sessions := revoke_sessions_after_password_change u (s_username s) (s_token s) (as_sessions (aw_state w))\<rparr>) w of
      (Inl x, w1) \<Rightarrow> (Inl x, w1)
    | (Inr y, w1) \<Rightarrow> (Inr (), audit e ''password_changed'' (s_username s) (session_ip s) (''target='' @ u) w1)) = (Ok (), w')"
    using assms 1 3 x h by (simp add: change_password_def g Let_def)
  then show ?thesis
    by (rule commit_case_ok) (use that [OF _ 2 3 h] 1 x in simp)
qed

text \<open>
  (C14) A password change logs everyone else out: it succeeds only for an interactive session of
  the user or of an administrator and a password of eight bytes or more; afterwards the only
  session of the user that is left, if any, is the caller's own, and the sessions of all other
  users are as they were.
\<close>

theorem change_password_revokes:
  assumes "change_password lib e s u p w = (Ok (), w')"
    and "\<forall>x \<in> set (as_sessions (aw_state w)). s_token x = s_token s \<longrightarrow> s_username x = s_username s"
  shows "s_client_ip s \<noteq> None \<and> (s_role s = Admin \<or> s_username s = u) \<and> 8 \<le> length p
    \<and> (\<forall>x \<in> set (as_sessions (aw_state w')). s_username x = u \<longrightarrow> s_username s = u \<and> s_token x = s_token s)
    \<and> filter (\<lambda>x. s_username x \<noteq> u) (as_sessions (aw_state w')) = filter (\<lambda>x. s_username x \<noteq> u) (as_sessions (aw_state w))"
proof -
  let ?ss = "as_sessions (aw_state w)"
  have *: "s_client_ip s \<noteq> None \<and> (s_role s = Admin \<or> s_username s = u) \<and> 8 \<le> length p
    \<and> as_sessions (aw_state w') = revoke_sessions_after_password_change u (s_username s) (s_token s) ?ss"
    by (rule change_password_ok [OF assms(1)]) simp
  then have h: "s_client_ip s \<noteq> None" "s_role s = Admin \<or> s_username s = u" "8 \<le> length p"
    and w': "as_sessions (aw_state w') = revoke_sessions_after_password_change u (s_username s) (s_token s) ?ss"
    by blast+
  show ?thesis
    using h kept_sessions_of_others [OF assms(2)] kept_sessions_of_user by (auto simp: w')
qed

definition second_world :: "nat auth_world" where
  "second_world = boot_world\<lparr>aw_state := boot_auth\<lparr>as_sessions :=
     [new_session ''a'' (default_admin [] :: nat user) 1000 True ''10.0.0.2'',
      new_session ''b'' (default_admin [] :: nat user) 1000 True ''10.0.0.3'']\<rparr>\<rparr>"

definition admin_session :: session where
  "admin_session = new_session ''a'' (default_admin [] :: nat user) 1000 True ''10.0.0.2''"

lemma second_sessions:
  "as_sessions (aw_state second_world) =
     [admin_session, new_session ''b'' (default_admin [] :: nat user) 1000 True ''10.0.0.3'']"
  by (simp add: second_world_def admin_session_def)

theorem change_password_revokes_witness:
  "fst (change_password plain_lib calm_auth admin_session ''admin'' ''longer password'' second_world) = Ok ()
   \<and> filter (\<lambda>x. s_username x \<noteq> ''admin'') (as_sessions (aw_state
       (snd (change_password plain_lib calm_auth admin_session ''admin'' ''longer password'' second_world)))) = []"
proof -
  let ?c = "change_password plain_lib calm_auth admin_session ''admin'' ''longer password'' second_world"
  have c: "fst ?c = Ok ()" by code_simp
  then have "?c = (Ok (), snd ?c)" by (metis prod.collapse)
  from change_password_revokes [OF this] have "filter (\<lambda>x. s_username x \<noteq> ''admin'') (as_sessions (aw_state (snd ?c))) = []"
    unfolding second_sessions by (simp add: admin_session_def new_session_def default_admin_def)
  with c show ?thesis ..
qed

text \<open>No call of a commit fails.\<close>

definition disk_works :: "auth_env \<Rightarrow> bool" where
  "disk_works e \<longleftrightarrow> ae_serialize e = None \<and> ae_create e = None \<and> ae_write e = None \<and> ae_sync e = None
     \<and> ae_publish e = None \<and> ae_open_dir e = None \<and> ae_sync_dir e = None"

lemma commit_works: "disk_works e \<Longrightarrow> fst (commit_state e st w) = Ok ()"
  by (simp add: disk_works_def commit_state_def persist_state_def finish_state_commit_def publish_error_def sync_parent_def)

text \<open>
  (C33) A new password takes effect: after a password change the user logs in with the new
  password, given that the hash function accepts what it has hashed, that the user is not locked
  and that the disk works. An expired password is no longer required to be changed.
\<close>

theorem password_change_then_login:
  assumes "change_password lib e s u p w = (Ok (), w')"
    and "\<And>salt q h. lib_hash lib salt q = Ok h \<Longrightarrow> lib_parse_hash lib h = None \<and> lib_verify lib q h"
    and "\<not> locked (ae_now e') u ip w'"
    and "disk_works e'"
  shows "fst (login lib e' u p ip w') = Ok (generate_token lib e')"
proof -
  obtain h where h: "hash_password lib e p = Ok h" "List.find (has_username u) (as_users (aw_state w)) \<noteq> None"
      and w': "aw_state w' = (aw_state w)\<lparr>as_users := update_first (has_username u)
        (\<lambda>x. x\<lparr>u_password_hash := Some h, u_must_change_password := False\<rparr>) (as_users (aw_state w)),
      as_sessions := revoke_sessions_after_password_change u (s_username s) (s_token s) (as_sessions (aw_state w))\<rparr>"
    by (rule change_password_ok [OF assms(1)])
  then obtain x where "List.find (has_username u) (as_users (aw_state w)) = Some x" by blast
  then have x: "List.find (has_username u) (as_users (aw_state w')) = Some (x\<lparr>u_password_hash := Some h, u_must_change_password := False\<rparr>)"
    unfolding w' by simp (subst find_update_first_same, simp_all add: has_username_def)
  have v: "verify_password lib p h = Ok ()"
    using h(1) assms(2) by (auto simp: hash_password_def verify_password_def split: sum.splits)
  obtain w1 where "aw_state w1 = aw_state w'" "login lib e' u p ip w' = password_login lib e' u p ip w1"
    using login_unlocked [OF assms(3)] by blast
  then show ?thesis
    using x v by (simp add: password_login_def Let_def fst_commit_case commit_works [OF assms(4)])
qed

theorem password_change_then_login_witness:
  "fst (login plain_lib calm_auth ''admin'' ''longer password'' ''10.0.0.2''
     (snd (change_password plain_lib calm_auth admin_session ''admin'' ''longer password'' second_world))) = Ok ''tok''"
proof -
  let ?c = "change_password plain_lib calm_auth admin_session ''admin'' ''longer password'' second_world"
  have "fst ?c = Ok ()" by code_simp
  then have c: "?c = (Ok (), snd ?c)" by (metis prod.collapse)
  have "fst (login plain_lib calm_auth ''admin'' ''longer password'' ''10.0.0.2'' (snd ?c)) = Ok (generate_token plain_lib calm_auth)"
  proof (rule password_change_then_login [OF c])
    show "\<not> locked (ae_now calm_auth) ''admin'' ''10.0.0.2'' (snd ?c)" by code_simp
  qed (auto simp: plain_lib_def disk_works_def calm_auth_def)
  then show ?thesis by (simp add: generate_token_def plain_lib_def calm_auth_def)
qed

section \<open>Start-up\<close>

interpretation initialized: auth_invariant as_initialized
proof
  fix st st' :: "'k auth_state"
  assume "as_initialized st" "successor st st'"
  from this(2,1) show "as_initialized st'"
  proof cases
    case (succ_oidc r i token now ip)
    then show ?thesis using \<open>as_initialized st\<close> by (simp add: oidc_next_def case_prod_beta Let_def add_session_def)
  qed (auto simp: add_session_def update_user_def)
qed

lemma persist_create_exists:
  assumes "aw_file w \<noteq> No_File"
  shows "aw_file (snd (persist_state e s False w)) = aw_file w"
  using assms
  by (cases "aw_file w"; cases "ae_serialize e"; cases "ae_create e"; cases "ae_write e"; cases "ae_sync e")
    (simp_all add: persist_state_def publish_error_def Let_def)

lemma load_state_ok:
  assumes "load_state_from e (Some owner) f = Ok (Some s)"
  obtains n where "f = Node n" "an_regular n" "an_mode n mod 64 = 0" "an_uid n = owner" "an_content n = Parses s"
proof (cases f)
  case (Node n)
  have m: "an_mode n mod 512 mod 64 = an_mode n mod 64" by (simp add: mod_mod_cancel)
  show ?thesis
    using assms Node that [OF Node]
    by (auto simp: load_state_from_def Let_def m split: option.splits if_splits json_file.splits)
qed (use assms in \<open>simp_all add: load_state_from_def\<close>)

text \<open>
  (C34) Start-up fails closed: when something is at the path of the authentication state, the
  engine never replaces it; either it refuses to start and changes nothing, or what is there is
  a regular file of root without any permission for group and others, it parses to an
  initialized state, and that is the state the engine starts with.
\<close>

theorem auth_start_fails_closed:
  assumes "aw_file w \<noteq> No_File" and "auth_new lib e rename_fails w = (r, w')"
  shows "aw_file w' = aw_file w
    \<and> (if is_ok r then \<exists>n. aw_file w = Node n \<and> an_regular n \<and> an_mode n mod 64 = 0 \<and> an_uid n = 0
           \<and> an_content n = Parses (aw_state w') \<and> as_initialized (aw_state w')
       else w' = w)"
proof (cases "load_state_from e (Some 0) (aw_file w)")
  case (Inl x)
  then show ?thesis using assms by (auto simp: auth_new_def initialize_state_def)
next
  case (Inr o')
  show ?thesis
  proof (cases o')
    case None
    then have False using Inr assms(1)
      by (auto simp: load_state_from_def Let_def split: auth_file.splits option.splits if_splits json_file.splits)
    then show ?thesis ..
  next
    case (Some s)
    then obtain n where "aw_file w = Node n" "an_regular n" "an_mode n mod 64 = 0" "an_uid n = 0" "an_content n = Parses s"
      using load_state_ok Inr by metis
    then show ?thesis
      using assms(2) Inr Some by (auto simp: auth_new_def initialize_state_def split: if_splits prod.splits)
  qed
qed

theorem auth_start_fails_closed_witness:
  "aw_file (snd (auth_new plain_lib calm_auth False (boot_world\<lparr>aw_file := Symlink\<rparr>))) = Symlink"
  using auth_start_fails_closed [OF _ surjective_pairing, of "boot_world\<lparr>aw_file := Symlink\<rparr>" plain_lib calm_auth False]
  by simp

text \<open>
  (C35) Nothing committed is lost by a restart: after any run from a synchronized, initialized
  service, with any faults, starting the engine again on the file the run left, readable and
  owned by root, gives exactly the users, sessions and tokens that were in memory.
\<close>

theorem auth_restart_restores:
  assumes "auth_run lib smb w w'" and "synced w" and "as_initialized (aw_state w)"
    and "aw_file w' = Node n" and "an_uid n = 0" and "ae_stat e = None" and "ae_read e = None"
  shows "\<exists>w''. auth_new lib e rename_fails w' = (Ok (), w'') \<and> aw_state w'' = aw_state w'"
proof -
  have "as_initialized (aw_state w')" using initialized.run_keeps assms(1,3) by blast
  moreover have "aw_file w' = Node \<lparr>an_regular = True, an_mode = 384, an_uid = 0, an_content = Parses (aw_state w')\<rparr>"
    using run_synced [OF assms(1,2)] assms(4,5) by (auto simp: synced_def)
  ultimately show ?thesis
    using assms(6,7) by (auto simp: auth_new_def initialize_state_def load_state_from_def Let_def split: prod.split)
qed

theorem auth_restart_restores_witness:
  "\<exists>w''. auth_new plain_lib calm_auth False (auth_step plain_lib (\<lambda>_. None) calm_auth (Logout ''none'') boot_world) = (Ok (), w'')
     \<and> aw_state w'' = aw_state (auth_step plain_lib (\<lambda>_. None) calm_auth (Logout ''none'') boot_world)"
  by (rule auth_restart_restores [OF auth_more [OF auth_refl], where
        n = "\<lparr>an_regular = True, an_mode = 384, an_uid = 0, an_content = Parses boot_auth\<rparr>"])
    (simp_all add: logout_def Let_def boot_world_def boot_auth_def calm_auth_def synced_def)

section \<open>Names of OIDC users\<close>

lemma first_free_spec:
  "\<exists>k. first_free names base n = numbered base k \<and> n \<le> k \<and> numbered base ` {n..<k} \<subseteq> set names"
proof (induction names base n rule: first_free.induct)
  case (1 names base n)
  show ?case
  proof (cases "numbered base n \<in> set names")
    case True
    then obtain k where "first_free names base (Suc n) = numbered base k" "Suc n \<le> k"
        "numbered base ` {Suc n..<k} \<subseteq> set names"
      using 1 by blast
    moreover from this have "{n..<k} = insert n {Suc n..<k}" by auto
    ultimately show ?thesis using True by (subst first_free.simps) auto
  next
    case False
    then show ?thesis by (subst first_free.simps) auto
  qed
qed

lemma numbered_image_card: "card (numbered base ` A) = card A"
  by (rule card_image) (simp add: inj_on_def)

text \<open>
  (C36) The search for a free username ends, within as many steps as there are names: it returns
  the base name followed by the least number from two on that no user has, and that number is at
  most the number of users plus two.
\<close>

theorem pick_username_terminates:
  "\<exists>k. first_free names base 2 = numbered base k \<and> numbered base k \<notin> set names
     \<and> 2 \<le> k \<and> k \<le> length names + 2 \<and> numbered base ` {2..<k} \<subseteq> set names"
proof -
  obtain k where k: "first_free names base 2 = numbered base k" "2 \<le> k" "numbered base ` {2..<k} \<subseteq> set names"
    using first_free_spec by blast
  have "k - 2 = card (numbered base ` {2..<k})" by (simp add: numbered_image_card)
  also have "\<dots> \<le> card (set names)" using k(3) by (simp add: card_mono)
  also have "\<dots> \<le> length names" by (rule card_length)
  finally have "k \<le> length names + 2" by simp
  then show ?thesis using k first_free_new [of names base 2] by auto
qed

section \<open>API tokens\<close>

lemma create_api_token_ok:
  assumes "create_api_token lib e s name r fs ex ips w = (Ok t, w')"
  obtains "s_role s = Admin" "r \<noteq> User" "t_token t = generate_token lib e" "t_name t = name" "t_role t = r"
    "t_filesystem t = fs" "t_created_at t = ae_now e" "t_expires_at t = map_option (\<lambda>x. ae_now e + x) ex"
    "t_allowed_ips t = ips" "name \<notin> u_username ` set (as_users (aw_state w))"
    "aw_state w' = (aw_state w)\<lparr>as_api_tokens := as_api_tokens (aw_state w) @ [t\<lparr>t_token := hash_token lib (t_token t)\<rparr>]\<rparr>"
proof -
  have 1: "s_role s = Admin" by (rule ccontr) (use assms in \<open>simp add: create_api_token_def\<close>)
  have 2: "r \<noteq> User" by (rule notI) (use assms 1 in \<open>simp add: create_api_token_def\<close>)
  have 3: "\<not> list_ex (\<lambda>t. t_name t = name) (as_api_tokens (aw_state w))"
      "\<not> list_ex (has_username name) (as_users (aw_state w))"
    by (rule notI, use assms 1 2 in \<open>simp add: create_api_token_def Let_def\<close>)+
  let ?raw = "generate_token lib e"
  let ?t = "\<lparr>t_id = generate_id e, t_name = name, t_token = hash_token lib ?raw, t_role = r, t_created_at = ae_now e,
     t_filesystem = fs, t_expires_at = map_option (\<lambda>s. ae_now e + s) ex, t_allowed_ips = ips\<rparr>"
  have c: "(case commit_state e ((aw_state w)\<lparr>as_api_tokens := as_api_tokens (aw_state w) @ [?t]\<rparr>) w of
      (Inl x, w1) \<Rightarrow> (Inl x, w1)
    | (Inr y, w1) \<Rightarrow> (Inr (?t\<lparr>t_token := ?raw\<rparr>), audit e ''token_created'' (s_username s) (session_ip s) (''name='' @ name) w1))
     = (Ok t, w')"
    using assms 1 2 3 by (simp add: create_api_token_def Let_def)
  have 4: "name \<notin> u_username ` set (as_users (aw_state w))"
    using 3(2) by (auto simp: list_ex_iff has_username_def)
  show ?thesis by (rule commit_case_ok [OF c]) (use that [OF 1 2] 4 in simp)
qed

text \<open>
  An API token and what it is worth: only an administrator creates one, never with the role
  of a standard user and never under the name of a user. It then validates, from the addresses it
  allows and before its expiry, to a session with its role and scope that is bound to no address,
  and otherwise is refused; an operator's token owns what carries its name. The raw token is
  assumed to collide with no session and no stored hash.
\<close>

theorem api_token_then_validate:
  assumes "create_api_token lib e s name r fs ex ips w = (Ok t, w')"
    and "t_token t \<notin> s_token ` set (as_sessions (aw_state w))"
    and "hash_token lib (t_token t) \<notin> t_token ` set (as_api_tokens (aw_state w))"
  shows "s_role s = Admin \<and> r \<noteq> User \<and> name \<notin> u_username ` set (as_users (aw_state w))
    \<and> (\<forall>e' ip. fst (validate lib e' (t_token t) ip w') =
         (if ex \<noteq> None \<and> ae_now e + the ex \<le> ae_now e' then Err TokenExpired
          else if ips = [] \<or> ip \<in> set ips then
            Ok \<lparr>s_token = t_token t, s_username = name, s_role = r, s_file_principal = None, s_filesystem = fs,
                s_owner = (if r = Operator then Some name else None), s_created_at = ae_now e,
                s_must_change_password = False, s_client_ip = None\<rparr>
          else Err InvalidToken))"
proof -
  let ?h = "hash_token lib (t_token t)"
  obtain 1: "s_role s = Admin" "r \<noteq> User" "name \<notin> u_username ` set (as_users (aw_state w))"
    and t: "t_name t = name" "t_role t = r" "t_filesystem t = fs" "t_created_at t = ae_now e"
      "t_expires_at t = map_option (\<lambda>x. ae_now e + x) ex" "t_allowed_ips t = ips"
    and w': "aw_state w' = (aw_state w)\<lparr>as_api_tokens := as_api_tokens (aw_state w) @ [t\<lparr>t_token := ?h\<rparr>]\<rparr>"
    by (rule create_api_token_ok [OF assms(1)])
  have "List.find (\<lambda>x. s_token x = t_token t) (as_sessions (aw_state w')) = None"
    using assms(2) by (force simp: w' find_None_iff_all)
  moreover have "List.find (\<lambda>x. t_token x = ?h) (as_api_tokens (aw_state w')) = Some (t\<lparr>t_token := ?h\<rparr>)"
    unfolding w' by simp (rule find_last, use assms(3) in force, simp)
  ultimately show ?thesis
    using 1 t by (cases ex) (simp_all add: validate_def Let_def token_session_def)
qed

theorem api_token_then_validate_witness:
  "fst (create_api_token plain_lib calm_auth admin_session ''ci'' Operator None (Some 5) [] boot_world) =
     Ok \<lparr>t_id = ''01'', t_name = ''ci'', t_token = ''tok'', t_role = Operator, t_created_at = 1000, t_filesystem = None,
         t_expires_at = Some 1005, t_allowed_ips = []\<rparr>
   \<and> fst (validate plain_lib (calm_auth\<lparr>ae_now := 1005\<rparr>) ''tok'' ''10.0.0.9''
       (snd (create_api_token plain_lib calm_auth admin_session ''ci'' Operator None (Some 5) [] boot_world))) = Err TokenExpired"
proof -
  let ?c = "create_api_token plain_lib calm_auth admin_session ''ci'' Operator None (Some 5) [] boot_world"
  let ?t = "\<lparr>t_id = ''01'', t_name = ''ci'', t_token = ''tok'', t_role = Operator, t_created_at = 1000, t_filesystem = None,
         t_expires_at = Some 1005, t_allowed_ips = []\<rparr>"
  have c: "fst ?c = Ok ?t" by code_simp
  then have "?c = (Ok ?t, snd ?c)" by (metis prod.collapse)
  from api_token_then_validate [OF this] have "fst (validate plain_lib (calm_auth\<lparr>ae_now := 1005\<rparr>) ''tok'' ''10.0.0.9'' (snd ?c)) = Err TokenExpired"
    by (simp add: boot_world_def boot_auth_def calm_auth_def)
  with c show ?thesis ..
qed

section \<open>Two corners\<close>

text \<open>
  The name of an OIDC user is checked against the users only: an identity whose preferred name is
  that of an API token is provisioned under the token's name, which \<open>create_user\<close> and
  \<open>create_api_token\<close> both refuse.
\<close>

definition token_world :: "nat auth_world" where
  "token_world = boot_world\<lparr>aw_state := boot_auth\<lparr>as_api_tokens :=
     [\<lparr>t_id = ''01'', t_name = ''ci'', t_token = ''x'', t_role = Operator, t_created_at = 1, t_filesystem = None,
       t_expires_at = None, t_allowed_ips = []\<rparr>]\<rparr>\<rparr>"

definition ci_identity :: oidc_identity where
  "ci_identity = \<lparr>oi_issuer = ''idp'', oi_subject = ''7'', oi_email = None, oi_preferred_username = Some ''ci'', oi_groups = []\<rparr>"

lemma oidc_user_takes_token_name:
  "fst (login_or_provision_oidc plain_lib calm_auth ci_identity (Some Operator) True ''10.0.0.2'' token_world) = Ok ''tok''
   \<and> map u_username (as_users (aw_state (snd
       (login_or_provision_oidc plain_lib calm_auth ci_identity (Some Operator) True ''10.0.0.2'' token_world)))) = [''admin'', ''ci'']
   \<and> map t_name (as_api_tokens (aw_state (snd
       (login_or_provision_oidc plain_lib calm_auth ci_identity (Some Operator) True ''10.0.0.2'' token_world)))) = [''ci'']"
  by code_simp

text \<open>The expiry of a token is computed on 64 bits: the longest lifetime is one that has already passed.\<close>

lemma longest_token_lifetime_is_over:
  "fst (validate plain_lib calm_auth ''tok'' ''10.0.0.9''
     (snd (create_api_token plain_lib calm_auth admin_session ''ci'' Operator None (Some (- 1)) [] boot_world))) = Err TokenExpired"
  by code_simp

end
