(* ===== verification/Gate.thy ===== *)
theory Gate
  imports Router Registry Auth_Behaviour
begin

text \<open>
  Properties of the front door: the roles form a hierarchy, the gate enforces for every registered
  method exactly the role the registry declares, and the REST address of a method leads back to it.
  The checks over the registry compare many strings, which \<open>str_eval\<close> does letter by letter.
\<close>

section \<open>Comparing method names\<close>

lemma ends_with_eval:
  "ends_with (c # cs) p = (if p = c # cs then True else ends_with cs p)" "ends_with [] p = (p = [])"
  by (auto simp: ends_with_iff Cons_eq_append_conv)

lemma char_eval:
  "(Char a b c d e f g h = Char a' b' c' d' e' f' g' h') \<longleftrightarrow>
     (if a = a' then if b = b' then if c = c' then if d = d' then if e = e' then if f = f' then
      if g = g' then h = h' else False else False else False else False else False else False else False)"
  by simp

lemma list_eval: "(x # xs = y # ys) = (if x = y then xs = ys else False)" "([] = y # ys) = False" "(x # xs = []) = False"
    "(([] :: 'a list) = []) = True"
  by simp_all

lemma mem_eval: "x \<in> set (y # ys) \<longleftrightarrow> (if x = y then True else x \<in> set ys)" "x \<in> set [] \<longleftrightarrow> False"
  by auto

lemma bool_eval:
  "(True = True) = True" "(False = False) = True" "(True = False) = False" "(False = True) = False"
  "(\<not> True) = False" "(\<not> False) = True" "(True \<and> P) = P" "(False \<and> P) = False" "(True \<or> P) = True" "(False \<or> P) = P"
  by simp_all

lemmas str_eval = ends_with_eval char_eval list_eval mem_eval bool_eval if_True if_False

section \<open>The role the gate enforces\<close>

definition effective_role :: "string \<Rightarrow> method_role" where
  "effective_role m =
     (if is_universally_allowed m then MAny else if is_operator_allowed m then MOperator else MAdmin)"

definition as_declared :: "rpc_method list \<Rightarrow> bool" where
  "as_declared ms \<longleftrightarrow> (\<forall>m \<in> set ms. effective_role (m_name m) = m_role m)"

lemma as_declared_eval:
  "as_declared [] = True"
  "as_declared (Method n r p x # ms) = (if effective_role n = r then as_declared ms else False)"
  by (auto simp: as_declared_def)

lemma role_eval: "(MAny = MAny) = True" "(MOperator = MOperator) = True" "(MAdmin = MAdmin) = True"
  by simp_all

lemma effective_role_eval:
  "effective_role m =
     (if is_read_only m then MAny else if m \<in> set self_service then MAny
      else if m \<in> set operator_methods then MOperator else MAdmin)"
  by (simp add: effective_role_def is_operator_allowed_def is_universally_allowed_def)

lemmas declared_eval = as_declared_eval effective_role_eval is_read_only_def privileged_reads_def listed_reads_def
  self_service_def operator_methods_def str_eval role_eval

lemma declared_authentication: "as_declared registry_authentication"
  by (simp only: registry_authentication_def declared_eval)

lemma declared_system: "as_declared registry_system"
  by (simp only: registry_system_def declared_eval)

lemma declared_system_update: "as_declared registry_system_update"
  by (simp only: registry_system_update_def declared_eval)

lemma declared_settings: "as_declared registry_settings"
  by (simp only: registry_settings_def declared_eval)

lemma declared_network: "as_declared registry_network"
  by (simp only: registry_network_def declared_eval)

lemma declared_protocols_services: "as_declared registry_protocols_services"
  by (simp only: registry_protocols_services_def declared_eval)

lemma declared_alert_rules: "as_declared registry_alert_rules"
  by (simp only: registry_alert_rules_def declared_eval)

lemma declared_block_devices: "as_declared registry_block_devices"
  by (simp only: registry_block_devices_def declared_eval)

lemma declared_filesystems: "as_declared registry_filesystems"
  by (simp only: registry_filesystems_def declared_eval)

lemma declared_filesystem_devices: "as_declared registry_filesystem_devices"
  by (simp only: registry_filesystem_devices_def declared_eval)

lemma declared_subvolumes: "as_declared registry_subvolumes"
  by (simp only: registry_subvolumes_def declared_eval)

lemma declared_snapshots: "as_declared registry_snapshots"
  by (simp only: registry_snapshots_def declared_eval)

lemma declared_nfs_shares: "as_declared registry_nfs_shares"
  by (simp only: registry_nfs_shares_def declared_eval)

lemma declared_smb_shares: "as_declared registry_smb_shares"
  by (simp only: registry_smb_shares_def declared_eval)

lemma declared_iscsi_targets: "as_declared registry_iscsi_targets"
  by (simp only: registry_iscsi_targets_def declared_eval)

lemma declared_nvme_of_subsystems: "as_declared registry_nvme_of_subsystems"
  by (simp only: registry_nvme_of_subsystems_def declared_eval)

lemma declared_guest_shares: "as_declared registry_guest_shares"
  by (simp only: registry_guest_shares_def declared_eval)

lemma declared_oidc: "as_declared registry_oidc"
  by (simp only: registry_oidc_def declared_eval)

lemma declared_webauthn: "as_declared registry_webauthn"
  by (simp only: registry_webauthn_def declared_eval)

lemma declared_audit: "as_declared registry_audit"
  by (simp only: registry_audit_def declared_eval)

lemma declared_system_continued: "as_declared registry_system_continued"
  by (simp only: registry_system_continued_def declared_eval)

lemma declared_system_generations: "as_declared registry_system_generations"
  by (simp only: registry_system_generations_def declared_eval)

lemma declared_system_hardware: "as_declared registry_system_hardware"
  by (simp only: registry_system_hardware_def declared_eval)

lemma declared_system_logs: "as_declared registry_system_logs"
  by (simp only: registry_system_logs_def declared_eval)

lemma declared_system_metrics: "as_declared registry_system_metrics"
  by (simp only: registry_system_metrics_def declared_eval)

lemma declared_system_acme: "as_declared registry_system_acme"
  by (simp only: registry_system_acme_def declared_eval)

lemma declared_system_tls: "as_declared registry_system_tls"
  by (simp only: registry_system_tls_def declared_eval)

lemma declared_system_nut_ups: "as_declared registry_system_nut_ups"
  by (simp only: registry_system_nut_ups_def declared_eval)

lemma declared_system_watchdog: "as_declared registry_system_watchdog"
  by (simp only: registry_system_watchdog_def declared_eval)

lemma declared_system_rdma: "as_declared registry_system_rdma"
  by (simp only: registry_system_rdma_def declared_eval)

lemma declared_system_passthrough: "as_declared registry_system_passthrough"
  by (simp only: registry_system_passthrough_def declared_eval)

lemma declared_system_guest_tools: "as_declared registry_system_guest_tools"
  by (simp only: registry_system_guest_tools_def declared_eval)

lemma declared_system_secure_boot: "as_declared registry_system_secure_boot"
  by (simp only: registry_system_secure_boot_def declared_eval)

lemma declared_system_ssh: "as_declared registry_system_ssh"
  by (simp only: registry_system_ssh_def declared_eval)

lemma declared_system_tailscale: "as_declared registry_system_tailscale"
  by (simp only: registry_system_tailscale_def declared_eval)

lemma declared_system_tuning: "as_declared registry_system_tuning"
  by (simp only: registry_system_tuning_def declared_eval)

lemma declared_system_firewall: "as_declared registry_system_firewall"
  by (simp only: registry_system_firewall_def declared_eval)

lemma declared_system_update_channel: "as_declared registry_system_update_channel"
  by (simp only: registry_system_update_channel_def declared_eval)

lemma declared_network_continued: "as_declared registry_network_continued"
  by (simp only: registry_network_continued_def declared_eval)

lemma declared_protocols_services_continued: "as_declared registry_protocols_services_continued"
  by (simp only: registry_protocols_services_continued_def declared_eval)

lemma declared_telemetry: "as_declared registry_telemetry"
  by (simp only: registry_telemetry_def declared_eval)

lemma declared_notifications: "as_declared registry_notifications"
  by (simp only: registry_notifications_def declared_eval)

lemma declared_firmware: "as_declared registry_firmware"
  by (simp only: registry_firmware_def declared_eval)

lemma declared_filesystem_encryption: "as_declared registry_filesystem_encryption"
  by (simp only: registry_filesystem_encryption_def declared_eval)

lemma declared_filesystem_reconcile: "as_declared registry_filesystem_reconcile"
  by (simp only: registry_filesystem_reconcile_def declared_eval)

lemma declared_filesystem_dependents: "as_declared registry_filesystem_dependents"
  by (simp only: registry_filesystem_dependents_def declared_eval)

lemma declared_bcachefs_tools: "as_declared registry_bcachefs_tools"
  by (simp only: registry_bcachefs_tools_def declared_eval)

lemma declared_subvolumes_continued: "as_declared registry_subvolumes_continued"
  by (simp only: registry_subvolumes_continued_def declared_eval)

lemma declared_smb_users: "as_declared registry_smb_users"
  by (simp only: registry_smb_users_def declared_eval)

lemma declared_smb_groups: "as_declared registry_smb_groups"
  by (simp only: registry_smb_groups_def declared_eval)

lemma declared_active_directory: "as_declared registry_active_directory"
  by (simp only: registry_active_directory_def declared_eval)

lemma declared_active_directory_domain_controller: "as_declared registry_active_directory_domain_controller"
  by (simp only: registry_active_directory_domain_controller_def declared_eval)

lemma declared_backup: "as_declared registry_backup"
  by (simp only: registry_backup_def declared_eval)

lemma declared_vms: "as_declared registry_vms"
  by (simp only: registry_vms_def declared_eval)

lemma declared_vm_disk_images: "as_declared registry_vm_disk_images"
  by (simp only: registry_vm_disk_images_def declared_eval)

lemma declared_apps: "as_declared registry_apps"
  by (simp only: registry_apps_def declared_eval)

lemma as_declared_append: "as_declared (xs @ ys) \<longleftrightarrow> as_declared xs \<and> as_declared ys"
  by (auto simp: as_declared_def)

lemma as_declared_groups: "as_declared (concat (map snd gs)) \<longleftrightarrow> list_all (\<lambda>g. as_declared (snd g)) gs"
  by (induction gs) (auto simp: as_declared_append as_declared_eval)

lemma declared_registered: "as_declared registered"
  unfolding registered_def as_declared_groups registry_def
  by (simp only: list.pred_inject snd_conv bool_eval
      declared_authentication declared_system declared_system_update declared_settings declared_network
      declared_protocols_services declared_alert_rules declared_block_devices declared_filesystems
      declared_filesystem_devices declared_subvolumes declared_snapshots declared_nfs_shares
      declared_smb_shares declared_iscsi_targets declared_nvme_of_subsystems declared_guest_shares
      declared_oidc declared_webauthn declared_audit declared_system_continued declared_system_generations
      declared_system_hardware declared_system_logs declared_system_metrics declared_system_acme
      declared_system_tls declared_system_nut_ups declared_system_watchdog declared_system_rdma
      declared_system_passthrough declared_system_guest_tools declared_system_secure_boot declared_system_ssh
      declared_system_tailscale declared_system_tuning declared_system_firewall declared_system_update_channel
      declared_network_continued declared_protocols_services_continued declared_telemetry
      declared_notifications declared_firmware declared_filesystem_encryption declared_filesystem_reconcile
      declared_filesystem_dependents declared_bcachefs_tools declared_subvolumes_continued declared_smb_users
      declared_smb_groups declared_active_directory declared_active_directory_domain_controller declared_backup
      declared_vms declared_vm_disk_images declared_apps)

text \<open>
  (C3) The gate enforces the registry: for every one of the registered methods, an operator is
  refused exactly when the method is declared for administrators, a read-only session exactly
  when it is not declared for everyone, and an administrator never. A suffix rule that let a
  privileged listing through, a method missing from the allow-list, or an entry that outlived its
  declaration would break this.
\<close>

theorem gate_enforces_registry:
  "list_all (\<lambda>m. (denied Operator (m_name m) \<longleftrightarrow> m_role m = MAdmin)
       \<and> (denied ReadOnly (m_name m) \<longleftrightarrow> m_role m \<noteq> MAny) \<and> \<not> denied Admin (m_name m)) registered"
  unfolding list_all_iff
proof
  fix m assume "m \<in> set registered"
  then have "effective_role (m_name m) = m_role m" using declared_registered by (simp add: as_declared_def)
  then show "(denied Operator (m_name m) \<longleftrightarrow> m_role m = MAdmin)
       \<and> (denied ReadOnly (m_name m) \<longleftrightarrow> m_role m \<noteq> MAny) \<and> \<not> denied Admin (m_name m)"
    by (auto simp: effective_role_def is_operator_allowed_def split: if_splits)
qed

lemma user_methods_universal: "m \<in> set user_methods \<Longrightarrow> is_universally_allowed m"
proof -
  have "list_all is_universally_allowed user_methods" by code_simp
  then show "m \<in> set user_methods \<Longrightarrow> is_universally_allowed m" by (simp add: list_all_iff)
qed

text \<open>
  The roles form a strict hierarchy over all method names, registered or not: whatever a
  standard user may call a read-only session may call, whatever that may call an operator may
  call, an administrator may call everything, and each step adds something. A method nobody has
  reviewed is refused to standard users and, unless its name ends like a read, to everyone but
  administrators.
\<close>

theorem roles_strictly_nested:
  "{m. \<not> denied User m} \<subset> {m. \<not> denied ReadOnly m} \<and> {m. \<not> denied ReadOnly m} \<subset> {m. \<not> denied Operator m}
   \<and> {m. \<not> denied Operator m} \<subset> {m. \<not> denied Admin m}"
proof (intro conjI psubsetI)
  have "\<not> denied ReadOnly ''fs.list'' \<and> denied User ''fs.list''" by code_simp
  then show "{m. \<not> denied User m} \<noteq> {m. \<not> denied ReadOnly m}" by blast
  have "\<not> denied Operator ''vm.create'' \<and> denied ReadOnly ''vm.create''" by code_simp
  then show "{m. \<not> denied ReadOnly m} \<noteq> {m. \<not> denied Operator m}" by blast
  have "\<not> denied Admin ''x'' \<and> denied Operator ''x''" by code_simp
  then show "{m. \<not> denied Operator m} \<noteq> {m. \<not> denied Admin m}" by blast
qed (auto simp: is_user_allowed_def is_operator_allowed_def dest: user_methods_universal)

section \<open>Requests\<close>

lemma audit_app_frame [simp]:
  "app_other (audit_app e a b c d w) = app_other w" "app_events (audit_app e a b c d w) = app_events w"
  "aw_state (app_auth (audit_app e a b c d w)) = aw_state (app_auth w)"
  "aw_file (app_auth (audit_app e a b c d w)) = aw_file (app_auth w)"
  "aw_rate (app_auth (audit_app e a b c d w)) = aw_rate (app_auth w)"
  by (simp_all add: audit_app_def)

definition refused :: "session \<Rightarrow> string \<Rightarrow> bool" where
  "refused s m \<longleftrightarrow> s_must_change_password s \<and> m \<notin> set before_password_change \<or> denied (s_role s) m"

lemma handle_refused:
  assumes "refused s (rq_method req)" and "handle_rpc_request e handlers (Some req) s w = (r, w')"
  shows "rs_error r \<noteq> None \<and> rs_result r = None \<and> rs_id r = rq_id req"
    and "app_other w' = app_other w \<and> app_events w' = app_events w \<and> aw_state (app_auth w') = aw_state (app_auth w)
      \<and> aw_file (app_auth w') = aw_file (app_auth w) \<and> aw_rate (app_auth w') = aw_rate (app_auth w)"
  using assms by (auto simp: handle_rpc_request_def refused_def split: if_splits)

lemma handle_accepted:
  assumes "\<not> refused s (rq_method req)"
  shows "handle_rpc_request e handlers (Some req) s w =
    (case route handlers req s w of (r, w1) \<Rightarrow> (r, announce e req s r w1))"
  using assms by (auto simp: handle_rpc_request_def refused_def)

text \<open>
  (C16) A refused request changes nothing: when the session has to change its password first and
  asks for anything but that, its own identity or to log out, or when its role does not allow the
  method, the answer is an error that carries the request's id, and neither the handlers' state
  nor users, sessions, tokens, failure counters or broadcasts change. Only the audit log may grow.
\<close>

theorem refused_request_changes_nothing:
  assumes "s_must_change_password s \<and> rq_method req \<notin> {''auth.change_password'', ''auth.me'', ''auth.logout''}
      \<or> denied (s_role s) (rq_method req)"
    and "handle_rpc_request e handlers (Some req) s w = (r, w')"
  shows "rs_error r \<noteq> None \<and> rs_result r = None \<and> rs_id r = rq_id req \<and> app_other w' = app_other w
    \<and> app_events w' = app_events w \<and> aw_state (app_auth w') = aw_state (app_auth w)
    \<and> aw_file (app_auth w') = aw_file (app_auth w) \<and> aw_rate (app_auth w') = aw_rate (app_auth w)"
proof -
  have "refused s (rq_method req)" using assms(1) by (auto simp: refused_def before_password_change_def)
  then show ?thesis using handle_refused [OF _ assms(2)] by blast
qed

definition reboot_request :: rpc_request where
  "reboot_request = \<lparr>rq_jsonrpc = ''2.0'', rq_method = ''system.reboot'', rq_params = None, rq_id = JInt 1\<rparr>"

definition operator_session :: session where
  "operator_session = \<lparr>s_token = ''t'', s_username = ''ops'', s_role = Operator, s_file_principal = None, s_filesystem = None,
     s_owner = None, s_created_at = 0, s_must_change_password = False, s_client_ip = Some ''10.0.0.2''\<rparr>"

definition quiet_app :: "(nat, nat) app_state" where
  "quiet_app = \<lparr>app_auth = boot_world, app_events = [], app_other = 7\<rparr>"

text \<open>A handler that sets the other state to zero and succeeds.\<close>

definition zero_handlers :: "domain \<Rightarrow> (nat, nat) try_route" where
  "zero_handlers d req s w = (Some (ok req JNull), w\<lparr>app_other := 0\<rparr>)"

theorem refused_request_changes_nothing_witness:
  "app_other (snd (handle_rpc_request calm_auth zero_handlers (Some reboot_request) operator_session quiet_app)) = 7"
proof -
  have "denied (s_role operator_session) (rq_method reboot_request)" by code_simp
  then show ?thesis
    using refused_request_changes_nothing [of operator_session reboot_request calm_auth zero_handlers quiet_app, OF _ surjective_pairing]
    by (simp add: quiet_app_def)
qed


definition chief_session :: session where
  "chief_session = admin_session\<lparr>s_must_change_password := False\<rparr>"


section \<open>REST addresses\<close>

lemma replace_char_back: "b \<notin> set s \<Longrightarrow> replace_char b a (replace_char a b s) = s"
  by (induction s) (auto simp: replace_char_def)

text \<open>
  REST addresses lead back: for every registered method, the path after the prefix turns
  into the method's name again, so that no two methods share an address and the gateway calls the
  method whose address was asked for.
\<close>

theorem rest_address_leads_back:
  "list_all (\<lambda>m. snd (translate (m_name m)) = ''/api/v1/'' @ drop 8 (snd (translate (m_name m)))
     \<and> method_from_segments (drop 8 (snd (translate (m_name m)))) = m_name m) registered"
proof -
  have "list_all (\<lambda>m. CHR ''/'' \<notin> set (m_name m)) registered"
    by code_simp
  then show ?thesis
    by (auto simp: list_all_iff translate_def api_prefix_def method_from_segments_def replace_char_back)
qed

end
