(* ===== verification/Gateway.thy ===== *)
theory Gateway
  imports Gate
begin

text \<open>
  The HTTP entrances of the engine: how a request presents its session
  (\<open>token_from_headers\<close> and \<open>validate_bearer\<close> of \<open>main.rs\<close>), the guard of the file
  portal's domain, the origin check of WebSockets, and the REST gateway
  (\<open>rest_gateway.rs\<close>) that turns a URL into a call of the router. Header values are the texts
  axum hands out; parsing an authority (crate \<open>http\<close>), percent-decoding (\<open>url\<close>) and
  parsing JSON (\<open>serde_json\<close>) are arguments.
\<close>

section \<open>Tokens in headers\<close>

record headers =
  h_cookie :: "string option"
  h_authorization :: "string option"
  h_real_ip :: "string option"
  h_host :: "string option"
  h_origin :: "string option"

definition SESSION_COOKIE :: string where
  "SESSION_COOKIE = ''nasty_session''"

fun session_cookie_in :: "string list \<Rightarrow> string option" where
  "session_cookie_in [] = None"
| "session_cookie_in (part # parts) =
     (case split_once CHR ''='' (trim part) of
        None \<Rightarrow> session_cookie_in parts
      | Some (name, value) \<Rightarrow>
          if name = SESSION_COOKIE \<and> value \<noteq> [] then Some value else session_cookie_in parts)"

definition parse_session_cookie :: "string \<Rightarrow> string option" where
  "parse_session_cookie header = session_cookie_in (split_on CHR '';'' header)"

definition strip_prefix :: "string \<Rightarrow> string \<Rightarrow> string option" where
  "strip_prefix p s = (if starts_with s p then Some (drop (length p) s) else None)"

definition token_from_headers :: "headers \<Rightarrow> string option" where
  "token_from_headers h =
     (case Option.bind (h_cookie h) parse_session_cookie of
        Some t \<Rightarrow> Some t
      | None \<Rightarrow> Option.bind (h_authorization h) (strip_prefix ''Bearer ''))"

definition client_ip_of :: "headers \<Rightarrow> string" where
  "client_ip_of h = (case h_real_ip h of Some ip \<Rightarrow> ip | None \<Rightarrow> ''unknown'')"

section \<open>Direct endpoints\<close>

text \<open>A role as \<open>serde\<close> writes it.\<close>

fun role_json :: "role \<Rightarrow> json" where
  "role_json Admin = JStr ''admin''"
| "role_json ReadOnly = JStr ''readonly''"
| "role_json Operator = JStr ''operator''"
| "role_json User = JStr ''user''"

record http_response =
  hr_status :: nat
  hr_body :: "json option"

definition json_error :: "nat \<Rightarrow> string \<Rightarrow> http_response" where
  "json_error status msg = \<lparr>hr_status = status, hr_body = Some (JObj [(''error'', JStr msg)])\<rparr>"

fun access_denied_debug :: "access_denied \<Rightarrow> string" where
  "access_denied_debug PasswordChangeRequired = ''PasswordChangeRequired''"
| "access_denied_debug InsufficientRole = ''InsufficientRole''"
| "access_denied_debug ScopedCredential = ''ScopedCredential''"
| "access_denied_debug MissingFilePrincipal = ''MissingFilePrincipal''"
| "access_denied_debug InteractiveSessionRequired = ''InteractiveSessionRequired''"

definition validate_bearer :: "'k auth_lib \<Rightarrow> auth_env \<Rightarrow> headers \<Rightarrow> endpoint_access \<Rightarrow> string \<Rightarrow> 'k auth_world \<Rightarrow>
    (http_response + session \<times> string) \<times> 'k auth_world" where
  "validate_bearer lib e h access endpoint w =
     (case token_from_headers h of
        None \<Rightarrow> (Err (json_error 401 ''Missing token''), w)
      | Some token \<Rightarrow>
          let client_ip = client_ip_of h in
          (case validate lib e token client_ip w of
             (Err _, w1) \<Rightarrow> (Err (json_error 401 ''Invalid token''), w1)
           | (Ok s, w1) \<Rightarrow>
               (case authorize_session s access of
                  Err reason \<Rightarrow>
                    (Err (json_error 403 (access_denied_message reason)),
                     audit e ''permission_denied'' (s_username s) client_ip
                       (''endpoint='' @ endpoint @ '' reason='' @ access_denied_debug reason) w1)
                | Ok _ \<Rightarrow> (Ok (s, client_ip), w1))))"

definition auth_check_handler :: "'k auth_lib \<Rightarrow> auth_env \<Rightarrow> headers \<Rightarrow> bool \<Rightarrow> 'k auth_world \<Rightarrow> http_response \<times> 'k auth_world" where
  "auth_check_handler lib e h on_files_domain w =
     (case validate_bearer lib e h SelfService ''auth.check'' w of
        (Err r, w1) \<Rightarrow> (r, w1)
      | (Ok (s, _), w1) \<Rightarrow>
          (\<lparr>hr_status = (if \<not> on_files_domain \<or> s_role s = User then 200 else 401), hr_body = None\<rparr>, w1))"

section \<open>The domain of the file portal\<close>

definition host_matches_files_domain :: "(string \<Rightarrow> string option) \<Rightarrow> string option \<Rightarrow> string option \<Rightarrow> bool" where
  "host_matches_files_domain authority_host host_header files_domain =
     (case host_header of None \<Rightarrow> False | Some h \<Rightarrow>
      case files_domain of None \<Rightarrow> False | Some d \<Rightarrow>
      case authority_host h of None \<Rightarrow> False | Some host \<Rightarrow> eq_ignore_ascii_case host d)"

definition files_domain_paths :: "string list" where
  "files_domain_paths =
    [''/api/login'', ''/api/logout'', ''/api/auth/check'', ''/api/boot_status'', ''/api/auth/oidc/available'',
     ''/api/auth/webauthn/available'', ''/ws'', ''/health'']"

definition files_domain_path_allowed :: "string \<Rightarrow> bool" where
  "files_domain_path_allowed path = (path \<in> set files_domain_paths \<or> starts_with path ''/api/user/files/'')"

text \<open>The guard: whether the request is on the files domain, or \<open>None\<close> for not found.\<close>

definition files_domain_guard :: "(string \<Rightarrow> string option) \<Rightarrow> string option \<Rightarrow> headers \<Rightarrow> string \<Rightarrow> bool option" where
  "files_domain_guard authority_host files_domain h path =
     (let on = host_matches_files_domain authority_host (h_host h) files_domain
      in if on \<and> \<not> files_domain_path_allowed path then None else Some on)"

text \<open>Whether a WebSocket upgrade is let through: a browser's origin must be the host itself.\<close>

definition origin_authority :: "string \<Rightarrow> string option" where
  "origin_authority origin =
     map_option (\<lambda>s. hd (split_on CHR ''/'' s))
       (case strip_prefix ''https://'' origin of Some s \<Rightarrow> Some s | None \<Rightarrow> strip_prefix ''http://'' origin)"

definition ws_origin_check :: "headers \<Rightarrow> bool" where
  "ws_origin_check h =
     (case h_origin h of
        None \<Rightarrow> True
      | Some origin \<Rightarrow>
          (case (origin_authority origin, h_host h) of
             (Some a, Some b) \<Rightarrow> eq_ignore_ascii_case a b
           | _ \<Rightarrow> False))"

section \<open>The REST gateway\<close>

text \<open>\<open>str::contains\<close>.\<close>

fun str_contains :: "string \<Rightarrow> string \<Rightarrow> bool" where
  "str_contains [] p = (p = [])"
| "str_contains (c # cs) p = (starts_with (c # cs) p \<or> str_contains cs p)"

definition map_error_to_status :: "int \<Rightarrow> string \<Rightarrow> nat" where
  "map_error_to_status code message =
     (if code = - 32700 \<or> code = - 32600 \<or> code = - 32602 then 400
      else if code = - 32601 then 404
      else
        let lower = to_ascii_lowercase message in
        if str_contains lower ''permission denied'' \<or> str_contains lower ''access denied'' then 403
        else if str_contains lower ''not found'' then 404
        else if str_contains lower ''missing params'' \<or> str_contains lower ''missing field'' \<or> str_contains lower ''invalid'' then 400
        else 500)"

fun auth_error_to_response :: "auth_error \<Rightarrow> http_response" where
  "auth_error_to_response InvalidToken = json_error 401 ''invalid token''"
| "auth_error_to_response TokenExpired = json_error 401 ''token expired''"
| "auth_error_to_response _ = json_error 401 ''authentication failed''"

fun query_pairs :: "(string \<Rightarrow> string) \<Rightarrow> (string \<Rightarrow> json option) \<Rightarrow> string list \<Rightarrow> (string \<times> json) list \<Rightarrow> (string \<times> json) list" where
  "query_pairs decode parse [] obj = obj"
| "query_pairs decode parse (pair # pairs) obj =
     (let (k, v) = (case split_once CHR ''='' pair of Some t \<Rightarrow> t | None \<Rightarrow> (pair, []));
          v' = decode v
      in query_pairs decode parse pairs
           (AList.update (decode k) (case parse v' of Some j \<Rightarrow> j | None \<Rightarrow> JStr v') obj))"

definition query_to_json :: "(string \<Rightarrow> string) \<Rightarrow> (string \<Rightarrow> json option) \<Rightarrow> string \<Rightarrow> json" where
  "query_to_json decode parse query =
     (if query = [] then JNull else JObj (query_pairs decode parse (split_on CHR ''&'' query) []))"

definition canonical_verb_for :: "string \<Rightarrow> http_verb option" where
  "canonical_verb_for method =
     (if list_ex (\<lambda>m. m_name m = method) registered then Some (fst (translate method)) else None)"

definition to_ascii_uppercase :: "string \<Rightarrow> string" where
  "to_ascii_uppercase s = map (\<lambda>c. if is_ascii_lower c then char_of (of_char c - (32 :: nat)) else c) s"

text \<open>The answer of the router as an HTTP response.\<close>

definition unwrap_response :: "rpc_response \<Rightarrow> http_response" where
  "unwrap_response r =
     (case rs_error r of
        Some x \<Rightarrow>
          \<lparr>hr_status = map_error_to_status (re_code x) (re_message x),
           hr_body = Some (JObj [(''error'', JObj [(''code'', JInt (re_code x)), (''message'', JStr (re_message x))])])\<rparr>
      | None \<Rightarrow>
          let result = (case rs_result r of Some v \<Rightarrow> v | None \<Rightarrow> JNull) in
          if result = JStr ''ok'' \<or> result = JNull then \<lparr>hr_status = 204, hr_body = None\<rparr>
          else \<lparr>hr_status = 200, hr_body = Some result\<rparr>)"

definition wrong_verb :: "string \<Rightarrow> http_verb \<Rightarrow> http_verb \<Rightarrow> string" where
  "wrong_verb method is_verb asked =
     ''method `'' @ method @ ''` is exposed as '' @ to_ascii_uppercase (verb_str is_verb) @ '', not ''
       @ to_ascii_uppercase (verb_str asked)"

text \<open>
  \<open>dispatch\<close>. The envelope goes to the router as a text and comes back as one; the model hands
  over the request and the response themselves. A missing body is \<open>null\<close>, which the request
  type reads as no parameters.
\<close>

definition rest_dispatch :: "'k auth_lib \<Rightarrow> auth_env \<Rightarrow> (domain \<Rightarrow> ('k, 'o) try_route) \<Rightarrow> headers \<Rightarrow> string \<Rightarrow> http_verb \<Rightarrow>
    json \<Rightarrow> ('k, 'o) app_state \<Rightarrow> http_response \<times> ('k, 'o) app_state" where
  "rest_dispatch lib e handlers h path_tail verb params w =
     (let method = method_from_segments path_tail in
      case canonical_verb_for method of
        None \<Rightarrow> (json_error 404 (''unknown RPC method: '' @ method), w)
      | Some v \<Rightarrow>
          if v \<noteq> verb then (json_error 405 (wrong_verb method v verb), w)
          else case token_from_headers h of
            None \<Rightarrow> (json_error 401 ''missing session token'', w)
          | Some token \<Rightarrow>
              (case validate lib e token (client_ip_of h) (app_auth w) of
                 (Err x, aw) \<Rightarrow> (auth_error_to_response x, w\<lparr>app_auth := aw\<rparr>)
               | (Ok s, aw) \<Rightarrow>
                   let req = \<lparr>rq_jsonrpc = ''2.0'', rq_method = method,
                              rq_params = (if params = JNull then None else Some params), rq_id = JStr (ae_uuid e)\<rparr>
                   in case handle_rpc_request e handlers (Some req) s (w\<lparr>app_auth := aw\<rparr>) of
                        (r, w1) \<Rightarrow> (unwrap_response r, w1)))"

definition gateway_get :: "'k auth_lib \<Rightarrow> auth_env \<Rightarrow> (string \<Rightarrow> string) \<Rightarrow> (string \<Rightarrow> json option) \<Rightarrow>
    (domain \<Rightarrow> ('k, 'o) try_route) \<Rightarrow> headers \<Rightarrow> string \<Rightarrow> string option \<Rightarrow> ('k, 'o) app_state \<Rightarrow> http_response \<times> ('k, 'o) app_state" where
  "gateway_get lib e decode parse handlers h path query w =
     rest_dispatch lib e handlers h path Get (query_to_json decode parse (case query of Some q \<Rightarrow> q | None \<Rightarrow> [])) w"

definition gateway_body :: "'k auth_lib \<Rightarrow> auth_env \<Rightarrow> (domain \<Rightarrow> ('k, 'o) try_route) \<Rightarrow> headers \<Rightarrow> string \<Rightarrow> http_verb \<Rightarrow>
    json option \<Rightarrow> ('k, 'o) app_state \<Rightarrow> http_response \<times> ('k, 'o) app_state" where
  "gateway_body lib e handlers h path verb body w =
     rest_dispatch lib e handlers h path verb (case body of Some j \<Rightarrow> j | None \<Rightarrow> JNull) w"

section \<open>Properties\<close>

lemma map_error_status: "400 \<le> map_error_to_status code message"
  by (simp add: map_error_to_status_def Let_def)

lemma auth_error_status: "hr_status (auth_error_to_response x) = 401"
  by (cases x) (simp_all add: json_error_def)

lemma unwrap_ok: "hr_status (unwrap_response r) < 400 \<longleftrightarrow> rs_error r = None"
  using map_error_status by (auto simp: unwrap_response_def Let_def not_less split: option.splits)

lemma canonical_registered:
  "canonical_verb_for m = Some v \<longleftrightarrow> m \<in> m_name ` set registered \<and> v = infer_verb m"
  by (auto simp: canonical_verb_for_def list_ex_iff translate_def)

text \<open>What a REST call went through to reach the router.\<close>

definition rest_authenticated :: "'k auth_lib \<Rightarrow> auth_env \<Rightarrow> headers \<Rightarrow> string \<Rightarrow> http_verb \<Rightarrow> session \<Rightarrow> ('k, 'o) app_state \<Rightarrow>
    'k auth_world \<Rightarrow> bool" where
  "rest_authenticated lib e h path_tail verb s w aw \<longleftrightarrow>
     canonical_verb_for (method_from_segments path_tail) = Some verb
     \<and> (\<exists>token. token_from_headers h = Some token \<and> validate lib e token (client_ip_of h) (app_auth w) = (Ok s, aw))"

lemma rest_cases [case_names refused routed]:
  obtains
    resp w' where "rest_dispatch lib e handlers h path_tail verb params w = (resp, w')" "400 \<le> hr_status resp"
      "app_other w' = app_other w" "app_events w' = app_events w" "\<And>s aw. \<not> rest_authenticated lib e h path_tail verb s w aw"
  | s aw req r w' where "rest_authenticated lib e h path_tail verb s w aw" "rq_method req = method_from_segments path_tail"
      "handle_rpc_request e handlers (Some req) s (w\<lparr>app_auth := aw\<rparr>) = (r, w')"
      "rest_dispatch lib e handlers h path_tail verb params w = (unwrap_response r, w')"
proof (cases "canonical_verb_for (method_from_segments path_tail) = Some verb")
  case False
  then obtain resp where "rest_dispatch lib e handlers h path_tail verb params w = (resp, w)" "400 \<le> hr_status resp"
    by (cases "canonical_verb_for (method_from_segments path_tail)") (auto simp: rest_dispatch_def Let_def json_error_def)
  then show ?thesis using that(1) False by (simp add: rest_authenticated_def)
next
  case v: True
  show ?thesis
  proof (cases "token_from_headers h")
    case None
    then show ?thesis using that(1) v by (simp add: rest_dispatch_def Let_def json_error_def rest_authenticated_def)
  next
    case (Some token)
    obtain x aw where va: "validate lib e token (client_ip_of h) (app_auth w) = (x, aw)" by fastforce
    show ?thesis
    proof (cases x)
      case (Inl y)
      then show ?thesis
        using that(1) v Some va by (simp add: rest_dispatch_def Let_def rest_authenticated_def auth_error_status)
    next
      case (Inr s)
      let ?req = "\<lparr>rq_jsonrpc = ''2.0'', rq_method = method_from_segments path_tail,
          rq_params = (if params = JNull then None else Some params), rq_id = JStr (ae_uuid e)\<rparr>"
      obtain r w' where "handle_rpc_request e handlers (Some ?req) s (w\<lparr>app_auth := aw\<rparr>) = (r, w')" by fastforce
      then show ?thesis
        using that(2) [of s aw ?req r w'] v Some va Inr by (simp add: rest_dispatch_def Let_def rest_authenticated_def)
    qed
  qed
qed

text \<open>
  (C4) REST success means authenticated and authorized: whatever the handlers do, a REST call is
  answered with success only if its address belongs to a registered method and its verb is the
  method's, its headers carry a token that validates from the client's address, and the session
  behind the token may call the method; and a call without a valid token reaches no handler and
  broadcasts nothing.
\<close>

theorem rest_success_authorized:
  assumes "rest_dispatch lib e handlers h path_tail verb params w = (resp, w')"
  shows "(hr_status resp < 400 \<longrightarrow>
      (\<exists>token s aw. token_from_headers h = Some token \<and> validate lib e token (client_ip_of h) (app_auth w) = (Ok s, aw)
        \<and> method_from_segments path_tail \<in> m_name ` set registered \<and> verb = infer_verb (method_from_segments path_tail)
        \<and> \<not> denied (s_role s) (method_from_segments path_tail)))
    \<and> ((\<forall>token. token_from_headers h = Some token \<longrightarrow>
          \<not> is_ok (fst (validate lib e token (client_ip_of h) (app_auth w)))) \<longrightarrow>
        400 \<le> hr_status resp \<and> app_other w' = app_other w \<and> app_events w' = app_events w)"
proof (cases rule: rest_cases [where lib = lib and e = e and handlers = handlers and h = h and path_tail = path_tail
      and verb = verb and params = params and w = w])
  case (refused resp1 w1)
  then show ?thesis using assms by auto
next
  case (routed s aw req r w1)
  have a: "\<exists>token. token_from_headers h = Some token \<and> validate lib e token (client_ip_of h) (app_auth w) = (Ok s, aw)"
      "method_from_segments path_tail \<in> m_name ` set registered" "verb = infer_verb (method_from_segments path_tail)"
    using routed(1) by (auto simp: rest_authenticated_def canonical_registered)
  have "\<not> denied (s_role s) (method_from_segments path_tail)" if "hr_status resp < 400"
  proof -
    have "rs_error r = None" using that routed(4) assms unwrap_ok by auto
    then show ?thesis using handle_refused(1) [OF _ routed(3)] routed(2) by (auto simp: refused_def)
  qed
  then show ?thesis using a by fastforce
qed

definition me_headers :: headers where
  "me_headers = \<lparr>h_cookie = Some ''theme=dark; nasty_session=tok'', h_authorization = None, h_real_ip = Some ''10.0.0.2'',
     h_host = None, h_origin = None\<rparr>"

definition logged_in_app :: "(nat, nat) app_state" where
  "logged_in_app = quiet_app\<lparr>app_auth := snd (login plain_lib calm_auth ''admin'' ''admin'' ''10.0.0.2'' boot_world)\<rparr>"

theorem rest_success_authorized_witness:
  "\<exists>s. s_role s = s_role admin_session \<and> fst (validate plain_lib calm_auth ''tok'' ''10.0.0.2'' (app_auth logged_in_app)) = Ok s
     \<and> hr_status (fst (rest_dispatch plain_lib calm_auth zero_handlers me_headers ''auth/me'' Get JNull logged_in_app)) = 204
     \<and> \<not> denied (s_role s) ''auth.me''"
proof -
  let ?d = "rest_dispatch plain_lib calm_auth zero_handlers me_headers ''auth/me'' Get JNull logged_in_app"
  have st: "hr_status (fst ?d) = 204" by code_simp
  have t: "token_from_headers me_headers = Some ''tok''" "client_ip_of me_headers = ''10.0.0.2''"
      "method_from_segments ''auth/me'' = ''auth.me''"
    by code_simp+
  obtain s aw where s: "validate plain_lib calm_auth ''tok'' ''10.0.0.2'' (app_auth logged_in_app) = (Ok s, aw)"
      "\<not> denied (s_role s) ''auth.me''"
    using rest_success_authorized [of plain_lib calm_auth zero_handlers me_headers "''auth/me''" Get JNull logged_in_app, OF surjective_pairing]
      st t by auto
  have "map_option s_role (case fst (validate plain_lib calm_auth ''tok'' ''10.0.0.2'' (app_auth logged_in_app)) of Ok s \<Rightarrow> Some s | Err _ \<Rightarrow> None)
      = Some (s_role admin_session)"
    by code_simp
  then show ?thesis using s st by auto
qed

end
