(* ===== verification/Webauthn.thy ===== *)
theory Webauthn
  imports Auth_Behaviour Json_Rpc
begin

text \<open>
  Security keys (\<open>nasty-engine/src/auth_webauthn.rs\<close>): the challenges in flight, registration
  and login in two steps each, listing and deletion. The cryptography is that of the crate
  \<open>webauthn-rs\<close>, an argument of the operations: \<open>'r\<close> and \<open>'a\<close> are its states
  of a registration and of an authentication, \<open>'k\<close> a passkey. Instants are counted in
  seconds.
\<close>

section \<open>Data\<close>

definition DEFAULT_RP_ID :: string where
  "DEFAULT_RP_ID = ''nasty.local''"

definition REGISTRATION_TTL :: nat where
  "REGISTRATION_TTL = 5 * 60"

definition MAX_IN_FLIGHT_PER_USER :: nat where
  "MAX_IN_FLIGHT_PER_USER = 4"

definition MAX_LABEL_LEN :: nat where
  "MAX_LABEL_LEN = 128"

datatype webauthn_error =
    Backend string | UnknownRegistration string | UnknownAuthentication string | EmptyLabel | LabelTooLong
  | CredentialNotFound | NoCredentials | NoFallbackFactor | Auth_Failed string

fun webauthn_error_message :: "webauthn_error \<Rightarrow> string" where
  "webauthn_error_message (Backend x) = ''webauthn-rs error: '' @ x"
| "webauthn_error_message (UnknownRegistration i) = ''no in-flight registration for id '' @ i"
| "webauthn_error_message (UnknownAuthentication i) = ''no in-flight authentication for id '' @ i"
| "webauthn_error_message EmptyLabel = ''label is empty''"
| "webauthn_error_message LabelTooLong = ''label too long (max 128 chars)''"
| "webauthn_error_message CredentialNotFound = ''credential not found''"
| "webauthn_error_message NoCredentials = ''user has no registered security keys''"
| "webauthn_error_message NoFallbackFactor =
     ''set a password or single sign-on for this account before adding a security key '' @ em_dash
     @ '' otherwise losing every authenticator would lock you out permanently''"
| "webauthn_error_message (Auth_Failed x) = ''auth state I/O failed: '' @ x"

record 'r pending_registration =
  pr_username :: string
  pr_label :: string
  pr_state :: 'r
  pr_started_at :: nat

record 'a pending_authentication =
  pa_username :: string
  pa_state :: 'a
  pa_started_at :: nat

record ('r, 'a) webauthn_service =
  wa_rp_id :: string
  wa_pending :: "(string \<times> 'r pending_registration) list"
  wa_pending_auth :: "(string \<times> 'a pending_authentication) list"

record credential_summary =
  cs_label :: string
  cs_created_at :: u64
  cs_credential_id :: string

text \<open>The functions of \<open>webauthn-rs\<close> and \<open>base64\<close>.\<close>

record ('k, 'r, 'a) webauthn_lib =
  wl_start_registration :: "string \<Rightarrow> string list \<Rightarrow> string + json \<times> 'r"
  wl_finish_registration :: "json \<Rightarrow> 'r \<Rightarrow> string + 'k"
  wl_start_authentication :: "'k list \<Rightarrow> string + json \<times> 'a"
  wl_finish_authentication :: "json \<Rightarrow> 'a \<Rightarrow> string + string \<times> ('k \<Rightarrow> 'k)"
  wl_encode :: "string \<Rightarrow> string"
  wl_decode :: "string \<Rightarrow> string + string"

text \<open>The instant of a call and the random identifier it draws.\<close>

record webauthn_env =
  we_now :: nat
  we_id :: string

section \<open>Operations\<close>

definition webauthn_new :: "string \<Rightarrow> ('r, 'a) webauthn_service" where
  "webauthn_new rp_id = \<lparr>wa_rp_id = rp_id, wa_pending = [], wa_pending_auth = []\<rparr>"

definition rp_id_from_settings :: "string option \<Rightarrow> string" where
  "rp_id_from_settings tls_domain =
     (case tls_domain of None \<Rightarrow> DEFAULT_RP_ID | Some s \<Rightarrow> if trim s = [] then DEFAULT_RP_ID else trim s)"

definition prune_expired :: "nat \<Rightarrow> (string \<times> 'r pending_registration) list \<Rightarrow> (string \<times> 'r pending_registration) list" where
  "prune_expired now pending = filter (\<lambda>(_, p). now - pr_started_at p < REGISTRATION_TTL) pending"

definition prune_expired_auth :: "nat \<Rightarrow> (string \<times> 'a pending_authentication) list \<Rightarrow> (string \<times> 'a pending_authentication) list" where
  "prune_expired_auth now pending = filter (\<lambda>(_, p). now - pa_started_at p < REGISTRATION_TTL) pending"

definition register_start :: "'k auth_lib \<Rightarrow> ('k, 'r, 'a) webauthn_lib \<Rightarrow> webauthn_env \<Rightarrow> string \<Rightarrow> string \<Rightarrow> 'k auth_world \<Rightarrow>
    ('r, 'a) webauthn_service \<Rightarrow> (webauthn_error + string \<times> json) \<times> ('r, 'a) webauthn_service" where
  "register_start lib wl we username label0 aw ws =
     (let label = trim label0 in
      if label = [] then (Err EmptyLabel, ws)
      else if length label > MAX_LABEL_LEN then (Err LabelTooLong, ws)
      else if \<not> has_non_webauthn_factor username aw then (Err NoFallbackFactor, ws)
      else
        let exclude = map (\<lambda>c. lib_cred_id lib (wc_passkey c)) (webauthn_credentials_for username aw) in
        (case wl_start_registration wl username exclude of
           Err x \<Rightarrow> (Err (Backend x), ws)
         | Ok (creation_options, st) \<Rightarrow>
             let pending = prune_expired (we_now we) (wa_pending ws);
                 same_user_count = length (filter (\<lambda>(_, p). pr_username p = username) pending) in
             if same_user_count \<ge> MAX_IN_FLIGHT_PER_USER then
               (Err (Auth_Failed (''too many in-flight registrations for '' @ username @ '' (limit 4)'')),
                ws\<lparr>wa_pending := pending\<rparr>)
             else
               (Ok (we_id we, creation_options),
                ws\<lparr>wa_pending := AList.update (we_id we)
                  \<lparr>pr_username = username, pr_label = label, pr_state = st, pr_started_at = we_now we\<rparr> pending\<rparr>)))"

definition register_finish :: "'k auth_lib \<Rightarrow> ('k, 'r, 'a) webauthn_lib \<Rightarrow> auth_env \<Rightarrow> webauthn_env \<Rightarrow> string \<Rightarrow> string \<Rightarrow> json \<Rightarrow>
    'k auth_world \<Rightarrow> ('r, 'a) webauthn_service \<Rightarrow>
    (webauthn_error + credential_summary) \<times> 'k auth_world \<times> ('r, 'a) webauthn_service" where
  "register_finish lib wl e we username registration_id response aw ws =
     (let pending = prune_expired (we_now we) (wa_pending ws);
          ws1 = ws\<lparr>wa_pending := AList.delete registration_id pending\<rparr>
      in case map_of pending registration_id of
           None \<Rightarrow> (Err (UnknownRegistration registration_id), aw, ws1)
         | Some p \<Rightarrow>
             if pr_username p \<noteq> username then
               (Err (Auth_Failed ''registration_id does not belong to this session''), aw, ws1)
             else case wl_finish_registration wl response (pr_state p) of
               Err x \<Rightarrow> (Err (Backend x), aw, ws1)
             | Ok passkey \<Rightarrow>
                 let credential = \<lparr>wc_label = pr_label p, wc_created_at = ae_now e, wc_passkey = passkey\<rparr> in
                 (case add_webauthn_credential e username credential aw of
                    (Err x, aw1) \<Rightarrow> (Err (Auth_Failed (auth_error_message x)), aw1, ws1)
                  | (Ok _, aw1) \<Rightarrow>
                      (Ok \<lparr>cs_label = pr_label p, cs_created_at = ae_now e,
                           cs_credential_id = wl_encode wl (lib_cred_id lib passkey)\<rparr>, aw1, ws1)))"

definition list_credentials :: "'k auth_lib \<Rightarrow> ('k, 'r, 'a) webauthn_lib \<Rightarrow> string \<Rightarrow> 'k auth_world \<Rightarrow> credential_summary list" where
  "list_credentials lib wl username aw =
     map (\<lambda>c. \<lparr>cs_label = wc_label c, cs_created_at = wc_created_at c,
         cs_credential_id = wl_encode wl (lib_cred_id lib (wc_passkey c))\<rparr>) (webauthn_credentials_for username aw)"

definition delete_credential :: "'k auth_lib \<Rightarrow> ('k, 'r, 'a) webauthn_lib \<Rightarrow> auth_env \<Rightarrow> string \<Rightarrow> string \<Rightarrow> 'k auth_world \<Rightarrow>
    (webauthn_error + unit) \<times> 'k auth_world" where
  "delete_credential lib wl e username credential_id aw =
     (case wl_decode wl (rev (dropWhile (\<lambda>c. c = CHR ''='') (rev credential_id))) of
        Err x \<Rightarrow> (Err (Auth_Failed (''bad credential_id base64: '' @ x)), aw)
      | Ok target \<Rightarrow>
          (case remove_webauthn_credential lib e username target aw of
             (Ok _, aw1) \<Rightarrow> (Ok (), aw1)
           | (Err x, aw1) \<Rightarrow>
               (Err (if x = UserNotFound \<or> x = NotFound then CredentialNotFound else Auth_Failed (auth_error_message x)), aw1)))"

definition login_start :: "('k, 'r, 'a) webauthn_lib \<Rightarrow> webauthn_env \<Rightarrow> string \<Rightarrow> 'k auth_world \<Rightarrow> ('r, 'a) webauthn_service \<Rightarrow>
    (webauthn_error + string \<times> json) \<times> ('r, 'a) webauthn_service" where
  "login_start wl we username aw ws =
     (let stored = webauthn_credentials_for username aw in
      if stored = [] then (Err NoCredentials, ws)
      else case wl_start_authentication wl (map wc_passkey stored) of
        Err x \<Rightarrow> (Err (Backend x), ws)
      | Ok (request_options, st) \<Rightarrow>
          let pending = prune_expired_auth (we_now we) (wa_pending_auth ws);
              same_user_count = length (filter (\<lambda>(_, p). pa_username p = username) pending) in
          if same_user_count \<ge> MAX_IN_FLIGHT_PER_USER then
            (Err (Auth_Failed (''too many in-flight authentications for '' @ username @ '' (limit 4)'')),
             ws\<lparr>wa_pending_auth := pending\<rparr>)
          else
            (Ok (we_id we, request_options),
             ws\<lparr>wa_pending_auth := AList.update (we_id we)
               \<lparr>pa_username = username, pa_state = st, pa_started_at = we_now we\<rparr> pending\<rparr>))"

text \<open>A failed update of the signature counter is logged and does not stop the login.\<close>

definition login_finish :: "'k auth_lib \<Rightarrow> ('k, 'r, 'a) webauthn_lib \<Rightarrow> auth_env \<Rightarrow> webauthn_env \<Rightarrow> string \<Rightarrow> json \<Rightarrow>
    'k auth_world \<Rightarrow> ('r, 'a) webauthn_service \<Rightarrow> (webauthn_error + string) \<times> 'k auth_world \<times> ('r, 'a) webauthn_service" where
  "login_finish lib wl e we auth_id response aw ws =
     (let pending = prune_expired_auth (we_now we) (wa_pending_auth ws);
          ws1 = ws\<lparr>wa_pending_auth := AList.delete auth_id pending\<rparr>
      in case map_of pending auth_id of
           None \<Rightarrow> (Err (UnknownAuthentication auth_id), aw, ws1)
         | Some p \<Rightarrow>
             (case wl_finish_authentication wl response (pa_state p) of
                Err x \<Rightarrow> (Err (Backend x), aw, ws1)
              | Ok (cred, update) \<Rightarrow>
                  (Ok (pa_username p), snd (update_webauthn_sign_count lib e (pa_username p) cred update aw), ws1)))"

section \<open>Challenges in flight\<close>

text \<open>
  What registrations and authentications share: challenges of a user that are forgotten when they
  are five minutes old, counted per user.
\<close>

definition in_flight :: "('p \<Rightarrow> string) \<Rightarrow> string \<Rightarrow> (string \<times> 'p) list \<Rightarrow> nat" where
  "in_flight user u xs = length (filter (\<lambda>(_, p). user p = u) xs)"

lemma in_flight_update: "in_flight user u (AList.update k p xs) \<le> in_flight user u xs + (if user p = u then 1 else 0)"
  by (induction xs) (auto simp: in_flight_def)

lemma in_flight_delete: "in_flight user u (AList.delete k xs) \<le> in_flight user u xs"
  by (induction xs) (auto simp: in_flight_def)

locale challenges =
  fixes user :: "'p \<Rightarrow> string" and started :: "'p \<Rightarrow> nat" and prune :: "nat \<Rightarrow> (string \<times> 'p) list \<Rightarrow> (string \<times> 'p) list"
  assumes prune_young: "prune now xs = filter (\<lambda>(_, p). now - started p < REGISTRATION_TTL) xs"
begin

lemma in_flight_prune: "in_flight user u (prune now xs) \<le> in_flight user u xs"
  unfolding prune_young by (induction xs) (auto simp: in_flight_def)

lemma young: "map_of (prune now xs) i = Some p \<Longrightarrow> (i, p) \<in> set xs \<and> now - started p < 300"
  by (drule map_of_SomeD) (auto simp: prune_young REGISTRATION_TTL_def)

lemma dropped: "in_flight user u xs \<le> n \<Longrightarrow> in_flight user u (AList.delete i (prune now xs)) \<le> n"
  using in_flight_delete [of user u i "prune now xs"] in_flight_prune [of u now xs] by linarith

lemma pruned: "in_flight user u xs \<le> n \<Longrightarrow> in_flight user u (prune now xs) \<le> n"
  using in_flight_prune [of u now xs] by linarith

lemma inserted:
  assumes "in_flight user u xs \<le> n" and "in_flight user (user p) (prune now xs) < n"
  shows "in_flight user u (AList.update i p (prune now xs)) \<le> n"
  using assms in_flight_update [of user u i p "prune now xs"] in_flight_prune [of u now xs] by (auto split: if_splits)

end

interpretation reg: challenges pr_username pr_started_at prune_expired
  by unfold_locales (simp add: prune_expired_def)

interpretation asn: challenges pa_username pa_started_at prune_expired_auth
  by unfold_locales (simp add: prune_expired_auth_def)

section \<open>Runs\<close>

text \<open>The calls of clients, each with the instant, the random identifier and the outcomes it
  meets, and the operations of the authentication service in between.\<close>

datatype 'k webauthn_op =
    Start_Registration string string
  | Finish_Registration string string json
  | Start_Login string
  | Finish_Login string json
  | Delete_Credential string string
  | Auth_Op "'k auth_op"

fun webauthn_step :: "'k auth_lib \<Rightarrow> ('k, 'r, 'a) webauthn_lib \<Rightarrow> (string \<Rightarrow> string option) \<Rightarrow> auth_env \<Rightarrow> webauthn_env \<Rightarrow>
    'k webauthn_op \<Rightarrow> 'k auth_world \<times> ('r, 'a) webauthn_service \<Rightarrow> 'k auth_world \<times> ('r, 'a) webauthn_service" where
  "webauthn_step lib wl smb e we (Start_Registration u l) (aw, ws) = (aw, snd (register_start lib wl we u l aw ws))"
| "webauthn_step lib wl smb e we (Finish_Registration u i r) (aw, ws) = snd (register_finish lib wl e we u i r aw ws)"
| "webauthn_step lib wl smb e we (Start_Login u) (aw, ws) = (aw, snd (login_start wl we u aw ws))"
| "webauthn_step lib wl smb e we (Finish_Login i r) (aw, ws) = snd (login_finish lib wl e we i r aw ws)"
| "webauthn_step lib wl smb e we (Delete_Credential u c) (aw, ws) = (snd (delete_credential lib wl e u c aw), ws)"
| "webauthn_step lib wl smb e we (Auth_Op op) (aw, ws) = (auth_step lib smb e op aw, ws)"

inductive webauthn_run :: "'k auth_lib \<Rightarrow> ('k, 'r, 'a) webauthn_lib \<Rightarrow> (string \<Rightarrow> string option) \<Rightarrow>
    'k auth_world \<times> ('r, 'a) webauthn_service \<Rightarrow> 'k auth_world \<times> ('r, 'a) webauthn_service \<Rightarrow> bool"
  for lib wl smb where
  webauthn_refl: "webauthn_run lib wl smb c c"
| webauthn_more: "webauthn_run lib wl smb c c1 \<Longrightarrow> webauthn_run lib wl smb c (webauthn_step lib wl smb e we op c1)"

definition bounded_flight :: "('r, 'a) webauthn_service \<Rightarrow> bool" where
  "bounded_flight ws \<longleftrightarrow> (\<forall>u. in_flight pr_username u (wa_pending ws) \<le> 4 \<and> in_flight pa_username u (wa_pending_auth ws) \<le> 4)"

lemma register_start_bounded: "bounded_flight ws \<Longrightarrow> bounded_flight (snd (register_start lib wl we u l aw ws))"
  by (auto simp: bounded_flight_def register_start_def Let_def MAX_IN_FLIGHT_PER_USER_def in_flight_def [symmetric]
      not_le reg.pruned reg.inserted split: sum.split)

lemma login_start_bounded: "bounded_flight ws \<Longrightarrow> bounded_flight (snd (login_start wl we u aw ws))"
  by (auto simp: bounded_flight_def login_start_def Let_def MAX_IN_FLIGHT_PER_USER_def in_flight_def [symmetric]
      not_le asn.pruned asn.inserted split: sum.split)

lemma register_finish_pending:
  "snd (snd (register_finish lib wl e we u i r aw ws)) = ws\<lparr>wa_pending := AList.delete i (prune_expired (we_now we) (wa_pending ws))\<rparr>"
  by (simp add: register_finish_def Let_def split: option.split sum.split prod.split)

lemma login_finish_pending:
  "snd (snd (login_finish lib wl e we i r aw ws)) = ws\<lparr>wa_pending_auth := AList.delete i (prune_expired_auth (we_now we) (wa_pending_auth ws))\<rparr>"
  by (simp add: login_finish_def Let_def split: option.split sum.split prod.split)

lemma finish_bounded:
  assumes "bounded_flight ws"
  shows "bounded_flight (snd (snd (register_finish lib wl e we u i r aw ws)))"
    and "bounded_flight (snd (snd (login_finish lib wl e we i r aw ws)))"
  using assms by (simp_all add: register_finish_pending login_finish_pending bounded_flight_def reg.dropped asn.dropped)

lemma webauthn_step_bounded: "bounded_flight (snd c) \<Longrightarrow> bounded_flight (snd (webauthn_step lib wl smb e we op c))"
proof (cases c)
  case (Pair aw ws)
  then show "bounded_flight (snd c) \<Longrightarrow> bounded_flight (snd (webauthn_step lib wl smb e we op c))"
    by (cases op) (simp_all add: register_start_bounded login_start_bounded finish_bounded)
qed

text \<open>
  The caches of challenges stay bounded: in every run that starts with an empty service, with
  any requests, expiries and identifiers drawn, and with any operations of the authentication
  service in between, no user ever has more than four registrations and four logins in flight.
\<close>

theorem webauthn_flight_bounded:
  assumes "webauthn_run lib wl smb (aw, webauthn_new rp) c"
  shows "in_flight pr_username u (wa_pending (snd c)) \<le> 4 \<and> in_flight pa_username u (wa_pending_auth (snd c)) \<le> 4"
proof -
  have "bounded_flight (snd c)"
    using assms
  proof (induction "(aw, webauthn_new rp :: ('b, 'c) webauthn_service)" c rule: webauthn_run.induct)
    case webauthn_refl
    show ?case by (simp add: bounded_flight_def webauthn_new_def in_flight_def)
  qed (rule webauthn_step_bounded)
  then show ?thesis by (simp add: bounded_flight_def)
qed

text \<open>Sample functions: a challenge is the user's name, and a response is accepted when it repeats
  the challenge.\<close>

definition echo_webauthn :: "(nat, string, nat list) webauthn_lib" where
  "echo_webauthn = \<lparr>wl_start_registration = (\<lambda>u ex. Ok (JStr u, u)),
     wl_finish_registration = (\<lambda>r st. if r = JStr st then Ok (length st) else Err ''bad response''),
     wl_start_authentication = (\<lambda>ks. Ok (JNull, ks)),
     wl_finish_authentication = (\<lambda>r ks. if r = JBool True then Ok (show_nat (hd ks), id) else Err ''bad assertion''),
     wl_encode = (\<lambda>s. s), wl_decode = (\<lambda>s. Ok s)\<rparr>"

theorem webauthn_flight_bounded_witness:
  "in_flight pr_username ''admin'' (wa_pending (snd (webauthn_step plain_lib echo_webauthn (\<lambda>_. None) calm_auth
     \<lparr>we_now = 0, we_id = ''r1''\<rparr> (Start_Registration ''admin'' ''key'') (boot_world, webauthn_new DEFAULT_RP_ID)))) \<le> 4"
  using webauthn_flight_bounded [OF webauthn_more [OF webauthn_refl]] by blast

section \<open>Registration and login\<close>

lemma add_credential_ok:
  assumes "add_webauthn_credential e u c w = (Ok (), w')"
  obtains x where "List.find (has_username u) (as_users (aw_state w)) = Some x"
    "aw_state w' = update_user u (\<lambda>x. x\<lparr>u_webauthn_credentials := u_webauthn_credentials x @ [c]\<rparr>) (aw_state w)"
  using assms by (auto simp: add_webauthn_credential_def split: option.splits dest: commit_state_ok)

lemma credentials_after_add:
  assumes "add_webauthn_credential e u c w = (Ok (), w')"
  shows "webauthn_credentials_for v w' = webauthn_credentials_for v w @ (if v = u then [c] else [])"
proof -
  obtain x where x: "List.find (has_username u) (as_users (aw_state w)) = Some x"
      and w': "aw_state w' = update_user u (\<lambda>x. x\<lparr>u_webauthn_credentials := u_webauthn_credentials x @ [c]\<rparr>) (aw_state w)"
    by (rule add_credential_ok [OF assms])
  show ?thesis
  proof (cases "v = u")
    case True
    have "List.find (has_username u) (as_users (aw_state w')) =
        map_option (\<lambda>x. x\<lparr>u_webauthn_credentials := u_webauthn_credentials x @ [c]\<rparr>)
          (List.find (has_username u) (as_users (aw_state w)))"
      unfolding w' update_user_def by simp (rule find_update_first_same, simp add: has_username_def)
    then show ?thesis using True x by (simp add: webauthn_credentials_for_def)
  next
    case False
    have "List.find (has_username v) (as_users (aw_state w')) = List.find (has_username v) (as_users (aw_state w))"
      unfolding w' update_user_def by simp (rule find_update_first_other, use False in \<open>simp_all add: has_username_def\<close>)
    then show ?thesis using False by (simp add: webauthn_credentials_for_def)
  qed
qed

text \<open>
  (C18) A security key is registered only to the user who asked for it: when a registration
  finishes, a challenge under that identifier was in flight, started by the same user less than
  five minutes before, and the key the library accepts for the browser's response to that
  challenge is appended to that user's keys under the label given at the start; no other user's
  keys change, and the identifier cannot be used again.
\<close>

theorem registration_is_bound:
  assumes "register_finish lib wl e we u i response aw ws = (Ok summary, aw', ws')"
  shows "(\<exists>p k. (i, p) \<in> set (wa_pending ws) \<and> pr_username p = u \<and> we_now we - pr_started_at p < 300
      \<and> wl_finish_registration wl response (pr_state p) = Ok k
      \<and> (\<forall>v. webauthn_credentials_for v aw' = webauthn_credentials_for v aw
          @ (if v = u then [\<lparr>wc_label = pr_label p, wc_created_at = ae_now e, wc_passkey = k\<rparr>] else [])))
    \<and> map_of (wa_pending ws') i = None"
proof -
  let ?pending = "prune_expired (we_now we) (wa_pending ws)"
  obtain p where p: "map_of ?pending i = Some p"
    using assms by (cases "map_of ?pending i") (auto simp: register_finish_def Let_def)
  have u: "pr_username p = u"
    by (rule ccontr) (use assms p in \<open>simp add: register_finish_def Let_def\<close>)
  obtain k where k: "wl_finish_registration wl response (pr_state p) = Ok k"
    using assms p u by (cases "wl_finish_registration wl response (pr_state p)") (auto simp: register_finish_def Let_def)
  have "add_webauthn_credential e u \<lparr>wc_label = pr_label p, wc_created_at = ae_now e, wc_passkey = k\<rparr> aw = (Ok (), aw')"
    using assms p u k by (auto simp: register_finish_def Let_def split: prod.splits sum.splits)
  from credentials_after_add [OF this]
  have "\<forall>v. webauthn_credentials_for v aw' = webauthn_credentials_for v aw
      @ (if v = u then [\<lparr>wc_label = pr_label p, wc_created_at = ae_now e, wc_passkey = k\<rparr>] else [])" by blast
  moreover have "map_of (wa_pending ws') i = None"
    using register_finish_pending [of lib wl e we u i response aw ws] assms by (simp add: delete_conv')
  ultimately show ?thesis using reg.young [OF p] u k by blast
qed

theorem registration_is_bound_witness:
  "let (x, ws1) = register_start plain_lib echo_webauthn \<lparr>we_now = 0, we_id = ''r1''\<rparr> ''admin'' ''key'' boot_world (webauthn_new DEFAULT_RP_ID);
       (y, aw, ws2) = register_finish plain_lib echo_webauthn calm_auth \<lparr>we_now = 9, we_id = []\<rparr> ''admin'' ''r1'' (JStr ''admin'') boot_world ws1
   in is_ok x \<and> is_ok y \<and> map_of (wa_pending ws2) ''r1'' = None"
proof -
  let ?a = "register_start plain_lib echo_webauthn \<lparr>we_now = 0, we_id = ''r1''\<rparr> ''admin'' ''key'' boot_world (webauthn_new DEFAULT_RP_ID)"
  let ?b = "register_finish plain_lib echo_webauthn calm_auth \<lparr>we_now = 9, we_id = []\<rparr> ''admin'' ''r1'' (JStr ''admin'') boot_world (snd ?a)"
  have ok: "is_ok (fst ?a)" "is_ok (fst ?b)" by code_simp+
  then obtain y where "?b = (Ok y, fst (snd ?b), snd (snd ?b))" by (cases ?b) (auto simp: is_ok_iff)
  from registration_is_bound [OF this] have "map_of (wa_pending (snd (snd ?b))) ''r1'' = None" ..
  with ok show ?thesis by (simp add: case_prod_beta)
qed

end
