(* ===== verification/Oidc.thy ===== *)
theory Oidc
  imports Auth_Behaviour Json_Rpc
begin

text \<open>
  Sign-in with OpenID Connect: how an identity's groups become a role, the flows in flight and the
  issuer check (\<open>nasty-engine/src/auth_oidc.rs\<close>), the stored settings
  (\<open>nasty-system/src/settings.rs\<close>), and the callback of the browser (\<open>main.rs\<close>). The
  protocol itself, the exchange of a code for a verified token and the parsing of URLs, is that of
  the crates \<open>openidconnect\<close> and \<open>url\<close>, arguments of the operations.
\<close>

unbundle bit_operations_syntax

section \<open>Settings\<close>

record oidc_role_mapping =
  orm_group :: string
  orm_role :: string

record oidc_settings =
  os_enabled :: bool
  os_issuer_url :: "string option"
  os_client_id :: "string option"
  os_client_secret :: "string option"
  os_client_secret_encrypted :: "string option"
  os_redirect_uri :: "string option"
  os_scopes :: "string list"
  os_groups_claim :: string
  os_role_mappings :: "oidc_role_mapping list"
  os_default_role :: "string option"
  os_auto_provision :: bool

definition default_oidc_scopes :: "string list" where
  "default_oidc_scopes = [''openid'', ''profile'', ''email'', ''groups'']"

definition OIDC_SECRET_PLACEHOLDER :: string where
  "OIDC_SECRET_PLACEHOLDER = ''<unchanged>''"

definition redact_oidc_secret :: "oidc_settings \<Rightarrow> oidc_settings" where
  "redact_oidc_secret s =
     (let is_set = (os_client_secret s \<noteq> None \<and> os_client_secret s \<noteq> Some []) \<or> os_client_secret_encrypted s \<noteq> None
      in s\<lparr>os_client_secret := Some (if is_set then ''<set>'' else ''<unset>''), os_client_secret_encrypted := None\<rparr>)"

text \<open>\<open>seal\<close> is \<open>secrets::encrypt\<close>, which hands the text to systemd-creds; a failure keeps the
  plain text.\<close>

definition encrypt_oidc_secret :: "(string \<Rightarrow> string option) \<Rightarrow> oidc_settings \<Rightarrow> oidc_settings" where
  "encrypt_oidc_secret seal s =
     (if os_client_secret_encrypted s = None then
        case os_client_secret s of
          Some plain \<Rightarrow>
            if plain = [] then s
            else (case seal plain of
                    Some blob \<Rightarrow> s\<lparr>os_client_secret_encrypted := Some blob, os_client_secret := None\<rparr>
                  | None \<Rightarrow> s)
        | None \<Rightarrow> s
      else s)"

text \<open>The settings in memory and on disk, and the outcome of saving them.\<close>

record oidc_store =
  st_oidc :: oidc_settings
  st_saved :: oidc_settings

definition set_oidc :: "(string \<Rightarrow> string option) \<Rightarrow> string option \<Rightarrow> oidc_settings \<Rightarrow> oidc_store \<Rightarrow>
    (string + oidc_settings) \<times> oidc_store" where
  "set_oidc seal save_error incoming w =
     (let old = st_oidc w;
          i1 = (if os_client_secret incoming = Some OIDC_SECRET_PLACEHOLDER
                then incoming\<lparr>os_client_secret := os_client_secret old, os_client_secret_encrypted := os_client_secret_encrypted old\<rparr>
                else incoming\<lparr>os_client_secret_encrypted := None\<rparr>);
          i2 = (if os_scopes i1 = [] then i1\<lparr>os_scopes := default_oidc_scopes\<rparr> else i1);
          i3 = encrypt_oidc_secret seal i2;
          w1 = w\<lparr>st_oidc := i3\<rparr>
      in case save_error of
           Some x \<Rightarrow> (Err x, w1)
         | None \<Rightarrow> (Ok (redact_oidc_secret i3), w1\<lparr>st_saved := i3\<rparr>))"

section \<open>Groups and roles\<close>

fun as_strings :: "json \<Rightarrow> string list" where
  "as_strings (JArr vs) = List.map_filter as_str vs"
| "as_strings (JStr s) = [s]"
| "as_strings _ = []"

text \<open>The value at the end of a dotted path, or none when a step is not into an object.\<close>

fun walk_claim :: "json \<Rightarrow> string list \<Rightarrow> json option" where
  "walk_claim v [] = Some v"
| "walk_claim (JObj m) (seg # segs) = walk_claim (case map_of m seg of Some v \<Rightarrow> v | None \<Rightarrow> JNull) segs"
| "walk_claim _ (seg # segs) = None"

definition extract_groups :: "json \<Rightarrow> string \<Rightarrow> string list" where
  "extract_groups payload claim_path =
     (case walk_claim payload (split_on CHR ''.'' claim_path) of Some v \<Rightarrow> as_strings v | None \<Rightarrow> [])"

definition role_for_groups :: "string list \<Rightarrow> oidc_settings \<Rightarrow> string option" where
  "role_for_groups groups s =
     (case List.find (\<lambda>m. orm_group m \<in> set groups) (os_role_mappings s) of
        Some m \<Rightarrow> Some (orm_role m)
      | None \<Rightarrow> (case os_default_role s of Some r \<Rightarrow> if r = [] then None else Some r | None \<Rightarrow> None))"

definition dry_run_role :: "json \<Rightarrow> oidc_settings \<Rightarrow> string + string option" where
  "dry_run_role sample s =
     (case json_get sample (os_groups_claim s) of
        None \<Rightarrow> Ok (role_for_groups [] s)
      | Some v \<Rightarrow>
          (case v of
             JArr vs \<Rightarrow> Ok (role_for_groups (List.map_filter as_str vs) s)
           | JStr g \<Rightarrow> Ok (role_for_groups [g] s)
           | _ \<Rightarrow> Err (''claim `'' @ os_groups_claim s @ ''` is not a string or array of strings'')))"

section \<open>Flows in flight\<close>

datatype oidc_error =
    Oidc_NotEnabled | Oidc_NotConfigured string | Oidc_Discovery string | Oidc_Config string | Oidc_StateMismatch
  | Oidc_TokenExchange string | Oidc_TokenVerification string | Oidc_MissingIdToken | Oidc_NoRoleMatch

fun oidc_error_message :: "oidc_error \<Rightarrow> string" where
  "oidc_error_message Oidc_NotEnabled = ''OIDC is not enabled''"
| "oidc_error_message (Oidc_NotConfigured x) = ''OIDC is not fully configured: '' @ x"
| "oidc_error_message (Oidc_Discovery x) = ''OIDC discovery failed: '' @ x"
| "oidc_error_message (Oidc_Config x) = ''invalid configuration: '' @ x"
| "oidc_error_message Oidc_StateMismatch = ''invalid state cookie or expired''"
| "oidc_error_message (Oidc_TokenExchange x) = ''token exchange failed: '' @ x"
| "oidc_error_message (Oidc_TokenVerification x) = ''ID token verification failed: '' @ x"
| "oidc_error_message Oidc_MissingIdToken = ''missing ID token in response''"
| "oidc_error_message Oidc_NoRoleMatch = ''login denied: no role mapping matched and no default role configured''"

definition PENDING_TTL_SECS :: u64 where
  "PENDING_TTL_SECS = 5 * 60"

record pending_flow =
  pf_pkce_verifier :: string
  pf_nonce :: string
  pf_expires_at :: u64

type_synonym flows = "(string \<times> pending_flow) list"

text \<open>The random values a new flow draws: its state, its verifier and its nonce.\<close>

definition authorize_url :: "u64 \<Rightarrow> string \<Rightarrow> string \<Rightarrow> string \<Rightarrow> flows \<Rightarrow> flows" where
  "authorize_url now csrf verifier nonce pending =
     AList.update csrf \<lparr>pf_pkce_verifier = verifier, pf_nonce = nonce, pf_expires_at = now + PENDING_TTL_SECS\<rparr>
       (filter (\<lambda>(_, p). pf_expires_at p > now) pending)"

text \<open>The verified claims of an ID token and its payload.\<close>

record id_claims =
  ic_issuer :: string
  ic_subject :: string
  ic_preferred_username :: "string option"
  ic_email :: "string option"
  ic_payload :: json

text \<open>\<open>exchange\<close> is the exchange of a code with a verifier and the verification of the token
  against a nonce.\<close>

definition exchange_code :: "(string \<Rightarrow> string \<Rightarrow> string \<Rightarrow> oidc_error + id_claims) \<Rightarrow> string \<Rightarrow> u64 \<Rightarrow> string \<Rightarrow> string \<Rightarrow> flows \<Rightarrow>
    (oidc_error + oidc_identity) \<times> flows" where
  "exchange_code exchange groups_claim now state code pending =
     (case map_of pending state of
        None \<Rightarrow> (Err Oidc_StateMismatch, AList.delete state pending)
      | Some p \<Rightarrow>
          (if pf_expires_at p \<le> now then Err Oidc_StateMismatch
           else case exchange code (pf_pkce_verifier p) (pf_nonce p) of
                  Err x \<Rightarrow> Err x
                | Ok c \<Rightarrow>
                    Ok \<lparr>oi_issuer = ic_issuer c, oi_subject = ic_subject c, oi_email = ic_email c,
                        oi_preferred_username = ic_preferred_username c, oi_groups = extract_groups (ic_payload c) groups_claim\<rparr>,
           AList.delete state pending))"

section \<open>The client\<close>

text \<open>What the crate \<open>url\<close> makes of an issuer's URL: its scheme and its host, as text and
  parsed.\<close>

datatype url_host = Host_Domain string | Host_Ipv4 "8 word list" | Host_Ipv6 "u16 list"

record parsed_url =
  pu_scheme :: string
  pu_host_str :: "string option"
  pu_host :: "url_host option"

text \<open>Printing addresses, as the standard library does.\<close>

definition show_octets :: "8 word list \<Rightarrow> string" where
  "show_octets os = join ''.'' (map (\<lambda>x. show_nat (unat x)) os)"

definition show_hex :: "u16 \<Rightarrow> string" where
  "show_hex g =
     (let ds = map (\<lambda>k. hex_digit (unat (drop_bit (4 * k) g AND 0xf))) [3, 2, 1, 0]; ds' = dropWhile (\<lambda>c. c = CHR ''0'') ds
      in if ds' = [] then ''0'' else ds')"

definition show_groups :: "u16 list \<Rightarrow> string" where
  "show_groups gs = join '':'' (map show_hex gs)"

text \<open>The first of the longest runs of zeros: its start and its length.\<close>

fun longest_zeros :: "nat \<Rightarrow> u16 list \<Rightarrow> nat \<times> nat" where
  "longest_zeros i [] = (0, 0)"
| "longest_zeros i (g # gs) =
     (let n = length (takeWhile (\<lambda>x. x = 0) (g # gs)); (j, m) = longest_zeros (i + 1) gs
      in if m \<le> n \<and> 0 < n then (i, n) else (j, m))"

definition octets_of :: "u16 \<Rightarrow> 8 word list" where
  "octets_of g = [ucast (drop_bit 8 g), ucast g]"

definition show_v6 :: "u16 list \<Rightarrow> string" where
  "show_v6 gs =
     (if take 6 gs = [0, 0, 0, 0, 0, 0xffff] then
        ''::ffff:'' @ show_octets (octets_of (gs ! 6) @ octets_of (gs ! 7))
      else
        let (i, n) = longest_zeros 0 gs in
        if 1 < n then show_groups (take i gs) @ ''::'' @ show_groups (drop (i + n) gs) else show_groups gs)"

definition metadata_hosts :: "string list" where
  "metadata_hosts = [''metadata.google.internal'', ''metadata.goog'']"

fun refused_host :: "url_host \<Rightarrow> string option" where
  "refused_host (Host_Ipv4 os) =
     (if hd os = 127 \<or> take 2 os = [169, 254] \<or> os = [0, 0, 0, 0] \<or> os = [255, 255, 255, 255] then
        Some (''issuer URL host '' @ show_octets os @ '' is a loopback/link-local/broadcast/unspecified address'')
      else None)"
| "refused_host (Host_Ipv6 gs) =
     (if gs = [0, 0, 0, 0, 0, 0, 0, 1] \<or> gs = [0, 0, 0, 0, 0, 0, 0, 0] then
        Some (''issuer URL host '' @ show_v6 gs @ '' is a loopback/unspecified address'')
      else if hd gs AND 0xffc0 = 0xfe80 then Some (''issuer URL host '' @ show_v6 gs @ '' is a link-local address'')
      else None)"
| "refused_host (Host_Domain _) = None"

text \<open>\<open>parse\<close> is \<open>Url::parse\<close>.\<close>

definition validate_issuer_url :: "(string \<Rightarrow> string + parsed_url) \<Rightarrow> string \<Rightarrow> oidc_error + unit" where
  "validate_issuer_url parse s =
     (case parse s of
        Err x \<Rightarrow> Err (Oidc_Config (''issuer URL: '' @ x))
      | Ok u \<Rightarrow>
          if pu_scheme u \<noteq> ''https'' then
            Err (Oidc_Config (''issuer URL must use https (got '' @ [CHR 0x27] @ pu_scheme u @ [CHR 0x27] @ '')''))
          else case pu_host_str u of
            None \<Rightarrow> Err (Oidc_Config ''issuer URL missing host'')
          | Some host_str \<Rightarrow>
              if to_ascii_lowercase host_str \<in> set metadata_hosts then
                Err (Oidc_Config (''issuer URL host '' @ [CHR 0x27] @ host_str @ [CHR 0x27] @ '' is a cloud metadata service''))
              else case Option.bind (pu_host u) refused_host of
                     Some x \<Rightarrow> Err (Oidc_Config x)
                   | None \<Rightarrow> Ok ())"

record oidc_client =
  oc_client_id :: string
  oc_client_secret :: "string option"
  oc_redirect_url :: string
  oc_settings :: oidc_settings
  oc_pending :: flows

text \<open>\<open>unseal\<close> decrypts a stored secret.\<close>

definition resolve_oidc_client_secret :: "(string \<Rightarrow> string option) \<Rightarrow> oidc_settings \<Rightarrow> string option" where
  "resolve_oidc_client_secret unseal s =
     (case os_client_secret_encrypted s of
        Some blob \<Rightarrow> unseal blob
      | None \<Rightarrow> (case os_client_secret s of Some p \<Rightarrow> if p = [] then None else Some p | None \<Rightarrow> None))"

definition configured :: "string \<Rightarrow> string option \<Rightarrow> oidc_error + string" where
  "configured field x = (case x of Some v \<Rightarrow> if v = [] then Err (Oidc_NotConfigured field) else Ok v | None \<Rightarrow> Err (Oidc_NotConfigured field))"

text \<open>The crates behind a client: the URL parser, the discovery of the provider behind an issuer
  (with the checks of the issuer's URL and of the HTTP client before it), the check of a redirect
  URL, and the unsealing of the secret. \<open>None\<close> is success.\<close>

record oidc_lib =
  ol_parse_url :: "string \<Rightarrow> string + parsed_url"
  ol_discover :: "string \<Rightarrow> oidc_error option"
  ol_redirect :: "string \<Rightarrow> string option"
  ol_unseal :: "string \<Rightarrow> string option"

definition from_settings :: "oidc_lib \<Rightarrow> oidc_settings \<Rightarrow> oidc_error + oidc_client" where
  "from_settings ol s =
     (case configured ''issuer_url'' (os_issuer_url s) of Err x \<Rightarrow> Err x | Ok issuer \<Rightarrow>
      case configured ''client_id'' (os_client_id s) of Err x \<Rightarrow> Err x | Ok client_id \<Rightarrow>
      case configured ''redirect_uri'' (os_redirect_uri s) of Err x \<Rightarrow> Err x | Ok redirect \<Rightarrow>
      case validate_issuer_url (ol_parse_url ol) issuer of Err x \<Rightarrow> Err x | Ok _ \<Rightarrow>
      case ol_discover ol issuer of Some x \<Rightarrow> Err x | None \<Rightarrow>
      case ol_redirect ol redirect of Some x \<Rightarrow> Err (Oidc_Config x) | None \<Rightarrow>
        Ok \<lparr>oc_client_id = client_id, oc_client_secret = resolve_oidc_client_secret (ol_unseal ol) s,
            oc_redirect_url = redirect, oc_settings = s, oc_pending = []\<rparr>)"

text \<open>\<open>OidcHolder::rebuild\<close>: the error, if any, and the client in force.\<close>

definition rebuild_client :: "oidc_lib \<Rightarrow> oidc_settings \<Rightarrow> oidc_client option \<Rightarrow> oidc_error option \<times> oidc_client option" where
  "rebuild_client ol s client =
     (if \<not> os_enabled s then (None, None)
      else case from_settings ol s of Err x \<Rightarrow> (Some x, client) | Ok c \<Rightarrow> (None, Some c))"

section \<open>The callback\<close>

record callback_query =
  cq_code :: "string option"
  cq_state :: "string option"
  cq_error :: "string option"
  cq_error_description :: "string option"

text \<open>Where the browser is sent, and the cookie it is given; or not found.\<close>

datatype callback_result = Not_Found | Bounce string | Signed_In string

text \<open>\<open>client\<close> is the client in force, if there is one, with the settings it was built from;
  \<open>encode\<close> is the percent encoding of a fragment.\<close>

definition oidc_callback_handler :: "'k auth_lib \<Rightarrow> auth_env \<Rightarrow> (string \<Rightarrow> string) \<Rightarrow>
    (string \<Rightarrow> string \<Rightarrow> string \<Rightarrow> oidc_error + id_claims) \<Rightarrow> string \<Rightarrow> oidc_settings \<Rightarrow> callback_query \<Rightarrow>
    oidc_client option \<Rightarrow> 'k auth_world \<Rightarrow> callback_result \<times> oidc_client option \<times> 'k auth_world" where
  "oidc_callback_handler lib e encode exchange client_ip s q client aw =
     (case cq_error q of
        Some x \<Rightarrow>
          let detail = x @ '': '' @ (case cq_error_description q of Some d \<Rightarrow> d | None \<Rightarrow> [])
          in (Bounce (''oidc_error='' @ encode detail), client, audit e ''oidc_login_failed'' ''anonymous'' client_ip detail aw)
      | None \<Rightarrow>
          (case (cq_code q, cq_state q) of
             (Some code, Some state) \<Rightarrow>
               (case client of
                  None \<Rightarrow> (Not_Found, client, aw)
                | Some c \<Rightarrow>
                    (case exchange_code exchange (os_groups_claim (oc_settings c)) (ae_now e) state code (oc_pending c) of
                       (Err x, pending1) \<Rightarrow>
                         (Bounce (''oidc_error='' @ encode (oidc_error_message x)), Some (c\<lparr>oc_pending := pending1\<rparr>),
                          audit e ''oidc_login_failed'' ''anonymous'' client_ip (oidc_error_message x) aw)
                     | (Ok identity, pending1) \<Rightarrow>
                         (case login_or_provision_oidc lib e identity
                                 (Option.bind (role_for_groups (oi_groups identity) s) parse_role_str)
                                 (os_auto_provision s) client_ip aw of
                            (Ok token, aw1) \<Rightarrow> (Signed_In token, Some (c\<lparr>oc_pending := pending1\<rparr>), aw1)
                          | (Err x, aw1) \<Rightarrow>
                              (Bounce (''oidc_error='' @ encode (auth_error_message x)), Some (c\<lparr>oc_pending := pending1\<rparr>), aw1))))
           | _ \<Rightarrow>
               (Bounce ''oidc_error=missing+code+or+state'', client,
                audit e ''oidc_login_failed'' ''anonymous'' client_ip ''missing code or state'' aw)))"

section \<open>Properties\<close>

definition keycloak_settings :: oidc_settings where
  "keycloak_settings = \<lparr>os_enabled = True, os_issuer_url = None, os_client_id = None, os_client_secret = None,
     os_client_secret_encrypted = None, os_redirect_uri = None, os_scopes = [], os_groups_claim = ''realm_access.roles'',
     os_role_mappings = [\<lparr>orm_group = ''nas-admins'', orm_role = ''admin''\<rparr>], os_default_role = None, os_auto_provision = True\<rparr>"

text \<open>
  The dry run predicts the login: for a groups claim without a dot, the role the
  administrator's test reports for a sample of claims is the role a login with those claims is
  given, whenever the test reports one; and it reports one unless the claim is there and neither a
  string nor a list.
\<close>

theorem dry_run_predicts_login:
  assumes "CHR ''.'' \<notin> set (os_groups_claim s)"
  shows "(\<forall>r. dry_run_role (JObj m) s = Ok r \<longrightarrow> r = role_for_groups (extract_groups (JObj m) (os_groups_claim s)) s)
    \<and> (is_ok (dry_run_role (JObj m) s) \<longleftrightarrow>
         map_of m (os_groups_claim s) \<in> {None} \<union> range (\<lambda>vs. Some (JArr vs)) \<union> range (\<lambda>g. Some (JStr g)))"
proof (cases "map_of m (os_groups_claim s)")
  case None
  then show ?thesis
    using split_on_single [OF assms] by (auto simp: dry_run_role_def extract_groups_def)
next
  case (Some v)
  then show ?thesis
    using split_on_single [OF assms] by (cases v) (auto simp: dry_run_role_def extract_groups_def)
qed

theorem dry_run_predicts_login_witness:
  "dry_run_role (JObj [(''groups'', JArr [JStr ''users'', JStr ''nas-admins''])]) (keycloak_settings\<lparr>os_groups_claim := ''groups''\<rparr>) = Ok (Some ''admin'')
   \<and> role_for_groups (extract_groups (JObj [(''groups'', JArr [JStr ''users'', JStr ''nas-admins''])]) ''groups'') (keycloak_settings\<lparr>os_groups_claim := ''groups''\<rparr>) = Some ''admin''"
proof -
  let ?s = "keycloak_settings\<lparr>os_groups_claim := ''groups''\<rparr>" and ?m = "[(''groups'', JArr [JStr ''users'', JStr ''nas-admins''])]"
  have "dry_run_role (JObj ?m) ?s = Ok (Some ''admin'')" by code_simp
  moreover have "CHR ''.'' \<notin> set (os_groups_claim ?s)" by code_simp
  ultimately show ?thesis using dry_run_predicts_login [of ?s ?m] by simp
qed

text \<open>
  The test looks a dotted claim up as one key, while a login walks it: for groups under
  \<open>realm_access.roles\<close> the test reports that the login is denied, and the login gets the role.
\<close>

definition keycloak_claims :: json where
  "keycloak_claims = JObj [(''realm_access'', JObj [(''roles'', JArr [JStr ''nas-admins''])])]"

lemma dry_run_misses_dotted_claims:
  "dry_run_role keycloak_claims keycloak_settings = Ok None
   \<and> role_for_groups (extract_groups keycloak_claims (os_groups_claim keycloak_settings)) keycloak_settings = Some ''admin''"
  by code_simp

text \<open>
  A client that reads the settings and writes them back unchanged replaces the secret: what it
  reads is \<open><set>\<close>, and what would keep the secret is \<open><unchanged>\<close>.
\<close>

lemma settings_round_trip_replaces_secret:
  "st_oidc (snd (set_oidc (\<lambda>_. None) None (redact_oidc_secret (keycloak_settings\<lparr>os_client_secret := Some ''s3cret''\<rparr>))
     \<lparr>st_oidc = keycloak_settings\<lparr>os_client_secret := Some ''s3cret''\<rparr>, st_saved = keycloak_settings\<lparr>os_client_secret := Some ''s3cret''\<rparr>\<rparr>))
   = keycloak_settings\<lparr>os_client_secret := Some ''<set>'', os_scopes := default_oidc_scopes\<rparr>"
  by code_simp

text \<open>Settings that could not be saved are in force all the same.\<close>

lemma unsaved_settings_in_force:
  "os_client_secret i = Some OIDC_SECRET_PLACEHOLDER \<Longrightarrow> os_scopes i \<noteq> [] \<Longrightarrow>
   fst (set_oidc (\<lambda>_. None) (Some x) i w) = Err x
   \<and> os_issuer_url (st_oidc (snd (set_oidc (\<lambda>_. None) (Some x) i w))) = os_issuer_url i
   \<and> st_saved (snd (set_oidc (\<lambda>_. None) (Some x) i w)) = st_saved w"
  by (simp add: set_oidc_def Let_def encrypt_oidc_secret_def split: option.split)

text \<open>
  (C19) Signing in with OpenID Connect is bound to a flow and a role: the browser gets a session
  only when it presents the state of a flow in flight that has not expired, the
  provider's token for the code verified against that flow's verifier and nonce, and the groups of
  that token map to a role; the flow is used up.
\<close>

theorem oidc_sign_in_is_bound:
  assumes "oidc_callback_handler lib e encode exchange client_ip s q client aw = (Signed_In token, client', aw')"
  shows "\<exists>code state k p c r. cq_error q = None \<and> cq_code q = Some code \<and> cq_state q = Some state \<and> client = Some k
    \<and> map_of (oc_pending k) state = Some p \<and> ae_now e < pf_expires_at p
    \<and> exchange code (pf_pkce_verifier p) (pf_nonce p) = Ok c
    \<and> Option.bind (role_for_groups (extract_groups (ic_payload c) (os_groups_claim (oc_settings k))) s) parse_role_str = Some r
    \<and> client' = Some (k\<lparr>oc_pending := AList.delete state (oc_pending k)\<rparr>)"
proof -
  obtain code state k where q: "cq_error q = None" "cq_code q = Some code" "cq_state q = Some state" "client = Some k"
    using assms by (auto simp: oidc_callback_handler_def Let_def split: option.splits)
  obtain x pending1 where
      x: "exchange_code exchange (os_groups_claim (oc_settings k)) (ae_now e) state code (oc_pending k) = (x, pending1)"
    by fastforce
  obtain i where i: "x = Ok i" and c': "client' = Some (k\<lparr>oc_pending := pending1\<rparr>)"
      and l: "login_or_provision_oidc lib e i (Option.bind (role_for_groups (oi_groups i) s) parse_role_str)
        (os_auto_provision s) client_ip aw = (Ok token, aw')"
    using assms q x by (auto simp: oidc_callback_handler_def split: sum.splits prod.splits)
  obtain r where r: "Option.bind (role_for_groups (oi_groups i) s) parse_role_str = Some r"
    using l by (cases "Option.bind (role_for_groups (oi_groups i) s) parse_role_str") (auto simp: login_or_provision_oidc_def)
  obtain p where p: "map_of (oc_pending k) state = Some p" "ae_now e < pf_expires_at p" "pending1 = AList.delete state (oc_pending k)"
    using x i by (auto simp: exchange_code_def not_le split: option.splits if_splits)
  obtain c where "exchange code (pf_pkce_verifier p) (pf_nonce p) = Ok c"
      "oi_groups i = extract_groups (ic_payload c) (os_groups_claim (oc_settings k))"
    using x i p by (auto simp: exchange_code_def not_le split: sum.splits if_splits)
  then show ?thesis using q p c' r by auto
qed

definition kc_client :: oidc_client where
  "kc_client = \<lparr>oc_client_id = ''nas'', oc_client_secret = None, oc_redirect_url = ''r'', oc_settings = keycloak_settings,
     oc_pending = authorize_url 900 ''st'' ''ver'' ''non'' []\<rparr>"

definition kc_exchange :: "string \<Rightarrow> string \<Rightarrow> string \<Rightarrow> oidc_error + id_claims" where
  "kc_exchange code verifier nonce =
     (if verifier = ''ver'' \<and> nonce = ''non'' then
        Ok \<lparr>ic_issuer = ''idp'', ic_subject = ''7'', ic_preferred_username = Some ''eva'', ic_email = None, ic_payload = keycloak_claims\<rparr>
      else Err (Oidc_TokenVerification ''nonce''))"

definition kc_query :: callback_query where
  "kc_query = \<lparr>cq_code = Some ''c'', cq_state = Some ''st'', cq_error = None, cq_error_description = None\<rparr>"

theorem oidc_sign_in_is_bound_witness:
  "let (r, client', aw') = oidc_callback_handler plain_lib calm_auth (\<lambda>x. x) kc_exchange ''10.0.0.2'' keycloak_settings kc_query (Some kc_client) boot_world
   in r = Signed_In ''tok'' \<and> (\<exists>state. client' = Some (kc_client\<lparr>oc_pending := AList.delete state (oc_pending kc_client)\<rparr>))"
proof -
  let ?c = "oidc_callback_handler plain_lib calm_auth (\<lambda>x. x) kc_exchange ''10.0.0.2'' keycloak_settings kc_query (Some kc_client) boot_world"
  have r: "fst ?c = Signed_In ''tok''" by code_simp
  then have "?c = (Signed_In ''tok'', fst (snd ?c), snd (snd ?c))" by (metis prod.collapse)
  from oidc_sign_in_is_bound [OF this] r show ?thesis by (auto simp: case_prod_beta)
qed

section \<open>Issuers\<close>

text \<open>
  The link-local address of the cloud metadata service is refused as an IPv4 host, and accepted
  when it is written as an IPv4-mapped IPv6 host, \<open>[::ffff:169.254.169.254]\<close>.
\<close>

definition literal_host :: "url_host \<Rightarrow> string \<Rightarrow> string + parsed_url" where
  "literal_host h s = Ok \<lparr>pu_scheme = ''https'', pu_host_str = Some s, pu_host = Some h\<rparr>"

lemma mapped_metadata_address_accepted:
  "validate_issuer_url (literal_host (Host_Ipv4 [169, 254, 169, 254])) ''169.254.169.254''
     = Err (Oidc_Config ''issuer URL host 169.254.169.254 is a loopback/link-local/broadcast/unspecified address'')
   \<and> validate_issuer_url (literal_host (Host_Ipv6 [0, 0, 0, 0, 0, 0xffff, 0xa9fe, 0xa9fe])) ''[::ffff:a9fe:a9fe]'' = Ok ()"
  by code_simp

lemma printed_addresses:
  "show_v6 [0, 0, 0, 0, 0, 0, 0, 1] = ''::1'' \<and> show_v6 [0xfe80, 0, 0, 1, 0, 0, 0, 0xab] = ''fe80:0:0:1::ab''
   \<and> show_v6 [0, 0, 0, 0, 0, 0xffff, 0xa9fe, 0xa9fe] = ''::ffff:169.254.169.254''"
  by code_simp

text \<open>A failed rebuild keeps the client that was in force, with the settings of that client.\<close>

lemma failed_rebuild_keeps_client:
  "os_enabled s \<Longrightarrow> from_settings ol s = Err x \<Longrightarrow> rebuild_client ol s client = (Some x, client)"
  by (simp add: rebuild_client_def)

end
