(* ===== verification/Portal.thy ===== *)
theory Portal
  imports Gateway Webauthn Oidc
begin

text \<open>
  The endpoints before a session exists (\<open>main.rs\<close>): signing in with a password or a security
  key, signing out, the session cookie, and the probes of the sign-in page. Successive calls of
  the authentication service in one handler have their own environments.
\<close>

section \<open>The session cookie\<close>

definition SESSION_COOKIE_MAX_AGE_SECS :: u64 where
  "SESSION_COOKIE_MAX_AGE_SECS = 8 * 3600"

definition build_session_cookie :: "string \<Rightarrow> string" where
  "build_session_cookie token =
     SESSION_COOKIE @ ''='' @ token @ ''; HttpOnly; Secure; SameSite=Strict; Path=/; Max-Age='' @ show_nat (unat SESSION_COOKIE_MAX_AGE_SECS)"

lemma build_session_cookie_code [code]:
  "build_session_cookie token =
     SESSION_COOKIE @ ''='' @ token @ ''; HttpOnly; Secure; SameSite=Strict; Path=/; Max-Age=28800''"
proof -
  have "show_nat (unat SESSION_COOKIE_MAX_AGE_SECS) = ''28800''"
    by (simp add: SESSION_COOKIE_MAX_AGE_SECS_def show_nat.simps char_of_def bit_Suc_0_iff)
  then show ?thesis by (simp add: build_session_cookie_def)
qed

definition build_session_clear_cookie :: string where
  "build_session_clear_cookie = SESSION_COOKIE @ ''=; HttpOnly; Secure; SameSite=Strict; Path=/; Max-Age=0''"

section \<open>Endpoints\<close>

record portal_response =
  po_status :: nat
  po_cookie :: "string option"
  po_body :: json

definition portal_error :: "string \<Rightarrow> portal_response" where
  "portal_error msg = \<lparr>po_status = 401, po_cookie = None, po_body = JObj [(''error'', JStr msg)]\<rparr>"

text \<open>\<open>e2\<close> is the environment of the check of the new session, \<open>e3\<close> that of its removal.\<close>

definition login_handler :: "'k auth_lib \<Rightarrow> auth_env \<Rightarrow> auth_env \<Rightarrow> auth_env \<Rightarrow> headers \<Rightarrow> bool \<Rightarrow> string \<Rightarrow> string \<Rightarrow>
    'k auth_world \<Rightarrow> portal_response \<times> 'k auth_world" where
  "login_handler lib e e2 e3 h on_files_domain username password w =
     (let client_ip = client_ip_of h in
      case login lib e username password client_ip w of
        (Err _, w1) \<Rightarrow> (portal_error ''invalid credentials'', w1)
      | (Ok token, w1) \<Rightarrow>
          let success = \<lparr>po_status = 200, po_cookie = Some (build_session_cookie token), po_body = JObj [(''token'', JStr token)]\<rparr> in
          if \<not> on_files_domain then (success, w1)
          else case validate lib e2 token client_ip w1 of
            (x, w2) \<Rightarrow>
              if (case x of Ok s \<Rightarrow> s_role s = User | Err _ \<Rightarrow> False) then (success, w2)
              else (portal_error ''invalid credentials'', snd (logout e3 token w2)))"

definition logout_handler :: "auth_env \<Rightarrow> headers \<Rightarrow> 'k auth_world \<Rightarrow> portal_response \<times> 'k auth_world" where
  "logout_handler e h w =
     (\<lparr>po_status = 200, po_cookie = Some build_session_clear_cookie, po_body = JObj [(''ok'', JBool True)]\<rparr>,
      case token_from_headers h of Some token \<Rightarrow> snd (logout e token w) | None \<Rightarrow> w)"

definition webauthn_login_start_handler :: "('k, 'r, 'a) webauthn_lib \<Rightarrow> webauthn_env \<Rightarrow> string \<Rightarrow> 'k auth_world \<Rightarrow>
    ('r, 'a) webauthn_service \<Rightarrow> portal_response \<times> ('r, 'a) webauthn_service" where
  "webauthn_login_start_handler wl we username aw ws =
     (case login_start wl we username aw ws of
        (Ok (i, opts), ws1) \<Rightarrow>
          (\<lparr>po_status = 200, po_cookie = None, po_body = JObj [(''auth_id'', JStr i), (''request_options'', opts)]\<rparr>, ws1)
      | (Err x, ws1) \<Rightarrow> (portal_error (webauthn_error_message x), ws1))"

text \<open>\<open>e\<close> is the environment of the verification, \<open>e2\<close> that of what follows it.\<close>

definition webauthn_login_finish_handler :: "'k auth_lib \<Rightarrow> ('k, 'r, 'a) webauthn_lib \<Rightarrow> auth_env \<Rightarrow> auth_env \<Rightarrow> webauthn_env \<Rightarrow>
    headers \<Rightarrow> string \<Rightarrow> string \<Rightarrow> json \<Rightarrow> 'k auth_world \<Rightarrow> ('r, 'a) webauthn_service \<Rightarrow>
    portal_response \<times> 'k auth_world \<times> ('r, 'a) webauthn_service" where
  "webauthn_login_finish_handler lib wl e e2 we h username auth_id response aw ws =
     (let client_ip = client_ip_of h in
      case login_finish lib wl e we auth_id response aw ws of
        (Err x, aw1, ws1) \<Rightarrow>
          (portal_error (webauthn_error_message x), record_webauthn_failure e2 username client_ip aw1, ws1)
      | (Ok verified_username, aw1, ws1) \<Rightarrow>
          if verified_username \<noteq> username then
            (portal_error ''username mismatch'', record_webauthn_failure e2 username client_ip aw1, ws1)
          else case mint_session_for_webauthn lib e2 verified_username client_ip aw1 of
            (Ok token, aw2) \<Rightarrow>
              (\<lparr>po_status = 200, po_cookie = Some (build_session_cookie token),
                po_body = JObj [(''token'', JStr token), (''username'', JStr verified_username)]\<rparr>, aw2, ws1)
          | (Err x, aw2) \<Rightarrow> (portal_error (auth_error_message x), aw2, ws1))"

definition oidc_available_handler :: "bool \<Rightarrow> oidc_settings \<Rightarrow> oidc_client option \<Rightarrow> json" where
  "oidc_available_handler on_files_domain s client =
     JObj [(''enabled'', JBool (\<not> on_files_domain \<and> os_enabled s \<and> client \<noteq> None))]"

definition webauthn_available_handler :: "bool \<Rightarrow> 'k auth_world \<Rightarrow> json" where
  "webauthn_available_handler on_files_domain aw =
     JObj [(''has_credentials'', JBool (\<not> on_files_domain \<and> any_webauthn_credentials_registered aw))]"

text \<open>The random values of the new flow are arguments; \<open>None\<close> is not found, otherwise the state
  the browser takes to the provider.\<close>

definition oidc_start_handler :: "u64 \<Rightarrow> string \<Rightarrow> string \<Rightarrow> string \<Rightarrow> oidc_client option \<Rightarrow> string option \<times> oidc_client option" where
  "oidc_start_handler now csrf verifier nonce client =
     (case client of
        None \<Rightarrow> (None, None)
      | Some c \<Rightarrow> (Some csrf, Some (c\<lparr>oc_pending := authorize_url now csrf verifier nonce (oc_pending c)\<rparr>)))"

section \<open>The cookie comes back\<close>

text \<open>The alphabet of tokens: base64 for URLs.\<close>

definition token_char :: "char \<Rightarrow> bool" where
  "token_char c \<longleftrightarrow> is_ascii_alphanumeric c \<or> c = CHR ''-'' \<or> c = CHR ''_''"

text \<open>A header joined from parts is read as those parts, up to white space.\<close>

lemma trim_parts:
  "list_all (\<lambda>p. CHR '';'' \<notin> set p) ps \<Longrightarrow> ps \<noteq> [] \<Longrightarrow>
   map trim (split_on CHR '';'' (join ''; '' ps)) = map trim ps"
proof (induction ps)
  case (Cons p ps)
  show ?case
  proof (cases ps)
    case Nil
    then show ?thesis using Cons.prems split_on_single [of "CHR '';''" p] by simp
  next
    case (Cons q qs)
    let ?r = "split_on CHR '';'' (join ''; '' ps)"
    have "split_on CHR '';'' (join ''; '' (p # ps)) = p # (CHR '' '' # hd ?r) # tl ?r"
      using Cons \<open>list_all _ (p # ps)\<close> by (simp add: split_on_before split_on_other del: split_on.simps)
    moreover have "map trim ((CHR '' '' # hd ?r) # tl ?r) = map trim ?r"
      by (metis list.collapse list.simps(9) split_on_nonempty trim_space)
    ultimately show ?thesis using Cons.IH Cons.prems Cons by simp
  qed
qed simp

lemma session_cookie_trimmed: "map trim ps = map trim qs \<Longrightarrow> session_cookie_in ps = session_cookie_in qs"
proof (induction ps arbitrary: qs)
  case (Cons p ps)
  then obtain q rs where "qs = q # rs" "trim p = trim q" "map trim ps = map trim rs" by (cases qs) auto
  then show ?case using Cons.IH [of rs] by (simp split: option.split)
qed simp

lemma session_cookie_skips:
  "list_all (\<lambda>p. \<not> starts_with (trim p) ''nasty_session='') before \<Longrightarrow>
   session_cookie_in (before @ ps) = session_cookie_in ps"
  by (induction before)
    (auto simp: SESSION_COOKIE_def starts_with_iff split: option.splits dest!: split_once_SomeD)

lemma token_graphic: "token_char c \<Longrightarrow> graphic c \<and> c \<noteq> CHR '';'' \<and> c \<noteq> CHR ''=''"
  by (auto simp: token_char_def graphic_def ascii_defs)

lemma cookie_pair:
  assumes "list_all token_char token"
  shows "takeWhile (\<lambda>c. c \<noteq> CHR '';'') (build_session_cookie token) = SESSION_COOKIE @ ''='' @ token"
proof -
  have "\<forall>c \<in> set (SESSION_COOKIE @ ''='' @ token). c \<noteq> CHR '';''"
    using assms token_graphic by (auto simp: SESSION_COOKIE_def list_all_iff)
  then have "takeWhile (\<lambda>c. c \<noteq> CHR '';'') ((SESSION_COOKIE @ ''='' @ token) @ CHR '';'' # r) = SESSION_COOKIE @ ''='' @ token" for r
    by (subst takeWhile_append2) auto
  then show ?thesis by (simp add: build_session_cookie_def)
qed

lemma trim_cookie_pair:
  assumes "list_all token_char token"
  shows "trim (SESSION_COOKIE @ ''='' @ token) = SESSION_COOKIE @ ''='' @ token"
  using assms token_graphic by (intro trim_graphic) (auto simp: SESSION_COOKIE_def list_all_iff graphic_def)

text \<open>
  The cookie a login sets comes back as the same session: whatever other cookies the browser
  sends before and after it, the server reads exactly the token it handed out, and the browser
  forgets the cookie when the session expires, not earlier and not later.
\<close>

theorem cookie_round_trip:
  assumes "token \<noteq> []" and "list_all token_char token"
    and "list_all (\<lambda>p. CHR '';'' \<notin> set p \<and> \<not> starts_with (trim p) ''nasty_session='') before"
    and "list_all (\<lambda>p. CHR '';'' \<notin> set p) after"
  shows "parse_session_cookie (join ''; '' (before @ takeWhile (\<lambda>c. c \<noteq> CHR '';'') (build_session_cookie token) # after)) = Some token
    \<and> SESSION_COOKIE_MAX_AGE_SECS = SESSION_TTL_SECS"
proof -
  let ?pair = "SESSION_COOKIE @ ''='' @ token" and ?ps = "before @ (SESSION_COOKIE @ ''='' @ token) # after"
  have "CHR '';'' \<notin> set ?pair" using assms(2) token_graphic by (auto simp: SESSION_COOKIE_def list_all_iff)
  then have "list_all (\<lambda>p. CHR '';'' \<notin> set p) ?ps" using assms(3,4) by (auto simp: list_all_iff)
  from session_cookie_trimmed [OF trim_parts [OF this]]
  have "parse_session_cookie (join ''; '' ?ps) = session_cookie_in ?ps" by (simp add: parse_session_cookie_def)
  also have "\<dots> = session_cookie_in (?pair # after)"
    by (rule session_cookie_skips) (use assms(3) in \<open>auto simp: list_all_iff\<close>)
  also have "\<dots> = Some token"
  proof -
    have "CHR ''='' \<notin> set SESSION_COOKIE" by (simp add: SESSION_COOKIE_def)
    then have "split_once CHR ''='' (SESSION_COOKIE @ CHR ''='' # token) = Some (SESSION_COOKIE, token)" by simp
    then show ?thesis using trim_cookie_pair [OF assms(2)] assms(1) by simp
  qed
  finally show ?thesis using cookie_pair [OF assms(2)] by (simp add: SESSION_COOKIE_MAX_AGE_SECS_def SESSION_TTL_SECS_def)
qed

theorem cookie_round_trip_witness:
  "parse_session_cookie (join ''; '' ([''theme=dark''] @ takeWhile (\<lambda>c. c \<noteq> CHR '';'') (build_session_cookie ''dG9r'') # [''lang=de''])) = Some ''dG9r''"
proof -
  have "list_all token_char ''dG9r''" by code_simp
  moreover have "list_all (\<lambda>p. CHR '';'' \<notin> set p \<and> \<not> starts_with (trim p) ''nasty_session='') [''theme=dark'']" by code_simp
  moreover have "list_all (\<lambda>p. CHR '';'' \<notin> set p) [''lang=de'']" by code_simp
  ultimately show ?thesis using cookie_round_trip [of "''dG9r''" "[''theme=dark'']" "[''lang=de'']"] by simp
qed

section \<open>Signing in on the files domain\<close>

lemma password_login_err:
  assumes "disk_works e" and "password_login lib e u p ip w = (Err x, w')"
  shows "aw_state w' = aw_state w"
proof (cases "List.find (has_username u) (as_users (aw_state w))")
  case (Some y)
  show ?thesis
  proof (cases "u_password_hash y")
    case h: (Some h)
    show ?thesis
    proof (cases "verify_password lib p h")
      case (Inl z)
      then show ?thesis using assms(2) Some h by (auto simp: password_login_def Let_def)
    next
      case (Inr z)
      then have "is_ok (fst (password_login lib e u p ip w))"
        using Some h by (simp add: password_login_def Let_def fst_commit_case commit_works [OF assms(1)])
      then show ?thesis using assms(2) by simp
    qed
  qed (use assms(2) Some in \<open>auto simp: password_login_def Let_def\<close>)
qed (use assms(2) in \<open>auto simp: password_login_def Let_def\<close>)

lemma login_err:
  assumes "disk_works e" and "login lib e u p ip w = (Err x, w')"
  shows "aw_state w' = aw_state w"
proof (cases "locked (ae_now e) u ip w")
  case True
  then show ?thesis using assms(2) by (auto simp: login_def locked_def Let_def split: if_splits)
next
  case False
  obtain w1 where "aw_state w1 = aw_state w" "login lib e u p ip w = password_login lib e u p ip w1"
    using login_unlocked [OF False] by blast
  then show ?thesis using assms password_login_err [of e lib u p ip w1] by metis
qed

lemma logout_sessions:
  assumes "disk_works e"
  shows "as_sessions (aw_state (snd (logout e t w))) = filter (\<lambda>s. s_token s \<noteq> t) (as_sessions (aw_state w))"
proof (cases "length (filter (\<lambda>s. s_token s \<noteq> t) (as_sessions (aw_state w))) = length (as_sessions (aw_state w))")
  case True
  then have "filter (\<lambda>s. s_token s \<noteq> t) (as_sessions (aw_state w)) = as_sessions (aw_state w)"
    by (metis length_filter_less filter_True nat_neq_iff)
  then show ?thesis by (simp add: logout_def Let_def)
next
  case False
  let ?st = "(aw_state w)\<lparr>as_sessions := filter (\<lambda>s. s_token s \<noteq> t) (as_sessions (aw_state w))\<rparr>"
  have "commit_state e ?st w = (Ok (), snd (commit_state e ?st w))"
    using commit_works [OF assms, of ?st w] by (metis prod.collapse)
  from commit_state_ok(1) [OF this] False show ?thesis by (simp add: logout_def Let_def)
qed

lemma validate_ok_same: "validate lib e t ip w = (Ok s, w') \<Longrightarrow> w' = w"
  by (auto simp: validate_def Let_def split: option.splits if_splits)

lemma validate_sessions: "set (as_sessions (aw_state (snd (validate lib e t ip w)))) \<subseteq> set (as_sessions (aw_state w))"
proof -
  have "set (as_sessions (aw_state (snd (commit_state e ((aw_state w)\<lparr>as_sessions := filter P (as_sessions (aw_state w))\<rparr>) w))))
      \<subseteq> set (as_sessions (aw_state w))" for P
    by (cases rule: commit_state_cases [where e = e and s = "(aw_state w)\<lparr>as_sessions := filter P (as_sessions (aw_state w))\<rparr>" and w = w]) auto
  then show ?thesis by (auto simp: validate_def Let_def split: option.split)
qed

lemma login_session_added:
  assumes "login lib e u p ip w = (Ok t, w')" and "s \<in> set (as_sessions (aw_state w'))" and "s_token s \<noteq> t"
  shows "s \<in> set (as_sessions (aw_state w))"
  by (rule login_ok [OF assms(1)]) (use assms(2,3) in \<open>auto simp: add_session_def new_session_def\<close>)



section \<open>Signing in with a security key\<close>

lemma mint_ok:
  assumes "mint_session_for_webauthn lib e u ip w = (Ok t, w')"
  shows "\<not> locked (ae_now e) u ip w \<and> (\<exists>x. List.find (has_username u) (as_users (aw_state w)) = Some x
    \<and> aw_state w' = add_session (ae_now e) (new_session t x (ae_now e) False ip) (aw_state w))"
proof -
  have n: "\<not> locked (ae_now e) u ip w"
    using assms by (auto simp: mint_session_for_webauthn_def locked_def Let_def split: if_splits)
  obtain x where x: "List.find (has_username u) (as_users (aw_state w)) = Some x"
    using assms n by (cases "List.find (has_username u) (as_users (aw_state w))")
      (auto simp: mint_session_for_webauthn_def Let_def split: if_splits)
  then have "(case commit_state e (add_session (ae_now e) (new_session (generate_token lib e) x (ae_now e) False ip) (aw_state w)) w of
      (Inl y, w1) \<Rightarrow> (Inl y, w1)
    | (Inr y, w1) \<Rightarrow> (Inr (generate_token lib e), audit e ''login_webauthn_success'' u ip [] (clear_failed_attempts e u w1))) = (Ok t, w')"
    using assms by (auto simp: mint_session_for_webauthn_def Let_def split: if_splits)
  then have "t = generate_token lib e \<and>
      aw_state w' = add_session (ae_now e) (new_session (generate_token lib e) x (ae_now e) False ip) (aw_state w)"
    by (elim commit_case_ok) simp
  then show ?thesis using n x by blast
qed

lemma sign_count_rate: "aw_rate (snd (update_webauthn_sign_count lib e u i f w)) = aw_rate w"
proof -
  have "aw_rate (snd (commit_state e st w)) = aw_rate w" for st
    by (cases rule: commit_state_cases [where e = e and s = st and w = w]) simp_all
  then show ?thesis by (simp add: update_webauthn_sign_count_def Let_def split: option.split)
qed

lemma login_finish_ok:
  assumes "login_finish lib wl e we i response aw ws = (Ok v, aw1, ws1)"
  shows "\<exists>p cred update. (i, p) \<in> set (wa_pending_auth ws) \<and> pa_username p = v \<and> we_now we - pa_started_at p < 300
    \<and> wl_finish_authentication wl response (pa_state p) = Ok (cred, update)"
  using assms asn.young by (fastforce simp: login_finish_def Let_def split: option.splits sum.splits prod.splits)

lemma login_finish_rate:
  "login_finish lib wl e we i response aw ws = (x, aw1, ws1) \<Longrightarrow> aw_rate aw1 = aw_rate aw"
  by (auto simp: login_finish_def Let_def sign_count_rate split: option.splits sum.splits prod.splits)

lemma rate_recorded [simp]:
  "aw_rate (record_webauthn_failure e u ip w) = note_failure u ip (ae_now e) (aw_rate w)"
  by (simp add: record_webauthn_failure_def record_failed_attempt_def save_rate_limit_def Let_def)

text \<open>
  A security key signs in only the user of its challenge: a sign-in succeeds only when the
  challenge under the identifier was issued to the same username less than five minutes before
  and the library accepts the response to it, when neither the address nor the account is locked;
  it adds a session of that user with the token of the answer, and the challenge cannot be used
  again. A response that is not accepted, or names another user, is counted as a failed login.
\<close>

theorem webauthn_sign_in_is_bound:
  assumes "webauthn_login_finish_handler lib wl e e2 we h u i response aw ws = (r, aw', ws')"
  shows "(po_status r = 200 \<longrightarrow>
      (\<exists>p cred update token x. (i, p) \<in> set (wa_pending_auth ws) \<and> pa_username p = u \<and> we_now we - pa_started_at p < 300
        \<and> wl_finish_authentication wl response (pa_state p) = Ok (cred, update)
        \<and> \<not> locked (ae_now e2) u (client_ip_of h) (fst (snd (login_finish lib wl e we i response aw ws)))
        \<and> po_cookie r = Some (build_session_cookie token) \<and> x \<in> set (as_users (aw_state aw')) \<and> u_username x = u
        \<and> last (as_sessions (aw_state aw')) = new_session token x (ae_now e2) False (client_ip_of h)))
    \<and> (fst (login_finish lib wl e we i response aw ws) \<noteq> Ok u \<longrightarrow>
        po_status r = 401 \<and> aw_rate aw' = note_failure u (client_ip_of h) (ae_now e2) (aw_rate aw))
    \<and> map_of (wa_pending_auth ws') i = None"
proof -
  obtain x aw1 ws1 where f: "login_finish lib wl e we i response aw ws = (x, aw1, ws1)"
    by (cases "login_finish lib wl e we i response aw ws") auto
  have "ws' = ws1" using assms f
    by (auto simp: webauthn_login_finish_handler_def Let_def split: sum.splits if_splits prod.splits)
  then have gone: "map_of (wa_pending_auth ws') i = None"
    using login_finish_pending [of lib wl e we i response aw ws] f by (simp add: delete_conv')
  show ?thesis
  proof (cases "x = Ok u")
    case False
    then have "po_status r = 401 \<and> aw' = record_webauthn_failure e2 u (client_ip_of h) aw1"
      using assms f by (cases x) (auto simp: webauthn_login_finish_handler_def Let_def portal_error_def)
    then show ?thesis using f False gone login_finish_rate [OF f] by simp
  next
    case True
    obtain y aw2 where m: "mint_session_for_webauthn lib e2 u (client_ip_of h) aw1 = (y, aw2)" by fastforce
    show ?thesis
    proof (cases y)
      case (Inl z)
      then have "po_status r = 401" using assms f True m by (auto simp: webauthn_login_finish_handler_def Let_def portal_error_def)
      then show ?thesis using f True gone by simp
    next
      case (Inr t)
      have c: "po_cookie r = Some (build_session_cookie t)" and aw': "aw' = aw2"
        using assms f True m Inr by (auto simp: webauthn_login_finish_handler_def Let_def)
      obtain x1 where n: "\<not> locked (ae_now e2) u (client_ip_of h) aw1"
          and x1: "List.find (has_username u) (as_users (aw_state aw1)) = Some x1"
          and a: "aw_state aw2 = add_session (ae_now e2) (new_session t x1 (ae_now e2) False (client_ip_of h)) (aw_state aw1)"
        using mint_ok [of lib e2 u "client_ip_of h" aw1 t aw2] m Inr by blast
      have u1: "u_username x1 = u" "x1 \<in> set (as_users (aw_state aw2))"
        using find_SomeD [OF x1] by (simp_all add: has_username_def a add_session_def)
      have l: "last (as_sessions (aw_state aw2)) = new_session t x1 (ae_now e2) False (client_ip_of h)"
        by (simp add: a add_session_def)
      obtain p cred update where p: "(i, p) \<in> set (wa_pending_auth ws)" "pa_username p = u" "we_now we - pa_started_at p < 300"
          "wl_finish_authentication wl response (pa_state p) = Ok (cred, update)"
        using login_finish_ok [of lib wl e we i response aw ws u aw1 ws1] f True by blast
      show ?thesis unfolding f True fst_conv snd_conv aw' using gone c n u1 l p by blast
    qed
  qed
qed

definition keyed_world :: "nat auth_world" where
  "keyed_world = snd (add_webauthn_credential calm_auth ''admin'' \<lparr>wc_label = ''key'', wc_created_at = 1, wc_passkey = 5\<rparr> boot_world)"

definition challenged :: "(string, nat list) webauthn_service" where
  "challenged = snd (webauthn_login_start_handler echo_webauthn \<lparr>we_now = 0, we_id = ''a1''\<rparr> ''admin'' keyed_world (webauthn_new DEFAULT_RP_ID))"

theorem webauthn_sign_in_is_bound_witness:
  "let (r, aw', ws') = webauthn_login_finish_handler plain_lib echo_webauthn calm_auth calm_auth \<lparr>we_now = 9, we_id = []\<rparr>
         me_headers ''admin'' ''a1'' (JBool True) keyed_world challenged
   in po_status r = 200 \<and> s_username (last (as_sessions (aw_state aw'))) = ''admin'' \<and> map_of (wa_pending_auth ws') ''a1'' = None"
proof -
  let ?c = "webauthn_login_finish_handler plain_lib echo_webauthn calm_auth calm_auth \<lparr>we_now = 9, we_id = []\<rparr>
         me_headers ''admin'' ''a1'' (JBool True) keyed_world challenged"
  have c: "?c = (fst ?c, fst (snd ?c), snd (snd ?c))" by simp
  have st: "po_status (fst ?c) = 200" by code_simp
  note * = webauthn_sign_in_is_bound [OF c]
  have "\<exists>token x. x \<in> set (as_users (aw_state (fst (snd ?c)))) \<and> u_username x = ''admin'' \<and> last (as_sessions (aw_state (fst (snd ?c)))) = new_session token x (ae_now calm_auth) False (client_ip_of me_headers)"
    using conjunct1 [OF *] st by blast
  moreover have "s_username (new_session token x now b ip) = u_username x" for token now b ip and x :: "nat user"
    by (simp add: new_session_def)
  ultimately have "s_username (last (as_sessions (aw_state (fst (snd ?c))))) = ''admin''" by metis
  moreover have "map_of (wa_pending_auth (snd (snd ?c))) ''a1'' = None" using * by blast
  ultimately show ?thesis using st unfolding case_prod_beta Let_def by blast
qed

text \<open>Issuing a challenge does not look at the lock: an address with any number of failures gets one.\<close>

lemma challenge_ignores_lock:
  "fst (webauthn_login_start_handler wl we u (aw\<lparr>aw_rate := rl\<rparr>) ws) = fst (webauthn_login_start_handler wl we u aw ws)"
  by (simp add: webauthn_login_start_handler_def login_start_def webauthn_credentials_for_def)

text \<open>A sign-in that is refused because of the lock is not counted.\<close>

lemma locked_sign_in_not_counted:
  assumes "fst (mint_session_for_webauthn lib e u ip w) = Err AccountLocked"
  shows "aw_rate (snd (mint_session_for_webauthn lib e u ip w)) = aw_rate w"
proof (cases "locked (ae_now e) u ip w")
  case True
  then show ?thesis by (auto simp: mint_session_for_webauthn_def locked_def Let_def)
next
  case False
  have "fst (mint_session_for_webauthn lib e u ip w) \<noteq> Err AccountLocked"
    using False commit_not_locked
    by (cases "List.find (has_username u) (as_users (aw_state w))")
      (auto simp: mint_session_for_webauthn_def locked_def Let_def fst_commit_case split: sum.split)
  then show ?thesis using assms by blast
qed

end
