(* ===== verification/Socket.thy ===== *)
theory Socket
  imports Gateway
begin

text \<open>
  The WebSocket of the engine (\<open>handle_socket\<close> and its helpers in \<open>main.rs\<close>): how a
  connection is authenticated, and the loop that serves requests, forwards events and pings. The
  loop is a step function over the connection and the state it shares with all other clients;
  runs interleave its steps with arbitrary changes of that state. Each step has its own
  environments and instant.
\<close>

section \<open>Connections\<close>

datatype frame =
    Json_Frame json | Response_Frame rpc_response | Notification_Frame rpc_notification | Ping_Frame | Close_Frame

record socket =
  so_session :: session
  so_client_ip :: string
  so_on_files :: bool
  so_subscribed :: bool
  so_last_seen :: nat
  so_open :: bool
  so_reason :: string
  so_out :: "frame list"

definition session_security_context_unchanged :: "session \<Rightarrow> session \<Rightarrow> bool" where
  "session_security_context_unchanged initial fresh \<longleftrightarrow>
     s_token initial = s_token fresh \<and> s_username initial = s_username fresh \<and> s_role initial = s_role fresh
     \<and> s_file_principal initial = s_file_principal fresh \<and> s_filesystem initial = s_filesystem fresh
     \<and> s_owner initial = s_owner fresh \<and> s_created_at initial = s_created_at fresh \<and> s_client_ip initial = s_client_ip fresh"

definition error_frame :: "string \<Rightarrow> frame" where
  "error_frame msg = Json_Frame (JObj [(''error'', JStr msg)])"

definition welcome_frame :: "session \<Rightarrow> frame" where
  "welcome_frame s = Json_Frame (JObj [(''authenticated'', JBool True), (''username'', JStr (s_username s)),
     (''role'', role_json (s_role s)), (''must_change_password'', JBool (s_must_change_password s))])"

text \<open>What the first ten seconds bring when the upgrade carried no token: nothing or a broken
  connection, a message that is not text, a text that is not a token message, or a token.\<close>

datatype first_message = No_Message | Other_Message | Bad_Text | Token_Message string

definition wait_for_auth :: "'k auth_lib \<Rightarrow> auth_env \<Rightarrow> string \<Rightarrow> first_message \<Rightarrow> 'k auth_world \<Rightarrow>
    (session option \<times> frame list) \<times> 'k auth_world" where
  "wait_for_auth lib e client_ip msg aw =
     (case msg of
        No_Message \<Rightarrow> ((None, []), aw)
      | Other_Message \<Rightarrow> ((None, [error_frame ''first message must be JSON with token'']), aw)
      | Bad_Text \<Rightarrow> ((None, [error_frame (''expected {'' @ [CHR 34] @ ''token'' @ [CHR 34] @ '': '' @ [CHR 34] @ ''...'' @ [CHR 34] @ ''}'')]), aw)
      | Token_Message token \<Rightarrow>
          (case validate lib e token client_ip aw of
             (Ok s, aw1) \<Rightarrow> ((Some s, [welcome_frame s]), aw1)
           | (Err _, aw1) \<Rightarrow> ((None, [error_frame ''invalid token'', Close_Frame]), aw1)))"

definition resolve_session :: "'k auth_lib \<Rightarrow> auth_env \<Rightarrow> string \<Rightarrow> string option \<Rightarrow> first_message \<Rightarrow> 'k auth_world \<Rightarrow>
    (session option \<times> frame list) \<times> 'k auth_world" where
  "resolve_session lib e client_ip pre_auth_token msg aw =
     (case pre_auth_token of
        Some token \<Rightarrow>
          (case validate lib e token client_ip aw of
             (Ok s, aw1) \<Rightarrow> ((Some s, [welcome_frame s]), aw1)
           | (Err _, aw1) \<Rightarrow> ((None, [error_frame ''invalid session'', Close_Frame]), aw1))
      | None \<Rightarrow> wait_for_auth lib e client_ip msg aw)"

text \<open>The part of \<open>handle_socket\<close> before the loop; \<open>None\<close> is a connection that is dropped.\<close>

definition accept_socket :: "'k auth_lib \<Rightarrow> auth_env \<Rightarrow> nat \<Rightarrow> string \<Rightarrow> string option \<Rightarrow> first_message \<Rightarrow> bool \<Rightarrow>
    ('k, 'o) app_state \<Rightarrow> (socket option \<times> frame list) \<times> ('k, 'o) app_state" where
  "accept_socket lib e now client_ip pre_auth_token msg on_files w =
     (case resolve_session lib e client_ip pre_auth_token msg (app_auth w) of
        ((None, out), aw) \<Rightarrow> ((None, out), w\<lparr>app_auth := aw\<rparr>)
      | ((Some s, out), aw) \<Rightarrow>
          if on_files \<and> s_role s \<noteq> User then
            ((None, out @ [error_frame ''invalid session'', Close_Frame]), w\<lparr>app_auth := aw\<rparr>)
          else
            ((Some \<lparr>so_session = s, so_client_ip = client_ip, so_on_files = on_files, so_subscribed = (s_role s \<noteq> User),
                    so_last_seen = now, so_open = True, so_reason = [], so_out = out\<rparr>, out), w\<lparr>app_auth := aw\<rparr>))"

section \<open>The loop\<close>

definition PING_INTERVAL :: nat where
  "PING_INTERVAL = 30"

definition IDLE_TIMEOUT :: nat where
  "IDLE_TIMEOUT = 90"

text \<open>\<open>Text_In None\<close> is a text that is no request; \<open>Event_In None\<close> a receiver that lagged.\<close>

datatype socket_event =
    Text_In "rpc_request option" | Beat_In | Close_In "(nat \<times> string) option" | Stream_End | Read_Error string
  | Event_In "string option" | Tick

record socket_env =
  se_check :: auth_env
  se_request :: auth_env
  se_now :: nat
  se_write_ok :: bool

definition close_with :: "string \<Rightarrow> frame list \<Rightarrow> socket \<Rightarrow> socket" where
  "close_with reason out so = so\<lparr>so_open := False, so_reason := reason, so_out := so_out so @ out\<rparr>"

text \<open>A frame that cannot be written ends the loop.\<close>

definition send_frame :: "bool \<Rightarrow> string \<Rightarrow> frame \<Rightarrow> socket \<Rightarrow> socket" where
  "send_frame write_ok failure f so =
     (if write_ok then so\<lparr>so_out := so_out so @ [f]\<rparr> else close_with failure [] so)"

text \<open>The session behind the connection as it is now, if it still is the one that connected.\<close>

definition fresh_session :: "'k auth_lib \<Rightarrow> auth_env \<Rightarrow> socket \<Rightarrow> 'k auth_world \<Rightarrow> session option \<times> 'k auth_world" where
  "fresh_session lib e so aw =
     (case validate lib e (s_token (so_session so)) (so_client_ip so) aw of
        (Ok fresh, aw1) \<Rightarrow>
          (if session_security_context_unchanged (so_session so) fresh \<and> (\<not> so_on_files so \<or> s_role fresh = User)
           then Some fresh else None, aw1)
      | (Err _, aw1) \<Rightarrow> (None, aw1))"

definition close_text :: "(nat \<times> string) option \<Rightarrow> string" where
  "close_text f =
     (case f of
        Some (code, reason) \<Rightarrow> ''client close (code='' @ show_nat code @ '', reason='' @ debug_string reason @ '')''
      | None \<Rightarrow> ''client close (no frame)'')"

fun socket_step :: "'k auth_lib \<Rightarrow> (domain \<Rightarrow> ('k, 'o) try_route) \<Rightarrow> socket_env \<Rightarrow> socket_event \<Rightarrow>
    socket \<times> ('k, 'o) app_state \<Rightarrow> socket \<times> ('k, 'o) app_state" where
  "socket_step lib handlers se (Text_In raw) (so, w) =
     (if \<not> so_open so then (so, w)
      else
        let so1 = so\<lparr>so_last_seen := se_now se\<rparr> in
        case fresh_session lib (se_check se) so1 (app_auth w) of
          (None, aw) \<Rightarrow> (close_with ''session expired, revoked, or changed'' [Close_Frame] so1, w\<lparr>app_auth := aw\<rparr>)
        | (Some fresh, aw) \<Rightarrow>
            (case handle_rpc_request (se_request se) handlers raw fresh (w\<lparr>app_auth := aw\<rparr>) of
               (r, w1) \<Rightarrow> (send_frame (se_write_ok se) ''write failed (socket closed)'' (Response_Frame r) so1, w1)))"
| "socket_step lib handlers se Beat_In (so, w) =
     (if so_open so then (so\<lparr>so_last_seen := se_now se\<rparr>, w) else (so, w))"
| "socket_step lib handlers se (Close_In f) (so, w) = (if so_open so then (close_with (close_text f) [] so, w) else (so, w))"
| "socket_step lib handlers se Stream_End (so, w) =
     (if so_open so then (close_with ''stream ended (TCP close)'' [] so, w) else (so, w))"
| "socket_step lib handlers se (Read_Error x) (so, w) =
     (if so_open so then (close_with (''read error: '' @ x) [] so, w) else (so, w))"
| "socket_step lib handlers se (Event_In ev) (so, w) =
     (if so_open so \<and> so_subscribed so then
        (case ev of
           Some collection \<Rightarrow>
             (send_frame (se_write_ok se) ''event-write failed (socket closed)''
                (Notification_Frame (notification_new ''event'' (Some (JObj [(''collection'', JStr collection)])))) so, w)
         | None \<Rightarrow> (so, w))
      else (so, w))"
| "socket_step lib handlers se Tick (so, w) =
     (if \<not> so_open so then (so, w)
      else case fresh_session lib (se_check se) so (app_auth w) of
        (None, aw) \<Rightarrow> (close_with ''session expired, revoked, or changed on ping'' [Close_Frame] so, w\<lparr>app_auth := aw\<rparr>)
      | (Some _, aw) \<Rightarrow>
          if se_now se - so_last_seen so > IDLE_TIMEOUT then
            (close_with (''server idle timeout ('' @ show_nat IDLE_TIMEOUT @ ''s no traffic)'') [Close_Frame] so, w\<lparr>app_auth := aw\<rparr>)
          else (send_frame (se_write_ok se) ''ping-write failed (socket closed)'' Ping_Frame so, w\<lparr>app_auth := aw\<rparr>))"

text \<open>Runs: steps of the connection, and anything the other clients do in between.\<close>

inductive socket_run :: "'k auth_lib \<Rightarrow> (domain \<Rightarrow> ('k, 'o) try_route) \<Rightarrow> socket \<times> ('k, 'o) app_state \<Rightarrow>
    socket \<times> ('k, 'o) app_state \<Rightarrow> bool"
  for lib :: "'k auth_lib" and handlers :: "domain \<Rightarrow> ('k, 'o) try_route" where
  socket_refl: "socket_run lib handlers c c"
| socket_own: "socket_run lib handlers c c1 \<Longrightarrow> socket_run lib handlers c (socket_step lib handlers se ev c1)"
| socket_others: "socket_run lib handlers c (so, w) \<Longrightarrow> socket_run lib handlers c (so, w')"

section \<open>Every request is checked\<close>

lemma send_frame_session [simp]:
  "so_session (send_frame b m f so) = so_session so" "so_on_files (send_frame b m f so) = so_on_files so"
  "so_client_ip (send_frame b m f so) = so_client_ip so"
  by (simp_all add: send_frame_def close_with_def)

lemma close_with_simps [simp]:
  "so_session (close_with m out so) = so_session so" "so_on_files (close_with m out so) = so_on_files so"
  "so_client_ip (close_with m out so) = so_client_ip so" "\<not> so_open (close_with m out so)"
  by (simp_all add: close_with_def)

text \<open>No step of the connection and of its environment replaces what the connection stands for.\<close>

lemma socket_step_identity:
  "so_session (fst (socket_step lib handlers se ev (so, w))) = so_session so
   \<and> so_on_files (fst (socket_step lib handlers se ev (so, w))) = so_on_files so
   \<and> so_client_ip (fst (socket_step lib handlers se ev (so, w))) = so_client_ip so"
  by (cases ev) (auto simp: Let_def split: option.split prod.split)

lemma socket_run_identity:
  "socket_run lib handlers c c' \<Longrightarrow> so_session (fst c') = so_session (fst c) \<and> so_on_files (fst c') = so_on_files (fst c)
     \<and> so_client_ip (fst c') = so_client_ip (fst c)"
proof (induction rule: socket_run.induct)
  case (socket_own c c1 se ev)
  then show ?case using socket_step_identity [of lib handlers se ev "fst c1" "snd c1"] by simp
qed auto

lemma fresh_session_Some:
  assumes "fresh_session lib e so aw = (Some fresh, aw1)"
  shows "validate lib e (s_token (so_session so)) (so_client_ip so) aw = (Ok fresh, aw1)"
    "session_security_context_unchanged (so_session so) fresh" "so_on_files so \<Longrightarrow> s_role fresh = User"
  using assms by (auto simp: fresh_session_def split: prod.splits sum.splits if_splits)

lemma accept_socket_Some:
  assumes "accept_socket lib e now ip pre msg on_files w0 = ((Some so, out), w1)"
  shows "so_open so \<and> so_client_ip so = ip \<and> so_on_files so = on_files
    \<and> (on_files \<longrightarrow> s_role (so_session so) = User)
    \<and> (\<exists>token. (pre = Some token \<or> pre = None \<and> msg = Token_Message token)
        \<and> fst (validate lib e token ip (app_auth w0)) = Ok (so_session so))"
  using assms
  by (auto simp: accept_socket_def resolve_session_def wait_for_auth_def
      split: prod.splits option.splits if_splits sum.splits first_message.splits)

lemma fresh_session_seen [simp]: "fresh_session lib e (so\<lparr>so_last_seen := t\<rparr>) aw = fresh_session lib e so aw"
  by (simp add: fresh_session_def split: prod.split sum.split)

text \<open>Once a session is not fresh, a request or a ping ends the connection before any handler.\<close>

lemma stale_step:
  assumes "so_open so" and "ev = Tick \<or> ev \<in> range Text_In" and "fst (fresh_session lib (se_check se) so (app_auth w)) = None"
  shows "\<not> so_open (fst (socket_step lib handlers se ev (so, w)))
    \<and> app_other (snd (socket_step lib handlers se ev (so, w))) = app_other w
    \<and> app_events (snd (socket_step lib handlers se ev (so, w))) = app_events w"
proof -
  obtain aw where "fresh_session lib (se_check se) so (app_auth w) = (None, aw)"
    using assms(3) by (metis prod.collapse)
  then show ?thesis using assms(1,2) by (auto simp: Let_def)
qed

text \<open>
  (C5) Every request over a connection is checked against the session as it is then: for a
  connection accepted for a session, after any sequence of its own events interleaved with
  anything other clients do to the shared state, a text message makes a handler change something
  or broadcast only if the session's token is still valid at that moment from the same address,
  with the same user, role, principal and scope as when the connection was accepted, and the role
  may call the method; on the files domain the role is the standard user's. Otherwise the
  connection is closed, unless it already is.
\<close>

theorem socket_requests_authorized:
  assumes "accept_socket lib e0 now ip pre msg on_files w0 = ((Some so0, out), w1)"
    and "socket_run lib handlers (so0, w1) (so, w)"
    and "socket_step lib handlers se (Text_In (Some req)) (so, w) = (so', w')"
    and "app_other w' \<noteq> app_other w \<or> app_events w' \<noteq> app_events w"
  shows "\<exists>token fresh. (pre = Some token \<or> pre = None \<and> msg = Token_Message token)
    \<and> fst (validate lib e0 token ip (app_auth w0)) = Ok (so_session so0)
    \<and> fst (validate lib (se_check se) (s_token (so_session so0)) ip (app_auth w)) = Ok fresh
    \<and> session_security_context_unchanged (so_session so0) fresh
    \<and> \<not> denied (s_role (so_session so0)) (rq_method req) \<and> (on_files \<longrightarrow> s_role (so_session so0) = User)"
proof -
  note acc = accept_socket_Some [OF assms(1)]
  note same = socket_run_identity [OF assms(2), simplified]
  have o: "so_open so" using assms(3,4) by (auto split: if_splits)
  let ?so1 = "so\<lparr>so_last_seen := se_now se\<rparr>"
  obtain x aw where f: "fresh_session lib (se_check se) ?so1 (app_auth w) = (x, aw)" by fastforce
  obtain fresh where x: "x = Some fresh"
    using assms(3,4) o f by (cases x) (auto simp: Let_def)
  note fr = fresh_session_Some [OF f [unfolded x]]
  obtain r w2 where h: "handle_rpc_request (se_request se) handlers (Some req) fresh (w\<lparr>app_auth := aw\<rparr>) = (r, w2)" by fastforce
  have "w' = w2" using assms(3) o f x h by (auto simp: Let_def)
  then have "\<not> refused fresh (rq_method req)" using handle_refused(2) [OF _ h] assms(4) by auto
  moreover have "s_role fresh = s_role (so_session so0)" using fr(2) same by (simp add: session_security_context_unchanged_def)
  ultimately show ?thesis using acc fr same by (auto simp: refused_def)
qed

definition me_request :: rpc_request where
  "me_request = \<lparr>rq_jsonrpc = ''2.0'', rq_method = ''auth.me'', rq_params = None, rq_id = JInt 1\<rparr>"

definition calm_socket :: socket_env where
  "calm_socket = \<lparr>se_check = calm_auth, se_request = calm_auth, se_now = 5, se_write_ok = True\<rparr>"

definition admin_accept :: "(socket option \<times> frame list) \<times> (nat, nat) app_state" where
  "admin_accept = accept_socket plain_lib calm_auth 0 ''10.0.0.2'' (Some ''tok'') No_Message False logged_in_app"

definition admin_socket :: socket where
  "admin_socket = the (fst (fst admin_accept))"

lemma admin_accepted:
  "accept_socket plain_lib calm_auth 0 ''10.0.0.2'' (Some ''tok'') No_Message False logged_in_app
     = ((Some admin_socket, snd (fst admin_accept)), snd admin_accept)"
proof -
  have "fst (fst admin_accept) \<noteq> None" by code_simp
  then have "admin_accept = ((Some admin_socket, snd (fst admin_accept)), snd admin_accept)"
    by (metis admin_socket_def option.collapse prod.collapse)
  then show ?thesis by (simp add: admin_accept_def)
qed

theorem socket_requests_authorized_witness:
  "\<exists>fresh. fst (validate plain_lib calm_auth ''tok'' ''10.0.0.2'' (app_auth (snd admin_accept))) = Ok fresh
     \<and> session_security_context_unchanged (so_session admin_socket) fresh"
proof -
  let ?c = "socket_step plain_lib zero_handlers calm_socket (Text_In (Some me_request)) (admin_socket, snd admin_accept)"
  have "app_other (snd ?c) = 0 \<and> app_other (snd admin_accept) = 7" by code_simp
  then have ne: "app_other (snd ?c) \<noteq> app_other (snd admin_accept) \<or> app_events (snd ?c) \<noteq> app_events (snd admin_accept)" by simp
  have t: "s_token (so_session admin_socket) = ''tok''" "se_check calm_socket = calm_auth" by code_simp+
  from socket_requests_authorized [OF admin_accepted socket_refl prod.collapse [symmetric] ne] t show ?thesis by auto
qed

section \<open>Revocation\<close>

text \<open>A session that still is the one that connected is one of the stored sessions.\<close>

lemma fresh_stored:
  assumes "fst (fresh_session lib e so aw) \<noteq> None" and "s_client_ip (so_session so) \<noteq> None"
  shows "\<exists>s \<in> set (as_sessions (aw_state aw)). s_token s = s_token (so_session so) \<and> s_username s = s_username (so_session so)"
proof -
  obtain fresh aw1 where f: "fresh_session lib e so aw = (Some fresh, aw1)" using assms(1) by (metis not_Some_eq prod.collapse)
  note v = fresh_session_Some(1) [OF f] and c = fresh_session_Some(2) [OF f]
  have ip: "s_client_ip fresh \<noteq> None" using c assms(2) by (simp add: session_security_context_unchanged_def)
  have "fresh \<in> set (as_sessions (aw_state aw))"
  proof (cases "List.find (\<lambda>s. s_token s = s_token (so_session so)) (as_sessions (aw_state aw))")
    case None
    then have "s_client_ip fresh = None"
      using v by (auto simp: validate_def Let_def token_session_def split: option.splits if_splits)
    then show ?thesis using ip by blast
  next
    case (Some s)
    then have "fresh = s" using v by (auto simp: validate_def Let_def split: option.splits if_splits)
    then show ?thesis using find_SomeD [OF Some] by simp
  qed
  then show ?thesis using c by (auto simp: session_security_context_unchanged_def)
qed


definition other_app :: "(nat, nat) app_state" where
  "other_app = quiet_app\<lparr>app_auth := second_world\<rparr>"

definition other_socket :: socket where
  "other_socket = the (fst (fst (accept_socket plain_lib calm_auth 0 ''10.0.0.3'' (Some ''b'') No_Message False other_app)))"


text \<open>A silent connection is closed by the first ping after a minute and a half.\<close>

lemma idle_socket_closes:
  assumes "so_open (fst (socket_step lib handlers se Tick (so, w)))"
  shows "se_now se - so_last_seen so \<le> 90"
  using assms by (auto simp: IDLE_TIMEOUT_def close_with_def split: if_splits prod.splits option.splits)

text \<open>Events are forwarded without a check: until the next ping a revoked session still learns
  which collections change.\<close>

lemma events_unchecked:
  "so_open so \<Longrightarrow> so_subscribed so \<Longrightarrow>
   so_out (fst (socket_step lib handlers (se\<lparr>se_write_ok := True\<rparr>) (Event_In (Some c)) (so, w))) =
     so_out so @ [Notification_Frame (notification_new ''event'' (Some (JObj [(''collection'', JStr c)])))]"
  by (simp add: send_frame_def)

end
