(* ===== verification/Block_Volume.thy ===== *)
theory Block_Volume
  imports Rust_Str
begin

text \<open>
  The identity of managed block volumes (\<open>nasty-common/src/block_volume.rs\<close>), and what both
  block-sharing services rely on when they point their exports at the devices of this boot: an
  export follows its volume, and an export whose volume is not attached is marked instead of being
  served from whatever device has taken its old name.
\<close>

section \<open>Identities and attachments\<close>

record block_volume_id =
  bv_filesystem_uuid :: string
  bv_subvolume_id :: "32 word"

text \<open>The loop device of each volume, and the devices that were attached before this start.\<close>

record mappings =
  bm_current :: "(block_volume_id \<times> string) list"
  bm_preexisting :: "(string \<times> block_volume_id) list"

definition mappings_is_empty :: "mappings \<Rightarrow> bool" where
  "mappings_is_empty m = (bm_current m = [])"

definition legacy_identity_for_exact_path :: "mappings \<Rightarrow> string \<Rightarrow> block_volume_id option" where
  "legacy_identity_for_exact_path m path = map_of (bm_preexisting m) path"

text \<open>The volume of an export, and the device it is attached at: the recorded identity, or that of
  a device which was attached before this start.\<close>

definition resolve :: "mappings \<Rightarrow> block_volume_id option \<Rightarrow> string \<Rightarrow> (block_volume_id \<times> string) option" where
  "resolve m volume path =
     (case (case volume of Some v \<Rightarrow> Some v | None \<Rightarrow> legacy_identity_for_exact_path m path) of
        None \<Rightarrow> None
      | Some v \<Rightarrow> map_option (Pair v) (map_of (bm_current m) v))"

lemma resolve_current: "resolve m volume path = Some (v, d) \<Longrightarrow> map_of (bm_current m) v = Some d"
  by (auto simp: resolve_def split: option.splits)

lemma resolve_recorded: "resolve m (Some v) path = Some (v', d) \<Longrightarrow> v' = v"
  by (auto simp: resolve_def)

lemma resolve_legacy:
  "resolve m None path = Some (v, d) \<Longrightarrow> map_of (bm_preexisting m) path = Some v"
  by (auto simp: resolve_def legacy_identity_for_exact_path_def split: option.splits)

lemma resolve_again: "resolve m volume path = Some (v, d) \<Longrightarrow> resolve m (Some v) d' = Some (v, d)"
  by (auto simp: resolve_def split: option.splits)

section \<open>Exports that follow their volume\<close>

text \<open>One export and a list of them: the new exports, whether anything changed, and whether it is
  safe to bring them up.\<close>

locale remapping =
  fixes managed :: "'i \<Rightarrow> bool"
    and volume :: "'i \<Rightarrow> block_volume_id option"
    and path :: "'i \<Rightarrow> string"
    and unresolved :: "'i \<Rightarrow> bool"
    and remap_item :: "mappings \<Rightarrow> 'i \<Rightarrow> 'i \<times> bool \<times> bool"
    and remap_items :: "mappings \<Rightarrow> 'i list \<Rightarrow> 'i list \<times> bool \<times> bool"
  assumes unmanaged: "\<not> managed i \<Longrightarrow> remap_item m i = (i, False, True)"
    and attached: "managed i \<Longrightarrow> resolve m (volume i) (path i) = Some (v, d) \<Longrightarrow> remap_item m i = (j, c, s) \<Longrightarrow>
      managed j \<and> volume j = Some v \<and> path j = d \<and> \<not> unresolved j \<and> s"
    and detached: "managed i \<Longrightarrow> resolve m (volume i) (path i) = None \<Longrightarrow> remap_item m i = (j, c, s) \<Longrightarrow>
      managed j \<and> volume j = volume i \<and> path j = path i \<and> unresolved j \<and> \<not> s"
    and changed: "remap_item m i = (j, c, s) \<Longrightarrow> c \<longleftrightarrow> j \<noteq> i"
    and items_Nil: "remap_items m [] = ([], False, True)"
    and items_Cons: "remap_items m (i # is) =
      (case remap_item m i of (j, c, s) \<Rightarrow> case remap_items m is of (js, cs, ss) \<Rightarrow> (j # js, c \<or> cs, s \<and> ss))"
begin

text \<open>The export serves the device its volume is attached at.\<close>

definition served :: "mappings \<Rightarrow> 'i \<Rightarrow> bool" where
  "served m j \<longleftrightarrow> \<not> unresolved j \<and> (\<exists>v. volume j = Some v \<and> map_of (bm_current m) v = Some (path j))"

lemma item_cases:
  assumes "remap_item m i = (j, c, s)"
  shows "(\<not> managed i \<and> j = i \<and> s) \<or> (managed i \<and> managed j \<and> s \<and> served m j)
    \<or> (managed i \<and> managed j \<and> \<not> s \<and> unresolved j \<and> volume j = volume i \<and> path j = path i)"
proof (cases "managed i")
  case True
  show ?thesis
  proof (cases "resolve m (volume i) (path i)")
    case (Some vd)
    obtain v d where "vd = (v, d)" by fastforce
    with attached [OF True _ assms] resolve_current [of m "volume i" "path i" v d] Some True show ?thesis
      unfolding served_def by simp
  qed (use detached [OF True _ assms] True in simp)
qed (use unmanaged [of i m] assms in simp)

lemma items_safe:
  "remap_items m is = (js, c, True) \<Longrightarrow> j \<in> set js \<Longrightarrow> managed j \<Longrightarrow> served m j"
proof (induction "is" arbitrary: js c)
  case (Cons i "is")
  from Cons.prems(1) obtain j1 c1 js1 cs where
    "remap_item m i = (j1, c1, True)" "remap_items m is = (js1, cs, True)" "js = j1 # js1"
    by (auto simp: items_Cons split: prod.splits)
  with item_cases [of m i j1 c1 True] Cons show ?case by auto
qed (simp add: items_Nil)

lemma items_unsafe:
  "remap_items m is = (js, c, False) \<Longrightarrow> \<exists>j \<in> set js. managed j \<and> unresolved j"
proof (induction "is" arbitrary: js c)
  case (Cons i "is")
  from Cons.prems obtain j1 c1 s1 js1 cs ss where
    *: "remap_item m i = (j1, c1, s1)" "remap_items m is = (js1, cs, ss)" "js = j1 # js1" "\<not> (s1 \<and> ss)"
    by (auto simp: items_Cons split: prod.splits)
  show ?case
  proof (cases s1)
    case True
    then show ?thesis using * Cons.IH [of js1 cs] by simp
  next
    case False
    then show ?thesis using * item_cases [of m i j1 c1 s1] by auto
  qed
qed (simp add: items_Nil)

lemma items_changed: "remap_items m is = (js, c, s) \<Longrightarrow> c \<longleftrightarrow> js \<noteq> is"
proof (induction "is" arbitrary: js c s)
  case (Cons i "is")
  from Cons.prems obtain j1 c1 s1 js1 cs ss where
    *: "remap_item m i = (j1, c1, s1)" "remap_items m is = (js1, cs, ss)" "js = j1 # js1" "c \<longleftrightarrow> c1 \<or> cs"
    by (auto simp: items_Cons split: prod.splits)
  then show ?case using changed [of m i j1 c1 s1] Cons.IH [of js1 cs ss] by auto
qed (simp add: items_Nil)

lemma items_unmanaged:
  "remap_items m is = (js, c, s) \<Longrightarrow> length js = length is \<and> (\<forall>k < length is. \<not> managed (is ! k) \<longrightarrow> js ! k = is ! k)"
proof (induction "is" arbitrary: js c s)
  case (Cons i "is")
  from Cons.prems obtain j1 c1 s1 js1 cs ss where
    *: "remap_item m i = (j1, c1, s1)" "remap_items m is = (js1, cs, ss)" "js = j1 # js1"
    by (auto simp: items_Cons split: prod.splits)
  then show ?case using item_cases [of m i j1 c1 s1] Cons.IH [of js1 cs ss]
    by (auto simp: nth_Cons split: nat.splits)
qed (simp add: items_Nil)

end

end
