(* ===== verification/Secrets.thy ===== *)
theory Secrets
  imports Rust_Str
begin

text \<open>
  Secrets sealed with \<open>systemd-creds\<close> (\<open>nasty-common/src/secrets.rs\<close>). The program is an
  argument: what one run of it gives for its arguments and its input. The standard library's
  reading of bytes as UTF-8, strict and lossy, is spelled out.
\<close>

section \<open>UTF-8\<close>

text \<open>What stands at the front of a byte string: a scalar of so many bytes, so many bytes that no
  scalar starts with, or the beginning of a scalar that is cut off.\<close>

datatype utf8_head = Scalar nat | Bad nat | Cut

definition in_range :: "nat \<Rightarrow> nat \<Rightarrow> char \<Rightarrow> bool" where
  "in_range lo hi c \<longleftrightarrow> lo \<le> byte c \<and> byte c \<le> hi"

text \<open>The bytes that may follow a lead byte: the range of the second one and how many come after it.\<close>

definition utf8_lead :: "char \<Rightarrow> (nat \<times> nat \<times> nat) option" where
  "utf8_lead c =
     (if in_range 0xC2 0xDF c then Some (0x80, 0xBF, 0)
      else if byte c = 0xE0 then Some (0xA0, 0xBF, 1)
      else if in_range 0xE1 0xEC c \<or> in_range 0xEE 0xEF c then Some (0x80, 0xBF, 1)
      else if byte c = 0xED then Some (0x80, 0x9F, 1)
      else if byte c = 0xF0 then Some (0x90, 0xBF, 2)
      else if in_range 0xF1 0xF3 c then Some (0x80, 0xBF, 2)
      else if byte c = 0xF4 then Some (0x80, 0x8F, 2)
      else None)"

fun utf8_tail :: "nat \<Rightarrow> nat \<Rightarrow> string \<Rightarrow> utf8_head" where
  "utf8_tail n 0 s = Scalar n"
| "utf8_tail n (Suc k) [] = Cut"
| "utf8_tail n (Suc k) (c # s) = (if in_range 0x80 0xBF c then utf8_tail (Suc n) k s else Bad n)"

fun utf8_head_of :: "string \<Rightarrow> utf8_head" where
  "utf8_head_of [] = Cut"
| "utf8_head_of (c # s) =
     (if byte c < 128 then Scalar 1
      else case utf8_lead c of
        None \<Rightarrow> Bad 1
      | Some (lo, hi, k) \<Rightarrow>
          (case s of
             [] \<Rightarrow> Cut
           | d # t \<Rightarrow> if in_range lo hi d then utf8_tail 2 k t else Bad 1))"

lemma utf8_tail_le: "utf8_tail n k s = Scalar m \<Longrightarrow> m = n + k \<and> k \<le> length s"
  by (induction n k s rule: utf8_tail.induct) (auto split: if_splits)

lemma utf8_tail_bad: "utf8_tail n k s = Bad m \<Longrightarrow> n \<le> m \<and> m \<le> n + length s"
  by (induction n k s rule: utf8_tail.induct) (auto split: if_splits)

lemma utf8_head_scalar: "utf8_head_of s = Scalar n \<Longrightarrow> 0 < n \<and> n \<le> length s"
  by (cases s) (auto split: if_splits option.splits list.splits dest!: utf8_tail_le)

lemma utf8_head_bad: "utf8_head_of s = Bad n \<Longrightarrow> 0 < n \<and> n \<le> length s"
  by (cases s) (auto split: if_splits option.splits list.splits dest!: utf8_tail_bad)

text \<open>\<open>String::from_utf8\<close>: where reading stops and how many bytes are at fault, if any.\<close>

function utf8_error :: "nat \<Rightarrow> string \<Rightarrow> (nat \<times> nat option) option" where
  "utf8_error i s =
     (if s = [] then None
      else case utf8_head_of s of
        Scalar n \<Rightarrow> utf8_error (i + n) (drop n s)
      | Bad n \<Rightarrow> Some (i, Some n)
      | Cut \<Rightarrow> Some (i, None))"
  by pat_completeness auto
termination
  by (relation "measure (length \<circ> snd)") (auto dest!: utf8_head_scalar)

declare utf8_error.simps [simp del]

definition utf8_error_message :: "nat \<times> nat option \<Rightarrow> string" where
  "utf8_error_message x =
     (case x of
        (i, Some n) \<Rightarrow> ''invalid utf-8 sequence of '' @ show_nat n @ '' bytes from index '' @ show_nat i
      | (i, None) \<Rightarrow> ''incomplete utf-8 byte sequence from index '' @ show_nat i)"

definition from_utf8 :: "string \<Rightarrow> string + string" where
  "from_utf8 s = (case utf8_error 0 s of None \<Rightarrow> Ok s | Some x \<Rightarrow> Err (utf8_error_message x))"

text \<open>\<open>String::from_utf8_lossy\<close>: U+FFFD for what cannot be read.\<close>

definition replacement :: string where
  "replacement = [CHR 0xEF, CHR 0xBF, CHR 0xBD]"

function from_utf8_lossy :: "string \<Rightarrow> string" where
  "from_utf8_lossy s =
     (if s = [] then []
      else case utf8_head_of s of
        Scalar n \<Rightarrow> take n s @ from_utf8_lossy (drop n s)
      | Bad n \<Rightarrow> replacement @ from_utf8_lossy (drop n s)
      | Cut \<Rightarrow> replacement)"
  by pat_completeness auto
termination
  by (relation "measure length") (auto dest!: utf8_head_scalar utf8_head_bad)

declare from_utf8_lossy.simps [simp del]

lemma utf8_error_lossy: "utf8_error i s = None \<Longrightarrow> from_utf8_lossy s = s"
proof (induction i s rule: utf8_error.induct)
  case (1 i s)
  then show ?case
    by (auto simp: utf8_error.simps [of i s] from_utf8_lossy.simps [of s] split: if_splits utf8_head.splits)
qed

lemma utf8_error_ascii: "list_all (\<lambda>c. byte c < 128) s \<Longrightarrow> utf8_error i s = None"
proof (induction s arbitrary: i)
  case (Cons c s)
  then show ?case by (simp add: utf8_error.simps [of i "c # s"])
qed (simp add: utf8_error.simps)

lemma from_utf8_ascii: "list_all (\<lambda>c. byte c < 128) s \<Longrightarrow> from_utf8 s = Ok s"
  by (simp add: from_utf8_def utf8_error_ascii)

section \<open>Runs of \<open>systemd-creds\<close>\<close>

record creds_output =
  co_success :: bool
  co_status :: string
  co_stdout :: string
  co_stderr :: string

text \<open>Starting the program: it is not there, it cannot be started, or it runs; then writing its
  input and waiting for it may fail.\<close>

datatype creds_child = Not_There | Spawn_Error string | Running "string option" "string + creds_output"

type_synonym creds = "string list \<Rightarrow> string \<Rightarrow> creds_child"

datatype secret_error =
    BinaryUnavailable string
  | CommandFailed string string string
  | Secret_Io string
  | Utf8 string string

fun secret_error_message :: "secret_error \<Rightarrow> string" where
  "secret_error_message (BinaryUnavailable e) = ''systemd-creds binary not available: '' @ e"
| "secret_error_message (CommandFailed phase status stderr) =
     ''systemd-creds '' @ phase @ '' failed (exit '' @ status @ ''): '' @ stderr"
| "secret_error_message (Secret_Io e) = ''io error talking to systemd-creds: '' @ e"
| "secret_error_message (Utf8 what e) = ''systemd-creds returned non-utf8 output for '' @ what @ '': '' @ e"

definition run_with_stdin :: "creds \<Rightarrow> string \<Rightarrow> string list \<Rightarrow> string \<Rightarrow> secret_error + string" where
  "run_with_stdin creds phase args stdin =
     (case creds args stdin of
        Not_There \<Rightarrow> Err (BinaryUnavailable ''systemd-creds not found in PATH'')
      | Spawn_Error e \<Rightarrow> Err (Secret_Io e)
      | Running (Some e) _ \<Rightarrow> Err (Secret_Io e)
      | Running None (Err e) \<Rightarrow> Err (Secret_Io e)
      | Running None (Ok out) \<Rightarrow>
          if co_success out then Ok (co_stdout out)
          else Err (CommandFailed phase (co_status out) (trim (from_utf8_lossy (co_stderr out)))))"

definition encrypt :: "creds \<Rightarrow> string \<Rightarrow> string \<Rightarrow> secret_error + string" where
  "encrypt creds name plaintext =
     (case run_with_stdin creds ''encrypt'' [''encrypt'', ''--name'', name, ''-'', ''-''] plaintext of
        Err e \<Rightarrow> Err e
      | Ok stdout \<Rightarrow> (case from_utf8 stdout of Ok blob \<Rightarrow> Ok blob | Err e \<Rightarrow> Err (Utf8 ''encrypt stdout'' e)))"

definition decrypt :: "creds \<Rightarrow> string \<Rightarrow> string \<Rightarrow> secret_error + string" where
  "decrypt creds name blob =
     (case run_with_stdin creds ''decrypt'' [''decrypt'', ''--name'', name, ''-'', ''-''] blob of
        Err e \<Rightarrow> Err e
      | Ok stdout \<Rightarrow> (case from_utf8 stdout of Ok p \<Rightarrow> Ok p | Err e \<Rightarrow> Err (Utf8 ''decrypt stdout'' e)))"

datatype secrets_backend = TpmAndHost | HostOnly

datatype secrets_status = Available secrets_backend | Unavailable string

definition detect_backend :: "creds \<Rightarrow> secrets_backend" where
  "detect_backend creds =
     (case creds [''has-tpm2''] [] of
        Running _ (Ok out) \<Rightarrow> if co_success out then TpmAndHost else HostOnly
      | _ \<Rightarrow> HostOnly)"

definition probe :: "creds \<Rightarrow> secrets_status" where
  "probe creds =
     (let name = ''nasty.secrets.probe''; plaintext = ''probe'' in
      case encrypt creds name plaintext of
        Err e \<Rightarrow> Unavailable (secret_error_message e)
      | Ok blob \<Rightarrow>
          (case decrypt creds name blob of
             Ok round_tripped \<Rightarrow>
               if round_tripped = plaintext then Available (detect_backend creds)
               else Unavailable (''round-trip mismatch (sealed '' @ [CHR 39] @ ''probe'' @ [CHR 39] @
                      '', unsealed '' @ show_nat (length round_tripped) @ '' bytes)'')
           | Err e \<Rightarrow> Unavailable (''decrypt: '' @ secret_error_message e)))"

text \<open>What the documentation of \<open>systemd-creds\<close> promises: a blob opens under the name it was
  sealed with.\<close>

definition opens_what_it_seals :: "creds \<Rightarrow> bool" where
  "opens_what_it_seals creds \<longleftrightarrow>
     (\<forall>name p blob. encrypt creds name p = Ok blob \<longrightarrow> decrypt creds name blob = Ok p)"

text \<open>The status shown to the operator: sealing is reported as available exactly when the probe
  round-trips.\<close>

lemma probe_available_iff:
  "(\<exists>b. probe creds = Available b) \<longleftrightarrow>
   (\<exists>blob. encrypt creds ''nasty.secrets.probe'' ''probe'' = Ok blob \<and>
      decrypt creds ''nasty.secrets.probe'' blob = Ok ''probe'')"
  by (auto simp: probe_def Let_def split: sum.splits)

section \<open>A sample program\<close>

text \<open>A sealing that puts the name and a line break before the text.\<close>

definition sealed_text :: "string \<Rightarrow> string \<Rightarrow> string" where
  "sealed_text name p = name @ [CHR 10] @ p"

definition sample_output :: "bool \<Rightarrow> string \<Rightarrow> creds_child" where
  "sample_output good out = Running None (Ok \<lparr>co_success = good, co_status = ''exit status: 1'', co_stdout = out, co_stderr = ''refused''\<rparr>)"

definition sample_creds :: creds where
  "sample_creds args stdin =
     (case args of
        [op, _, name, _, _] \<Rightarrow>
          if utf8_error 0 stdin \<noteq> None then sample_output False []
          else if op = ''encrypt'' then sample_output (utf8_error 0 (sealed_text name stdin) = None) (sealed_text name stdin)
          else if take (length name + 1) stdin = name @ [CHR 10] \<and> utf8_error 0 (drop (length name + 1) stdin) = None
               then sample_output True (drop (length name + 1) stdin)
          else sample_output False []
      | _ \<Rightarrow> sample_output False [])"

lemma sample_creds_opens: "opens_what_it_seals sample_creds"
  by (auto simp: opens_what_it_seals_def encrypt_def decrypt_def run_with_stdin_def sample_creds_def
      sample_output_def sealed_text_def from_utf8_def split: if_splits option.splits)

end
