(* ===== verification/Net_Addr.thy ===== *)
theory Net_Addr
  imports Rust_Str
begin

text \<open>
  The parser behind \<open>str::parse::<std::net::IpAddr>\<close> and \<open>str::parse::<u8>\<close>, which the
  firewall uses to decide which source restrictions may be written into a ruleset. A reader
  takes the remaining input and returns a value with the rest, or None with nothing consumed.
\<close>

datatype ip_addr = V4 "nat list" | V6 "nat list"

definition digit_value :: "char \<Rightarrow> nat" where
  "digit_value c =
     (if is_ascii_digit c then byte c - 48
      else if is_ascii_lower c then byte c - 87
      else if is_ascii_upper c then byte c - 55 else 36)"

definition is_digit :: "nat \<Rightarrow> char \<Rightarrow> bool" where
  "is_digit radix c = (digit_value c < radix)"

definition read_number :: "nat \<Rightarrow> nat \<Rightarrow> bool \<Rightarrow> nat \<Rightarrow> string \<Rightarrow> (nat \<times> string) option" where
  "read_number radix max_digits allow_zero_prefix limit s =
     (let ds = takeWhile (is_digit radix) s;
          v = foldl (\<lambda>acc c. radix * acc + digit_value c) 0 ds
      in if ds = [] \<or> length ds > max_digits
            \<or> (\<not> allow_zero_prefix \<and> take 1 ds = ''0'' \<and> length ds > 1) \<or> v > limit
         then None else Some (v, dropWhile (is_digit radix) s))"

definition read_separator :: "char \<Rightarrow> nat \<Rightarrow> string \<Rightarrow> string option" where
  "read_separator sep i s =
     (if i = 0 then Some s else case s of [] \<Rightarrow> None | c # r \<Rightarrow> if c = sep then Some r else None)"

fun v4_groups :: "nat \<Rightarrow> nat \<Rightarrow> string \<Rightarrow> (nat list \<times> string) option" where
  "v4_groups 0 i s = Some ([], s)"
| "v4_groups (Suc k) i s =
     (case Option.bind (read_separator CHR ''.'' i s) (read_number 10 3 False 255) of
        None \<Rightarrow> None
      | Some (v, r) \<Rightarrow> map_option (apfst ((#) v)) (v4_groups k (Suc i) r))"

definition read_ipv4_addr :: "string \<Rightarrow> (nat list \<times> string) option" where
  "read_ipv4_addr s = v4_groups 4 0 s"

text \<open>
  Up to \<open>k\<close> further groups of an IPv6 address; a trailing dotted quad stands for two groups.
  The flag tells that one was read.
\<close>

fun v6_groups :: "nat \<Rightarrow> nat \<Rightarrow> string \<Rightarrow> nat list \<times> bool \<times> string" where
  "v6_groups 0 i s = ([], False, s)"
| "v6_groups (Suc k) i s =
     (case (if 0 < k then Option.bind (read_separator CHR '':'' i s) read_ipv4_addr else None) of
        Some (q, r) \<Rightarrow> ([256 * q ! 0 + q ! 1, 256 * q ! 2 + q ! 3], True, r)
      | None \<Rightarrow>
          (case Option.bind (read_separator CHR '':'' i s) (read_number 16 4 True 65535) of
             None \<Rightarrow> ([], False, s)
           | Some (g, r) \<Rightarrow> (case v6_groups k (Suc i) r of (gs, v4, r') \<Rightarrow> (g # gs, v4, r'))))"

definition read_ipv6_addr :: "string \<Rightarrow> (nat list \<times> string) option" where
  "read_ipv6_addr s =
     (case v6_groups 8 0 s of (hd_groups, v4, r) \<Rightarrow>
        if length hd_groups = 8 then Some (hd_groups, r)
        else if v4 then None
        else (case r of
            c # d # r' \<Rightarrow>
              if c = CHR '':'' \<and> d = CHR '':'' then
                (case v6_groups (8 - (length hd_groups + 1)) 0 r' of (tl_groups, _, r'') \<Rightarrow>
                   Some (hd_groups @ replicate (8 - length hd_groups - length tl_groups) 0
                         @ tl_groups, r''))
              else None
          | _ \<Rightarrow> None))"

definition parse_ip :: "string \<Rightarrow> ip_addr option" where
  "parse_ip s =
     (case read_ipv4_addr s of
        Some (q, r) \<Rightarrow> if r = [] then Some (V4 q) else None
      | None \<Rightarrow> (case read_ipv6_addr s of
                   Some (g, r) \<Rightarrow> if r = [] then Some (V6 g) else None
                 | None \<Rightarrow> None))"

text \<open>\<open>u8::from_str\<close>: an optional plus sign, decimal digits, no overflow.\<close>

definition parse_u8 :: "string \<Rightarrow> nat option" where
  "parse_u8 s =
     (if s = [] \<or> s = ''+'' \<or> s = ''-'' then None
      else let ds = (if hd s = CHR ''+'' then tl s else s) in
        if list_all is_ascii_digit ds \<and> read_dec ds \<le> 255 then Some (read_dec ds) else None)"

section \<open>What the readers consume\<close>

definition ip_char :: "char \<Rightarrow> bool" where
  "ip_char c = (is_digit 16 c \<or> c = CHR ''.'' \<or> c = CHR '':'')"

text \<open>\<open>consumes r s\<close>: the reader left a suffix of its input and skipped address characters only.\<close>

definition consumes :: "string \<Rightarrow> string \<Rightarrow> bool" where
  "consumes r s \<longleftrightarrow> (\<exists>p. s = p @ r \<and> (\<forall>c \<in> set p. ip_char c))"

lemma consumes_refl [simp]: "consumes s s"
  by (simp add: consumes_def)

lemma consumes_trans: "consumes r s \<Longrightarrow> consumes s t \<Longrightarrow> consumes r t"
  unfolding consumes_def by (metis Un_iff append.assoc set_append)

lemma consumes_Nil: "consumes [] s \<Longrightarrow> c \<in> set s \<Longrightarrow> ip_char c"
  by (auto simp: consumes_def)

lemma consumes_Cons: "ip_char c \<Longrightarrow> consumes r s \<Longrightarrow> consumes r (c # s)"
  unfolding consumes_def by (metis append_Cons set_ConsD)

lemma read_number_consumes:
  assumes "read_number radix m z l s = Some (v, r)" and "radix \<le> 16"
  shows "consumes r s"
proof -
  have "r = dropWhile (is_digit radix) s"
    using assms(1) by (auto simp: read_number_def Let_def split: if_splits)
  moreover have "\<forall>c \<in> set (takeWhile (is_digit radix) s). ip_char c"
    using assms(2) by (auto simp: ip_char_def is_digit_def dest!: set_takeWhileD)
  ultimately show ?thesis
    unfolding consumes_def by (metis takeWhile_dropWhile_id)
qed

lemma read_separator_consumes:
  "read_separator sep i s = Some r \<Longrightarrow> ip_char sep \<Longrightarrow> consumes r s"
  by (auto simp: read_separator_def consumes_Cons split: if_splits list.splits)

lemma sep_number_consumes:
  assumes "Option.bind (read_separator sep i s) (read_number radix m z l) = Some (v, r)"
    and "ip_char sep" and "radix \<le> 16"
  shows "consumes r s"
  using assms by (auto simp: Option.bind_eq_Some_conv
      intro: consumes_trans read_number_consumes read_separator_consumes)

lemma ip_char_seps [simp]: "ip_char CHR ''.''" "ip_char CHR '':''"
  by (simp_all add: ip_char_def)

lemma v4_groups_consumes: "v4_groups k i s = Some (q, r) \<Longrightarrow> consumes r s"
proof (induction k i s arbitrary: q rule: v4_groups.induct)
  case (2 k i s)
  from "2.prems" obtain v r1 q' where
    step: "Option.bind (read_separator CHR ''.'' i s) (read_number 10 3 False 255) = Some (v, r1)"
    and rest: "v4_groups k (Suc i) r1 = Some (q', r)"
    by (auto split: option.splits)
  from "2.IH" [OF step refl rest] have "consumes r r1" .
  moreover have "consumes r1 s" by (rule sep_number_consumes [OF step]) simp_all
  ultimately show ?case by (rule consumes_trans)
qed simp

lemma sep_ipv4_consumes:
  assumes "Option.bind (read_separator CHR '':'' i s) read_ipv4_addr = Some (q, r)"
  shows "consumes r s"
proof -
  from assms obtain t where t: "read_separator CHR '':'' i s = Some t" "v4_groups 4 0 t = Some (q, r)"
    by (auto simp: Option.bind_eq_Some_conv read_ipv4_addr_def)
  from t(2) have "consumes r t" by (rule v4_groups_consumes)
  moreover from t(1) have "consumes t s" by (rule read_separator_consumes) simp
  ultimately show ?thesis by (rule consumes_trans)
qed

lemma v6_groups_consumes: "v6_groups k i s = (gs, v4, r) \<Longrightarrow> consumes r s"
proof (induction k i s arbitrary: gs v4 r rule: v6_groups.induct)
  case (2 k i s)
  let ?q = "if 0 < k then Option.bind (read_separator CHR '':'' i s) read_ipv4_addr else None"
  let ?n = "Option.bind (read_separator CHR '':'' i s) (read_number 16 4 True 65535)"
  show ?case
  proof (cases ?q)
    case (Some x)
    then obtain q r1 where "?q = Some (q, r1)" by (cases x) auto
    with "2.prems" show ?thesis
      by (auto split: if_splits intro: sep_ipv4_consumes)
  next
    case None
    note q = None
    show ?thesis
    proof (cases ?n)
      case None
      with q "2.prems" show ?thesis by simp
    next
      case (Some x)
      then obtain g r1 where n: "?n = Some (g, r1)" by (cases x) auto
      obtain gs' v4' r2 where rest: "v6_groups k (Suc i) r1 = (gs', v4', r2)"
        by (cases "v6_groups k (Suc i) r1") auto
      from "2.IH" [OF q n refl rest] have "consumes r2 r1" .
      moreover have "consumes r1 s" by (rule sep_number_consumes [OF n]) simp_all
      ultimately have "consumes r2 s" by (rule consumes_trans)
      with q n rest "2.prems" show ?thesis by simp
    qed
  qed
qed simp

lemma read_ipv6_addr_consumes: "read_ipv6_addr s = Some (g, r) \<Longrightarrow> consumes r s"
proof -
  assume *: "read_ipv6_addr s = Some (g, r)"
  obtain hg v4 r1 where h: "v6_groups 8 0 s = (hg, v4, r1)" by (cases "v6_groups 8 0 s") auto
  then have "consumes r1 s" by (rule v6_groups_consumes)
  moreover have "consumes r r1"
  proof (cases "length hg = 8")
    case True
    with * h show ?thesis by (simp add: read_ipv6_addr_def)
  next
    case False
    with * h obtain r2 tg f where r1: "r1 = CHR '':'' # CHR '':'' # r2"
      and t: "v6_groups (8 - (length hg + 1)) 0 r2 = (tg, f, r)"
      by (auto simp: read_ipv6_addr_def split: if_splits list.splits prod.splits)
    from t have "consumes r r2" by (rule v6_groups_consumes)
    with r1 show ?thesis by (simp add: consumes_Cons)
  qed
  ultimately show "consumes r s" by (metis consumes_trans)
qed

lemma parse_ip_chars: "parse_ip s = Some ip \<Longrightarrow> c \<in> set s \<Longrightarrow> ip_char c"
  by (auto simp: parse_ip_def read_ipv4_addr_def split: option.splits if_splits
      dest!: v4_groups_consumes read_ipv6_addr_consumes intro: consumes_Nil)

lemma parse_u8_chars:
  "parse_u8 p = Some n \<Longrightarrow> c \<in> set p \<Longrightarrow> is_ascii_digit c \<or> c = CHR ''+''"
  by (cases p) (auto simp: parse_u8_def Let_def list_all_iff split: if_splits)

section \<open>Dotted quads\<close>

definition show_v4 :: "nat \<Rightarrow> nat \<Rightarrow> nat \<Rightarrow> nat \<Rightarrow> string" where
  "show_v4 a b c d = show_nat a @ ''.'' @ show_nat b @ ''.'' @ show_nat c @ ''.'' @ show_nat d"

lemma show_nat_octet:
  assumes "n \<le> 255"
  shows "show_nat n =
    (if n < 10 then [char_of (48 + n)]
     else if n < 100 then [char_of (48 + n div 10), char_of (48 + n mod 10)]
     else [char_of (48 + n div 100), char_of (48 + n div 10 mod 10), char_of (48 + n mod 10)])"
proof -
  have "n div 10 div 10 = n div 100" by (simp add: div_mult2_eq [symmetric])
  then show ?thesis
    using assms by (auto simp: show_nat.simps [of n] show_nat.simps [of "n div 10"]
        show_nat.simps [of "n div 100"])
qed

lemma is_digit_char [simp]:
  fixes d :: nat
  shows "d < 10 \<Longrightarrow> is_digit 10 (char_of (48 + d))"
  and "d < 10 \<Longrightarrow> digit_value (char_of (48 + d)) = d"
  by (simp_all add: is_digit_def digit_value_def is_ascii_digit_def)

lemma takeWhile_digits:
  assumes "list_all (is_digit 10) ds" and "r = [] \<or> \<not> is_digit 10 (hd r)"
  shows "takeWhile (is_digit 10) (ds @ r) = ds" "dropWhile (is_digit 10) (ds @ r) = r"
proof -
  have "takeWhile (is_digit 10) r = [] \<and> dropWhile (is_digit 10) r = r"
    using assms(2) by (cases r) auto
  with assms(1) show "takeWhile (is_digit 10) (ds @ r) = ds" "dropWhile (is_digit 10) (ds @ r) = r"
    by (simp_all add: list_all_iff takeWhile_append2 dropWhile_append2)
qed

lemma char_of_zero:
  fixes d :: nat
  assumes "d < 10"
  shows "char_of (48 + d) = CHR ''0'' \<longleftrightarrow> d = 0"
proof
  assume "char_of (48 + d) = CHR ''0''"
  then have "byte (char_of (48 + d)) = byte CHR ''0''" by simp
  with assms show "d = 0" by simp
next
  assume "d = 0"
  moreover have "char_of (48::nat) = CHR ''0''" by code_simp
  ultimately show "char_of (48 + d) = CHR ''0''" by simp
qed

lemma read_number_octet:
  assumes n: "n \<le> 255" and r: "r = [] \<or> \<not> is_digit 10 (hd r)"
  shows "read_number 10 3 False 255 (show_nat n @ r) = Some (n, r)"
proof -
  have digits: "list_all (is_digit 10) (show_nat n)"
    using n by (simp add: show_nat_octet)
  have zero: "\<not> (take 1 (show_nat n) = ''0'' \<and> length (show_nat n) > 1)"
    using n by (simp add: show_nat_octet char_of_zero) arith
  have three: "10 * (10 * (n div 100) + n div 10 mod 10) + n mod 10 = n"
    using div_mult2_eq [of n 10 10] mult_div_mod_eq [of 10 "n div 10"] mult_div_mod_eq [of 10 n]
    by simp
  have two: "n < 100 \<Longrightarrow> n div 10 < 10" and hundreds: "n div 100 < 10" using n by simp_all
  have val: "foldl (\<lambda>acc c. 10 * acc + digit_value c) 0 (show_nat n) = n"
    using two hundreds three by (simp add: show_nat_octet [OF n])
  have len: "show_nat n \<noteq> []" "length (show_nat n) \<le> 3"
    using n by (simp_all add: show_nat_octet)
  show ?thesis
    unfolding read_number_def takeWhile_digits [OF digits r] Let_def val
    using n zero len by auto
qed

lemma not_digit_dot [simp]: "\<not> is_digit 10 CHR ''.''"
  by (simp add: is_digit_def digit_value_def ascii_defs)

lemma v4_groups_octet:
  assumes "n \<le> 255" and "r = [] \<or> \<not> is_digit 10 (hd r)"
  shows "v4_groups (Suc k) 0 (show_nat n @ r) = map_option (apfst ((#) n)) (v4_groups k 1 r)"
    and "v4_groups (Suc k) (Suc i) (CHR ''.'' # show_nat n @ r) =
           map_option (apfst ((#) n)) (v4_groups k (Suc (Suc i)) r)"
  using read_number_octet [OF assms] by (simp_all add: read_separator_def)

lemma parse_ip_show_v4:
  assumes "a \<le> 255" "b \<le> 255" "c \<le> 255" "d \<le> 255"
  shows "parse_ip (show_v4 a b c d) = Some (V4 [a, b, c, d])"
proof -
  have four: "(4::nat) = Suc (Suc (Suc (Suc 0)))" by simp
  have "v4_groups 4 0 (show_v4 a b c d) = Some ([a, b, c, d], [])"
    using assms v4_groups_octet(2) [of d "[]" 0 "Suc (Suc 0)"]
    by (simp add: four show_v4_def v4_groups_octet del: v4_groups.simps(2))
  then show ?thesis by (simp add: parse_ip_def read_ipv4_addr_def)
qed

lemma parse_u8_show_nat: "n \<le> 255 \<Longrightarrow> parse_u8 (show_nat n) = Some n"
proof -
  assume n: "n \<le> 255"
  have "show_nat n \<noteq> []" using n by (simp add: show_nat_octet)
  moreover have "list_all is_ascii_digit (show_nat n)"
    using show_nat_digits by (simp add: list_all_iff)
  moreover have "\<not> is_ascii_digit CHR ''+''" "\<not> is_ascii_digit CHR ''-''"
    by (simp_all add: is_ascii_digit_def)
  moreover have "hd (show_nat n) \<noteq> CHR ''+''" "show_nat n \<noteq> ''+''" "show_nat n \<noteq> ''-''"
    using calculation by (auto simp: list_all_iff dest: hd_in_set)
  ultimately show ?thesis
    using n by (simp add: parse_u8_def)
qed

end
