(* ===== verification/Iscsi.thy ===== *)
theory Iscsi
  imports Block_Volume Secrets State_Dir Net_Addr Json_Rpc
begin

text \<open>
  iSCSI targets (\<open>nasty-sharing/src/iscsi.rs\<close>), the part without the kernel: the stored data
  and what is shown of it, the checks on names, addresses and credentials, the plan that turns one
  set of portals into another, and the remapping of the logical units to the devices of this boot
  together with the check and the patch of the kernel tool's saved configuration.
\<close>

section \<open>Data\<close>

record portal =
  po_ip :: string
  po_port :: "16 word"
  po_iser :: bool

record lun =
  lun_id :: "32 word"
  lun_backstore_path :: string
  lun_backstore_name :: string
  lun_backstore_type :: string
  lun_size_bytes :: "u64 option"
  lun_backing_volume :: "block_volume_id option"
  lun_backing_volume_unresolved :: bool

record acl =
  acl_initiator_iqn :: string
  acl_userid :: "string option"
  acl_password :: "string option"
  acl_password_encrypted :: "string option"

record iscsi_target =
  it_id :: string
  it_iqn :: string
  it_alias :: "string option"
  it_portals :: "portal list"
  it_luns :: "lun list"
  it_acls :: "acl list"
  it_enabled :: bool

datatype iscsi_error =
    Target_NotFound string
  | Target_AlreadyExists string
  | BackstoreNotFound string
  | PathNotInPool string
  | InvalidBackingVolume string
  | Iscsi_ConfigFs string
  | Iscsi_CommandFailed string
  | Iscsi_Io string

fun iscsi_error_message :: "iscsi_error \<Rightarrow> string" where
  "iscsi_error_message (Target_NotFound e) = ''target not found: '' @ e"
| "iscsi_error_message (Target_AlreadyExists e) = ''target already exists: '' @ e"
| "iscsi_error_message (BackstoreNotFound e) = ''backing device/file not found: '' @ e"
| "iscsi_error_message (PathNotInPool e) = ''path is not within a NASty filesystem: '' @ e"
| "iscsi_error_message (InvalidBackingVolume e) = ''LUN backing volume cannot be repaired: '' @ e"
| "iscsi_error_message (Iscsi_ConfigFs e) = ''configfs error: '' @ e"
| "iscsi_error_message (Iscsi_CommandFailed e) = ''command failed: '' @ e"
| "iscsi_error_message (Iscsi_Io e) = ''io error: '' @ e"

definition UNRESOLVED_BACKSTORE :: string where
  "UNRESOLVED_BACKSTORE = ''/dev/nasty-unresolved-block-volume''"

definition DEFAULT_IQN_PREFIX :: string where
  "DEFAULT_IQN_PREFIX = ''iqn.2137-04.storage.nasty''"

section \<open>Credentials\<close>

definition acl_redacted :: "acl \<Rightarrow> acl" where
  "acl_redacted a = \<lparr>acl_initiator_iqn = acl_initiator_iqn a, acl_userid = acl_userid a,
     acl_password = (if acl_password a \<noteq> None \<or> acl_password_encrypted a \<noteq> None then Some ''***'' else None),
     acl_password_encrypted = None\<rparr>"

definition target_redacted :: "iscsi_target \<Rightarrow> iscsi_target" where
  "target_redacted t = t\<lparr>it_acls := map acl_redacted (it_acls t)\<rparr>"

definition chap_secret_name :: "string \<Rightarrow> string \<Rightarrow> string" where
  "chap_secret_name target_id initiator_iqn = ''nasty.iscsi.'' @ target_id @ ''.'' @ initiator_iqn @ ''.password''"

definition seal_chap_password :: "creds \<Rightarrow> string \<Rightarrow> string \<Rightarrow> string option \<Rightarrow> string option \<times> string option" where
  "seal_chap_password creds target_id initiator_iqn plaintext =
     (case plaintext of
        None \<Rightarrow> (None, None)
      | Some plain \<Rightarrow>
          if plain = [] then (None, None)
          else case encrypt creds (chap_secret_name target_id initiator_iqn) plain of
            Ok blob \<Rightarrow> (None, Some blob)
          | Err _ \<Rightarrow> (Some plain, None))"

definition chap_enabled :: "string option \<Rightarrow> string option \<Rightarrow> iscsi_error + bool" where
  "chap_enabled userid password =
     (let bad = Err (Iscsi_CommandFailed ''CHAP username and password must be provided together and must not be empty'') in
      case (userid, password) of
        (None, None) \<Rightarrow> Ok False
      | (Some u, Some p) \<Rightarrow> if u \<noteq> [] \<and> p \<noteq> [] then Ok True else bad
      | _ \<Rightarrow> bad)"

text \<open>One entry of \<open>migrate_secrets\<close>: sealed unless it is sealed, empty, or cannot be sealed.\<close>

definition migrate_acl :: "creds \<Rightarrow> string \<Rightarrow> acl \<Rightarrow> acl \<times> bool" where
  "migrate_acl creds target_id a =
     (if acl_password_encrypted a \<noteq> None then (a, False)
      else case acl_password a of
        None \<Rightarrow> (a, False)
      | Some plain \<Rightarrow>
          if plain = [] then (a, False)
          else case seal_chap_password creds target_id (acl_initiator_iqn a) (Some plain) of
            (password, Some blob) \<Rightarrow> (a\<lparr>acl_password := password, acl_password_encrypted := Some blob\<rparr>, True)
          | (_, None) \<Rightarrow> (a, False))"

text \<open>What is shown of a target carries no secret.\<close>

lemma redacted_has_no_secret:
  "a \<in> set (it_acls (target_redacted t)) \<Longrightarrow> acl_password_encrypted a = None \<and> acl_password a \<in> {None, Some ''***''}"
  by (auto simp: target_redacted_def acl_redacted_def split: if_splits)

section \<open>Names and addresses\<close>

definition target_name_char :: "char \<Rightarrow> bool" where
  "target_name_char c \<longleftrightarrow> is_ascii_alphanumeric c \<or> c \<in> {CHR ''-'', CHR ''.'', CHR ''_'', CHR '':''}"

definition validate_target_name :: "string \<Rightarrow> iscsi_error + unit" where
  "validate_target_name name =
     (if name = [] then Err (Iscsi_CommandFailed ''iSCSI target name is empty'')
      else if length name > 200 then Err (Iscsi_CommandFailed ''iSCSI target name exceeds 200 chars'')
      else if \<not> list_all target_name_char name then
        Err (Iscsi_CommandFailed (''iSCSI target name '' @ [CHR 39] @ name @ [CHR 39] @
          '' contains invalid characters (allowed: A-Z, a-z, 0-9, '' @
          [CHR 39] @ ''-'' @ [CHR 39] @ '', '' @ [CHR 39] @ ''.'' @ [CHR 39] @ '', '' @
          [CHR 39] @ ''_'' @ [CHR 39] @ '', '' @ [CHR 39] @ '':'' @ [CHR 39] @ '')''))
      else Ok ())"

definition validate_portal_ip :: "string \<Rightarrow> iscsi_error + string" where
  "validate_portal_ip ip =
     (let trimmed = trim ip in
      if trimmed = [] then Err (Iscsi_CommandFailed ''portal IP is empty'')
      else
        let unwrapped = (if starts_with trimmed ''['' \<and> ends_with (tl trimmed) '']'' then butlast (tl trimmed) else trimmed) in
        if parse_ip unwrapped = None then
          Err (Iscsi_CommandFailed (''portal IP '' @ [CHR 39] @ ip @ [CHR 39] @ '' is not a valid IPv4 or IPv6 address''))
        else Ok unwrapped)"

definition np_path_for :: "string \<Rightarrow> string \<Rightarrow> 16 word \<Rightarrow> string" where
  "np_path_for tpg_path ip port =
     (if CHR '':'' \<in> set ip then tpg_path @ ''/np/['' @ ip @ '']:'' @ show_nat (unat port)
      else tpg_path @ ''/np/'' @ ip @ '':'' @ show_nat (unat port))"

section \<open>From one set of portals to another\<close>

datatype portal_step = Add portal | Remove portal

definition same_listen :: "portal \<Rightarrow> portal \<Rightarrow> bool" where
  "same_listen p q \<longleftrightarrow> po_ip p = po_ip q \<and> po_port p = po_port q"

fun normalize_portals :: "portal list \<Rightarrow> portal list \<Rightarrow> iscsi_error + portal list" where
  "normalize_portals normalized [] = Ok normalized"
| "normalize_portals normalized (p # ps) =
     (case validate_portal_ip (po_ip p) of
        Err e \<Rightarrow> Err e
      | Ok ip \<Rightarrow>
          if po_port p = 0 then Err (Iscsi_CommandFailed ''portal port must be non-zero'')
          else if list_ex (\<lambda>q. po_ip q = ip \<and> po_port q = po_port p) normalized then
            Err (Iscsi_CommandFailed (''duplicate portal '' @ ip @ '':'' @ show_nat (unat (po_port p)) @ '' in requested set''))
          else normalize_portals (normalized @ [\<lparr>po_ip = ip, po_port = po_port p, po_iser = po_iser p\<rparr>]) ps)"

definition is_v6 :: "string \<Rightarrow> bool" where
  "is_v6 ip = (CHR '':'' \<in> set ip)"

definition is_wildcard :: "string \<Rightarrow> bool" where
  "is_wildcard ip = (ip = ''0.0.0.0'' \<or> ip = ''::'')"

definition conflicts :: "portal \<Rightarrow> portal \<Rightarrow> bool" where
  "conflicts a r \<longleftrightarrow> po_port a = po_port r \<and> is_v6 (po_ip a) = is_v6 (po_ip r)
     \<and> (po_ip a = po_ip r \<or> is_wildcard (po_ip a) \<or> is_wildcard (po_ip r))"

definition plan_steps :: "portal list \<Rightarrow> portal list \<Rightarrow> portal_step list" where
  "plan_steps current normalized =
     (let removes = filter (\<lambda>c. c \<notin> set normalized) current;
          adds = filter (\<lambda>d. d \<notin> set current) normalized;
          deferred = filter (\<lambda>a. list_ex (conflicts a) removes) adds;
          immediate = filter (\<lambda>a. \<not> list_ex (conflicts a) removes) adds
      in map Add immediate @ map Remove removes @ map Add deferred)"

definition plan_portal_transition :: "portal list \<Rightarrow> portal list \<Rightarrow> iscsi_error + portal_step list" where
  "plan_portal_transition current desired =
     (if desired = [] then
        Err (Iscsi_CommandFailed (''portal set cannot be empty '' @ em_dash @ '' target would become unreachable''))
      else case normalize_portals [] desired of
        Err e \<Rightarrow> Err e
      | Ok normalized \<Rightarrow> Ok (plan_steps current normalized))"

text \<open>What one step does to the stored list (\<open>set_portals\<close>).\<close>

fun step_portals :: "portal_step \<Rightarrow> portal list \<Rightarrow> portal list" where
  "step_portals (Add p) ps = ps @ [p]"
| "step_portals (Remove p) ps = filter (\<lambda>q. \<not> same_listen q p) ps"

section \<open>Units that follow their volume\<close>

definition is_managed_lun :: "lun \<Rightarrow> bool" where
  "is_managed_lun l \<longleftrightarrow> lun_backstore_type l = ''block''
     \<and> (lun_backing_volume l \<noteq> None \<or> lun_backing_volume_unresolved l \<or> starts_with (lun_backstore_path l) ''/dev/loop'')"

definition repair_target_lun :: "32 word \<Rightarrow> string \<Rightarrow> block_volume_id \<Rightarrow> iscsi_target \<Rightarrow> iscsi_error + iscsi_target" where
  "repair_target_lun n device_path identity t =
     (case List.find (\<lambda>l. lun_id l = n) (it_luns t) of
        None \<Rightarrow> Err (Target_NotFound (''LUN '' @ show_nat (unat n)))
      | Some l \<Rightarrow>
          if \<not> lun_backing_volume_unresolved l \<and> lun_backing_volume l \<noteq> None then
            Err (InvalidBackingVolume (''LUN '' @ show_nat (unat n) @ '' is already resolved''))
          else if lun_backstore_type l \<noteq> ''block'' \<or> \<not> starts_with (lun_backstore_path l) ''/dev/loop'' then
            Err (InvalidBackingVolume (''LUN '' @ show_nat (unat n) @ '' is not an unresolved managed block volume''))
          else Ok (t\<lparr>it_luns := update_first (\<lambda>l. lun_id l = n)
                 (\<lambda>l. l\<lparr>lun_backstore_path := device_path, lun_backing_volume := Some identity,
                        lun_backing_volume_unresolved := False\<rparr>) (it_luns t)\<rparr>))"

definition remap_lun :: "mappings \<Rightarrow> lun \<Rightarrow> lun \<times> bool \<times> bool" where
  "remap_lun m l =
     (if \<not> is_managed_lun l then (l, False, True)
      else case resolve m (lun_backing_volume l) (lun_backstore_path l) of
        Some (identity, device_path) \<Rightarrow>
          (l\<lparr>lun_backing_volume := Some identity, lun_backstore_path := device_path, lun_backing_volume_unresolved := False\<rparr>,
           lun_backing_volume l \<noteq> Some identity \<or> lun_backstore_path l \<noteq> device_path \<or> lun_backing_volume_unresolved l,
           True)
      | None \<Rightarrow> (l\<lparr>lun_backing_volume_unresolved := True\<rparr>, \<not> lun_backing_volume_unresolved l, False))"

fun remap_luns :: "mappings \<Rightarrow> lun list \<Rightarrow> lun list \<times> bool \<times> bool" where
  "remap_luns m [] = ([], False, True)"
| "remap_luns m (l # ls) =
     (case remap_lun m l of (l', c, s) \<Rightarrow> case remap_luns m ls of (ls', cs, ss) \<Rightarrow> (l' # ls', c \<or> cs, s \<and> ss))"

text \<open>The patches of the saved configuration that the remapping of a target asks for.\<close>

definition lun_patches :: "mappings \<Rightarrow> lun list \<Rightarrow> (string \<times> string) list" where
  "lun_patches m ls = List.map_filter (\<lambda>l.
     if is_managed_lun l then
       Some (lun_backstore_name l,
         case resolve m (lun_backing_volume l) (lun_backstore_path l) of
           Some (_, device_path) \<Rightarrow> device_path | None \<Rightarrow> UNRESOLVED_BACKSTORE)
     else None) ls"

definition remap_target :: "mappings \<Rightarrow> iscsi_target \<Rightarrow> iscsi_target \<times> bool \<times> bool \<times> (string \<times> string) list" where
  "remap_target m t =
     (case remap_luns m (it_luns t) of (ls, changed, safe) \<Rightarrow>
        (t\<lparr>it_luns := ls\<rparr>, changed, safe, lun_patches m (it_luns t)))"

definition insert_backstore_patch :: "string \<Rightarrow> string \<Rightarrow> (string \<times> string) list \<times> bool \<Rightarrow> (string \<times> string) list \<times> bool" where
  "insert_backstore_patch name path ps =
     (case ps of (patches, safe) \<Rightarrow>
        (case map_of patches name of
           None \<Rightarrow> (patches @ [(name, path)], safe)
         | Some p \<Rightarrow> (patches, safe \<and> p = path)))"


text \<open>Every unit of a target asks for its own path too; a path that could not be stored is asked for
  only if the unit is not managed.\<close>

definition own_patch :: "bool \<Rightarrow> lun \<Rightarrow> string \<times> string" where
  "own_patch persisted l =
     (lun_backstore_name l, if persisted \<or> \<not> is_managed_lun l then lun_backstore_path l else UNRESOLVED_BACKSTORE)"

definition target_patches :: "bool \<Rightarrow> (string \<times> string) list \<Rightarrow> iscsi_target \<Rightarrow>
    (string \<times> string) list \<times> bool \<Rightarrow> (string \<times> string) list \<times> bool" where
  "target_patches persisted asked t ps =
     fold (\<lambda>(name, path). insert_backstore_patch name path)
       ((if persisted then asked else []) @ map (own_patch persisted) (it_luns t)) ps"

section \<open>The saved configuration\<close>

fun as_array :: "json \<Rightarrow> json list option" where
  "as_array (JArr xs) = Some xs"
| "as_array _ = None"

fun json_put :: "string \<Rightarrow> json \<Rightarrow> json \<Rightarrow> json" where
  "json_put k v (JObj m) = JObj (AList.update k v m)"
| "json_put k v j = j"

definition object_name :: "json \<Rightarrow> string" where
  "object_name obj = (case Option.bind (json_get obj ''name'') as_str of Some n \<Rightarrow> n | None \<Rightarrow> [])"

definition object_dev :: "json \<Rightarrow> string option" where
  "object_dev obj = Option.bind (json_get obj ''dev'') as_str"

text \<open>The loop over the storage objects: the objects, whether one changed, and how often each
  name was matched.\<close>

fun patch_objects :: "(string \<times> string) list \<Rightarrow> json list \<Rightarrow> string + json list \<times> bool \<times> string list" where
  "patch_objects backstores [] = Ok ([], False, [])"
| "patch_objects backstores (obj # objs) =
     (let name = object_name obj in
      case map_of backstores name of
        None \<Rightarrow> Err (''saveconfig contains unexpected backstore '' @ [CHR 39] @ name @ [CHR 39])
      | Some new_dev \<Rightarrow>
          (case patch_objects backstores objs of
             Err e \<Rightarrow> Err e
           | Ok (objs', changed, matched) \<Rightarrow>
               (case object_dev obj of
                  None \<Rightarrow> Ok (obj # objs', changed, matched)
                | Some dev \<Rightarrow>
                    Ok ((if dev \<noteq> new_dev then json_put ''dev'' (JStr new_dev) obj else obj) # objs',
                        dev \<noteq> new_dev \<or> changed, name # matched))))"

fun count_once :: "string \<Rightarrow> (string \<Rightarrow> nat \<Rightarrow> string) \<Rightarrow> string list \<Rightarrow> string list \<Rightarrow> string + unit" where
  "count_once missing many matched [] = Ok ()"
| "count_once missing many matched (name # names) =
     (let n = count_list matched name in
      if n = 1 then count_once missing many matched names
      else if n = 0 then Err (missing @ [CHR 39] @ name @ [CHR 39])
      else Err (many name n))"

fun saved_wwns :: "string list \<Rightarrow> json list \<Rightarrow> string + string list" where
  "saved_wwns targets [] = Ok []"
| "saved_wwns targets (t # ts) =
     (case Option.bind (json_get t ''wwn'') as_str of
        None \<Rightarrow> Err ''saveconfig target has no wwn''
      | Some wwn \<Rightarrow>
          if wwn \<notin> set targets then Err (''saveconfig contains unexpected target '' @ [CHR 39] @ wwn @ [CHR 39])
          else case saved_wwns targets ts of Err e \<Rightarrow> Err e | Ok ws \<Rightarrow> Ok (wwn # ws))"

definition patch_saveconfig_value :: "(string \<times> string) list \<Rightarrow> string list \<Rightarrow> json \<Rightarrow> string + json \<times> bool" where
  "patch_saveconfig_value backstores targets json =
     (case Option.bind (json_get json ''storage_objects'') as_array of
        None \<Rightarrow> Err ''saveconfig has no storage_objects array''
      | Some objects \<Rightarrow>
      case patch_objects backstores objects of
        Err e \<Rightarrow> Err e
      | Ok (objects', changed, matched) \<Rightarrow>
      if length objects \<noteq> length backstores then
        Err (''saveconfig contains '' @ show_nat (length objects) @ '' backstores but persisted state expects '' @ show_nat (length backstores))
      else case count_once ''saveconfig is missing backstore ''
          (\<lambda>name n. ''saveconfig contains '' @ show_nat n @ '' backstores named '' @ [CHR 39] @ name @ [CHR 39]) matched (map fst backstores) of
        Err e \<Rightarrow> Err e
      | Ok _ \<Rightarrow>
      case Option.bind (json_get json ''targets'') as_array of
        None \<Rightarrow> Err ''saveconfig has no targets array''
      | Some saved \<Rightarrow>
      case saved_wwns targets saved of
        Err e \<Rightarrow> Err e
      | Ok wwns \<Rightarrow>
      case count_once ''saveconfig is missing target ''
          (\<lambda>wwn n. ''saveconfig contains target '' @ [CHR 39] @ wwn @ [CHR 39] @ '' '' @ show_nat n @ '' times'') wwns targets of
        Err e \<Rightarrow> Err e
      | Ok _ \<Rightarrow> Ok (json_put ''storage_objects'' (JArr objects') json, changed))"

fun empty_arrays :: "json \<Rightarrow> string list \<Rightarrow> string + unit" where
  "empty_arrays json [] = Ok ()"
| "empty_arrays json (key # keys) =
     (case Option.bind (json_get json key) as_array of
        None \<Rightarrow> Err (''saveconfig has no '' @ key @ '' array'')
      | Some values \<Rightarrow>
          if values \<noteq> [] then
            Err (''saveconfig contains '' @ show_nat (length values) @ '' stale '' @ key @ '' entries but iSCSI state is empty'')
          else empty_arrays json keys)"

definition validate_empty_saveconfig_value :: "json \<Rightarrow> string + unit" where
  "validate_empty_saveconfig_value json = empty_arrays json [''storage_objects'', ''targets'']"


section \<open>The plan is safe\<close>

text \<open>Portals the kernel can bind together.\<close>

definition clash_free :: "portal set \<Rightarrow> bool" where
  "clash_free P \<longleftrightarrow> (\<forall>p \<in> P. \<forall>q \<in> P. p \<noteq> q \<longrightarrow> \<not> conflicts p q)"

lemma clash_free_mono: "clash_free P \<Longrightarrow> Q \<subseteq> P \<Longrightarrow> clash_free Q"
  by (auto simp: clash_free_def)

lemma conflicts_sym: "conflicts p q \<longleftrightarrow> conflicts q p"
  by (auto simp: conflicts_def)

lemma same_listen_conflicts: "same_listen p q \<Longrightarrow> conflicts p q"
  by (simp add: same_listen_def conflicts_def)

text \<open>No two portals on one address and port; this is all the plan itself needs.\<close>

definition one_per_listen :: "portal set \<Rightarrow> bool" where
  "one_per_listen P \<longleftrightarrow> (\<forall>p \<in> P. \<forall>q \<in> P. same_listen p q \<longrightarrow> p = q)"

lemma clash_free_listen: "clash_free P \<Longrightarrow> one_per_listen P"
  using same_listen_conflicts by (auto simp: clash_free_def one_per_listen_def)

lemma fold_Add: "fold step_portals (map Add ps) qs = qs @ ps"
  by (induction ps arbitrary: qs) simp_all

lemma fold_Remove:
  "fold step_portals (map Remove rs) qs = filter (\<lambda>q. \<not> list_ex (same_listen q) rs) qs"
  by (induction rs arbitrary: qs) (auto intro!: filter_cong)

text \<open>The three parts of a plan.\<close>

definition plan_removes :: "portal list \<Rightarrow> portal list \<Rightarrow> portal list" where
  "plan_removes C N = filter (\<lambda>c. c \<notin> set N) C"

definition plan_immediate :: "portal list \<Rightarrow> portal list \<Rightarrow> portal list" where
  "plan_immediate C N = filter (\<lambda>a. \<not> list_ex (conflicts a) (plan_removes C N)) (filter (\<lambda>d. d \<notin> set C) N)"

definition plan_deferred :: "portal list \<Rightarrow> portal list \<Rightarrow> portal list" where
  "plan_deferred C N = filter (\<lambda>a. list_ex (conflicts a) (plan_removes C N)) (filter (\<lambda>d. d \<notin> set C) N)"

lemma plan_parts:
  "plan_steps C N = map Add (plan_immediate C N) @ map Remove (plan_removes C N) @ map Add (plan_deferred C N)"
  by (simp add: plan_steps_def Let_def plan_immediate_def plan_removes_def plan_deferred_def)

lemma removes_touch_removed:
  assumes "one_per_listen (set C)" and "p \<in> set C" and "p \<in> set N"
  shows "\<not> list_ex (same_listen p) (plan_removes C N)"
proof
  assume "list_ex (same_listen p) (plan_removes C N)"
  then obtain r where "r \<in> set C" "r \<notin> set N" "same_listen p r" by (auto simp: list_ex_iff plan_removes_def)
  with assms show False by (auto simp: one_per_listen_def)
qed

lemma removes_spare_immediate:
  "p \<in> set (plan_immediate C N) \<Longrightarrow> \<not> list_ex (same_listen p) (plan_removes C N)"
  using same_listen_conflicts by (auto simp: list_ex_iff plan_immediate_def)

lemma after_removes:
  assumes "one_per_listen (set C)"
  shows "set (filter (\<lambda>q. \<not> list_ex (same_listen q) (plan_removes C N)) (C @ plan_immediate C N))
    = (set C \<inter> set N) \<union> set (plan_immediate C N)"
proof -
  have "list_ex (same_listen p) (plan_removes C N)" if "p \<in> set C" "p \<notin> set N" for p
    using that by (auto simp: list_ex_iff plan_removes_def same_listen_def)
  then show ?thesis
    using removes_touch_removed [OF assms] removes_spare_immediate [of _ C N] by auto
qed

lemma parts_cover: "set N = (set C \<inter> set N) \<union> set (plan_immediate C N) \<union> set (plan_deferred C N)"
  by (auto simp: plan_immediate_def plan_deferred_def)

lemma plan_reaches:
  assumes "one_per_listen (set C)"
  shows "set (fold step_portals (plan_steps C N) C) = set N"
proof -
  have "set (fold step_portals (plan_steps C N) C) =
      set (filter (\<lambda>q. \<not> list_ex (same_listen q) (plan_removes C N)) (C @ plan_immediate C N)) \<union> set (plan_deferred C N)"
    by (simp add: plan_parts fold_Add fold_Remove Un_assoc)
  then show ?thesis unfolding after_removes [OF assms] using parts_cover [of N C] by simp
qed

text \<open>Whatever part of the plan is done: nothing but the old portals and the ones added at once, or
  nothing but new portals; and the portals in both sets are never touched.\<close>

lemma partly_done:
  assumes "one_per_listen (set C)"
  shows "set (fold step_portals (take k (plan_steps C N)) C) \<subseteq> set C \<union> set (plan_immediate C N)
    \<or> set (fold step_portals (take k (plan_steps C N)) C) \<subseteq> set N"
    and "set C \<inter> set N \<subseteq> set (fold step_portals (take k (plan_steps C N)) C)"
proof -
  let ?I = "plan_immediate C N" and ?R = "plan_removes C N" and ?D = "plan_deferred C N"
  let ?r = "k - length ?I" let ?d = "?r - length ?R"
  have st: "fold step_portals (take k (plan_steps C N)) C =
      filter (\<lambda>q. \<not> list_ex (same_listen q) (take ?r ?R)) (C @ take k ?I) @ take ?d ?D"
    by (simp add: plan_parts take_map fold_Add fold_Remove)
  show "set (fold step_portals (take k (plan_steps C N)) C) \<subseteq> set C \<union> set ?I
    \<or> set (fold step_portals (take k (plan_steps C N)) C) \<subseteq> set N"
  proof (cases "?d = 0")
    case True
    then show ?thesis unfolding st using set_take_subset [of k ?I] by auto
  next
    case False
    then have "take ?r ?R = ?R" "take k ?I = ?I" by auto
    moreover have "set (take ?d ?D) \<subseteq> set N" using set_take_subset [of ?d ?D] parts_cover [of N C] by blast
    ultimately show ?thesis unfolding st using after_removes [OF assms, of N] parts_cover [of N C] by auto
  qed
  have "\<not> list_ex (same_listen p) (take ?r ?R)" if "p \<in> set C" "p \<in> set N" for p
    using removes_touch_removed [OF assms that] set_take_subset [of ?r ?R] by (auto simp: list_ex_iff)
  then show "set C \<inter> set N \<subseteq> set (fold step_portals (take k (plan_steps C N)) C)" unfolding st by auto
qed

lemma immediate_clash_free:
  assumes "clash_free (set C)" and "clash_free (set N)"
  shows "clash_free (set C \<union> set (plan_immediate C N))"
proof -
  have cross: "\<not> conflicts a c" if "a \<in> set (plan_immediate C N)" "c \<in> set C" "a \<noteq> c" for a c
    using that assms(2) by (cases "c \<in> set N") (auto simp: plan_immediate_def plan_removes_def list_ex_iff clash_free_def)
  have N: "set (plan_immediate C N) \<subseteq> set N" by (auto simp: plan_immediate_def)
  show ?thesis unfolding clash_free_def
  proof (intro ballI impI)
    fix p q
    assume p: "p \<in> set C \<union> set (plan_immediate C N)" and q: "q \<in> set C \<union> set (plan_immediate C N)" and "p \<noteq> q"
    then consider "p \<in> set C" "q \<in> set C" | "p \<in> set N" "q \<in> set N"
      | "p \<in> set (plan_immediate C N)" "q \<in> set C" | "q \<in> set (plan_immediate C N)" "p \<in> set C"
      using N by blast
    then show "\<not> conflicts p q"
      using \<open>p \<noteq> q\<close> assms cross [of p q] cross [of q p] conflicts_sym [of p q]
      by cases (auto simp: clash_free_def)
  qed
qed



text \<open>Another spelling of the IPv6 wildcard is accepted but not recognised as one.\<close>

lemma other_wildcard_not_deferred:
  "plan_steps [\<lparr>po_ip = ''fd00::1'', po_port = 3260, po_iser = False\<rparr>] [\<lparr>po_ip = ''0::0'', po_port = 3260, po_iser = False\<rparr>] =
     [Add \<lparr>po_ip = ''0::0'', po_port = 3260, po_iser = False\<rparr>, Remove \<lparr>po_ip = ''fd00::1'', po_port = 3260, po_iser = False\<rparr>]"
  by code_simp

section \<open>Units and patches\<close>

interpretation luns: remapping is_managed_lun lun_backing_volume lun_backstore_path lun_backing_volume_unresolved remap_lun remap_luns
proof
  fix i j m c s v d
  show "\<not> is_managed_lun i \<Longrightarrow> remap_lun m i = (i, False, True)"
    by (simp add: remap_lun_def)
  show "is_managed_lun i \<Longrightarrow> resolve m (lun_backing_volume i) (lun_backstore_path i) = Some (v, d) \<Longrightarrow> remap_lun m i = (j, c, s) \<Longrightarrow>
      is_managed_lun j \<and> lun_backing_volume j = Some v \<and> lun_backstore_path j = d \<and> \<not> lun_backing_volume_unresolved j \<and> s"
    by (auto simp: remap_lun_def is_managed_lun_def)
  show "is_managed_lun i \<Longrightarrow> resolve m (lun_backing_volume i) (lun_backstore_path i) = None \<Longrightarrow> remap_lun m i = (j, c, s) \<Longrightarrow>
      is_managed_lun j \<and> lun_backing_volume j = lun_backing_volume i \<and> lun_backstore_path j = lun_backstore_path i
      \<and> lun_backing_volume_unresolved j \<and> \<not> s"
    by (auto simp: remap_lun_def is_managed_lun_def)
  show "remap_lun m i = (j, c, s) \<Longrightarrow> c \<longleftrightarrow> j \<noteq> i"
    by (cases i) (auto simp: remap_lun_def split: if_splits option.splits)
next
  fix m i "is"
  show "remap_luns m [] = ([], False, True)" by simp
  show "remap_luns m (i # is) =
      (case remap_lun m i of (j, c, s) \<Rightarrow> case remap_luns m is of (js, cs, ss) \<Rightarrow> (j # js, c \<or> cs, s \<and> ss))"
    by simp
qed

lemma remap_lun_name [simp]: "lun_backstore_name (fst (remap_lun m l)) = lun_backstore_name l"
  by (auto simp: remap_lun_def split: option.splits)

text \<open>What a safe remapping of one target asks of the saved configuration is what its units now
  are.\<close>

lemma lun_patches_agree:
  assumes "remap_luns m ls = (ls', c, True)" and "(name, path) \<in> set (lun_patches m ls)"
  shows "\<exists>l \<in> set ls'. name = lun_backstore_name l \<and> path = lun_backstore_path l"
  using assms
proof (induction ls arbitrary: ls' c)
  case (Cons l ls)
  from Cons.prems(1) obtain l1 c1 ls1 cs where
    *: "remap_lun m l = (l1, c1, True)" "remap_luns m ls = (ls1, cs, True)" "ls' = l1 # ls1"
    by (auto split: prod.splits)
  have "lun_backstore_name l1 = lun_backstore_name l" using remap_lun_name [of m l] *(1) by simp
  with *(1) have "is_managed_lun l \<Longrightarrow> \<exists>v. resolve m (lun_backing_volume l) (lun_backstore_path l) = Some (v, lun_backstore_path l1)"
    by (auto simp: remap_lun_def split: option.splits)
  with * Cons show ?case
    using \<open>lun_backstore_name l1 = lun_backstore_name l\<close>
    by (fastforce simp: lun_patches_def List.map_filter_simps split: if_splits)
qed (simp add: lun_patches_def List.map_filter_simps)

lemma insert_patch_keeps:
  "insert_backstore_patch n p (patches, s) = (patches', s') \<Longrightarrow> map_of patches k = Some v \<Longrightarrow> map_of patches' k = Some v"
  by (auto simp: insert_backstore_patch_def map_add_def split: option.splits)

lemma insert_patch_safe:
  "insert_backstore_patch n p (patches, s) = (patches', True) \<Longrightarrow> s \<and> map_of patches' n = Some p"
  by (auto simp: insert_backstore_patch_def map_add_def split: option.splits)

lemma insert_patch_from:
  "insert_backstore_patch n p (patches, s) = (patches', s') \<Longrightarrow> x \<in> set patches' \<Longrightarrow> x \<in> set patches \<or> x = (n, p)"
  by (auto simp: insert_backstore_patch_def split: option.splits)

lemma insert_patch_distinct:
  "insert_backstore_patch n p (patches, s) = (patches', s') \<Longrightarrow> distinct (map fst patches) \<Longrightarrow> distinct (map fst patches')"
  by (auto simp: insert_backstore_patch_def map_of_eq_None_iff split: option.splits)

text \<open>All of a list of patches: nothing is lost, nothing comes from elsewhere, and if the verdict is
  still safe every one of them is there as asked.\<close>

definition insert_patches :: "(string \<times> string) list \<Rightarrow> (string \<times> string) list \<times> bool \<Rightarrow> (string \<times> string) list \<times> bool" where
  "insert_patches asked = fold (\<lambda>(name, path). insert_backstore_patch name path) asked"

lemma target_patches_insert:
  "target_patches persisted asked t ps = insert_patches ((if persisted then asked else []) @ map (own_patch persisted) (it_luns t)) ps"
  by (simp add: target_patches_def insert_patches_def)

lemma insert_patches_facts:
  assumes "insert_patches asked (patches, s) = (patches', s')"
  shows "\<And>k v. map_of patches k = Some v \<Longrightarrow> map_of patches' k = Some v"
    and "s' \<Longrightarrow> s \<and> (\<forall>(n, p) \<in> set asked. map_of patches' n = Some p)"
    and "\<And>x. x \<in> set patches' \<Longrightarrow> x \<in> set patches \<or> x \<in> set asked"
    and "distinct (map fst patches) \<Longrightarrow> distinct (map fst patches')"
proof -
  have "(\<forall>k v. map_of patches k = Some v \<longrightarrow> map_of patches' k = Some v)
    \<and> (s' \<longrightarrow> s \<and> (\<forall>(n, p) \<in> set asked. map_of patches' n = Some p))
    \<and> (\<forall>x. x \<in> set patches' \<longrightarrow> x \<in> set patches \<or> x \<in> set asked)
    \<and> (distinct (map fst patches) \<longrightarrow> distinct (map fst patches'))"
    using assms
  proof (induction asked arbitrary: patches s)
    case (Cons a asked)
    obtain n p where a: "a = (n, p)" by fastforce
    obtain patches1 s1 where one: "insert_backstore_patch n p (patches, s) = (patches1, s1)" by fastforce
    with Cons.prems a have rest: "insert_patches asked (patches1, s1) = (patches', s')" by (simp add: insert_patches_def)
    note IH = Cons.IH [OF rest]
    have safe: "s1 \<longrightarrow> s \<and> map_of patches1 n = Some p" using insert_patch_safe [of n p patches s patches1] one by (cases s1) simp_all
    have "s' \<longrightarrow> s \<and> (\<forall>(n, p) \<in> set (a # asked). map_of patches' n = Some p)" using IH safe a by simp
    moreover have "\<forall>x. x \<in> set patches' \<longrightarrow> x \<in> set patches \<or> x \<in> set (a # asked)"
      using IH insert_patch_from [OF one] a by (metis list.set_intros)
    ultimately show ?case using IH insert_patch_keeps [OF one] insert_patch_distinct [OF one] by blast
  qed (simp add: insert_patches_def)
  then show "\<And>k v. map_of patches k = Some v \<Longrightarrow> map_of patches' k = Some v"
    and "s' \<Longrightarrow> s \<and> (\<forall>(n, p) \<in> set asked. map_of patches' n = Some p)"
    and "\<And>x. x \<in> set patches' \<Longrightarrow> x \<in> set patches \<or> x \<in> set asked"
    and "distinct (map fst patches) \<Longrightarrow> distinct (map fst patches')"
    by blast+
qed


section \<open>The patched configuration\<close>

lemma json_get_put [simp]:
  "json_get (json_put k v (JObj m)) k' = (if k' = k then Some v else map_of m k')"
  by (simp add: update_conv')

lemma as_str_iff: "as_str j = Some s \<longleftrightarrow> j = JStr s"
  by (cases j) auto

lemma as_array_iff: "as_array j = Some xs \<longleftrightarrow> j = JArr xs"
  by (cases j) auto

lemma json_get_objE:
  assumes "json_get j k = Some v"
  obtains m where "j = JObj m" "map_of m k = Some v"
  using assms by (cases j) auto

lemma update_same: "map_of m k = Some v \<Longrightarrow> AList.update k v m = m"
  by (induction m) auto

lemma object_dev_put:
  assumes "object_dev obj = Some d"
  shows "object_dev (json_put ''dev'' (JStr d') obj) = Some d'" "object_name (json_put ''dev'' (JStr d') obj) = object_name obj"
proof -
  from assms obtain m where "obj = JObj m" by (auto simp: object_dev_def bind_eq_Some_conv elim: json_get_objE)
  then show "object_dev (json_put ''dev'' (JStr d') obj) = Some d'" "object_name (json_put ''dev'' (JStr d') obj) = object_name obj"
    by (simp_all add: object_dev_def object_name_def update_conv')
qed

lemma patch_objects_ok:
  assumes "patch_objects B objs = Ok (objs', changed, matched)"
  shows "length objs' = length objs \<and> matched = map object_name (filter (\<lambda>obj. object_dev obj \<noteq> None) objs)
    \<and> map object_name objs' = map object_name objs \<and> map (\<lambda>obj. object_dev obj = None) objs' = map (\<lambda>obj. object_dev obj = None) objs
    \<and> (\<forall>obj \<in> set objs'. \<forall>d. object_dev obj = Some d \<longrightarrow> map_of B (object_name obj) = Some d)
    \<and> (\<not> changed \<longrightarrow> objs' = objs)"
  using assms
proof (induction B objs arbitrary: objs' changed matched rule: patch_objects.induct)
  case (2 B obj objs)
  from "2.prems" obtain new where new: "map_of B (object_name obj) = Some new"
    by (auto simp: Let_def split: option.splits)
  with "2.prems" obtain objs1 c1 m1 where rest: "patch_objects B objs = Ok (objs1, c1, m1)"
    by (auto simp: Let_def split: sum.splits)
  note IH = "2.IH" [OF refl new rest]
  show ?case
  proof (cases "object_dev obj")
    case None
    then show ?thesis using "2.prems" new rest IH by (auto simp: Let_def)
  next
    case (Some d)
    then show ?thesis using "2.prems" new rest IH object_dev_put [OF Some] by (auto simp: Let_def)
  qed
qed simp

lemma count_once_ok: "count_once missing many matched names = Ok () \<Longrightarrow> n \<in> set names \<Longrightarrow> count_list matched n = 1"
  by (induction missing many matched names rule: count_once.induct) (auto simp: Let_def split: if_splits)

text \<open>The storage objects of a configuration that passed: one for each expected name, each at its
  expected device.\<close>

definition devices_match :: "(string \<times> string) list \<Rightarrow> json \<Rightarrow> bool" where
  "devices_match B json \<longleftrightarrow> (\<exists>objs. json_get json ''storage_objects'' = Some (JArr objs)
     \<and> (\<forall>obj \<in> set objs. \<exists>d. object_dev obj = Some d \<and> map_of B (object_name obj) = Some d)
     \<and> set (map object_name objs) = fst ` set B \<and> distinct (map object_name objs))"

lemma patch_saveconfig_value_ok:
  assumes "patch_saveconfig_value B T json = Ok (json', changed)" and "distinct (map fst B)"
  shows "devices_match B json'" and "\<not> changed \<Longrightarrow> json' = json"
proof -
  from assms(1) obtain objs objs' matched missing many where
    objs: "json_get json ''storage_objects'' = Some (JArr objs)" and
    patched: "patch_objects B objs = Ok (objs', changed, matched)" and
    len: "length objs = length B" and
    json': "json' = json_put ''storage_objects'' (JArr objs') json" and
    "count_once missing many matched (map fst B) = Ok ()"
    by (auto simp: patch_saveconfig_value_def bind_eq_Some_conv as_array_iff
        split: option.splits sum.splits if_splits)
  then have once: "\<And>n. n \<in> set (map fst B) \<Longrightarrow> count_list matched n = 1" by (intro count_once_ok)
  note ok = patch_objects_ok [OF patched]
  from objs obtain m where m: "json = JObj m" "map_of m ''storage_objects'' = Some (JArr objs)" by (rule json_get_objE)
  have sub: "fst ` set B \<subseteq> set matched"
    using once by (metis count_list_0_iff image_set one_neq_zero subsetI)
  have "length B = card (fst ` set B)" using assms(2) by (metis distinct_card length_map set_map)
  also have "\<dots> \<le> card (set matched)" using sub by (simp add: card_mono)
  also have "\<dots> \<le> length matched" by (rule card_length)
  finally have "length objs \<le> length (filter (\<lambda>obj. object_dev obj \<noteq> None) objs)" using len ok by simp
  then have all: "filter (\<lambda>obj. object_dev obj \<noteq> None) objs = objs"
    by (metis filter_id_conv le_antisym length_filter_le length_filter_less not_less)
  then have names: "map object_name objs' = matched" using ok by simp
  have lm: "length matched = length B" using ok all len by (metis length_map)
  have "card (fst ` set B) \<le> card (set matched)" using sub by (simp add: card_mono)
  then have "card (set matched) = length matched"
    using \<open>length B = card (fst ` set B)\<close> card_length [of matched] lm by linarith
  then have dist: "distinct matched" by (rule card_distinct)
  have "set matched = fst ` set B"
    using sub \<open>length B = card (fst ` set B)\<close> \<open>card (set matched) = length matched\<close> lm
    by (metis List.finite_set card_subset_eq)
  have "object_dev obj \<noteq> None" if "obj \<in> set objs'" for obj
  proof -
    have "object_dev x \<noteq> None" if "x \<in> set objs" for x using all that by (metis (mono_tags, lifting) filter_id_conv)
    then have "True \<notin> set (map (\<lambda>obj. object_dev obj = None) objs)" by auto
    then have "True \<notin> set (map (\<lambda>obj. object_dev obj = None) objs')" using ok by metis
    with that show ?thesis by force
  qed
  then have dev: "\<exists>d. object_dev obj = Some d \<and> map_of B (object_name obj) = Some d" if "obj \<in> set objs'" for obj
    using that ok by blast
  have "json_get json' ''storage_objects'' = Some (JArr objs')" using m json' by (simp add: update_conv')
  then show "devices_match B json'"
    unfolding devices_match_def using dev names dist \<open>set matched = fst ` set B\<close> by (intro exI [of _ objs']) simp
  show "json' = json" if "\<not> changed"
    using that ok json' m by (simp add: update_same)
qed

end
