(* ===== verification/Configfs.thy ===== *)
theory Configfs
  imports Rust_Str
begin

text \<open>
  The kernel's configuration file system, as the block-sharing services drive it through
  \<open>tokio::fs\<close>: directories, links and attributes, with the documented results of the calls and
  an arbitrary sequence of further failures, one drawn by each call that reaches the kernel.
  Directories the kernel makes together with a parent are not told apart from those
  \<open>create_dir_all\<close> makes on the way: neither keeps its parent from being removed.
\<close>

section \<open>Sequences of calls\<close>

text \<open>The operator \<open>?\<close> between two calls, and a call whose result is dropped.\<close>

definition and_then :: "('w \<Rightarrow> ('e + 'a) \<times> 'w) \<Rightarrow> ('a \<Rightarrow> 'w \<Rightarrow> ('e + 'b) \<times> 'w) \<Rightarrow> 'w \<Rightarrow> ('e + 'b) \<times> 'w" where
  "and_then f g w = (case f w of (Err e, w1) \<Rightarrow> (Err e, w1) | (Ok a, w1) \<Rightarrow> g a w1)"

definition ignore :: "('w \<Rightarrow> ('e + 'a) \<times> 'w) \<Rightarrow> 'w \<Rightarrow> 'w" where
  "ignore f w = snd (f w)"

section \<open>Numbers in names\<close>

definition parse_u32 :: "string \<Rightarrow> 32 word option" where
  "parse_u32 s =
     (let ds = (if s \<noteq> [] \<and> hd s = CHR ''+'' then tl s else s) in
      if ds \<noteq> [] \<and> list_all is_ascii_digit ds \<and> int (read_dec ds) < 2 ^ 32 then Some (of_nat (read_dec ds)) else None)"

definition parse_u16 :: "string \<Rightarrow> 16 word option" where
  "parse_u16 s =
     (let ds = (if s \<noteq> [] \<and> hd s = CHR ''+'' then tl s else s) in
      if ds \<noteq> [] \<and> list_all is_ascii_digit ds \<and> int (read_dec ds) < 2 ^ 16 then Some (of_nat (read_dec ds)) else None)"

definition show_u32 :: "32 word \<Rightarrow> string" where
  "show_u32 n = show_nat (unat n)"

definition show_u16 :: "16 word \<Rightarrow> string" where
  "show_u16 n = show_nat (unat n)"

section \<open>State\<close>

datatype node = Folder | Group | Link string

record cfs =
  cf_nodes :: "(string \<times> node) list"
  cf_attrs :: "(string \<times> string) list"
  cf_kernel :: "string \<Rightarrow> string"
  cf_faults :: "string option list"

definition ENOENT :: string where
  "ENOENT = ''No such file or directory (os error 2)''"

definition EEXIST :: string where
  "EEXIST = ''File exists (os error 17)''"

definition ENOTEMPTY :: string where
  "ENOTEMPTY = ''Directory not empty (os error 39)''"

definition below :: "string \<Rightarrow> string \<Rightarrow> bool" where
  "below path p = starts_with p (path @ ''/'')"

definition cf_exists :: "string \<Rightarrow> cfs \<Rightarrow> bool" where
  "cf_exists path w = (map_of (cf_nodes w) path \<noteq> None \<or> map_of (cf_attrs w) path \<noteq> None)"

text \<open>The failure the next call meets, if any.\<close>

definition draw :: "cfs \<Rightarrow> string option \<times> cfs" where
  "draw w = (case cf_faults w of [] \<Rightarrow> (None, w) | f # fs \<Rightarrow> (f, w\<lparr>cf_faults := fs\<rparr>))"

text \<open>A call that changes the tree unless it meets a failure.\<close>

definition attempt :: "(cfs \<Rightarrow> cfs) \<Rightarrow> cfs \<Rightarrow> (string + unit) \<times> cfs" where
  "attempt f w = (case draw w of (None, w1) \<Rightarrow> (Ok (), f w1) | (Some x, w1) \<Rightarrow> (Err x, w1))"

section \<open>Calls\<close>

definition make_node :: "string \<Rightarrow> node \<Rightarrow> cfs \<Rightarrow> cfs" where
  "make_node path n w = w\<lparr>cf_nodes := cf_nodes w @ [(path, n)]\<rparr>"

text \<open>\<open>create_dir\<close>.\<close>

definition create_dir :: "string \<Rightarrow> cfs \<Rightarrow> (string + unit) \<times> cfs" where
  "create_dir path w = (if cf_exists path w then (Err EEXIST, w) else attempt (make_node path Folder) w)"

text \<open>The directories on the way to a path, outermost first.\<close>

fun ancestors :: "string \<Rightarrow> string \<Rightarrow> string list" where
  "ancestors done [] = []"
| "ancestors done (c # cs) = (if c = CHR ''/'' \<and> done \<noteq> [] then done # ancestors (done @ [c]) cs else ancestors (done @ [c]) cs)"

fun make_groups :: "string list \<Rightarrow> cfs \<Rightarrow> (string + unit) \<times> cfs" where
  "make_groups [] w = (Ok (), w)"
| "make_groups (p # ps) w =
     (if cf_exists p w then make_groups ps w
      else case attempt (make_node p Group) w of
        (Ok _, w1) \<Rightarrow> make_groups ps w1
      | (Err x, w1) \<Rightarrow> (Err x, w1))"

text \<open>\<open>create_dir_all\<close>.\<close>

definition create_dir_all :: "string \<Rightarrow> cfs \<Rightarrow> (string + unit) \<times> cfs" where
  "create_dir_all path w =
     (if cf_exists path w then (Ok (), w)
      else case make_groups (ancestors [] path) w of
        (Ok _, w1) \<Rightarrow> attempt (make_node path Folder) w1
      | (Err x, w1) \<Rightarrow> (Err x, w1))"

text \<open>A directory goes with the attributes and groups below it.\<close>

definition drop_below :: "string \<Rightarrow> cfs \<Rightarrow> cfs" where
  "drop_below path w =
     w\<lparr>cf_nodes := filter (\<lambda>(p, _). p \<noteq> path \<and> \<not> below path p) (cf_nodes w),
       cf_attrs := filter (\<lambda>(p, _). \<not> below path p) (cf_attrs w)\<rparr>"

definition in_use :: "string \<Rightarrow> cfs \<Rightarrow> bool" where
  "in_use path w = list_ex (\<lambda>(p, n). below path p \<and> n \<noteq> Group) (cf_nodes w)"

definition remove_dir :: "string \<Rightarrow> cfs \<Rightarrow> (string + unit) \<times> cfs" where
  "remove_dir path w =
     (if map_of (cf_nodes w) path \<notin> {Some Folder, Some Group} then (Err ENOENT, w)
      else if in_use path w then (Err ENOTEMPTY, w)
      else attempt (drop_below path) w)"

definition cf_write :: "string \<Rightarrow> string \<Rightarrow> cfs \<Rightarrow> (string + unit) \<times> cfs" where
  "cf_write path v w = attempt (\<lambda>w. w\<lparr>cf_attrs := AList.update path v (cf_attrs w)\<rparr>) w"

text \<open>An attribute that was never written has the value the kernel gave it.\<close>

definition attr :: "cfs \<Rightarrow> string \<Rightarrow> string" where
  "attr w path = get_or (cf_kernel w path) path (cf_attrs w)"

definition cf_read :: "string \<Rightarrow> cfs \<Rightarrow> (string + string) \<times> cfs" where
  "cf_read path w = (case draw w of (None, w1) \<Rightarrow> (Ok (attr w1 path), w1) | (Some x, w1) \<Rightarrow> (Err x, w1))"

definition cf_symlink :: "string \<Rightarrow> string \<Rightarrow> cfs \<Rightarrow> (string + unit) \<times> cfs" where
  "cf_symlink target link w =
     (if cf_exists link w then (Err EEXIST, w) else attempt (make_node link (Link target)) w)"

definition is_link :: "string \<Rightarrow> cfs \<Rightarrow> bool" where
  "is_link path w = (case map_of (cf_nodes w) path of Some (Link _) \<Rightarrow> True | _ \<Rightarrow> False)"

definition remove_file :: "string \<Rightarrow> cfs \<Rightarrow> (string + unit) \<times> cfs" where
  "remove_file path w =
     (if \<not> is_link path w then (Err ENOENT, w)
      else attempt (\<lambda>w. w\<lparr>cf_nodes := filter (\<lambda>(p, _). p \<noteq> path) (cf_nodes w)\<rparr>) w)"

text \<open>The names in a directory, in the order of their making.\<close>

definition children :: "string \<Rightarrow> cfs \<Rightarrow> string list" where
  "children path w =
     filter (\<lambda>name. CHR ''/'' \<notin> set name)
       (map (\<lambda>p. drop (length path + 1) p) (filter (below path) (map fst (cf_nodes w))))"

text \<open>The directory a path lies in.\<close>

definition parent_of :: "string \<Rightarrow> string" where
  "parent_of path = (case split_once CHR ''/'' (rev path) of None \<Rightarrow> [] | Some (_, d) \<Rightarrow> rev d)"

lemma parent_of_append [simp]: "CHR ''/'' \<notin> set n \<Longrightarrow> parent_of (d @ CHR ''/'' # n) = d"
  using split_once_append [of "CHR ''/''" "rev n" "rev d"] by (simp add: parent_of_def)

text \<open>Attributes exist together with their directory; a link is made below a group of an existing
  directory, to an existing one.\<close>

definition write_attr :: "string \<Rightarrow> string \<Rightarrow> cfs \<Rightarrow> (string + unit) \<times> cfs" where
  "write_attr path v w = (if \<not> cf_exists (parent_of path) w then (Err ENOENT, w) else cf_write path v w)"

definition read_attr :: "string \<Rightarrow> cfs \<Rightarrow> (string + string) \<times> cfs" where
  "read_attr path w = (if \<not> cf_exists (parent_of path) w then (Err ENOENT, w) else cf_read path w)"

definition make_link :: "string \<Rightarrow> string \<Rightarrow> cfs \<Rightarrow> (string + unit) \<times> cfs" where
  "make_link target link w =
     (if \<not> cf_exists (parent_of (parent_of link)) w \<or> \<not> cf_exists target w then (Err ENOENT, w)
      else cf_symlink target link w)"

text \<open>Opening a directory for reading. A directory that is not there reads as an empty one, which no
  caller tells apart.\<close>

definition read_dir :: "string \<Rightarrow> cfs \<Rightarrow> (string + string list) \<times> cfs" where
  "read_dir path w = (case draw w of (None, w1) \<Rightarrow> (Ok (children path w1), w1) | (Some x, w1) \<Rightarrow> (Err x, w1))"

section \<open>What a call may do\<close>

lemma draw_frame [simp]:
  "cf_nodes (snd (draw w)) = cf_nodes w" "cf_attrs (snd (draw w)) = cf_attrs w" "cf_kernel (snd (draw w)) = cf_kernel w"
  by (simp_all add: draw_def split: list.split)

lemma draw_attr [simp]: "attr (snd (draw w)) = attr w"
  by (simp add: attr_def fun_eq_iff)

text \<open>Two trees that differ in nothing but the failures still to come.\<close>

definition same_tree :: "cfs \<Rightarrow> cfs \<Rightarrow> bool" where
  "same_tree w w' \<longleftrightarrow> cf_nodes w' = cf_nodes w \<and> cf_attrs w' = cf_attrs w \<and> cf_kernel w' = cf_kernel w"

lemma same_tree_refl [simp]: "same_tree w w"
  by (simp add: same_tree_def)

lemma same_tree_trans [trans]: "same_tree u v \<Longrightarrow> same_tree v w \<Longrightarrow> same_tree u w"
  by (simp add: same_tree_def)

lemma same_tree_draw [simp]: "same_tree w (snd (draw w))"
  by (simp add: same_tree_def)

lemma same_tree_attr: "same_tree w w' \<Longrightarrow> attr w' = attr w"
  by (auto simp: same_tree_def attr_def fun_eq_iff)

lemma same_tree_exists: "same_tree w w' \<Longrightarrow> cf_exists p w' = cf_exists p w"
  by (auto simp: same_tree_def cf_exists_def)

lemma attempt_cases [case_names ok err]:
  obtains w1 where "attempt f w = (Ok (), f w1)" "same_tree w w1"
  | x w1 where "attempt f w = (Err x, w1)" "same_tree w w1"
proof (cases "draw w")
  case (Pair r w1)
  moreover have "same_tree w w1" using same_tree_draw [of w] Pair by simp
  ultimately show ?thesis using that by (cases r) (simp_all add: attempt_def)
qed

lemma cf_write_cases [case_names ok err]:
  obtains w1 where "cf_write path v w = (Ok (), w1)" "cf_nodes w1 = cf_nodes w" "cf_kernel w1 = cf_kernel w"
      "attr w1 = (attr w)(path := v)"
  | x w1 where "cf_write path v w = (Err x, w1)" "same_tree w w1"
proof -
  consider w1 where "cf_write path v w = (Ok (), w1\<lparr>cf_attrs := AList.update path v (cf_attrs w1)\<rparr>)" "same_tree w w1"
    | x w1 where "cf_write path v w = (Err x, w1)" "same_tree w w1"
    unfolding cf_write_def by (rule attempt_cases) auto
  then show ?thesis
  proof cases
    case 1
    then show ?thesis by (intro that(1) [OF 1(1)]) (auto simp: same_tree_def attr_def fun_eq_iff)
  qed (rule that(2))
qed

lemma cf_read_cases [case_names ok err]:
  obtains w1 where "cf_read path w = (Ok (attr w path), w1)" "same_tree w w1"
  | x w1 where "cf_read path w = (Err x, w1)" "same_tree w w1"
proof (cases "draw w")
  case (Pair r w1)
  then have "same_tree w w1" using same_tree_draw [of w] by simp
  with Pair that same_tree_attr [of w w1] show ?thesis by (cases r) (simp_all add: cf_read_def)
qed

end
