(* ===== verification/Host_Addr.thy ===== *)
theory Host_Addr
  imports Secrets
begin

text \<open>
  The addresses of the host as the block-sharing services find them (\<open>nasty-sharing/src/v6.rs\<close>
  and \<open>detect_primary_ip\<close> of \<open>nvmeof.rs\<close>): what the tool \<open>ip\<close> printed is an argument, \<open>None\<close>
  when it could not be run.
\<close>

section \<open>Words and lines of an output\<close>

fun take_word :: "string \<Rightarrow> string \<times> string" where
  "take_word [] = ([], [])"
| "take_word (c # cs) =
     (if ws_front (c # cs) \<noteq> 0 then ([], c # cs)
      else case take_word cs of (a, b) \<Rightarrow> (c # a, b))"

lemma take_word_append: "take_word s = (a, b) \<Longrightarrow> s = a @ b"
  by (induction s arbitrary: a b) (auto split: if_splits prod.splits)

lemma trim_start_front: "ws_front (trim_start s) = 0"
proof (induction s rule: trim_start.induct)
  case (1 s)
  then show ?case by (cases "ws_front s = 0") (simp_all add: trim_start.simps [of s])
qed

lemma length_trim_start: "length (trim_start s) \<le> length s"
  using trim_start_suffix [of s] by (metis length_append le_add2)

lemma take_word_shorter:
  assumes "trim_start s \<noteq> []"
  shows "length (snd (take_word (trim_start s))) < length s"
proof -
  obtain c cs where t: "trim_start s = c # cs" using assms by (cases "trim_start s") auto
  obtain a b where ab: "take_word cs = (a, b)" by fastforce
  then have "length b \<le> length cs" using take_word_append by fastforce
  moreover have "snd (take_word (trim_start s)) = b"
    using t ab trim_start_front [of s] by simp
  moreover have "length cs < length s" using length_trim_start [of s] t by simp
  ultimately show ?thesis by simp
qed

function split_whitespace :: "string \<Rightarrow> string list" where
  "split_whitespace s =
     (let t = trim_start s in
      if t = [] then [] else case take_word t of (a, b) \<Rightarrow> a # split_whitespace b)"
  by pat_completeness auto
termination
proof (relation "measure length")
  fix s t a b
  assume "t = trim_start s" "t \<noteq> []" "(a, b) = take_word t"
  then show "(b, s) \<in> measure length" using take_word_shorter [of s] by (metis in_measure snd_conv)
qed simp

declare split_whitespace.simps [simp del]

text \<open>\<open>lines()\<close>: without the line ends, a last empty line does not count.\<close>

definition strip_cr :: "string \<Rightarrow> string" where
  "strip_cr l = (if l \<noteq> [] \<and> last l = CHR 13 then butlast l else l)"

definition str_lines :: "string \<Rightarrow> string list" where
  "str_lines s =
     (let ls = split_on (CHR 10) s in
      map strip_cr (butlast ls) @ (if last ls = [] then [] else [last ls]))"

section \<open>Addresses\<close>

text \<open>The word that follows \<open>src\<close>.\<close>

fun after_src :: "string list \<Rightarrow> string option" where
  "after_src [] = None"
| "after_src (t # ts) = (if t = ''src'' then (case ts of [] \<Rightarrow> None | a # _ \<Rightarrow> Some a) else after_src ts)"

definition detect_primary_ip :: "string option \<Rightarrow> string option" where
  "detect_primary_ip stdout =
     (case stdout of None \<Rightarrow> None | Some out \<Rightarrow> after_src (split_whitespace (from_utf8_lossy out)))"

text \<open>The output with whether the tool succeeded.\<close>

definition detect_primary_ipv6 :: "(bool \<times> string) option \<Rightarrow> string option" where
  "detect_primary_ipv6 output =
     (case output of
        None \<Rightarrow> None
      | Some (success, out) \<Rightarrow> if \<not> success then None else after_src (split_whitespace (from_utf8_lossy out)))"

definition host_has_global_ipv6 :: "string option \<Rightarrow> bool" where
  "host_has_global_ipv6 stdout =
     (case stdout of
        None \<Rightarrow> False
      | Some out \<Rightarrow> list_ex (\<lambda>l. starts_with (trim_start l) ''inet6 '') (str_lines (from_utf8_lossy out)))"

text \<open>The line the comment in the source shows.\<close>

lemma primary_ip_of_route:
  "detect_primary_ip (Some ''1.1.1.1 via 10.0.0.1 dev eth0 src 10.0.0.5 uid 0'') = Some ''10.0.0.5''"
  by code_simp

end
