(* ===== verification/Iscsi_Service.thy ===== *)
theory Iscsi_Service
  imports Iscsi Configfs Host_Addr
begin

text \<open>
  The operations of \<open>IscsiService\<close> (\<open>nasty-sharing/src/iscsi.rs\<close>) on the stored targets, the
  kernel's configuration and the configuration \<open>targetcli\<close> saves for the next boot. Every call
  that reaches the disk or the kernel may fail. What \<open>targetcli\<close> writes is an argument. Waiting
  for initiators and for readiness changes nothing here.
\<close>

section \<open>World\<close>

record iscsi_world =
  iw_dir :: "iscsi_target dir_state"
  iw_dir_envs :: "dir_env list"
  iw_cfs :: cfs
  iw_saveconfig :: "json json_file"

text \<open>What surrounds a call: what \<open>targetcli\<close> saves, sealing, a fresh id, the addresses \<open>ip\<close>
  prints, questions to the file system, and writing the saved configuration (on a
  failure, with what the file holds then).\<close>

record iscsi_env =
  ie_render :: "cfs \<Rightarrow> json"
  ie_creds :: creds
  ie_new_id :: string
  ie_ip6_addr :: "string option"
  ie_exists :: "string \<Rightarrow> bool"
  ie_is_file :: "string \<Rightarrow> bool"
  ie_missing_parent :: "string \<Rightarrow> string option"
  ie_serialize :: "string option"
  ie_write_saveconfig :: "(string \<times> json json_file) option"

definition STATE_DIR :: string where
  "STATE_DIR = ''/var/lib/nasty/shares/iscsi''"

definition ISCSI_BASE :: string where
  "ISCSI_BASE = ''/sys/kernel/config/target/iscsi''"

definition CORE_BASE :: string where
  "CORE_BASE = ''/sys/kernel/config/target/core''"

definition SAVECONFIG :: string where
  "SAVECONFIG = ''/etc/target/saveconfig.json''"

type_synonym 'a iscsi_op = "iscsi_world \<Rightarrow> (iscsi_error + 'a) \<times> iscsi_world"

section \<open>Calls\<close>

definition next_dir_env :: "iscsi_world \<Rightarrow> dir_env \<times> iscsi_world" where
  "next_dir_env w = (case iw_dir_envs w of [] \<Rightarrow> (calm_dir, w) | e # es \<Rightarrow> (e, w\<lparr>iw_dir_envs := es\<rparr>))"

definition load_targets :: "iscsi_target list iscsi_op" where
  "load_targets w = (case next_dir_env w of (e, w1) \<Rightarrow>
     (case load_all_strict e STATE_DIR (iw_dir w1) of Ok ts \<Rightarrow> (Ok ts, w1) | Err x \<Rightarrow> (Err (Iscsi_Io x), w1)))"

definition save_target :: "iscsi_target \<Rightarrow> unit iscsi_op" where
  "save_target t w = (case next_dir_env w of (e, w1) \<Rightarrow>
     (case save e (it_id t) t (iw_dir w1) of
        (Ok _, d) \<Rightarrow> (Ok (), w1\<lparr>iw_dir := d\<rparr>)
      | (Err x, d) \<Rightarrow> (Err (Iscsi_Io x), w1\<lparr>iw_dir := d\<rparr>)))"

definition remove_target :: "string \<Rightarrow> unit iscsi_op" where
  "remove_target i w = (case next_dir_env w of (e, w1) \<Rightarrow>
     (case remove e i (iw_dir w1) of
        (Ok _, d) \<Rightarrow> (Ok (), w1\<lparr>iw_dir := d\<rparr>)
      | (Err x, d) \<Rightarrow> (Err (Iscsi_Io x), w1\<lparr>iw_dir := d\<rparr>)))"

definition load_target :: "string \<Rightarrow> iscsi_target iscsi_op" where
  "load_target i w = (case load (iw_dir w) i of Some t \<Rightarrow> (Ok t, w) | None \<Rightarrow> (Err (Target_NotFound i), w))"

definition on_cfs :: "(cfs \<Rightarrow> (string + 'a) \<times> cfs) \<Rightarrow> (string \<Rightarrow> iscsi_error) \<Rightarrow> 'a iscsi_op" where
  "on_cfs f msg w =
     (case f (iw_cfs w) of
        (Ok a, c) \<Rightarrow> (Ok a, w\<lparr>iw_cfs := c\<rparr>)
      | (Err x, c) \<Rightarrow> (Err (msg x), w\<lparr>iw_cfs := c\<rparr>))"

definition configfs_mkdir :: "string \<Rightarrow> unit iscsi_op" where
  "configfs_mkdir path = on_cfs (create_dir_all path) (\<lambda>e. Iscsi_ConfigFs (''mkdir '' @ path @ '': '' @ e))"

definition configfs_mkdir_new :: "string \<Rightarrow> unit iscsi_op" where
  "configfs_mkdir_new path = on_cfs (create_dir path) (\<lambda>e. Iscsi_ConfigFs (''mkdir '' @ path @ '': '' @ e))"

definition configfs_rmdir :: "string \<Rightarrow> unit iscsi_op" where
  "configfs_rmdir path = on_cfs (remove_dir path) (\<lambda>e. Iscsi_ConfigFs (''rmdir '' @ path @ '': '' @ e))"

definition configfs_write :: "string \<Rightarrow> string \<Rightarrow> unit iscsi_op" where
  "configfs_write path v = on_cfs (cf_write path v) (\<lambda>e. Iscsi_ConfigFs (''write '' @ path @ ''='' @ v @ '': '' @ e))"

definition configfs_write_secret :: "string \<Rightarrow> string \<Rightarrow> unit iscsi_op" where
  "configfs_write_secret path v = on_cfs (cf_write path v) (\<lambda>e. Iscsi_ConfigFs (''write '' @ path @ ''=<redacted>: '' @ e))"

definition configfs_symlink :: "string \<Rightarrow> string \<Rightarrow> unit iscsi_op" where
  "configfs_symlink target link = on_cfs (cf_symlink target link) (\<lambda>e. Iscsi_ConfigFs (''symlink '' @ link @ '' -> '' @ target @ '': '' @ e))"

definition configfs_unlink :: "string \<Rightarrow> unit iscsi_op" where
  "configfs_unlink path = on_cfs (remove_file path) (\<lambda>e. Iscsi_ConfigFs (''unlink '' @ path @ '': '' @ e))"

definition read_attribute :: "string \<Rightarrow> string iscsi_op" where
  "read_attribute path = on_cfs (cf_read path) Iscsi_Io"

definition save_lio_config_checked :: "iscsi_env \<Rightarrow> unit iscsi_op" where
  "save_lio_config_checked e w =
     (case draw (iw_cfs w) of
        (None, c) \<Rightarrow> (Ok (), w\<lparr>iw_cfs := c, iw_saveconfig := Parses (ie_render e c)\<rparr>)
      | (Some x, c) \<Rightarrow> (Err (Iscsi_CommandFailed (''targetcli saveconfig: '' @ x)), w\<lparr>iw_cfs := c\<rparr>))"

definition save_lio_config :: "iscsi_env \<Rightarrow> iscsi_world \<Rightarrow> iscsi_world" where
  "save_lio_config e = ignore (save_lio_config_checked e)"

definition tpg_of :: "string \<Rightarrow> string" where
  "tpg_of iqn = ISCSI_BASE @ ''/'' @ iqn @ ''/tpgt_1''"

section \<open>Portals and target directories\<close>

definition create_np :: "string \<Rightarrow> portal \<Rightarrow> unit iscsi_op" where
  "create_np tpg_path p =
     (let np_path = np_path_for tpg_path (po_ip p) (po_port p) in
      and_then (configfs_mkdir np_path) (\<lambda>_ w.
        if po_iser p then
          (case configfs_write (np_path @ ''/iser'') ''1'' w of
             (Ok _, w1) \<Rightarrow> (Ok (), w1)
           | (Err e, w1) \<Rightarrow> (Err e, ignore (configfs_rmdir np_path) w1))
        else (Ok (), w)))"

definition remove_np :: "string \<Rightarrow> portal \<Rightarrow> unit iscsi_op" where
  "remove_np tpg_path p = configfs_rmdir (np_path_for tpg_path (po_ip p) (po_port p))"

definition cleanup_unpersisted_target :: "string \<Rightarrow> string \<Rightarrow> portal list \<Rightarrow> iscsi_world \<Rightarrow> iscsi_world" where
  "cleanup_unpersisted_target target_path tpg_path portals w =
     ignore (configfs_rmdir target_path)
       (ignore (configfs_rmdir tpg_path)
          (fold (\<lambda>p. ignore (remove_np tpg_path p)) (rev portals)
             (ignore (configfs_write (tpg_path @ ''/enable'') ''0'') w)))"

definition create_target_dirs :: "string \<Rightarrow> string \<Rightarrow> (string \<times> string) iscsi_op" where
  "create_target_dirs base iqn =
     (let target_path = base @ ''/'' @ iqn; tpg_path = target_path @ ''/tpgt_1'' in
      and_then (configfs_mkdir base) (\<lambda>_.
      and_then (configfs_mkdir_new target_path) (\<lambda>_ w.
        case configfs_mkdir tpg_path w of
          (Ok _, w1) \<Rightarrow> (Ok (target_path, tpg_path), w1)
        | (Err e, w1) \<Rightarrow> (Err e, ignore (configfs_rmdir target_path) w1))))"

section \<open>Backstores\<close>

definition backstore_hba_type :: "string \<Rightarrow> string" where
  "backstore_hba_type bs_type = (if bs_type = ''fileio'' then ''fileio'' else ''iblock'')"

text \<open>The adapters of one type: their directory names with their numbers.\<close>

definition hba_indices :: "string \<Rightarrow> string list \<Rightarrow> (string \<times> 32 word) list" where
  "hba_indices hba_type names = List.map_filter (\<lambda>name.
     if starts_with name (hba_type @ ''_'')
     then map_option (Pair name) (parse_u32 (drop (length hba_type + 1) name)) else None) names"

text \<open>Listing the adapters; a listing that fails counts as empty.\<close>

definition list_core :: "iscsi_world \<Rightarrow> string list \<times> iscsi_world" where
  "list_core w = (case draw (iw_cfs w) of
     (None, c) \<Rightarrow> (children CORE_BASE c, w\<lparr>iw_cfs := c\<rparr>)
   | (Some _, c) \<Rightarrow> ([], w\<lparr>iw_cfs := c\<rparr>))"

definition next_hba_index :: "string \<Rightarrow> iscsi_world \<Rightarrow> 32 word \<times> iscsi_world" where
  "next_hba_index hba_type w =
     (case list_core w of (names, w1) \<Rightarrow>
        (case map snd (hba_indices hba_type names) of
           [] \<Rightarrow> (0, w1)
         | i # is \<Rightarrow> (fold max is i + 1, w1)))"

definition find_backstore_hba :: "string \<Rightarrow> string \<Rightarrow> iscsi_world \<Rightarrow> 32 word option \<times> iscsi_world" where
  "find_backstore_hba hba_type bs_name w =
     (case list_core w of (names, w1) \<Rightarrow>
        (map_option snd (List.find (\<lambda>(name, _). cf_exists (CORE_BASE @ ''/'' @ name @ ''/'' @ bs_name) (iw_cfs w1))
           (hba_indices hba_type names)), w1))"

text \<open>An adapter without backstores; the two files the kernel puts there do not count. A listing
  that fails counts as empty.\<close>

definition hba_is_empty :: "string \<Rightarrow> iscsi_world \<Rightarrow> bool \<times> iscsi_world" where
  "hba_is_empty hba_path w = (case draw (iw_cfs w) of
     (None, c) \<Rightarrow> (children hba_path c = [], w\<lparr>iw_cfs := c\<rparr>)
   | (Some _, c) \<Rightarrow> (True, w\<lparr>iw_cfs := c\<rparr>))"

definition remove_backstore :: "lun \<Rightarrow> iscsi_world \<Rightarrow> iscsi_world" where
  "remove_backstore l w =
     (let hba_type = backstore_hba_type (lun_backstore_type l) in
      case find_backstore_hba hba_type (lun_backstore_name l) w of
        (None, w1) \<Rightarrow> w1
      | (Some hba_idx, w1) \<Rightarrow>
          let hba_path = CORE_BASE @ ''/'' @ hba_type @ ''_'' @ show_u32 hba_idx;
              bs_path = hba_path @ ''/'' @ lun_backstore_name l;
              w2 = ignore (configfs_rmdir bs_path) (ignore (configfs_write (bs_path @ ''/enable'') ''0'') w1)
          in case hba_is_empty hba_path w2 of
               (True, w3) \<Rightarrow> ignore (configfs_rmdir hba_path) w3
             | (False, w3) \<Rightarrow> w3)"

definition remove_lun_dir :: "string \<Rightarrow> lun \<Rightarrow> iscsi_world \<Rightarrow> iscsi_world" where
  "remove_lun_dir tpg_path l w =
     (let lun_path = tpg_path @ ''/lun/lun_'' @ show_u32 (lun_id l) in
      ignore (configfs_rmdir lun_path) (ignore (configfs_unlink (lun_path @ ''/'' @ lun_backstore_name l)) w))"


section \<open>Reading and repairing\<close>

definition iscsi_list :: "iscsi_target list iscsi_op" where
  "iscsi_list = and_then load_targets (\<lambda>ts w. (Ok (map target_redacted ts), w))"

definition iscsi_get :: "string \<Rightarrow> iscsi_target iscsi_op" where
  "iscsi_get i = and_then (load_target i) (\<lambda>t w. (Ok (target_redacted t), w))"

definition repair_lun :: "string \<Rightarrow> 32 word \<Rightarrow> string \<Rightarrow> block_volume_id \<Rightarrow> (iscsi_target \<times> iscsi_target) iscsi_op" where
  "repair_lun target_id n device_path identity =
     and_then (load_target target_id) (\<lambda>previous.
     and_then (\<lambda>w. (repair_target_lun n device_path identity previous, w)) (\<lambda>t.
     and_then (save_target t) (\<lambda>_ w. (Ok (t, previous), w))))"

definition restore_target_state :: "iscsi_target \<Rightarrow> unit iscsi_op" where
  "restore_target_state t = save_target t"

text \<open>Sealing the passwords that are stored in the clear.\<close>

definition migrate_target :: "iscsi_env \<Rightarrow> iscsi_target \<Rightarrow> iscsi_world \<Rightarrow> iscsi_world" where
  "migrate_target e t w =
     (let acls = map (migrate_acl (ie_creds e) (it_id t)) (it_acls t) in
      if list_ex snd acls then ignore (save_target (t\<lparr>it_acls := map fst acls\<rparr>)) w else w)"

definition migrate_secrets :: "iscsi_env \<Rightarrow> iscsi_world \<Rightarrow> iscsi_world" where
  "migrate_secrets e w =
     (case next_dir_env w of (de, w1) \<Rightarrow> fold (migrate_target e) (load_all de (iw_dir w1)) w1)"

section \<open>Following the volumes\<close>

definition patch_saveconfig :: "iscsi_env \<Rightarrow> (string \<times> string) list \<Rightarrow> string list \<Rightarrow> iscsi_world \<Rightarrow> (string + unit) \<times> iscsi_world" where
  "patch_saveconfig e backstores targets w =
     (case iw_saveconfig w of
        Absent \<Rightarrow> (Err (''read '' @ SAVECONFIG @ '': '' @ ENOENT), w)
      | Unreadable x \<Rightarrow> (Err (''read '' @ SAVECONFIG @ '': '' @ x), w)
      | Malformed x \<Rightarrow> (Err (''parse '' @ SAVECONFIG @ '': '' @ x), w)
      | Parses json \<Rightarrow>
          (case patch_saveconfig_value backstores targets json of
             Err x \<Rightarrow> (Err x, w)
           | Ok (json', changed) \<Rightarrow>
               if \<not> changed then (Ok (), w)
               else case ie_serialize e of
                 Some x \<Rightarrow> (Err (''serialize '' @ SAVECONFIG @ '': '' @ x), w)
               | None \<Rightarrow>
                   (case ie_write_saveconfig e of
                      Some (x, left) \<Rightarrow> (Err (''write '' @ SAVECONFIG @ '': '' @ x), w\<lparr>iw_saveconfig := left\<rparr>)
                    | None \<Rightarrow> (Ok (), w\<lparr>iw_saveconfig := Parses json'\<rparr>))))"

definition validate_no_saved_exports :: "iscsi_world \<Rightarrow> string + unit" where
  "validate_no_saved_exports w =
     (case iw_saveconfig w of
        Absent \<Rightarrow> Ok ()
      | Unreadable x \<Rightarrow> Err (''read '' @ SAVECONFIG @ '': '' @ x)
      | Malformed x \<Rightarrow> Err (''parse '' @ SAVECONFIG @ '': '' @ x)
      | Parses json \<Rightarrow> validate_empty_saveconfig_value json)"

record remap_outcome =
  ro_safe_to_restore :: bool
  ro_changed :: bool

text \<open>The loop over the targets: the targets as they now are, the patches with the verdict on
  safety, and whether anything changed.\<close>

fun remap_loop :: "mappings \<Rightarrow> iscsi_target list \<Rightarrow> (string \<times> string) list \<times> bool \<Rightarrow> iscsi_world \<Rightarrow>
    (iscsi_target list \<times> (string \<times> string) list \<times> bool \<times> bool) \<times> iscsi_world" where
  "remap_loop m [] ps w = (([], fst ps, snd ps, False), w)"
| "remap_loop m (t # ts) ps w =
     (case remap_target m t of (t', changed, target_safe, asked) \<Rightarrow>
      case (if changed then save_target t' w else (Ok (), w)) of (saved, w1) \<Rightarrow>
      let persisted = is_ok saved;
          ps1 = target_patches persisted asked t' (fst ps, snd ps \<and> persisted \<and> target_safe)
      in case remap_loop m ts ps1 w1 of ((ts', patches, safe, any_changed), w2) \<Rightarrow>
           ((t' # ts', patches, safe, changed \<or> any_changed), w2))"

definition remap_device_paths :: "iscsi_env \<Rightarrow> mappings \<Rightarrow> iscsi_world \<Rightarrow> remap_outcome \<times> iscsi_world" where
  "remap_device_paths e m w =
     (case load_targets w of
        (Err _, w1) \<Rightarrow> (\<lparr>ro_safe_to_restore = False, ro_changed = False\<rparr>, w1)
      | (Ok targets, w1) \<Rightarrow>
          if targets = [] then (\<lparr>ro_safe_to_restore = is_ok (validate_no_saved_exports w1), ro_changed = False\<rparr>, w1)
          else
            (case remap_loop m targets ([], True) w1 of ((ts, patches, safe, changed), w2) \<Rightarrow>
             case patch_saveconfig e patches (remdups (map it_iqn ts)) w2 of (r, w3) \<Rightarrow>
               (\<lparr>ro_safe_to_restore = (safe \<and> is_ok r), ro_changed = changed\<rparr>, w3)))"

section \<open>Logical units\<close>

text \<open>What follows the last colon of a name.\<close>

definition after_last_colon :: "string \<Rightarrow> string" where
  "after_last_colon s = last (split_on CHR '':'' s)"

definition next_lun_id :: "lun list \<Rightarrow> 32 word" where
  "next_lun_id ls = (case map lun_id ls of [] \<Rightarrow> 0 | i # is \<Rightarrow> fold max is i + 1)"

definition lun_backstore_name_for :: "iscsi_target \<Rightarrow> 32 word \<Rightarrow> string" where
  "lun_backstore_name_for t n = ''nasty_'' @ after_last_colon (it_iqn t) @ ''_lun'' @ show_u32 n"

definition check_backstore :: "iscsi_env \<Rightarrow> string \<Rightarrow> string \<Rightarrow> iscsi_error + unit" where
  "check_backstore e backstore_type path =
     (if backstore_type = ''block'' then
        (if \<not> ie_exists e path then Err (BackstoreNotFound path) else Ok ())
      else if backstore_type = ''fileio'' then
        (case ie_missing_parent e path of Some parent \<Rightarrow> Err (BackstoreNotFound parent) | None \<Rightarrow> Ok ())
      else Err (Iscsi_CommandFailed (''Unknown backstore type: '' @ backstore_type)))"

definition control_line :: "string \<Rightarrow> string \<Rightarrow> u64 option \<Rightarrow> string" where
  "control_line backstore_type path size_bytes =
     (if backstore_type = ''block'' then ''udev_path='' @ path
      else ''fd_dev_name='' @ path @ '',fd_dev_size='' @
             show_nat (case size_bytes of Some n \<Rightarrow> unat n | None \<Rightarrow> 1073741824))"

definition add_lun :: "iscsi_env \<Rightarrow> string \<Rightarrow> string \<Rightarrow> string option \<Rightarrow> u64 option \<Rightarrow> block_volume_id option \<Rightarrow> iscsi_target iscsi_op" where
  "add_lun e target_id path backstore_type size_bytes backing_volume =
     and_then (load_target target_id) (\<lambda>t.
     let ty = (case backstore_type of Some ty \<Rightarrow> ty | None \<Rightarrow> if ie_is_file e path then ''fileio'' else ''block'') in
     and_then (\<lambda>w. (check_backstore e ty path, w)) (\<lambda>_ w.
     let n = next_lun_id (it_luns t); name = lun_backstore_name_for t n; hba_type = backstore_hba_type ty in
     case next_hba_index hba_type w of (hba_idx, w1) \<Rightarrow>
     let bs_path = CORE_BASE @ ''/'' @ hba_type @ ''_'' @ show_u32 hba_idx @ ''/'' @ name;
         lun_path = tpg_of (it_iqn t) @ ''/lun/lun_'' @ show_u32 n;
         l = \<lparr>lun_id = n, lun_backstore_path = path, lun_backstore_name = name, lun_backstore_type = ty,
              lun_size_bytes = size_bytes, lun_backing_volume = backing_volume, lun_backing_volume_unresolved = False\<rparr>;
         t' = t\<lparr>it_luns := it_luns t @ [l]\<rparr>
     in and_then (configfs_mkdir bs_path) (\<lambda>_.
        and_then (configfs_write (bs_path @ ''/control'') (control_line ty path size_bytes)) (\<lambda>_.
        and_then (configfs_write (bs_path @ ''/enable'') ''1'') (\<lambda>_.
        and_then (configfs_mkdir lun_path) (\<lambda>_.
        and_then (configfs_symlink bs_path (lun_path @ ''/'' @ name)) (\<lambda>_.
        and_then (save_target t') (\<lambda>_ w. (Ok (target_redacted t'), save_lio_config e w))))))) w1))"

definition remove_lun :: "iscsi_env \<Rightarrow> string \<Rightarrow> 32 word \<Rightarrow> iscsi_target iscsi_op" where
  "remove_lun e target_id n =
     and_then (load_target target_id) (\<lambda>t w.
     case position (\<lambda>l. lun_id l = n) (it_luns t) of
       None \<Rightarrow> (Err (Target_NotFound (''LUN '' @ show_u32 n @ '' not found'')), w)
     | Some k \<Rightarrow>
         let l = it_luns t ! k;
             t' = t\<lparr>it_luns := remove_nth k (it_luns t)\<rparr>
         in and_then (save_target t') (\<lambda>_ w. (Ok (target_redacted t'), save_lio_config e w))
              (remove_backstore l (remove_lun_dir (tpg_of (it_iqn t)) l w)))"


section \<open>Initiators\<close>

definition rollback_new_acl :: "string \<Rightarrow> string \<Rightarrow> string \<Rightarrow> string \<Rightarrow> unit iscsi_op" where
  "rollback_new_acl acl_path tpg_path original_generate_node_acls original_enable =
     and_then (configfs_write (tpg_path @ ''/enable'') ''0'') (\<lambda>_.
     and_then (configfs_rmdir acl_path) (\<lambda>_.
     and_then (configfs_write (tpg_path @ ''/attrib/generate_node_acls'') original_generate_node_acls) (\<lambda>_.
       configfs_write (tpg_path @ ''/enable'') original_enable)))"

text \<open>The texts of the ways back; there an error of the state directory is not yet wrapped.\<close>

fun raw_message :: "iscsi_error \<Rightarrow> string" where
  "raw_message (Iscsi_Io x) = x"
| "raw_message e = iscsi_error_message e"

definition suffixed :: "iscsi_error \<Rightarrow> string \<Rightarrow> iscsi_error \<Rightarrow> iscsi_error" where
  "suffixed error what next = Iscsi_ConfigFs (raw_message error @ ''; '' @ what @ '': '' @ raw_message next)"

text \<open>Undo and report the error, or report that undoing failed as well.\<close>

definition undo_then :: "iscsi_error \<Rightarrow> string \<Rightarrow> unit iscsi_op \<Rightarrow> 'a iscsi_op \<Rightarrow> 'a iscsi_op" where
  "undo_then error what undo next w =
     (case undo w of (Ok _, w1) \<Rightarrow> next w1 | (Err e, w1) \<Rightarrow> (Err (suffixed error what e), w1))"

definition fail :: "iscsi_error \<Rightarrow> 'a iscsi_op" where
  "fail error w = (Err error, w)"

definition write_chap :: "bool \<Rightarrow> string option \<Rightarrow> string option \<Rightarrow> string \<Rightarrow> unit iscsi_op" where
  "write_chap enable_chap userid password acl_path =
     (case (enable_chap, userid, password) of
        (True, Some u, Some p) \<Rightarrow>
          and_then (configfs_write (acl_path @ ''/attrib/authentication'') ''1'') (\<lambda>_.
          and_then (configfs_write (acl_path @ ''/auth/userid'') u) (\<lambda>_.
            configfs_write_secret (acl_path @ ''/auth/password'') p))
      | _ \<Rightarrow> (\<lambda>w. (Ok (), w)))"

definition configure_acl :: "bool \<Rightarrow> string option \<Rightarrow> string option \<Rightarrow> string \<Rightarrow> string \<Rightarrow> unit iscsi_op" where
  "configure_acl enable_chap userid password acl_path tpg_path =
     and_then (write_chap enable_chap userid password acl_path) (\<lambda>_.
     and_then (configfs_write (tpg_path @ ''/attrib/generate_node_acls'') ''0'') (\<lambda>_.
       configfs_write (tpg_path @ ''/attrib/authentication'') ''0''))"

text \<open>The last part of \<open>add_acl\<close>: store the target, switch it on again and save, with the ways back.\<close>

definition commit_acl :: "iscsi_env \<Rightarrow> iscsi_target \<Rightarrow> iscsi_target \<Rightarrow> string \<Rightarrow> string \<Rightarrow> string \<Rightarrow> string \<Rightarrow> iscsi_target iscsi_op" where
  "commit_acl e original t acl_path tpg_path generate enable w =
     (let enable_path = tpg_path @ ''/enable'';
          rollback = rollback_new_acl acl_path tpg_path generate enable;
          no_rollback = ''ACL rollback failed with the TPG disabled'';
          no_restore = ''failed to restore target state with the TPG disabled''
      in case save_target t w of
           (Err error, w1) \<Rightarrow> undo_then error no_rollback rollback (fail error) w1
         | (Ok _, w1) \<Rightarrow>
      case configfs_write enable_path enable w1 of
           (Err error, w2) \<Rightarrow>
             undo_then error no_restore (save_target original)
               (undo_then error no_rollback rollback (fail error)) w2
         | (Ok _, w2) \<Rightarrow>
      case save_lio_config_checked e w2 of
           (Err error, w3) \<Rightarrow>
             undo_then error ''failed to disable TPG for rollback'' (configfs_write enable_path ''0'')
               (undo_then error no_restore (save_target original)
                 (undo_then error no_rollback rollback
                   (undo_then error ''failed to persist ACL rollback'' (save_lio_config_checked e) (fail error)))) w3
         | (Ok _, w3) \<Rightarrow> (Ok (target_redacted t), w3))"

text \<open>What follows once the initiator's directory is there: its setup, undone on a failure, and the
  commit with the password sealed.\<close>

definition setup_acl :: "iscsi_env \<Rightarrow> iscsi_target \<Rightarrow> bool \<Rightarrow> string \<Rightarrow> string option \<Rightarrow> string option \<Rightarrow> string \<Rightarrow> string \<Rightarrow> iscsi_target iscsi_op" where
  "setup_acl e t enable_chap initiator_iqn userid password generate enable w =
     (let tpg_path = tpg_of (it_iqn t); acl_path = tpg_path @ ''/acls/'' @ initiator_iqn in
      case configure_acl enable_chap userid password acl_path tpg_path w of
        (Err error, w1) \<Rightarrow>
          undo_then error ''ACL rollback failed with the TPG disabled''
            (rollback_new_acl acl_path tpg_path generate enable) (fail error) w1
      | (Ok _, w1) \<Rightarrow>
          (case seal_chap_password (ie_creds e) (it_id t) initiator_iqn password of (plain, sealed) \<Rightarrow>
           commit_acl e t
             (t\<lparr>it_acls := it_acls t @ [\<lparr>acl_initiator_iqn = initiator_iqn, acl_userid = userid,
                                        acl_password = plain, acl_password_encrypted = sealed\<rparr>]\<rparr>)
             acl_path tpg_path generate enable w1))"

definition add_acl :: "iscsi_env \<Rightarrow> string \<Rightarrow> string \<Rightarrow> string option \<Rightarrow> string option \<Rightarrow> iscsi_target iscsi_op" where
  "add_acl e target_id initiator_iqn userid password =
     and_then (\<lambda>w. (chap_enabled userid password, w)) (\<lambda>enable_chap.
     and_then (load_target target_id) (\<lambda>t.
     if list_ex (\<lambda>a. eq_ignore_ascii_case (acl_initiator_iqn a) initiator_iqn) (it_acls t)
     then fail (Target_AlreadyExists initiator_iqn)
     else
       let tpg_path = tpg_of (it_iqn t); enable_path = tpg_path @ ''/enable'' in
       and_then (read_attribute (tpg_path @ ''/attrib/generate_node_acls'')) (\<lambda>generate.
       and_then (read_attribute enable_path) (\<lambda>enable.
       and_then (configfs_write enable_path ''0'') (\<lambda>_ w.
         case configfs_mkdir (tpg_path @ ''/acls/'' @ initiator_iqn) w of
           (Err error, w1) \<Rightarrow>
             undo_then error ''failed to restore TPG enable state'' (configfs_write enable_path (trim enable)) (fail error) w1
         | (Ok _, w1) \<Rightarrow> setup_acl e t enable_chap initiator_iqn userid password (trim generate) (trim enable) w1)))))"

definition remove_acl :: "iscsi_env \<Rightarrow> string \<Rightarrow> string \<Rightarrow> iscsi_target iscsi_op" where
  "remove_acl e target_id initiator_iqn =
     and_then (load_target target_id) (\<lambda>t w.
     let tpg_path = tpg_of (it_iqn t);
         t' = t\<lparr>it_acls := filter (\<lambda>a. acl_initiator_iqn a \<noteq> initiator_iqn) (it_acls t)\<rparr>
     in and_then (if it_acls t' = [] then configfs_write (tpg_path @ ''/attrib/generate_node_acls'') ''1'' else (\<lambda>w. (Ok (), w))) (\<lambda>_.
        and_then (save_target t') (\<lambda>_ w. (Ok (target_redacted t'), save_lio_config e w)))
        (ignore (configfs_rmdir (tpg_path @ ''/acls/'' @ initiator_iqn)) w))"

section \<open>Portals\<close>

definition add_portal :: "iscsi_env \<Rightarrow> string \<Rightarrow> string \<Rightarrow> 16 word \<Rightarrow> bool \<Rightarrow> iscsi_target iscsi_op" where
  "add_portal e target_id req_ip port iser =
     and_then (load_target target_id) (\<lambda>t.
     and_then (\<lambda>w. (validate_portal_ip req_ip, w)) (\<lambda>ip w.
     if list_ex (\<lambda>p. po_ip p = ip \<and> po_port p = port) (it_portals t) then (Ok (target_redacted t), w)
     else
       let p = \<lparr>po_ip = ip, po_port = port, po_iser = iser\<rparr>; t' = t\<lparr>it_portals := it_portals t @ [p]\<rparr> in
       and_then (create_np (tpg_of (it_iqn t)) p) (\<lambda>_.
       and_then (save_target t') (\<lambda>_ w. (Ok (target_redacted t'), save_lio_config e w))) w))"

definition remove_portal :: "iscsi_env \<Rightarrow> string \<Rightarrow> string \<Rightarrow> 16 word \<Rightarrow> iscsi_target iscsi_op" where
  "remove_portal e target_id ip port =
     and_then (load_target target_id) (\<lambda>t w.
     case position (\<lambda>p. po_ip p = ip \<and> po_port p = port) (it_portals t) of
       None \<Rightarrow> (Err (Target_NotFound (''portal '' @ ip @ '':'' @ show_nat (unat port) @ '' not found'')), w)
     | Some k \<Rightarrow>
         if length (it_portals t) = 1 then
           (Err (Iscsi_CommandFailed (''Cannot remove the last portal '' @ em_dash @
              '' target would become unreachable. Add a replacement portal first.'')), w)
         else
           let t' = t\<lparr>it_portals := remove_nth k (it_portals t)\<rparr> in
           and_then (save_target t') (\<lambda>_ w. (Ok (target_redacted t'), save_lio_config e w))
             (ignore (configfs_rmdir (np_path_for (tpg_of (it_iqn t)) ip port)) w))"

fun apply_step :: "string \<Rightarrow> portal_step \<Rightarrow> unit iscsi_op" where
  "apply_step tpg_path (Add p) = create_np tpg_path p"
| "apply_step tpg_path (Remove p) = remove_np tpg_path p"

fun undo_step :: "string \<Rightarrow> portal_step \<Rightarrow> iscsi_world \<Rightarrow> iscsi_world" where
  "undo_step tpg_path (Add p) = ignore (remove_np tpg_path p)"
| "undo_step tpg_path (Remove p) = ignore (create_np tpg_path p)"

text \<open>The steps with the stored list they lead to; the steps done so far are undone in reverse
  when one fails.\<close>

fun apply_steps :: "string \<Rightarrow> portal_step list \<Rightarrow> portal_step list \<Rightarrow> portal list \<Rightarrow> portal list iscsi_op" where
  "apply_steps tpg_path applied [] portals w = (Ok portals, w)"
| "apply_steps tpg_path applied (s # ss) portals w =
     (case apply_step tpg_path s w of
        (Err e, w1) \<Rightarrow> (Err e, fold (undo_step tpg_path) applied w1)
      | (Ok _, w1) \<Rightarrow> apply_steps tpg_path (s # applied) ss (step_portals s portals) w1)"

definition set_portals :: "iscsi_env \<Rightarrow> string \<Rightarrow> portal list \<Rightarrow> iscsi_target iscsi_op" where
  "set_portals e target_id desired =
     and_then (load_target target_id) (\<lambda>t.
     and_then (\<lambda>w. (plan_portal_transition (it_portals t) desired, w)) (\<lambda>steps w.
     if steps = [] then (Ok (target_redacted t), w)
     else
       and_then (apply_steps (tpg_of (it_iqn t)) [] steps (it_portals t)) (\<lambda>portals.
       let t' = t\<lparr>it_portals := portals\<rparr> in
       and_then (save_target t') (\<lambda>_ w. (Ok (target_redacted t'), save_lio_config e w))) w))"


section \<open>Creating and deleting targets\<close>

definition iscsi_delete :: "iscsi_env \<Rightarrow> string \<Rightarrow> unit iscsi_op" where
  "iscsi_delete e i =
     and_then (load_target i) (\<lambda>t w.
     let tpg_path = tpg_of (it_iqn t);
         w1 = ignore (configfs_write (tpg_path @ ''/enable'') ''0'') w;
         w2 = fold (\<lambda>a. ignore (configfs_rmdir (tpg_path @ ''/acls/'' @ acl_initiator_iqn a))) (it_acls t) w1;
         w3 = fold (remove_lun_dir tpg_path) (it_luns t) w2;
         w4 = fold (\<lambda>p. ignore (remove_np tpg_path p)) (it_portals t) w3;
         w5 = ignore (configfs_rmdir (ISCSI_BASE @ ''/'' @ it_iqn t)) (ignore (configfs_rmdir tpg_path) w4);
         w6 = fold remove_backstore (it_luns t) w5
     in and_then (remove_target i) (\<lambda>_ w. (Ok (), save_lio_config e w)) w6)"

record acl_entry =
  ae_initiator_iqn :: string
  ae_userid :: "string option"
  ae_password :: "string option"

record create_target_request =
  ct_name :: string
  ct_alias :: "string option"
  ct_portals :: "portal list option"
  ct_device_path :: "string option"
  ct_backing_volume :: "block_volume_id option"
  ct_acls :: "acl_entry list option"

text \<open>Credentials complete, and no initiator twice, whatever the case of its letters.\<close>

fun check_acls :: "string list \<Rightarrow> acl_entry list \<Rightarrow> iscsi_error + unit" where
  "check_acls seen [] = Ok ()"
| "check_acls seen (a # as) =
     (case chap_enabled (ae_userid a) (ae_password a) of
        Err e \<Rightarrow> Err e
      | Ok _ \<Rightarrow>
          if to_ascii_lowercase (ae_initiator_iqn a) \<in> set seen then Err (Target_AlreadyExists (ae_initiator_iqn a))
          else check_acls (to_ascii_lowercase (ae_initiator_iqn a) # seen) as)"

fun create_portals :: "string \<Rightarrow> string \<Rightarrow> portal list \<Rightarrow> portal list \<Rightarrow> portal list iscsi_op" where
  "create_portals target_path tpg_path created [] w = (Ok created, w)"
| "create_portals target_path tpg_path created (p # ps) w =
     (case create_np tpg_path p w of
        (Err e, w1) \<Rightarrow> (Err e, cleanup_unpersisted_target target_path tpg_path created w1)
      | (Ok _, w1) \<Rightarrow> create_portals target_path tpg_path (created @ [p]) ps w1)"

definition v4_default :: portal where
  "v4_default = \<lparr>po_ip = ''0.0.0.0'', po_port = 3260, po_iser = False\<rparr>"

definition v6_default :: portal where
  "v6_default = \<lparr>po_ip = ''::'', po_port = 3260, po_iser = False\<rparr>"

text \<open>The second default portal is tried only on a host with IPv6, and may fail.\<close>

definition try_v6_portal :: "string \<Rightarrow> portal list \<Rightarrow> iscsi_world \<Rightarrow> portal list \<times> iscsi_world" where
  "try_v6_portal tpg_path created w =
     (case configfs_mkdir (np_path_for tpg_path (po_ip v6_default) (po_port v6_default)) w of
        (Ok _, w1) \<Rightarrow> (created @ [v6_default], w1)
      | (Err _, w1) \<Rightarrow> (created, w1))"

definition configure_tpg :: "bool \<Rightarrow> string \<Rightarrow> unit iscsi_op" where
  "configure_tpg has_explicit_acls tpg_path =
     and_then (configfs_write (tpg_path @ ''/attrib/authentication'') ''0'') (\<lambda>_.
     and_then (configfs_write (tpg_path @ ''/attrib/generate_node_acls'') (if has_explicit_acls then ''0'' else ''1'')) (\<lambda>_.
     and_then (configfs_write (tpg_path @ ''/attrib/demo_mode_write_protect'') ''0'') (\<lambda>_.
       configfs_write (tpg_path @ ''/enable'') ''1'')))"

definition cleanup_failed_create :: "iscsi_env \<Rightarrow> string \<Rightarrow> iscsi_error \<Rightarrow> 'a iscsi_op" where
  "cleanup_failed_create e target_id error w =
     (case iscsi_delete e target_id w of
        (Err x, w1) \<Rightarrow> (Err (Iscsi_ConfigFs (iscsi_error_message error @ ''; failed to clean up target: '' @ iscsi_error_message x)), w1)
      | (Ok _, w1) \<Rightarrow>
          (case save_lio_config_checked e w1 of
             (Err x, w2) \<Rightarrow> (Err (Iscsi_ConfigFs (iscsi_error_message error @ ''; failed to persist target cleanup: '' @ iscsi_error_message x)), w2)
           | (Ok _, w2) \<Rightarrow> (Err error, w2)))"

fun add_acls :: "iscsi_env \<Rightarrow> iscsi_target \<Rightarrow> acl_entry list \<Rightarrow> iscsi_target iscsi_op" where
  "add_acls e t [] w = (Ok t, w)"
| "add_acls e t (a # as) w =
     (case add_acl e (it_id t) (ae_initiator_iqn a) (ae_userid a) (ae_password a) w of
        (Ok t', w1) \<Rightarrow> add_acls e t' as w1
      | (Err x, w1) \<Rightarrow> cleanup_failed_create e (it_id t) x w1)"

text \<open>The kernel's side of a new target up to its storing: the portals that exist.\<close>

definition new_tpg :: "iscsi_env \<Rightarrow> create_target_request \<Rightarrow> string \<Rightarrow> (string \<times> string \<times> portal list) iscsi_op" where
  "new_tpg e req iqn =
     and_then (create_target_dirs ISCSI_BASE iqn) (\<lambda>(target_path, tpg_path).
     and_then (create_portals target_path tpg_path [] (case ct_portals req of Some ps \<Rightarrow> ps | None \<Rightarrow> [v4_default])) (\<lambda>created w.
     case (if ct_portals req = None \<and> host_has_global_ipv6 (ie_ip6_addr e) then try_v6_portal tpg_path created w else (created, w)) of (portals, w1) \<Rightarrow>
     case configure_tpg (ct_acls req \<noteq> None) tpg_path w1 of
       (Err x, w2) \<Rightarrow> (Err x, cleanup_unpersisted_target target_path tpg_path portals w2)
     | (Ok _, w2) \<Rightarrow> (Ok (target_path, tpg_path, portals), w2)))"

definition store_new :: "iscsi_env \<Rightarrow> create_target_request \<Rightarrow> string \<Rightarrow> iscsi_target iscsi_op" where
  "store_new e req iqn =
     and_then (new_tpg e req iqn) (\<lambda>(target_path, tpg_path, portals) w.
     let t = \<lparr>it_id = ie_new_id e, it_iqn = iqn, it_alias = ct_alias req, it_portals = portals,
              it_luns = [], it_acls = [], it_enabled = True\<rparr>
     in case save_target t w of
          (Err x, w1) \<Rightarrow> (Err x, cleanup_unpersisted_target target_path tpg_path portals w1)
        | (Ok _, w1) \<Rightarrow> (Ok t, save_lio_config e w1))"

definition with_device :: "iscsi_env \<Rightarrow> create_target_request \<Rightarrow> iscsi_target \<Rightarrow> iscsi_target iscsi_op" where
  "with_device e req t w =
     (case ct_device_path req of
        None \<Rightarrow> (Ok t, w)
      | Some path \<Rightarrow>
          if it_luns t \<noteq> [] then (Ok t, w)
          else case add_lun e (it_id t) path (Some ''block'') None (ct_backing_volume req) w of
            (Ok t', w1) \<Rightarrow> (Ok t', w1)
          | (Err x, w1) \<Rightarrow> cleanup_failed_create e (it_id t) x w1)"

definition iscsi_create :: "iscsi_env \<Rightarrow> create_target_request \<Rightarrow> iscsi_target iscsi_op" where
  "iscsi_create e req =
     and_then (\<lambda>w. (validate_target_name (ct_name req), w)) (\<lambda>_.
     and_then (\<lambda>w. (case ct_acls req of None \<Rightarrow> Ok () | Some as \<Rightarrow> check_acls [] as, w)) (\<lambda>_.
     and_then load_targets (\<lambda>targets.
     let iqn = DEFAULT_IQN_PREFIX @ '':'' @ ct_name req in
     case List.find (\<lambda>t. eq_ignore_ascii_case (it_iqn t) iqn) targets of
       Some existing \<Rightarrow> (\<lambda>w. (Ok (target_redacted existing), w))
     | None \<Rightarrow>
         and_then (store_new e req iqn) (\<lambda>t.
         and_then (with_device e req t) (\<lambda>t1.
         and_then (case ct_acls req of None \<Rightarrow> (\<lambda>w. (Ok t1, w)) | Some as \<Rightarrow> add_acls e t1 as) (\<lambda>t2 w.
           (Ok (target_redacted t2), w)))))))"

end
