(* ===== verification/Iscsi_Behaviour.thy ===== *)
theory Iscsi_Behaviour
  imports Iscsi_Service
begin

text \<open>
  What the operations on iSCSI targets guarantee: exports follow their volumes, an initiator is
  admitted completely or not at all, and the portals the kernel has are the ones that are stored.
\<close>

section \<open>Stored targets\<close>

lemma next_dir_env_frame [simp]:
  "iw_dir (snd (next_dir_env w)) = iw_dir w" "iw_cfs (snd (next_dir_env w)) = iw_cfs w"
  "iw_saveconfig (snd (next_dir_env w)) = iw_saveconfig w"
  by (simp_all add: next_dir_env_def split: list.split)

lemma save_target_cases [case_names ok err]:
  obtains w' where "save_target t w = (Ok (), w')" "iw_cfs w' = iw_cfs w" "iw_saveconfig w' = iw_saveconfig w"
      "load (iw_dir w') = (load (iw_dir w))(it_id t \<mapsto> t)"
  | x w' where "save_target t w = (Err (Iscsi_Io x), w')" "iw_cfs w' = iw_cfs w" "iw_saveconfig w' = iw_saveconfig w"
      "load (iw_dir w') = load (iw_dir w)"
proof -
  obtain e w1 where e: "next_dir_env w = (e, w1)" by fastforce
  then have w1: "iw_dir w1 = iw_dir w" "iw_cfs w1 = iw_cfs w" "iw_saveconfig w1 = iw_saveconfig w"
    using next_dir_env_frame [of w] by simp_all
  obtain r d where s: "save e (it_id t) t (iw_dir w1) = (r, d)" by fastforce
  show ?thesis
  proof (cases r)
    case (Inl x)
    then show ?thesis using that(2) [of x "w1\<lparr>iw_dir := d\<rparr>"] e s w1 sd.put_err [of e "it_id t" t "iw_dir w1" x d]
      by (auto simp: save_target_def fun_eq_iff)
  next
    case (Inr u)
    then show ?thesis using that(1) [of "w1\<lparr>iw_dir := d\<rparr>"] e s w1 sd.lookup_put [of e "it_id t" t "iw_dir w1" d]
      by (auto simp: save_target_def fun_eq_iff)
  qed
qed

lemma load_targets_frame:
  assumes "load_targets w = (r, w')"
  shows "iw_dir w' = iw_dir w" "iw_cfs w' = iw_cfs w" "iw_saveconfig w' = iw_saveconfig w"
proof -
  obtain e w1 where e: "next_dir_env w = (e, w1)" by fastforce
  then have "w' = w1" using assms by (auto simp: load_targets_def split: sum.splits)
  then show "iw_dir w' = iw_dir w" "iw_cfs w' = iw_cfs w" "iw_saveconfig w' = iw_saveconfig w"
    using e next_dir_env_frame [of w] by simp_all
qed

section \<open>Exports follow their volumes\<close>

abbreviation remapped :: "mappings \<Rightarrow> iscsi_target \<Rightarrow> iscsi_target" where
  "remapped m t \<equiv> fst (remap_target m t)"

lemma remapped_id [simp]: "it_id (remapped m t) = it_id t"
  by (simp add: remap_target_def split: prod.split)

lemma remap_target_safe:
  assumes "remap_target m t = (t', c, True, asked)"
  shows "\<And>l. l \<in> set (it_luns t') \<Longrightarrow> is_managed_lun l \<Longrightarrow> luns.served m l"
    and "\<And>x. x \<in> set asked \<Longrightarrow> \<exists>l \<in> set (it_luns t'). x = (lun_backstore_name l, lun_backstore_path l)"
    and "\<not> c \<Longrightarrow> t' = t"
proof -
  obtain ls where ls: "remap_luns m (it_luns t) = (ls, c, True)" "t' = t\<lparr>it_luns := ls\<rparr>" "asked = lun_patches m (it_luns t)"
    using assms by (auto simp: remap_target_def split: prod.splits)
  show "\<And>l. l \<in> set (it_luns t') \<Longrightarrow> is_managed_lun l \<Longrightarrow> luns.served m l"
    using luns.items_safe [OF ls(1)] ls(2) by simp
  show "\<And>x. x \<in> set asked \<Longrightarrow> \<exists>l \<in> set (it_luns t'). x = (lun_backstore_name l, lun_backstore_path l)"
    using lun_patches_agree [OF ls(1)] ls(2,3) by force
  show "\<not> c \<Longrightarrow> t' = t" using luns.items_changed [OF ls(1)] ls(2) by simp
qed

text \<open>What holds of a loop that ends with the verdict safe: every unit has its patch and no other
  patch came up, every managed unit serves its volume, every target is stored as remapped.\<close>

definition loop_result :: "mappings \<Rightarrow> iscsi_target list \<Rightarrow> (string \<times> string) list \<Rightarrow> (string \<times> string) list \<Rightarrow> bool" where
  "loop_result m ts base patches \<longleftrightarrow>
     (\<forall>t \<in> set ts. \<forall>l \<in> set (it_luns t). map_of patches (lun_backstore_name l) = Some (lun_backstore_path l)
        \<and> (is_managed_lun l \<longrightarrow> luns.served m l))
     \<and> (\<forall>k v. map_of base k = Some v \<longrightarrow> map_of patches k = Some v)
     \<and> (\<forall>x \<in> set patches. x \<in> set base \<or> (\<exists>t \<in> set ts. \<exists>l \<in> set (it_luns t). x = (lun_backstore_name l, lun_backstore_path l)))
     \<and> (distinct (map fst base) \<longrightarrow> distinct (map fst patches))"

definition loop_stored :: "mappings \<Rightarrow> iscsi_target list \<Rightarrow> iscsi_world \<Rightarrow> iscsi_world \<Rightarrow> bool" where
  "loop_stored m ts w w' \<longleftrightarrow> iw_saveconfig w' = iw_saveconfig w
     \<and> (\<forall>i. i \<notin> it_id ` set ts \<longrightarrow> load (iw_dir w') i = load (iw_dir w) i)
     \<and> (distinct (map it_id ts) \<longrightarrow> (\<forall>t \<in> set ts. load (iw_dir w) (it_id t) = Some t) \<longrightarrow>
         (\<forall>t \<in> set ts. load (iw_dir w') (it_id t) = Some (remapped m t)))"

lemma loop_result_step:
  assumes t1: "remap_target m t = (t1, c, True, asked)"
    and ps1: "insert_patches (asked @ map (own_patch True) (it_luns t1)) (base, s) = (ps1, True)"
    and rest: "loop_result m ts ps1 patches"
  shows "loop_result m (t1 # ts) base patches"
proof -
  note ins = insert_patches_facts [OF ps1]
  have own: "map_of ps1 (lun_backstore_name l) = Some (lun_backstore_path l)" if "l \<in> set (it_luns t1)" for l
    using ins(2) that by (auto simp: own_patch_def)
  have origin: "x \<in> set base \<or> (\<exists>l \<in> set (it_luns t1). x = (lun_backstore_name l, lun_backstore_path l))" if "x \<in> set ps1" for x
    using ins(3) [OF that] remap_target_safe(2) [OF t1, of x] by (auto simp: own_patch_def)
  have "\<forall>t \<in> set (t1 # ts). \<forall>l \<in> set (it_luns t). map_of patches (lun_backstore_name l) = Some (lun_backstore_path l)
        \<and> (is_managed_lun l \<longrightarrow> luns.served m l)"
    using rest own remap_target_safe(1) [OF t1] unfolding loop_result_def by simp
  moreover have "\<forall>k v. map_of base k = Some v \<longrightarrow> map_of patches k = Some v"
    using rest ins(1) unfolding loop_result_def by blast
  moreover have "\<forall>x \<in> set patches. x \<in> set base \<or> (\<exists>t \<in> set (t1 # ts). \<exists>l \<in> set (it_luns t). x = (lun_backstore_name l, lun_backstore_path l))"
  proof
    fix x assume "x \<in> set patches"
    with rest consider "x \<in> set ps1" | t l where "t \<in> set ts" "l \<in> set (it_luns t)" "x = (lun_backstore_name l, lun_backstore_path l)"
      unfolding loop_result_def by blast
    then show "x \<in> set base \<or> (\<exists>t \<in> set (t1 # ts). \<exists>l \<in> set (it_luns t). x = (lun_backstore_name l, lun_backstore_path l))"
      using origin [of x] by cases auto
  qed
  moreover have "distinct (map fst base) \<longrightarrow> distinct (map fst patches)"
    using rest ins(4) unfolding loop_result_def by blast
  ultimately show ?thesis unfolding loop_result_def by blast
qed

lemma loop_stored_step:
  assumes t1: "remap_target m t = (t1, c, True, asked)"
    and w1: "(if c then save_target t1 w else (Ok (), w)) = (Ok (), w1)"
    and rest: "loop_stored m ts w1 w'"
  shows "loop_stored m (t # ts) w w'"
proof -
  have t1': "t1 = remapped m t" and id: "it_id t1 = it_id t" using t1 remapped_id [of m t] by simp_all
  have sv: "iw_saveconfig w1 = iw_saveconfig w" and ld: "\<And>i. i \<noteq> it_id t \<Longrightarrow> load (iw_dir w1) i = load (iw_dir w) i"
    and st: "load (iw_dir w) (it_id t) = Some t \<Longrightarrow> load (iw_dir w1) (it_id t) = Some t1"
  proof -
    have "iw_saveconfig w1 = iw_saveconfig w \<and> (\<forall>i. i \<noteq> it_id t \<longrightarrow> load (iw_dir w1) i = load (iw_dir w) i)
      \<and> (load (iw_dir w) (it_id t) = Some t \<longrightarrow> load (iw_dir w1) (it_id t) = Some t1)"
    proof (cases c)
      case True
      then show ?thesis using w1 id by (cases rule: save_target_cases [where t = t1 and w = w]) auto
    next
      case False
      then show ?thesis using w1 remap_target_safe(3) [OF t1] by simp
    qed
    then show "iw_saveconfig w1 = iw_saveconfig w" "\<And>i. i \<noteq> it_id t \<Longrightarrow> load (iw_dir w1) i = load (iw_dir w) i"
      "load (iw_dir w) (it_id t) = Some t \<Longrightarrow> load (iw_dir w1) (it_id t) = Some t1" by blast+
  qed
  have "load (iw_dir w') (it_id u) = Some (remapped m u)"
    if d: "distinct (map it_id (t # ts))" and l: "\<forall>t \<in> set (t # ts). load (iw_dir w) (it_id t) = Some t" and u: "u \<in> set (t # ts)" for u
  proof (cases "u = t")
    case True
    then show ?thesis using d l st t1' rest unfolding loop_stored_def by auto
  next
    case False
    have "\<forall>t \<in> set ts. load (iw_dir w1) (it_id t) = Some t"
      using d l ld by (metis distinct.simps(2) image_eqI list.map(2) list.set_intros(2) list.set_map)
    then show ?thesis using False u d rest unfolding loop_stored_def by simp
  qed
  moreover have "load (iw_dir w') i = load (iw_dir w) i" if "i \<notin> it_id ` set (t # ts)" for i
    using that ld [of i] rest unfolding loop_stored_def by simp
  ultimately show ?thesis using sv rest unfolding loop_stored_def by simp
qed

lemma remap_loop_safe:
  assumes "remap_loop m ts ps w = ((ts', patches, True, any), w')"
  shows "snd ps \<and> ts' = map (remapped m) ts \<and> loop_result m ts' (fst ps) patches \<and> loop_stored m ts w w'"
  using assms
proof (induction ts arbitrary: ps w ts' any)
  case (Cons t ts)
  obtain t1 c safe asked where t1: "remap_target m t = (t1, c, safe, asked)" by (cases "remap_target m t")
  obtain saved w1 where w1: "(if c then save_target t1 w else (Ok (), w)) = (saved, w1)" by fastforce
  obtain ps1 s1 where ps1: "target_patches (is_ok saved) asked t1 (fst ps, snd ps \<and> is_ok saved \<and> safe) = (ps1, s1)" by fastforce
  obtain ts2 any2 where rest: "remap_loop m ts (ps1, s1) w1 = ((ts2, patches, True, any2), w')" and ts': "ts' = t1 # ts2"
    using Cons.prems t1 w1 ps1 by (auto simp: Let_def split: prod.splits)
  note ih = Cons.IH [OF rest, unfolded fst_conv snd_conv]
  have IH: "s1" "ts2 = map (remapped m) ts" "loop_result m ts2 ps1 patches" "loop_stored m ts w1 w'" using ih by blast+
  from insert_patches_facts(2) [OF ps1 [unfolded target_patches_insert] IH(1)]
  have all: "snd ps" "is_ok saved" "safe" by simp_all
  then have t1s: "remap_target m t = (t1, c, True, asked)" and saved: "saved = Ok ()" using t1 by (auto simp: is_ok_iff)
  from ps1 have ps1': "insert_patches (asked @ map (own_patch True) (it_luns t1)) (fst ps, True) = (ps1, True)"
    using all IH(1) by (simp add: target_patches_insert)
  show ?case
    using all(1) t1 ts' IH(2) loop_result_step [OF t1s ps1' IH(3)] loop_stored_step [OF t1s w1 [unfolded saved] IH(4)] by simp
qed (simp add: loop_result_def loop_stored_def)


lemma patch_saveconfig_ok:
  assumes "patch_saveconfig e B T w = (Ok (), w')" and "distinct (map fst B)"
  shows "\<exists>json. iw_saveconfig w' = Parses json \<and> devices_match B json" and "iw_dir w' = iw_dir w"
proof -
  from assms(1) obtain json json' changed where
    *: "iw_saveconfig w = Parses json" "patch_saveconfig_value B T json = Ok (json', changed)"
      "w' = (if changed then w\<lparr>iw_saveconfig := Parses json'\<rparr> else w)"
    by (auto simp: patch_saveconfig_def split: json_file.splits sum.splits if_splits option.splits)
  with patch_saveconfig_value_ok [OF *(2) assms(2)]
  show "\<exists>json. iw_saveconfig w' = Parses json \<and> devices_match B json" "iw_dir w' = iw_dir w" by (auto split: if_splits)
qed



text \<open>A target whose volume comes up at another device after a reboot.\<close>

definition vol7 :: block_volume_id where
  "vol7 = \<lparr>bv_filesystem_uuid = ''pool'', bv_subvolume_id = 7\<rparr>"

definition sample_lun :: lun where
  "sample_lun = \<lparr>lun_id = 0, lun_backstore_path = ''/dev/loop0'', lun_backstore_name = ''nasty_t_lun0'', lun_backstore_type = ''block'',
     lun_size_bytes = None, lun_backing_volume = Some vol7, lun_backing_volume_unresolved = False\<rparr>"

definition sample_target :: iscsi_target where
  "sample_target = \<lparr>it_id = ''id1'', it_iqn = ''iqn.2137-04.storage.nasty:t'', it_alias = None,
     it_portals = [\<lparr>po_ip = ''0.0.0.0'', po_port = 9, po_iser = False\<rparr>], it_luns = [sample_lun], it_acls = [], it_enabled = True\<rparr>"

definition sample_saveconfig :: json where
  "sample_saveconfig = JObj [(''storage_objects'', JArr [JObj [(''name'', JStr ''nasty_t_lun0''), (''dev'', JStr ''/dev/loop0'')]]),
     (''targets'', JArr [JObj [(''wwn'', JStr ''iqn.2137-04.storage.nasty:t'')]])]"

definition quiet_cfs :: cfs where
  "quiet_cfs = \<lparr>cf_nodes = [], cf_attrs = [], cf_kernel = (\<lambda>_. ''0''), cf_faults = []\<rparr>"

definition sample_iscsi :: iscsi_world where
  "sample_iscsi = \<lparr>iw_dir = Dir [(''id1.json'', Parses sample_target)], iw_dir_envs = [], iw_cfs = quiet_cfs,
     iw_saveconfig = Parses sample_saveconfig\<rparr>"

definition sample_iscsi_env :: iscsi_env where
  "sample_iscsi_env = \<lparr>ie_render = (\<lambda>_. sample_saveconfig), ie_creds = sample_creds, ie_new_id = ''id2'', ie_ip6_addr = None,
     ie_exists = (\<lambda>_. True), ie_is_file = (\<lambda>_. False), ie_missing_parent = (\<lambda>_. None), ie_serialize = None, ie_write_saveconfig = None\<rparr>"

definition moved :: mappings where
  "moved = \<lparr>bm_current = [(vol7, ''/dev/loop3'')], bm_preexisting = []\<rparr>"



section \<open>Calls on the kernel\<close>

lemma on_cfs_frame: "on_cfs f msg w = (r, w') \<Longrightarrow> iw_dir w' = iw_dir w \<and> iw_saveconfig w' = iw_saveconfig w"
  by (auto simp: on_cfs_def split: prod.splits sum.splits)

text \<open>Writing an attribute changes it or nothing.\<close>

lemma on_cfs_write_cases [case_names ok err]:
  obtains w' where "on_cfs (cf_write p v) msg w = (Ok (), w')" "iw_dir w' = iw_dir w"
      "cf_nodes (iw_cfs w') = cf_nodes (iw_cfs w)" "attr (iw_cfs w') = (attr (iw_cfs w))(p := v)"
  | x w' where "on_cfs (cf_write p v) msg w = (Err x, w')" "iw_dir w' = iw_dir w"
      "cf_nodes (iw_cfs w') = cf_nodes (iw_cfs w)" "attr (iw_cfs w') = attr (iw_cfs w)"
proof (cases rule: cf_write_cases [where path = p and v = v and w = "iw_cfs w"])
  case (ok c)
  then show ?thesis using that(1) [of "w\<lparr>iw_cfs := c\<rparr>"] by (simp add: on_cfs_def)
next
  case (err x c)
  then show ?thesis using that(2) [of "msg x" "w\<lparr>iw_cfs := c\<rparr>"] same_tree_attr [of "iw_cfs w" c]
    by (simp add: on_cfs_def same_tree_def)
qed

lemma write_cases [case_names ok err]:
  obtains w' where "configfs_write p v w = (Ok (), w')" "iw_dir w' = iw_dir w"
      "cf_nodes (iw_cfs w') = cf_nodes (iw_cfs w)" "attr (iw_cfs w') = (attr (iw_cfs w))(p := v)"
  | x w' where "configfs_write p v w = (Err x, w')" "iw_dir w' = iw_dir w"
      "cf_nodes (iw_cfs w') = cf_nodes (iw_cfs w)" "attr (iw_cfs w') = attr (iw_cfs w)"
  unfolding configfs_write_def by (rule on_cfs_write_cases)

lemma secret_cases [case_names ok err]:
  obtains w' where "configfs_write_secret p v w = (Ok (), w')" "iw_dir w' = iw_dir w"
      "cf_nodes (iw_cfs w') = cf_nodes (iw_cfs w)" "attr (iw_cfs w') = (attr (iw_cfs w))(p := v)"
  | x w' where "configfs_write_secret p v w = (Err x, w')" "iw_dir w' = iw_dir w"
      "cf_nodes (iw_cfs w') = cf_nodes (iw_cfs w)" "attr (iw_cfs w') = attr (iw_cfs w)"
  unfolding configfs_write_secret_def by (rule on_cfs_write_cases)

text \<open>Removing a directory takes away what is below it, or nothing.\<close>

lemma rmdir_cases [case_names ok err]:
  obtains w' where "configfs_rmdir p w = (Ok (), w')" "iw_dir w' = iw_dir w" "map_of (cf_nodes (iw_cfs w')) p = None"
      "\<And>q. \<not> below p q \<Longrightarrow> attr (iw_cfs w') q = attr (iw_cfs w) q"
  | x w' where "configfs_rmdir p w = (Err x, w')" "iw_dir w' = iw_dir w"
      "cf_nodes (iw_cfs w') = cf_nodes (iw_cfs w)" "attr (iw_cfs w') = attr (iw_cfs w)"
proof -
  let ?c = "iw_cfs w"
  show ?thesis
  proof (cases "map_of (cf_nodes ?c) p \<notin> {Some Folder, Some Group} \<or> in_use p ?c")
    case True
    then have "\<exists>x. remove_dir p ?c = (Err x, ?c)" by (auto simp: remove_dir_def)
    then obtain x where "remove_dir p ?c = (Err x, ?c)" by blast
    then show ?thesis using that(2) by (simp add: configfs_rmdir_def on_cfs_def)
  next
    case False
    then have rd: "remove_dir p ?c = attempt (drop_below p) ?c" by (simp add: remove_dir_def)
    show ?thesis
    proof (cases rule: attempt_cases [where f = "drop_below p" and w = ?c])
      case (ok c1)
      have "attr (drop_below p c1) q = attr ?c q" if "\<not> below p q" for q
      proof -
        have "map_of (filter (\<lambda>(k, _). \<not> below p k) m) q = map_of m q" for m :: "(string \<times> string) list"
          using that by (induction m) auto
        then show ?thesis using same_tree_attr [OF ok(2)] by (simp add: attr_def drop_below_def get_or_def fun_eq_iff)
      qed
      moreover have "map_of (cf_nodes (drop_below p c1)) p = None"
        by (auto simp: drop_below_def map_of_eq_None_iff)
      ultimately show ?thesis using ok rd that(1) [of "w\<lparr>iw_cfs := drop_below p c1\<rparr>"]
        by (simp add: configfs_rmdir_def on_cfs_def)
    next
      case (err x c1)
      then show ?thesis using rd that(2) [of "Iscsi_ConfigFs (''rmdir '' @ p @ '': '' @ x)" "w\<lparr>iw_cfs := c1\<rparr>"] same_tree_attr [OF err(2)]
        by (simp add: configfs_rmdir_def on_cfs_def same_tree_def)
    qed
  qed
qed

text \<open>Making a directory touches no attribute, and a failure does not make it.\<close>

lemma ancestors_shorter: "p \<in> set (ancestors done s) \<Longrightarrow> length p < length done + length s"
  by (induction "done" s rule: ancestors.induct) (auto split: if_splits)

lemma make_node_attr [simp]: "attr (make_node p n w) = attr w"
  by (simp add: make_node_def attr_def fun_eq_iff)

lemma make_node_nodes: "q \<noteq> p \<Longrightarrow> map_of (cf_nodes (make_node p n w)) q = map_of (cf_nodes w) q"
  by (auto simp: make_node_def map_add_def split: option.splits)

lemma make_groups_frame:
  assumes "make_groups ps w = (r, w')"
  shows "attr w' = attr w" and "q \<notin> set ps \<Longrightarrow> map_of (cf_nodes w') q = map_of (cf_nodes w) q"
proof -
  have "attr w' = attr w \<and> (q \<notin> set ps \<longrightarrow> map_of (cf_nodes w') q = map_of (cf_nodes w) q)"
    using assms
  proof (induction ps arbitrary: w)
    case (Cons p ps)
    show ?case
    proof (cases "cf_exists p w")
      case False
      show ?thesis
      proof (cases rule: attempt_cases [where f = "make_node p Group" and w = w])
        case (ok c)
        then show ?thesis
          using Cons.IH [of "make_node p Group c"] Cons.prems False same_tree_attr [OF ok(2)] make_node_nodes [of q p Group c]
          by (auto simp: same_tree_def)
      next
        case (err x c)
        then show ?thesis using Cons.prems False same_tree_attr [OF err(2)] by (simp add: same_tree_def)
      qed
    qed (use Cons in simp)
  qed simp
  then show "attr w' = attr w" "q \<notin> set ps \<Longrightarrow> map_of (cf_nodes w') q = map_of (cf_nodes w) q" by blast+
qed

lemma mkdir_cases [case_names ok err]:
  obtains w' where "configfs_mkdir p w = (Ok (), w')" "iw_dir w' = iw_dir w" "attr (iw_cfs w') = attr (iw_cfs w)"
      "cf_exists p (iw_cfs w')"
  | x w' where "configfs_mkdir p w = (Err x, w')" "iw_dir w' = iw_dir w" "attr (iw_cfs w') = attr (iw_cfs w)"
      "map_of (cf_nodes (iw_cfs w')) p = None"
proof (cases "cf_exists p (iw_cfs w)")
  case True
  then show ?thesis using that(1) by (simp add: configfs_mkdir_def on_cfs_def create_dir_all_def)
next
  case False
  then have none: "map_of (cf_nodes (iw_cfs w)) p = None" by (simp add: cf_exists_def)
  obtain r c where g: "make_groups (ancestors [] p) (iw_cfs w) = (r, c)" by fastforce
  note frame = make_groups_frame(1) [OF g]
  have none': "map_of (cf_nodes c) p = None"
    using make_groups_frame(2) [OF g, of p] none ancestors_shorter [of p "[]" p] by auto
  show ?thesis
  proof (cases r)
    case (Inl x)
    then show ?thesis using False g frame none' that(2) [of "Iscsi_ConfigFs (''mkdir '' @ p @ '': '' @ x)" "w\<lparr>iw_cfs := c\<rparr>"]
      by (simp add: configfs_mkdir_def on_cfs_def create_dir_all_def)
  next
    case (Inr u)
    show ?thesis
    proof (cases rule: attempt_cases [where f = "make_node p Folder" and w = c])
      case (ok c1)
      have "cf_exists p (make_node p Folder c1)" by (auto simp: cf_exists_def make_node_def map_add_def split: option.splits)
      then show ?thesis using False g Inr ok frame same_tree_attr [OF ok(2)] that(1) [of "w\<lparr>iw_cfs := make_node p Folder c1\<rparr>"]
        by (simp add: configfs_mkdir_def on_cfs_def create_dir_all_def)
    next
      case (err x c1)
      then show ?thesis using False g Inr frame none' same_tree_attr [OF err(2)]
          that(2) [of "Iscsi_ConfigFs (''mkdir '' @ p @ '': '' @ x)" "w\<lparr>iw_cfs := c1\<rparr>"]
        by (simp add: configfs_mkdir_def on_cfs_def create_dir_all_def same_tree_def)
    qed
  qed
qed


section \<open>Admitting an initiator\<close>

abbreviation enable_at :: "iscsi_world \<Rightarrow> string \<Rightarrow> string" where
  "enable_at w tpg \<equiv> attr (iw_cfs w) (tpg @ ''/enable'')"

abbreviation generate_at :: "iscsi_world \<Rightarrow> string \<Rightarrow> string" where
  "generate_at w tpg \<equiv> attr (iw_cfs w) (tpg @ ''/attrib/generate_node_acls'')"

abbreviation acl_dir :: "iscsi_world \<Rightarrow> string \<Rightarrow> string \<Rightarrow> node option" where
  "acl_dir w tpg i \<equiv> map_of (cf_nodes (iw_cfs w)) (tpg @ ''/acls/'' @ i)"

lemma not_below_acl:
  "\<not> below (tpg @ ''/acls/'' @ i) (tpg @ ''/enable'')" "\<not> below (tpg @ ''/acls/'' @ i) (tpg @ ''/attrib/generate_node_acls'')"
  by (auto simp: below_def starts_with_iff)

lemmas not_below_acl_simps [simp] = not_below_acl not_below_acl [simplified append_Cons append_Nil]

lemma rollback_cases [case_names ok err]:
  obtains w' where "rollback_new_acl (tpg @ ''/acls/'' @ i) tpg g en w = (Ok (), w')" "iw_dir w' = iw_dir w"
      "enable_at w' tpg = en" "generate_at w' tpg = g" "acl_dir w' tpg i = None"
  | x w' where "rollback_new_acl (tpg @ ''/acls/'' @ i) tpg g en w = (Err x, w')" "iw_dir w' = iw_dir w"
      "enable_at w' tpg = ''0'' \<or> enable_at w' tpg = enable_at w tpg"
proof (cases rule: write_cases [where p = "tpg @ ''/enable''" and v = "''0''" and w = w])
  case e0: (err x w1)
  then show ?thesis using that(2) by (simp add: rollback_new_acl_def and_then_def)
next
  case s0: (ok w1)
  show ?thesis
  proof (cases rule: rmdir_cases [where p = "tpg @ ''/acls/'' @ i" and w = w1])
    case e1: (err x w2)
    then show ?thesis using s0 that(2) by (simp add: rollback_new_acl_def and_then_def)
  next
    case s1: (ok w2)
    have e2: "enable_at w2 tpg = ''0''" using s0 s1(4) by simp
    show ?thesis
    proof (cases rule: write_cases [where p = "tpg @ ''/attrib/generate_node_acls''" and v = g and w = w2])
      case e3: (err x w3)
      then show ?thesis using s0 s1 e2 that(2) by (simp add: rollback_new_acl_def and_then_def)
    next
      case s3: (ok w3)
      show ?thesis
      proof (cases rule: write_cases [where p = "tpg @ ''/enable''" and v = en and w = w3])
        case e4: (err x w4)
        then show ?thesis using s0 s1 s3 e2 that(2) by (simp add: rollback_new_acl_def and_then_def)
      next
        case s4: (ok w4)
        then show ?thesis using s0 s1 s3 e2 that(1) by (simp add: rollback_new_acl_def and_then_def)
      qed
    qed
  qed
qed

text \<open>What an initiator's setup writes, and that it leaves the switch of the target alone.\<close>

definition acl_configured :: "iscsi_world \<Rightarrow> string \<Rightarrow> string \<Rightarrow> string option \<Rightarrow> string option \<Rightarrow> bool" where
  "acl_configured w tpg i userid password \<longleftrightarrow> generate_at w tpg = ''0''
     \<and> (\<forall>u p. userid = Some u \<longrightarrow> password = Some p \<longrightarrow>
          attr (iw_cfs w) (tpg @ ''/acls/'' @ i @ ''/attrib/authentication'') = ''1''
          \<and> attr (iw_cfs w) (tpg @ ''/acls/'' @ i @ ''/auth/userid'') = u
          \<and> attr (iw_cfs w) (tpg @ ''/acls/'' @ i @ ''/auth/password'') = p)"

lemma chap_step_cases [case_names ok err]:
  assumes "chap_enabled userid password = Ok chap"
  obtains w' where "write_chap chap userid password (tpg @ ''/acls/'' @ i) w = (Ok (), w')"
      "iw_dir w' = iw_dir w" "enable_at w' tpg = enable_at w tpg"
      "\<And>u p. userid = Some u \<Longrightarrow> password = Some p \<Longrightarrow>
          attr (iw_cfs w') (tpg @ ''/acls/'' @ i @ ''/attrib/authentication'') = ''1''
          \<and> attr (iw_cfs w') (tpg @ ''/acls/'' @ i @ ''/auth/userid'') = u
          \<and> attr (iw_cfs w') (tpg @ ''/acls/'' @ i @ ''/auth/password'') = p"
  | x w' where "write_chap chap userid password (tpg @ ''/acls/'' @ i) w = (Err x, w')"
      "iw_dir w' = iw_dir w" "enable_at w' tpg = enable_at w tpg"
proof (cases "userid = None")
  case True
  with assms have "chap = False" "password = None" by (auto simp: chap_enabled_def Let_def split: option.splits)
  then show ?thesis using True that(1) by (simp add: write_chap_def)
next
  case False
  with assms obtain u p where up: "userid = Some u" "password = Some p" "chap"
    by (auto simp: chap_enabled_def Let_def split: option.splits if_splits)
  show ?thesis
  proof (cases rule: write_cases [where p = "tpg @ ''/acls/'' @ i @ ''/attrib/authentication''" and v = "''1''" and w = w])
    case (err x w1)
    then show ?thesis using up that(2) by (simp add: write_chap_def and_then_def)
  next
    case s1: (ok w1)
    show ?thesis
    proof (cases rule: write_cases [where p = "tpg @ ''/acls/'' @ i @ ''/auth/userid''" and v = u and w = w1])
      case (err x w2)
      then show ?thesis using s1 up that(2) by (simp add: write_chap_def and_then_def)
    next
      case s2: (ok w2)
      show ?thesis
      proof (cases rule: secret_cases [where p = "tpg @ ''/acls/'' @ i @ ''/auth/password''" and v = p and w = w2])
        case (err x w3)
        then show ?thesis using s1 s2 up that(2) by (simp add: write_chap_def and_then_def)
      next
        case s3: (ok w3)
        then show ?thesis using s1 s2 up that(1) by (simp add: write_chap_def and_then_def)
      qed
    qed
  qed
qed

lemma configure_acl_cases [case_names ok err]:
  assumes "chap_enabled userid password = Ok chap"
  obtains w' where "configure_acl chap userid password (tpg @ ''/acls/'' @ i) tpg w = (Ok (), w')"
      "iw_dir w' = iw_dir w" "enable_at w' tpg = enable_at w tpg" "acl_configured w' tpg i userid password"
  | x w' where "configure_acl chap userid password (tpg @ ''/acls/'' @ i) tpg w = (Err x, w')"
      "iw_dir w' = iw_dir w" "enable_at w' tpg = enable_at w tpg"
  using assms
proof (cases rule: chap_step_cases [where userid = userid and password = password and chap = chap and tpg = tpg and i = i and w = w, consumes 1])
  case (err x w1)
  then show ?thesis using that(2) by (simp add: configure_acl_def and_then_def)
next
  case s1: (ok w1)
  show ?thesis
  proof (cases rule: write_cases [where p = "tpg @ ''/attrib/generate_node_acls''" and v = "''0''" and w = w1])
    case (err x w2)
    then show ?thesis using s1 that(2) by (simp add: configure_acl_def and_then_def)
  next
    case s2: (ok w2)
    show ?thesis
    proof (cases rule: write_cases [where p = "tpg @ ''/attrib/authentication''" and v = "''0''" and w = w2])
      case (err x w3)
      then show ?thesis using s1 s2 that(2) by (simp add: configure_acl_def and_then_def)
    next
      case s3: (ok w3)
      then have "acl_configured w3 tpg i userid password" using s1 s2 by (simp add: acl_configured_def)
      then show ?thesis using s1 s2 s3 that(1) by (simp add: configure_acl_def and_then_def)
    qed
  qed
qed


lemma save_lio_cases [case_names ok err]:
  obtains w' where "save_lio_config_checked e w = (Ok (), w')" "iw_dir w' = iw_dir w"
      "cf_nodes (iw_cfs w') = cf_nodes (iw_cfs w)" "attr (iw_cfs w') = attr (iw_cfs w)"
  | x w' where "save_lio_config_checked e w = (Err x, w')" "iw_dir w' = iw_dir w"
      "cf_nodes (iw_cfs w') = cf_nodes (iw_cfs w)" "attr (iw_cfs w') = attr (iw_cfs w)"
proof (cases "draw (iw_cfs w)")
  case (Pair r c)
  then have "cf_nodes c = cf_nodes (iw_cfs w)" "attr c = attr (iw_cfs w)"
    using draw_frame(1) [of "iw_cfs w"] draw_attr [of "iw_cfs w"] by simp_all
  with Pair that show ?thesis by (cases r) (simp_all add: save_lio_config_checked_def)
qed

text \<open>The three ways a failed admission may end: the target is off, everything is as it was, or the
  initiator is set up completely and stored.\<close>

definition as_before :: "iscsi_world \<Rightarrow> iscsi_world \<Rightarrow> string \<Rightarrow> string \<Rightarrow> bool" where
  "as_before w w' tpg i \<longleftrightarrow> load (iw_dir w') = load (iw_dir w) \<and> acl_dir w' tpg i \<in> {None, acl_dir w tpg i}
     \<and> enable_at w' tpg \<in> {enable_at w tpg, trim (enable_at w tpg)}
     \<and> generate_at w' tpg \<in> {generate_at w tpg, trim (generate_at w tpg)}"

definition admitted :: "iscsi_world \<Rightarrow> string \<Rightarrow> string \<Rightarrow> string \<Rightarrow> string option \<Rightarrow> string option \<Rightarrow> bool" where
  "admitted w target_id tpg i userid password \<longleftrightarrow> acl_configured w tpg i userid password
     \<and> (\<exists>t'. load (iw_dir w) target_id = Some t' \<and> i \<in> acl_initiator_iqn ` set (it_acls t'))"

lemma rollback_ends:
  assumes "undo_then error what (rollback_new_acl (tpg @ ''/acls/'' @ i) tpg (trim (generate_at w tpg)) (trim (enable_at w tpg))) (fail error') w1 = (r, w')"
    and "load (iw_dir w1) = load (iw_dir w)" and "enable_at w1 tpg = ''0''"
  shows "enable_at w' tpg = ''0'' \<or> as_before w w' tpg i"
proof (cases rule: rollback_cases [where tpg = tpg and i = i and g = "trim (generate_at w tpg)" and en = "trim (enable_at w tpg)" and w = w1])
  case (ok w2)
  then show ?thesis using assms by (simp add: undo_then_def fail_def as_before_def)
next
  case (err x w2)
  then show ?thesis using assms by (auto simp: undo_then_def)
qed

lemma persisted_rollback_ends:
  assumes "undo_then error what (rollback_new_acl (tpg @ ''/acls/'' @ i) tpg (trim (generate_at w tpg)) (trim (enable_at w tpg)))
      (undo_then error what' (save_lio_config_checked e) (fail error)) w1 = (r, w')"
    and "load (iw_dir w1) = load (iw_dir w)" and "enable_at w1 tpg = ''0''"
  shows "enable_at w' tpg = ''0'' \<or> as_before w w' tpg i"
proof (cases rule: rollback_cases [where tpg = tpg and i = i and g = "trim (generate_at w tpg)" and en = "trim (enable_at w tpg)" and w = w1])
  case (ok w2)
  then have w2: "as_before w w2 tpg i" using assms(2) by (simp add: as_before_def)
  show ?thesis
    by (cases rule: save_lio_cases [where e = e and w = w2]) (use assms ok w2 in \<open>auto simp: undo_then_def fail_def as_before_def\<close>)
next
  case (err x w2)
  then show ?thesis using assms by (auto simp: undo_then_def)
qed

lemma restore_ends:
  assumes "undo_then error what (save_target t) next w1 = (r, w')"
    and "load (iw_dir w1) = (load (iw_dir w))(it_id t \<mapsto> t')" and "load (iw_dir w) (it_id t) = Some t" and "enable_at w1 tpg = ''0''"
    and "\<And>w2 r. next w2 = (r, w') \<Longrightarrow> load (iw_dir w2) = load (iw_dir w) \<Longrightarrow> enable_at w2 tpg = ''0'' \<Longrightarrow> enable_at w' tpg = ''0'' \<or> as_before w w' tpg i"
  shows "enable_at w' tpg = ''0'' \<or> as_before w w' tpg i"
proof (cases rule: save_target_cases [where t = t and w = w1])
  case (ok w2)
  then have "load (iw_dir w2) = load (iw_dir w)" using assms(2,3) by (auto simp: fun_eq_iff)
  then show ?thesis using ok assms(1,4) assms(5) [of w2 r] by (simp add: undo_then_def)
next
  case (err x w2)
  then show ?thesis using assms by (auto simp: undo_then_def)
qed

lemma commit_acl_ends:
  assumes c: "commit_acl e t t' (tpg @ ''/acls/'' @ i) tpg (trim (generate_at w tpg)) (trim (enable_at w tpg)) w2 = (Err x, w')"
    and ids: "it_id t' = it_id t" and t: "load (iw_dir w) (it_id t) = Some t" and new: "i \<in> acl_initiator_iqn ` set (it_acls t')"
    and w2: "iw_dir w2 = iw_dir w" "enable_at w2 tpg = ''0''" "acl_configured w2 tpg i userid password"
  shows "enable_at w' tpg = ''0'' \<or> as_before w w' tpg i \<or> admitted w' (it_id t) tpg i userid password"
proof (cases rule: save_target_cases [where t = t' and w = w2])
  case (err y w3)
  with c have "undo_then (Iscsi_Io y) ''ACL rollback failed with the TPG disabled''
      (rollback_new_acl (tpg @ ''/acls/'' @ i) tpg (trim (generate_at w tpg)) (trim (enable_at w tpg))) (fail (Iscsi_Io y)) w3 = (Err x :: iscsi_error + iscsi_target, w')"
    by (simp add: commit_acl_def Let_def)
  from rollback_ends [OF this] show ?thesis using err w2 by auto
next
  case s3: (ok w3)
  then have l3: "load (iw_dir w3) = (load (iw_dir w))(it_id t \<mapsto> t')" using w2 ids by simp
  show ?thesis
  proof (cases rule: write_cases [where p = "tpg @ ''/enable''" and v = "trim (enable_at w tpg)" and w = w3])
    case (err y w4)
    with c s3 have u: "undo_then y ''failed to restore target state with the TPG disabled'' (save_target t)
        (undo_then y ''ACL rollback failed with the TPG disabled''
          (rollback_new_acl (tpg @ ''/acls/'' @ i) tpg (trim (generate_at w tpg)) (trim (enable_at w tpg))) (fail y)) w4 = (Err x :: iscsi_error + iscsi_target, w')"
      by (simp add: commit_acl_def Let_def)
    have w4: "load (iw_dir w4) = (load (iw_dir w))(it_id t \<mapsto> t')" "enable_at w4 tpg = ''0''" using err s3 l3 w2 by simp_all
    have "enable_at w' tpg = ''0'' \<or> as_before w w' tpg i"
      by (rule restore_ends [OF u w4(1) t w4(2)]) (erule (2) rollback_ends)
    then show ?thesis by blast
  next
    case s4: (ok w4)
    then have conf: "acl_configured w4 tpg i userid password" using w2(3) s3 by (simp add: acl_configured_def)
    show ?thesis
    proof (cases rule: save_lio_cases [where e = e and w = w4])
      case (ok w5)
      then show ?thesis using c s3 s4 by (simp add: commit_acl_def Let_def)
    next
      case e5: (err y w5)
      show ?thesis
      proof (cases rule: write_cases [where p = "tpg @ ''/enable''" and v = "''0''" and w = w5])
        case (err z w6)
        then have "w' = w6" using c s3 s4 e5 by (simp add: commit_acl_def Let_def undo_then_def)
        then show ?thesis using conf err e5 s4 l3 new by (auto simp: admitted_def acl_configured_def)
      next
        case s6: (ok w6)
        with c s3 s4 e5 have u: "undo_then y ''failed to restore target state with the TPG disabled'' (save_target t)
            (undo_then y ''ACL rollback failed with the TPG disabled''
              (rollback_new_acl (tpg @ ''/acls/'' @ i) tpg (trim (generate_at w tpg)) (trim (enable_at w tpg)))
              (undo_then y ''failed to persist ACL rollback'' (save_lio_config_checked e) (fail y))) w6 = (Err x :: iscsi_error + iscsi_target, w')"
          by (simp add: commit_acl_def Let_def undo_then_def)
        have w6: "load (iw_dir w6) = (load (iw_dir w))(it_id t \<mapsto> t')" "enable_at w6 tpg = ''0''" using s6 e5 s4 l3 by simp_all
        have "enable_at w' tpg = ''0'' \<or> as_before w w' tpg i"
          by (rule restore_ends [OF u w6(1) t w6(2)]) (erule (2) persisted_rollback_ends)
        then show ?thesis by blast
      qed
    qed
  qed
qed


lemma read_attribute_cases [case_names ok err]:
  obtains w' where "read_attribute p w = (Ok (attr (iw_cfs w) p), w')" "iw_dir w' = iw_dir w"
      "cf_nodes (iw_cfs w') = cf_nodes (iw_cfs w)" "attr (iw_cfs w') = attr (iw_cfs w)"
  | x w' where "read_attribute p w = (Err x, w')" "iw_dir w' = iw_dir w"
      "cf_nodes (iw_cfs w') = cf_nodes (iw_cfs w)" "attr (iw_cfs w') = attr (iw_cfs w)"
proof (cases rule: cf_read_cases [where path = p and w = "iw_cfs w"])
  case (ok c)
  then show ?thesis using that(1) [of "w\<lparr>iw_cfs := c\<rparr>"] same_tree_attr [OF ok(2)]
    by (simp add: read_attribute_def on_cfs_def same_tree_def)
next
  case (err x c)
  then show ?thesis using that(2) [of "Iscsi_Io x" "w\<lparr>iw_cfs := c\<rparr>"] same_tree_attr [OF err(2)]
    by (simp add: read_attribute_def on_cfs_def same_tree_def)
qed

text \<open>The part of \<open>add_acl\<close> after the initiator's directory is made.\<close>

lemma setup_acl_ends:
  assumes s: "setup_acl e t chap i userid password (trim (generate_at w (tpg_of (it_iqn t)))) (trim (enable_at w (tpg_of (it_iqn t)))) w4 = (Err x, w')"
    and chap: "chap_enabled userid password = Ok chap" and t: "load (iw_dir w) (it_id t) = Some t"
    and w4: "iw_dir w4 = iw_dir w" "enable_at w4 (tpg_of (it_iqn t)) = ''0''"
  shows "enable_at w' (tpg_of (it_iqn t)) = ''0'' \<or> as_before w w' (tpg_of (it_iqn t)) i
    \<or> admitted w' (it_id t) (tpg_of (it_iqn t)) i userid password"
  using chap
proof (cases rule: configure_acl_cases [where userid = userid and password = password and chap = chap
      and tpg = "tpg_of (it_iqn t)" and i = i and w = w4, consumes 1])
  case (err y w5)
  let ?tpg = "tpg_of (it_iqn t)"
  from err have "undo_then y ''ACL rollback failed with the TPG disabled''
      (rollback_new_acl (?tpg @ ''/acls/'' @ i) ?tpg (trim (generate_at w ?tpg)) (trim (enable_at w ?tpg))) (fail y) w5
      = (Err x :: iscsi_error + iscsi_target, w')"
    using s by (simp add: setup_acl_def Let_def)
  from rollback_ends [OF this] show ?thesis using err w4 by auto
next
  case (ok w5)
  let ?tpg = "tpg_of (it_iqn t)"
  obtain plain sealed where sealed: "seal_chap_password (ie_creds e) (it_id t) i password = (plain, sealed)" by fastforce
  let ?t = "t\<lparr>it_acls := it_acls t @ [\<lparr>acl_initiator_iqn = i, acl_userid = userid, acl_password = plain, acl_password_encrypted = sealed\<rparr>]\<rparr>"
  have c: "commit_acl e t ?t (?tpg @ ''/acls/'' @ i) ?tpg (trim (generate_at w ?tpg)) (trim (enable_at w ?tpg)) w5 = (Err x, w')"
    using s ok sealed by (simp add: setup_acl_def Let_def)
  show ?thesis using commit_acl_ends [OF c, of userid password] t w4 ok by simp
qed


definition faulty_iscsi :: iscsi_world where
  "faulty_iscsi = sample_iscsi\<lparr>iw_cfs := quiet_cfs\<lparr>cf_nodes := [(tpg_of (it_iqn sample_target) @ ''/acls'', Group)],
     cf_faults := [None, None, None, None, None, None, Some ''EIO'']\<rparr>\<rparr>"


section \<open>What goes wrong\<close>

text \<open>Names of backstores are made from what follows the last colon of a target's name, so two
  targets can ask for the same one.\<close>

lemma backstore_names_collide:
  "lun_backstore_name_for (sample_target\<lparr>it_iqn := DEFAULT_IQN_PREFIX @ '':a:vm''\<rparr>) 0 =
     lun_backstore_name_for (sample_target\<lparr>it_iqn := DEFAULT_IQN_PREFIX @ '':b:vm''\<rparr>) 0
   \<and> is_ok (validate_target_name ''a:vm'') \<and> is_ok (validate_target_name ''b:vm'')"
  by code_simp

text \<open>Removing an initiator that was never there from a target without any opens the target to
  every initiator, even if it was created with an empty list of initiators.\<close>

lemma remove_acl_opens_target:
  assumes "load (iw_dir w) target_id = Some t" and "it_acls t = []" and "remove_acl e target_id i w = (Ok t', w')"
  shows "generate_at w' (tpg_of (it_iqn t)) = ''1''"
proof -
  let ?tpg = "tpg_of (it_iqn t)"
  obtain w1 where w1: "ignore (configfs_rmdir (?tpg @ ''/acls/'' @ i)) w = w1" by blast
  show ?thesis
  proof (cases rule: write_cases [where p = "?tpg @ ''/attrib/generate_node_acls''" and v = "''1''" and w = w1])
    case s2: (ok w2)
    show ?thesis
    proof (cases rule: save_target_cases [where t = "t\<lparr>it_acls := []\<rparr>" and w = w2])
      case s3: (ok w3)
      have "w' = save_lio_config e w3"
        using assms w1 s2 s3 by (simp add: remove_acl_def and_then_def load_target_def Let_def)
      then show ?thesis
        by (cases rule: save_lio_cases [where e = e and w = w3]) (use s2 s3 in \<open>simp_all add: save_lio_config_def ignore_def\<close>)
    qed (use assms w1 s2 in \<open>simp add: remove_acl_def and_then_def load_target_def Let_def\<close>)
  qed (use assms w1 in \<open>simp add: remove_acl_def and_then_def load_target_def Let_def\<close>)
qed

text \<open>Replacing the portals when the last step, storing the target, fails: the kernel has the new
  portals, the store the old ones, and every further attempt fails on the portal that is gone.\<close>

definition full_disk :: dir_env where
  "full_disk = calm_dir\<lparr>de_write := Some ''No space left on device''\<rparr>"

definition bound_iscsi :: iscsi_world where
  "bound_iscsi = sample_iscsi\<lparr>iw_dir_envs := [full_disk], iw_cfs := quiet_cfs\<lparr>cf_nodes := [(np_path_for (tpg_of (it_iqn sample_target)) ''0.0.0.0'' 9, Folder)]\<rparr>\<rparr>"

definition other_portal :: portal where
  "other_portal = \<lparr>po_ip = ''10.0.0.1'', po_port = 9, po_iser = False\<rparr>"

lemma unsaved_portals_stick:
  "let w1 = snd (set_portals sample_iscsi_env ''id1'' [other_portal] bound_iscsi);
       (r, w2) = set_portals sample_iscsi_env ''id1'' [other_portal] w1 in
   map_option it_portals (load (iw_dir w1) ''id1'') = Some (it_portals sample_target)
   \<and> map_of (cf_nodes (iw_cfs w1)) (np_path_for (tpg_of (it_iqn sample_target)) ''0.0.0.0'' 9) = None \<and> \<not> is_ok r"
  by code_simp

end
