(* ===== verification/Iscsi_Portals.thy ===== *)
theory Iscsi_Portals
  imports Iscsi_Behaviour
begin

text \<open>
  The portals of a target as an abstract set, and the service as its implementation over the
  store and the kernel: every operation on portals does to both what the specification does to the
  set. The kernel here refuses nothing on its own account; what happens when it does is the matter
  of the other theories.
\<close>

section \<open>Specification\<close>

datatype portal_op = Add_Portal string "16 word" bool | Remove_Portal string "16 word" | Set_Portals "portal list"

definition listens :: "portal set \<Rightarrow> string \<Rightarrow> 16 word \<Rightarrow> bool" where
  "listens P ip port \<longleftrightarrow> (\<exists>p \<in> P. po_ip p = ip \<and> po_port p = port)"

text \<open>\<open>None\<close> is a refusal, which changes nothing.\<close>

fun spec_portals :: "portal_op \<Rightarrow> portal set \<Rightarrow> portal set option" where
  "spec_portals (Add_Portal req_ip port iser) P =
     (case validate_portal_ip req_ip of
        Err _ \<Rightarrow> None
      | Ok ip \<Rightarrow> Some (if listens P ip port then P else insert \<lparr>po_ip = ip, po_port = port, po_iser = iser\<rparr> P))"
| "spec_portals (Remove_Portal ip port) P =
     (if \<not> listens P ip port \<or> card P = 1 then None else Some {p \<in> P. \<not> (po_ip p = ip \<and> po_port p = port)})"
| "spec_portals (Set_Portals desired) P =
     (if desired = [] then None
      else case normalize_portals [] desired of Err _ \<Rightarrow> None | Ok ps \<Rightarrow> Some (set ps))"

fun run_portal_op :: "iscsi_env \<Rightarrow> string \<Rightarrow> portal_op \<Rightarrow> iscsi_target iscsi_op" where
  "run_portal_op e i (Add_Portal ip port iser) = add_portal e i ip port iser"
| "run_portal_op e i (Remove_Portal ip port) = remove_portal e i ip port"
| "run_portal_op e i (Set_Portals desired) = set_portals e i desired"

section \<open>Paths of portals\<close>

lemma np_path_split: "np_path_for tpg ip port = tpg @ ''/np'' @ ''/'' @
    (if CHR '':'' \<in> set ip then ''['' @ ip @ '']:'' @ show_nat (unat port) else ip @ '':'' @ show_nat (unat port))"
  by (simp add: np_path_for_def)

lemma colon_not_digit: "CHR '':'' \<notin> set (show_nat n)" "CHR ''/'' \<notin> set (show_nat n)"
  using show_nat_digits [of n] by (auto simp: is_ascii_digit_def)

lemma last_colon:
  assumes "a @ CHR '':'' # show_nat m = b @ CHR '':'' # show_nat n"
  shows "a = b \<and> m = n"
proof -
  have "rev (show_nat m) @ CHR '':'' # rev a = rev (show_nat n) @ CHR '':'' # rev b"
    using arg_cong [OF assms, of rev] by simp
  moreover have "CHR '':'' \<notin> set (rev (show_nat m))" "CHR '':'' \<notin> set (rev (show_nat n))" using colon_not_digit by simp_all
  ultimately have "rev (show_nat m) = rev (show_nat n)" "rev a = rev b"
    by (metis option.inject prod.inject split_once_append)+
  then show ?thesis by simp
qed

lemma np_path_inject:
  "np_path_for tpg ip port = np_path_for tpg ip' port' \<longleftrightarrow> ip = ip' \<and> port = port'"
proof
  assume eq: "np_path_for tpg ip port = np_path_for tpg ip' port'"
  let ?w = "\<lambda>ip. if CHR '':'' \<in> set ip then ''['' @ ip @ '']'' else ip"
  from eq have "?w ip @ CHR '':'' # show_nat (unat port) = ?w ip' @ CHR '':'' # show_nat (unat port')"
    by (auto simp: np_path_for_def split: if_splits)
  then have w: "?w ip = ?w ip'" and "port = port'" using last_colon [of "?w ip" "unat port" "?w ip'" "unat port'"] by (simp_all add: word_unat_eq_iff)
  moreover have "ip = ip'"
  proof (cases "CHR '':'' \<in> set ip \<longleftrightarrow> CHR '':'' \<in> set ip'")
    case False
    then show ?thesis using w by (auto split: if_splits)
  qed (use w in \<open>auto split: if_splits\<close>)
  ultimately show "ip = ip' \<and> port = port'" by simp
qed simp

text \<open>A path that lies in the directory of the portals and no deeper.\<close>

definition flat :: "string \<Rightarrow> string \<Rightarrow> bool" where
  "flat tpg p \<longleftrightarrow> (\<exists>name. p = tpg @ ''/np/'' @ name \<and> CHR ''/'' \<notin> set name)"

lemma np_path_flat: "CHR ''/'' \<notin> set ip \<Longrightarrow> flat tpg (np_path_for tpg ip port)"
  using colon_not_digit(2) [of "unat port"] by (auto simp: flat_def np_path_for_def)

lemma flat_not_below: "flat tpg p \<Longrightarrow> flat tpg q \<Longrightarrow> \<not> below p q"
  by (auto simp: flat_def below_def starts_with_iff)

lemma ancestors_append:
  "CHR ''/'' \<notin> set name \<Longrightarrow> p \<in> set (ancestors d (s @ CHR ''/'' # name)) \<Longrightarrow> length p \<le> length d + length s"
proof (induction d s rule: ancestors.induct)
  case (1 d)
  have "ancestors x name = []" for x using 1(1) by (induction x name rule: ancestors.induct) auto
  then show ?case using 1(2) by (auto split: if_splits)
next
  case (2 d c cs)
  then show ?case by (fastforce split: if_splits)
qed

lemma ancestors_not_flat: "flat tpg p \<Longrightarrow> q \<in> set (ancestors [] p) \<Longrightarrow> \<not> flat tpg q"
proof -
  assume "flat tpg p" and q: "q \<in> set (ancestors [] p)"
  then obtain name where p: "p = (tpg @ ''/np'') @ CHR ''/'' # name" "CHR ''/'' \<notin> set name" by (auto simp: flat_def)
  have "length q \<le> length tpg + 3" using ancestors_append [OF p(2), of q "[]" "tpg @ ''/np''"] q p(1) by simp
  then show ?thesis by (auto simp: flat_def)
qed


section \<open>A kernel that refuses nothing\<close>

definition kernel_has :: "string \<Rightarrow> portal set \<Rightarrow> cfs \<Rightarrow> bool" where
  "kernel_has tpg P c \<longleftrightarrow> cf_faults c = []
     \<and> (\<forall>ip port. CHR ''/'' \<notin> set ip \<longrightarrow>
          map_of (cf_nodes c) (np_path_for tpg ip port) = (if listens P ip port then Some Folder else None))
     \<and> (\<forall>q \<in> fst ` set (cf_attrs c). \<not> flat tpg q)
     \<and> (\<forall>q \<in> fst ` set (cf_nodes c). \<forall>p. flat tpg p \<longrightarrow> \<not> below p q)"

lemma attempt_calm: "cf_faults c = [] \<Longrightarrow> attempt f c = (Ok (), f c)"
  by (simp add: attempt_def draw_def)

lemma make_groups_calm:
  assumes "cf_faults c = []"
  shows "\<exists>qs. set qs \<subseteq> set ps \<and> make_groups ps c = (Ok (), c\<lparr>cf_nodes := cf_nodes c @ map (\<lambda>q. (q, Group)) qs\<rparr>)"
  using assms
proof (induction ps arbitrary: c)
  case (Cons p ps)
  show ?case
  proof (cases "cf_exists p c")
    case True
    then show ?thesis using Cons.IH [OF Cons.prems] by auto
  next
    case False
    obtain qs where "set qs \<subseteq> set ps"
      "make_groups ps (make_node p Group c) = (Ok (), (make_node p Group c)\<lparr>cf_nodes := cf_nodes (make_node p Group c) @ map (\<lambda>q. (q, Group)) qs\<rparr>)"
      using Cons.IH [of "make_node p Group c"] Cons.prems by (auto simp: make_node_def)
    then show ?thesis using False Cons.prems
      by (intro exI [of _ "p # qs"]) (auto simp: attempt_calm make_node_def)
  qed
qed (auto intro: exI [of _ "[]"])

lemma not_flat_nodes: "\<forall>q \<in> set qs. \<not> flat tpg q \<Longrightarrow> flat tpg p \<Longrightarrow>
    map_of (ns @ map (\<lambda>q. (q, Group)) qs) p = map_of ns p"
  by (induction ns) (auto simp: map_of_eq_None_iff)

lemma listens_insert: "listens (insert p P) ip port \<longleftrightarrow> (po_ip p = ip \<and> po_port p = port) \<or> listens P ip port"
  by (auto simp: listens_def)

lemma mkdir_np:
  assumes k: "kernel_has tpg P c" and slash: "CHR ''/'' \<notin> set (po_ip p)"
  shows "\<exists>c'. create_dir_all (np_path_for tpg (po_ip p) (po_port p)) c = (Ok (), c') \<and> kernel_has tpg (insert p P) c'"
proof -
  let ?p = "np_path_for tpg (po_ip p) (po_port p)"
  have flat: "flat tpg ?p" by (rule np_path_flat [OF slash])
  have ex: "cf_exists ?p c \<longleftrightarrow> listens P (po_ip p) (po_port p)"
    using k slash flat by (auto simp: cf_exists_def kernel_has_def map_of_eq_None_iff)
  show ?thesis
  proof (cases "listens P (po_ip p) (po_port p)")
    case True
    then have "listens (insert p P) ip port = listens P ip port" for ip port by (auto simp: listens_insert)
    then have "kernel_has tpg (insert p P) c" using k by (simp add: kernel_has_def)
    then show ?thesis using True ex by (simp add: create_dir_all_def)
  next
    case False
    obtain qs where qs: "set qs \<subseteq> set (ancestors [] ?p)"
      "make_groups (ancestors [] ?p) c = (Ok (), c\<lparr>cf_nodes := cf_nodes c @ map (\<lambda>q. (q, Group)) qs\<rparr>)"
      using make_groups_calm [of c "ancestors [] ?p"] k by (auto simp: kernel_has_def)
    have nf: "\<forall>q \<in> set qs. \<not> flat tpg q" using qs(1) ancestors_not_flat [OF flat] by blast
    have short: "\<not> below f q" if "q \<in> set qs" "flat tpg f" for f q
    proof -
      obtain name where name: "?p = (tpg @ ''/np'') @ CHR ''/'' # name" "CHR ''/'' \<notin> set name" using flat by (auto simp: flat_def)
      then have "length q \<le> length tpg + 3" using ancestors_append [OF name(2), of q "[]" "tpg @ ''/np''"] that(1) qs(1) name(1) by auto
      then show ?thesis using that(2) by (auto simp: flat_def below_def starts_with_iff)
    qed
    let ?c = "c\<lparr>cf_nodes := cf_nodes c @ map (\<lambda>q. (q, Group)) qs @ [(?p, Folder)]\<rparr>"
    have run: "create_dir_all ?p c = (Ok (), ?c)"
      using False ex qs(2) k by (simp add: create_dir_all_def attempt_calm kernel_has_def make_node_def)
    have nodes: "map_of (cf_nodes ?c) (np_path_for tpg ip port) = (if listens (insert p P) ip port then Some Folder else None)"
      if ip: "CHR ''/'' \<notin> set ip" for ip port
    proof -
      have old: "map_of (cf_nodes c @ map (\<lambda>q. (q, Group)) qs) (np_path_for tpg ip port) = (if listens P ip port then Some Folder else None)"
        using not_flat_nodes [OF nf np_path_flat [OF ip], of "cf_nodes c" port] k ip by (simp add: kernel_has_def)
      have "map_of (cf_nodes ?c) (np_path_for tpg ip port) =
          (case map_of (cf_nodes c @ map (\<lambda>q. (q, Group)) qs) (np_path_for tpg ip port) of
             Some n \<Rightarrow> Some n | None \<Rightarrow> if np_path_for tpg ip port = ?p then Some Folder else None)"
        by (auto simp: map_add_def split: option.splits)
      then show ?thesis using old by (auto simp: listens_insert np_path_inject)
    qed
    have "\<forall>q \<in> fst ` set (cf_nodes ?c). \<forall>f. flat tpg f \<longrightarrow> \<not> below f q"
      using k short flat_not_below [OF _ flat] by (auto simp: kernel_has_def)
    then have "kernel_has tpg (insert p P) ?c" using nodes k by (simp add: kernel_has_def)
    then show ?thesis using run by blast
  qed
qed

lemma create_np_calm:
  assumes k: "kernel_has tpg P (iw_cfs w)" and slash: "CHR ''/'' \<notin> set (po_ip p)"
  shows "\<exists>c'. create_np tpg p w = (Ok (), w\<lparr>iw_cfs := c'\<rparr>) \<and> kernel_has tpg (insert p P) c'"
proof -
  let ?p = "np_path_for tpg (po_ip p) (po_port p)"
  obtain c where c: "create_dir_all ?p (iw_cfs w) = (Ok (), c)" "kernel_has tpg (insert p P) c" using mkdir_np [OF assms] by blast
  let ?d = "c\<lparr>cf_attrs := AList.update (?p @ ''/iser'') ''1'' (cf_attrs c)\<rparr>"
  have deep: "\<not> flat tpg (?p @ ''/iser'')"
    using np_path_flat [OF slash, of tpg "po_port p"] by (auto simp: flat_def)
  have "fst ` set (AList.update k v m) \<subseteq> insert k (fst ` set m)" for k v and m :: "(string \<times> string) list"
    by (induction m) auto
  then have "kernel_has tpg (insert p P) ?d" using c(2) deep by (fastforce simp: kernel_has_def)
  moreover have "cf_faults c = []" using c(2) by (simp add: kernel_has_def)
  ultimately show ?thesis
    using c by (cases "po_iser p")
      (auto simp: create_np_def Let_def and_then_def configfs_mkdir_def configfs_write_def cf_write_def on_cfs_def attempt_calm)
qed

lemma remove_np_calm:
  assumes k: "kernel_has tpg P (iw_cfs w)" and slash: "CHR ''/'' \<notin> set ip" and l: "listens P ip port"
  shows "\<exists>c'. configfs_rmdir (np_path_for tpg ip port) w = (Ok (), w\<lparr>iw_cfs := c'\<rparr>)
    \<and> kernel_has tpg {p \<in> P. \<not> (po_ip p = ip \<and> po_port p = port)} c'"
proof -
  let ?p = "np_path_for tpg ip port" and ?c = "drop_below (np_path_for tpg ip port) (iw_cfs w)"
  let ?P = "{p \<in> P. \<not> (po_ip p = ip \<and> po_port p = port)}"
  have flat: "flat tpg ?p" by (rule np_path_flat [OF slash])
  have "\<not> in_use ?p (iw_cfs w)" using k flat by (fastforce simp: kernel_has_def in_use_def list_ex_iff)
  moreover have "map_of (cf_nodes (iw_cfs w)) ?p = Some Folder" using k slash l by (simp add: kernel_has_def)
  ultimately have run: "configfs_rmdir ?p w = (Ok (), w\<lparr>iw_cfs := ?c\<rparr>)"
    using k by (simp add: configfs_rmdir_def on_cfs_def remove_dir_def attempt_calm kernel_has_def)
  have nodes: "map_of (cf_nodes ?c) (np_path_for tpg ip' port') = (if listens ?P ip' port' then Some Folder else None)"
    if ip': "CHR ''/'' \<notin> set ip'" for ip' port'
  proof -
    have keep: "map_of (filter (\<lambda>(q, _). q \<noteq> ?p \<and> \<not> below ?p q) m) x = (if x = ?p then None else map_of m x)"
      if "flat tpg x" for x and m :: "(string \<times> node) list"
      using flat_not_below [OF flat that] by (induction m) auto
    have "listens ?P ip' port' \<longleftrightarrow> listens P ip' port' \<and> \<not> (ip' = ip \<and> port' = port)" by (auto simp: listens_def)
    then show ?thesis
      using keep [OF np_path_flat [OF ip', of tpg port'], of "cf_nodes (iw_cfs w)"] k ip'
      by (simp add: drop_below_def np_path_inject kernel_has_def)
  qed
  have "kernel_has tpg ?P ?c"
    unfolding kernel_has_def using nodes k by (auto simp: drop_below_def kernel_has_def)
  then show ?thesis using run by blast
qed


section \<open>Steps of a transition\<close>

abbreviation listen :: "portal \<Rightarrow> string \<times> 16 word" where
  "listen p \<equiv> (po_ip p, po_port p)"

text \<open>Steps whose addresses are names and that remove only what is there.\<close>

fun runnable :: "portal_step list \<Rightarrow> portal list \<Rightarrow> bool" where
  "runnable [] ps = True"
| "runnable (Add p # ss) ps \<longleftrightarrow> CHR ''/'' \<notin> set (po_ip p) \<and> runnable ss (step_portals (Add p) ps)"
| "runnable (Remove p # ss) ps \<longleftrightarrow> CHR ''/'' \<notin> set (po_ip p) \<and> listens (set ps) (po_ip p) (po_port p)
     \<and> runnable ss (step_portals (Remove p) ps)"

lemma runnable_append: "runnable (xs @ ys) ps \<longleftrightarrow> runnable xs ps \<and> runnable ys (fold step_portals xs ps)"
  by (induction xs ps rule: runnable.induct) auto

lemma runnable_Add: "\<forall>p \<in> set xs. CHR ''/'' \<notin> set (po_ip p) \<Longrightarrow> runnable (map Add xs) ps"
  by (induction xs arbitrary: ps) auto

lemma runnable_Remove:
  "\<forall>p \<in> set rs. CHR ''/'' \<notin> set (po_ip p) \<Longrightarrow> distinct (map listen rs) \<Longrightarrow> set rs \<subseteq> set ps \<Longrightarrow> runnable (map Remove rs) ps"
proof (induction rs arbitrary: ps)
  case (Cons r rs)
  have "set rs \<subseteq> set (step_portals (Remove r) ps)"
    using Cons.prems(2,3) by (auto simp: same_listen_def image_iff)
  then show ?case using Cons by (auto simp: listens_def)
qed simp

lemma plan_runnable:
  assumes "distinct (map listen C)" and "\<forall>p \<in> set C \<union> set N. CHR ''/'' \<notin> set (po_ip p)"
  shows "runnable (plan_steps C N) C"
proof -
  have "distinct (map listen (plan_removes C N))" using assms(1) by (simp add: plan_removes_def distinct_map_filter)
  moreover have "set (plan_removes C N) \<subseteq> set C" "set (plan_immediate C N) \<union> set (plan_deferred C N) \<subseteq> set N"
    by (auto simp: plan_removes_def plan_immediate_def plan_deferred_def)
  ultimately show ?thesis
    unfolding plan_parts using assms(2)
    by (auto simp: runnable_append fold_Add intro!: runnable_Add runnable_Remove)
qed

lemma apply_steps_calm:
  assumes "runnable ss ps" and "kernel_has tpg (set ps) (iw_cfs w)"
  shows "\<exists>c'. apply_steps tpg done ss ps w = (Ok (fold step_portals ss ps), w\<lparr>iw_cfs := c'\<rparr>)
    \<and> kernel_has tpg (set (fold step_portals ss ps)) c'"
  using assms
proof (induction ss ps arbitrary: w "done" rule: runnable.induct)
  case (2 p ss ps)
  then obtain c1 where c1: "create_np tpg p w = (Ok (), w\<lparr>iw_cfs := c1\<rparr>)" "kernel_has tpg (insert p (set ps)) c1"
    using create_np_calm by fastforce
  then show ?case using "2.IH" [of "w\<lparr>iw_cfs := c1\<rparr>" "Add p # done"] "2.prems" by simp
next
  case (3 p ss ps)
  then obtain c1 where c1: "configfs_rmdir (np_path_for tpg (po_ip p) (po_port p)) w = (Ok (), w\<lparr>iw_cfs := c1\<rparr>)"
    "kernel_has tpg {q \<in> set ps. \<not> (po_ip q = po_ip p \<and> po_port q = po_port p)} c1"
    using remove_np_calm by fastforce
  then have "kernel_has tpg (set (step_portals (Remove p) ps)) c1" by (simp add: same_listen_def)
  then show ?case using "3.IH" [of "w\<lparr>iw_cfs := c1\<rparr>" "Remove p # done"] "3.prems" c1(1) by (simp add: remove_np_def)
next
  case (1 ps)
  then show ?case by (intro exI [of _ "iw_cfs w"]) simp
qed

lemma valid_ip_no_slash: "validate_portal_ip s = Ok ip \<Longrightarrow> CHR ''/'' \<notin> set ip"
proof
  assume v: "validate_portal_ip s = Ok ip" and "CHR ''/'' \<in> set ip"
  from v obtain a where "parse_ip ip = Some a" by (auto simp: validate_portal_ip_def Let_def split: if_splits)
  from parse_ip_chars [OF this \<open>CHR ''/'' \<in> set ip\<close>] show False
    by (simp add: ip_char_def is_digit_def digit_value_def ascii_defs)
qed

lemma normalize_ok:
  "normalize_portals acc ps = Ok ns \<Longrightarrow> distinct (map listen acc) \<Longrightarrow> \<forall>p \<in> set acc. CHR ''/'' \<notin> set (po_ip p) \<Longrightarrow>
   distinct (map listen ns) \<and> (\<forall>p \<in> set ns. CHR ''/'' \<notin> set (po_ip p))"
proof (induction acc ps rule: normalize_portals.induct)
  case (2 acc p ps)
  from "2.prems"(1) obtain ip where ip: "validate_portal_ip (po_ip p) = Ok ip" by (auto split: sum.splits)
  have fresh: "\<not> list_ex (\<lambda>q. po_ip q = ip \<and> po_port q = po_port p) acc" "po_port p \<noteq> 0"
    using "2.prems"(1) ip by (auto split: if_splits)
  then have rest: "normalize_portals (acc @ [\<lparr>po_ip = ip, po_port = po_port p, po_iser = po_iser p\<rparr>]) ps = Ok ns"
    using "2.prems"(1) ip by simp
  have "(ip, po_port p) \<notin> listen ` set acc" using fresh(1) by (auto simp: list_ex_iff)
  then show ?case
    using "2.IH" [OF ip fresh(2,1) rest] "2.prems"(2,3) valid_ip_no_slash [OF ip] by simp
qed simp

lemma listen_one: "distinct (map listen ps) \<Longrightarrow> one_per_listen (set ps)"
  by (auto simp: one_per_listen_def same_listen_def distinct_map inj_on_def)

lemma plan_distinct:
  assumes C: "distinct (map listen C)" and N: "distinct (map listen N)"
  shows "distinct (map listen (fold step_portals (plan_steps C N) C))"
proof -
  have "distinct C" "distinct N" using C N by (simp_all add: distinct_map)
  then have "distinct (fold step_portals (plan_steps C N) C)"
    by (auto simp: plan_parts fold_Add fold_Remove plan_immediate_def plan_deferred_def)
  moreover have "inj_on listen (set N)" using N by (simp add: distinct_map)
  ultimately show ?thesis using plan_reaches [OF listen_one [OF C], of N] by (simp add: distinct_map)
qed


section \<open>The service implements the set\<close>

definition implements :: "string \<Rightarrow> portal set \<Rightarrow> iscsi_world \<Rightarrow> bool" where
  "implements i P w \<longleftrightarrow> iw_dir_envs w = [] \<and>
     (\<exists>t. load (iw_dir w) i = Some t \<and> it_id t = i \<and> set (it_portals t) = P \<and> distinct (map listen (it_portals t))
        \<and> (\<forall>p \<in> P. CHR ''/'' \<notin> set (po_ip p)) \<and> kernel_has (tpg_of (it_iqn t)) P (iw_cfs w))"

lemma save_target_calm:
  assumes "iw_dir_envs w = []"
  shows "\<exists>d. save_target t w = (Ok (), w\<lparr>iw_dir := d\<rparr>) \<and> load d (it_id t) = Some t"
proof -
  obtain r d where s: "save calm_dir (it_id t) t (iw_dir w) = (r, d)" by fastforce
  then have r: "r = Ok ()" by (auto simp: save_def calm_dir_def Let_def)
  then have "load d (it_id t) = Some t" using sd.lookup_put s by fastforce
  then show ?thesis using s r assms by (auto simp: save_target_def next_dir_env_def)
qed

text \<open>Storing a target with new portals after the kernel has them.\<close>

lemma store_implements:
  assumes w: "iw_dir_envs w = []" and k: "kernel_has (tpg_of (it_iqn t)) (set ps) (iw_cfs w)"
    and d: "distinct (map listen ps)" and slash: "\<forall>p \<in> set ps. CHR ''/'' \<notin> set (po_ip p)"
    and run: "and_then (save_target (t\<lparr>it_portals := ps\<rparr>)) (\<lambda>_ w. (Ok (target_redacted (t\<lparr>it_portals := ps\<rparr>)), save_lio_config e w)) w = (r, w')"
  shows "is_ok r \<and> implements (it_id t) (set ps) w'"
proof -
  obtain dir where dir: "save_target (t\<lparr>it_portals := ps\<rparr>) w = (Ok (), w\<lparr>iw_dir := dir\<rparr>)" "load dir (it_id t) = Some (t\<lparr>it_portals := ps\<rparr>)"
    using save_target_calm [OF w, of "t\<lparr>it_portals := ps\<rparr>"] by auto
  have "w' = w\<lparr>iw_dir := dir, iw_saveconfig := Parses (ie_render e (iw_cfs w))\<rparr>" "is_ok r"
    using run dir k by (auto simp: and_then_def save_lio_config_def ignore_def save_lio_config_checked_def draw_def kernel_has_def)
  then show ?thesis using dir(2) w k d slash by (auto simp: implements_def)
qed

lemma remove_nth_filter:
  "position P xs = Some k \<Longrightarrow> (\<forall>x \<in> set xs. \<forall>y \<in> set xs. P x \<longrightarrow> P y \<longrightarrow> x = y) \<Longrightarrow> distinct xs \<Longrightarrow>
   remove_nth k xs = filter (\<lambda>x. \<not> P x) xs"
proof (induction xs arbitrary: k)
  case (Cons x xs)
  show ?case
  proof (cases "P x")
    case True
    then have "\<forall>y \<in> set xs. \<not> P y" using Cons.prems(2,3) by auto
    then show ?thesis using True Cons.prems(1) by simp
  next
    case False
    with Cons.prems(1) obtain j where j: "position P xs = Some j" "k = Suc j" by auto
    then show ?thesis using Cons.IH [OF j(1)] Cons.prems False by simp
  qed
qed simp

lemma add_portal_refines:
  assumes i: "implements i P w" and run: "add_portal e i req_ip port iser w = (r, w')"
  shows "case spec_portals (Add_Portal req_ip port iser) P of
    Some P' \<Rightarrow> is_ok r \<and> implements i P' w' | None \<Rightarrow> \<not> is_ok r \<and> w' = w"
proof -
  from i obtain t where t: "load (iw_dir w) i = Some t" "it_id t = i" "set (it_portals t) = P" "distinct (map listen (it_portals t))"
    "\<forall>p \<in> P. CHR ''/'' \<notin> set (po_ip p)" "kernel_has (tpg_of (it_iqn t)) P (iw_cfs w)" "iw_dir_envs w = []"
    by (auto simp: implements_def)
  show ?thesis
  proof (cases "validate_portal_ip req_ip")
    case (Inl x)
    then show ?thesis using run t by (auto simp: add_portal_def and_then_def load_target_def)
  next
    case ip: (Inr ip)
    have ex: "list_ex (\<lambda>p. po_ip p = ip \<and> po_port p = port) (it_portals t) \<longleftrightarrow> listens P ip port"
      using t(3) by (auto simp: list_ex_iff listens_def)
    show ?thesis
    proof (cases "listens P ip port")
      case True
      then show ?thesis using run t ip ex i by (auto simp: add_portal_def and_then_def load_target_def)
    next
      case False
      let ?p = "\<lparr>po_ip = ip, po_port = port, po_iser = iser\<rparr>"
      obtain c where c: "create_np (tpg_of (it_iqn t)) ?p w = (Ok (), w\<lparr>iw_cfs := c\<rparr>)" "kernel_has (tpg_of (it_iqn t)) (insert ?p P) c"
        using create_np_calm [OF t(6), of ?p] valid_ip_no_slash [OF ip] by auto
      have st: "and_then (save_target (t\<lparr>it_portals := it_portals t @ [?p]\<rparr>))
          (\<lambda>_ w. (Ok (target_redacted (t\<lparr>it_portals := it_portals t @ [?p]\<rparr>)), save_lio_config e w)) (w\<lparr>iw_cfs := c\<rparr>) = (r, w')"
        using run t(1) ip ex False c(1) by (simp add: add_portal_def and_then_def load_target_def Let_def)
      have "listen ?p \<notin> listen ` set (it_portals t)" using False t(3) by (auto simp: listens_def)
      then have "is_ok r \<and> implements (it_id t) (set (it_portals t @ [?p])) w'"
        using c(2) t ip valid_ip_no_slash [OF ip] by (intro store_implements [OF _ _ _ _ st]) auto
      then show ?thesis using t ip False by simp
    qed
  qed
qed

lemma remove_portal_refines:
  assumes i: "implements i P w" and run: "remove_portal e i ip port w = (r, w')"
  shows "case spec_portals (Remove_Portal ip port) P of
    Some P' \<Rightarrow> is_ok r \<and> implements i P' w' | None \<Rightarrow> \<not> is_ok r \<and> w' = w"
proof -
  let ?m = "\<lambda>p. po_ip p = ip \<and> po_port p = port"
  from i obtain t where t: "load (iw_dir w) i = Some t" "it_id t = i" "set (it_portals t) = P" "distinct (map listen (it_portals t))"
    "\<forall>p \<in> P. CHR ''/'' \<notin> set (po_ip p)" "kernel_has (tpg_of (it_iqn t)) P (iw_cfs w)" "iw_dir_envs w = []"
    by (auto simp: implements_def)
  have dist: "distinct (it_portals t)" using t(4) by (simp add: distinct_map)
  then have card: "card P = length (it_portals t)" using t(3) by (metis distinct_card)
  show ?thesis
  proof (cases "position ?m (it_portals t)")
    case None
    then have "\<not> listens P ip port" using t(3) by (auto simp: position_None_iff listens_def)
    then show ?thesis using None run t by (auto simp: remove_portal_def and_then_def load_target_def)
  next
    case (Some k)
    then have l: "listens P ip port" using t(3) position_None_iff [of ?m "it_portals t"] by (auto simp: listens_def)
    show ?thesis
    proof (cases "length (it_portals t) = 1")
      case True
      then show ?thesis using Some run t card by (auto simp: remove_portal_def and_then_def load_target_def)
    next
      case False
      let ?ps = "filter (\<lambda>p. \<not> ?m p) (it_portals t)"
      have nth: "remove_nth k (it_portals t) = ?ps"
        using remove_nth_filter [OF Some _ dist] t(4) by (auto simp: distinct_map inj_on_def)
      have "CHR ''/'' \<notin> set ip" using l t(5) by (auto simp: listens_def)
      then obtain c where c: "configfs_rmdir (np_path_for (tpg_of (it_iqn t)) ip port) w = (Ok (), w\<lparr>iw_cfs := c\<rparr>)"
        "kernel_has (tpg_of (it_iqn t)) (set ?ps) c"
        using remove_np_calm [OF t(6) _ l] t(3) by auto
      have st: "and_then (save_target (t\<lparr>it_portals := ?ps\<rparr>))
          (\<lambda>_ w. (Ok (target_redacted (t\<lparr>it_portals := ?ps\<rparr>)), save_lio_config e w)) (w\<lparr>iw_cfs := c\<rparr>) = (r, w')"
        using run t(1) Some False c(1) nth by (simp add: remove_portal_def and_then_def load_target_def Let_def ignore_def)
      have "is_ok r \<and> implements (it_id t) (set ?ps) w'"
        using c(2) t by (intro store_implements [OF _ _ _ _ st]) (auto simp: distinct_map_filter)
      moreover have "spec_portals (Remove_Portal ip port) P = Some (set ?ps)" using l card False t(3) by auto
      ultimately show ?thesis using t(2) by simp
    qed
  qed
qed

lemma set_portals_refines:
  assumes i: "implements i P w" and run: "set_portals e i desired w = (r, w')"
  shows "case spec_portals (Set_Portals desired) P of
    Some P' \<Rightarrow> is_ok r \<and> implements i P' w' | None \<Rightarrow> \<not> is_ok r \<and> w' = w"
proof -
  from i obtain t where t: "load (iw_dir w) i = Some t" "it_id t = i" "set (it_portals t) = P" "distinct (map listen (it_portals t))"
    "\<forall>p \<in> P. CHR ''/'' \<notin> set (po_ip p)" "kernel_has (tpg_of (it_iqn t)) P (iw_cfs w)" "iw_dir_envs w = []"
    by (auto simp: implements_def)
  show ?thesis
  proof (cases "desired = [] \<or> \<not> is_ok (normalize_portals [] desired)")
    case True
    then obtain x where plan: "plan_portal_transition (it_portals t) desired = Err x"
      by (cases "desired = []"; cases "normalize_portals [] desired") (auto simp: plan_portal_transition_def)
    then have "r = Err x \<and> w' = w" using run t by (auto simp: set_portals_def and_then_def load_target_def)
    moreover have "spec_portals (Set_Portals desired) P = None" using True by (cases "normalize_portals [] desired") auto
    ultimately show ?thesis by simp
  next
    case False
    then obtain N where N: "desired \<noteq> []" "normalize_portals [] desired = Ok N" by (auto simp: is_ok_iff)
    let ?steps = "plan_steps (it_portals t) N" and ?ps = "fold step_portals (plan_steps (it_portals t) N) (it_portals t)"
    have ns: "distinct (map listen N)" "\<forall>p \<in> set N. CHR ''/'' \<notin> set (po_ip p)" using normalize_ok [OF N(2)] by simp_all
    have reach: "set ?ps = set N" by (rule plan_reaches [OF listen_one [OF t(4)]])
    have plan: "plan_portal_transition (it_portals t) desired = Ok ?steps" using N by (simp add: plan_portal_transition_def)
    show ?thesis
    proof (cases "?steps = []")
      case True
      then show ?thesis using run t plan N reach i by (auto simp: set_portals_def and_then_def load_target_def)
    next
      case ne: False
      have "runnable ?steps (it_portals t)" using t ns by (intro plan_runnable) auto
      then obtain c where c: "apply_steps (tpg_of (it_iqn t)) [] ?steps (it_portals t) w = (Ok ?ps, w\<lparr>iw_cfs := c\<rparr>)"
        "kernel_has (tpg_of (it_iqn t)) (set ?ps) c"
        using apply_steps_calm [of ?steps "it_portals t" "tpg_of (it_iqn t)" w "[]"] t(3,6) by auto
      have st: "and_then (save_target (t\<lparr>it_portals := ?ps\<rparr>))
          (\<lambda>_ w. (Ok (target_redacted (t\<lparr>it_portals := ?ps\<rparr>)), save_lio_config e w)) (w\<lparr>iw_cfs := c\<rparr>) = (r, w')"
        using run t(1) plan ne c(1) by (simp add: set_portals_def and_then_def load_target_def Let_def)
      have "is_ok r \<and> implements (it_id t) (set ?ps) w'"
        using c(2) t(7) plan_distinct [OF t(4) ns(1)] ns(2) reach by (intro store_implements [OF _ _ _ _ st]) auto
      then show ?thesis using t(2) N reach by simp
    qed
  qed
qed


definition listening_iscsi :: iscsi_world where
  "listening_iscsi = sample_iscsi\<lparr>iw_cfs := quiet_cfs\<lparr>cf_nodes := [(np_path_for (tpg_of (it_iqn sample_target)) ''0.0.0.0'' 9, Folder)]\<rparr>\<rparr>"

lemma listening_implements: "implements ''id1'' {\<lparr>po_ip = ''0.0.0.0'', po_port = 9, po_iser = False\<rparr>} listening_iscsi"
proof -
  let ?tpg = "tpg_of (it_iqn sample_target)" and ?P = "{\<lparr>po_ip = ''0.0.0.0'', po_port = 9, po_iser = False\<rparr>}"
  have l: "load (iw_dir listening_iscsi) ''id1'' = Some sample_target" by code_simp
  have "flat ?tpg (np_path_for ?tpg ''0.0.0.0'' 9)" by (rule np_path_flat) simp
  then have "kernel_has ?tpg ?P (iw_cfs listening_iscsi)"
    using flat_not_below by (auto simp: kernel_has_def listening_iscsi_def quiet_cfs_def listens_def np_path_inject)
  then show ?thesis using l by (simp add: implements_def sample_target_def) (simp add: listening_iscsi_def sample_iscsi_def)
qed


end
