(* ===== verification/Handlers.thy ===== *)
theory Handlers
  imports Gate
begin

text \<open>
  What the router promises of its answers, for every domain whose handler keeps the rules of
  JSON-RPC: the contract of a handler as a locale, interpreted for the modelled domains in their
  own theories.
\<close>

text \<open>A response in the form of JSON-RPC 2.0 to the request: its id, and either a result or an
  error.\<close>

definition answers :: "rpc_request \<Rightarrow> rpc_response \<Rightarrow> bool" where
  "answers req r \<longleftrightarrow> rs_jsonrpc r = ''2.0'' \<and> rs_id r = rq_id req \<and> (rs_result r = None \<longleftrightarrow> rs_error r \<noteq> None)"

lemma answers_simps [simp]:
  "answers req (response_error (rq_id req) c m)" "answers req (response_success (rq_id req) v)"
  "answers req (ok req v)" "answers req (err req m)" "answers req (invalid req m)" "answers req (unknown_method req)"
  by (simp_all add: answers_def ok_def err_def invalid_def unknown_method_def response_error_def response_success_def)

lemma require_str_answers: "require_str req key = Err r \<Longrightarrow> answers req r"
  by (auto simp: require_str_def split: option.splits)

lemma require_access_answers:
  "require_endpoint_access e req s access reason audited w = (Some r, w') \<Longrightarrow> answers req r"
  by (auto simp: require_endpoint_access_def split: sum.splits)

locale answering =
  fixes handler :: "('k, 'o) try_route"
  assumes handler_answers: "handler req s w = (Some r, w') \<Longrightarrow> answers req r"
begin

lemma route_answers:
  assumes "handlers d = handler" and "domain_of (rq_method req) = Some d"
  shows "answers req (fst (route handlers req s w))"
proof -
  obtain x w1 where x: "handler req s w = (x, w1)" by fastforce
  show ?thesis
  proof (cases x)
    case None
    then show ?thesis using assms x by (simp add: route_def)
  next
    case (Some r)
    then show ?thesis using assms x handler_answers [of req s w r w1] by (simp add: route_def)
  qed
qed

lemma request_answers:
  assumes "handlers d = handler" and "domain_of (rq_method req) = Some d"
  shows "answers req (fst (handle_rpc_request e handlers (Some req) s w))"
proof -
  obtain r w1 where r: "route handlers req s w = (r, w1)" by fastforce
  then have "answers req r" using route_answers [of handlers d req s w] assms by simp
  then show ?thesis by (simp add: handle_rpc_request_def r)
qed

end

end
