(* ===== verification/Auth_Routes.thy ===== *)
theory Auth_Routes
  imports Handlers Gateway Webauthn Oidc
begin

text \<open>
  The handlers of the \<open>auth.*\<close> methods (\<open>nasty-engine/src/router/auth.rs\<close>) over the
  authentication service, the security keys and the OpenID Connect settings. The parsers of the
  parameter structures, derived by \<open>serde\<close>, are arguments; the JSON of the results is spelled
  out.
\<close>

section \<open>JSON of the results\<close>

fun opt_json :: "('a \<Rightarrow> json) \<Rightarrow> 'a option \<Rightarrow> json" where
  "opt_json f None = JNull"
| "opt_json f (Some x) = f x"

definition u64_json :: "u64 \<Rightarrow> json" where
  "u64_json n = JInt (uint n)"

definition strs_json :: "string list \<Rightarrow> json" where
  "strs_json ss = JArr (map JStr ss)"

definition user_info_json :: "user_info \<Rightarrow> json" where
  "user_info_json u = JObj [(''username'', JStr (ui_username u)), (''role'', role_json (ui_role u)),
     (''file_principal'', opt_json JStr (ui_file_principal u)),
     (''webauthn_credential_count'', JInt (int (ui_webauthn_credential_count u)))]"

definition api_token_json :: "api_token \<Rightarrow> json" where
  "api_token_json t = JObj [(''id'', JStr (t_id t)), (''name'', JStr (t_name t)), (''token'', JStr (t_token t)),
     (''role'', role_json (t_role t)), (''created_at'', u64_json (t_created_at t)),
     (''filesystem'', opt_json JStr (t_filesystem t)), (''expires_at'', opt_json u64_json (t_expires_at t)),
     (''allowed_ips'', strs_json (t_allowed_ips t))]"

definition api_token_info_json :: "api_token_info \<Rightarrow> json" where
  "api_token_info_json t = JObj [(''id'', JStr (ti_id t)), (''name'', JStr (ti_name t)), (''role'', role_json (ti_role t)),
     (''created_at'', u64_json (ti_created_at t)), (''filesystem'', opt_json JStr (ti_filesystem t)),
     (''expires_at'', opt_json u64_json (ti_expires_at t)), (''allowed_ips'', strs_json (ti_allowed_ips t))]"

definition credential_json :: "credential_summary \<Rightarrow> json" where
  "credential_json c = JObj [(''label'', JStr (cs_label c)), (''created_at'', u64_json (cs_created_at c)),
     (''credential_id'', JStr (cs_credential_id c))]"

definition oidc_settings_json :: "oidc_settings \<Rightarrow> json" where
  "oidc_settings_json s = JObj
     ([(''enabled'', JBool (os_enabled s)), (''issuer_url'', opt_json JStr (os_issuer_url s)),
       (''client_id'', opt_json JStr (os_client_id s)), (''client_secret'', opt_json JStr (os_client_secret s))]
      @ (case os_client_secret_encrypted s of None \<Rightarrow> [] | Some b \<Rightarrow> [(''client_secret_encrypted'', JStr b)])
      @ [(''redirect_uri'', opt_json JStr (os_redirect_uri s)), (''scopes'', strs_json (os_scopes s)),
         (''groups_claim'', JStr (os_groups_claim s)),
         (''role_mappings'', JArr (map (\<lambda>m. JObj [(''group'', JStr (orm_group m)), (''role'', JStr (orm_role m))]) (os_role_mappings s))),
         (''default_role'', opt_json JStr (os_default_role s)), (''auto_provision'', JBool (os_auto_provision s))])"

section \<open>State and surroundings\<close>

text \<open>What the handlers work on besides the authentication service.\<close>

record ('r, 'a, 'x) engine_rest =
  er_webauthn :: "('r, 'a) webauthn_service"
  er_oidc :: oidc_store
  er_client :: "oidc_client option"
  er_more :: 'x

text \<open>The libraries, the environment of the call and the parsers of the parameter structures.\<close>

record ('k, 'r, 'a) auth_surroundings =
  ar_lib :: "'k auth_lib"
  ar_wl :: "('k, 'r, 'a) webauthn_lib"
  ar_env :: auth_env
  ar_we :: webauthn_env
  ar_smb :: "string \<Rightarrow> string option"
  ar_seal :: "string \<Rightarrow> string option"
  ar_save_error :: "string option"
  ar_oidc_lib :: oidc_lib
  ar_change_password :: "json \<Rightarrow> string + string \<times> string"
  ar_create_user :: "json \<Rightarrow> string + string \<times> string \<times> role \<times> string option"
  ar_create_token :: "json \<Rightarrow> string + string \<times> role \<times> string option \<times> u64 option \<times> string list"
  ar_oidc_settings :: "json \<Rightarrow> string + oidc_settings"
  ar_register_start :: "json \<Rightarrow> string + string"
  ar_register_finish :: "json \<Rightarrow> string + string \<times> json"
  ar_delete_key :: "json \<Rightarrow> string + string"

type_synonym ('k, 'r, 'a, 'x) engine = "('k, ('r, 'a, 'x) engine_rest) app_state"

abbreviation er_update :: "(('r, 'a, 'x) engine_rest \<Rightarrow> ('r, 'a, 'x) engine_rest) \<Rightarrow> ('k, 'r, 'a, 'x) engine \<Rightarrow> ('k, 'r, 'a, 'x) engine" where
  "er_update f w \<equiv> w\<lparr>app_other := f (app_other w)\<rparr>"

text \<open>The answer to the outcome of an operation of the authentication service.\<close>

definition answer :: "rpc_request \<Rightarrow> ('b \<Rightarrow> json) \<Rightarrow> auth_error + 'b \<Rightarrow> rpc_response" where
  "answer req f x = (case x of Ok v \<Rightarrow> ok req (f v) | Err y \<Rightarrow> err req (auth_error_message y))"

definition with_auth :: "rpc_request \<Rightarrow> ('b \<Rightarrow> json) \<Rightarrow> (auth_error + 'b) \<times> 'k auth_world \<Rightarrow> ('k, 'o) app_state \<Rightarrow>
    rpc_response option \<times> ('k, 'o) app_state" where
  "with_auth req f c w = (Some (answer req f (fst c)), w\<lparr>app_auth := snd c\<rparr>)"

definition answer_wa :: "rpc_request \<Rightarrow> ('b \<Rightarrow> json) \<Rightarrow> webauthn_error + 'b \<Rightarrow> rpc_response" where
  "answer_wa req f x = (case x of Ok v \<Rightarrow> ok req (f v) | Err y \<Rightarrow> err req (webauthn_error_message y))"

section \<open>Handlers\<close>

definition me_json :: "session \<Rightarrow> json" where
  "me_json s = JObj [(''username'', JStr (s_username s)), (''role'', role_json (s_role s)),
     (''file_principal'', opt_json JStr (s_file_principal s)),
     (''scoped'', JBool (s_filesystem s \<noteq> None \<or> s_owner s \<noteq> None))]"

definition oidc_update_config :: "('k, 'r, 'a) auth_surroundings \<Rightarrow> rpc_request \<Rightarrow> session \<Rightarrow> ('k, 'r, 'a, 'x) engine \<Rightarrow>
    rpc_response option \<times> ('k, 'r, 'a, 'x) engine" where
  "oidc_update_config ar req s w =
     (if s_role s \<noteq> Admin then (Some (err req ''admin only''), w)
      else case parse_params (ar_oidc_settings ar) req of
        Err x \<Rightarrow> (Some (invalid req x), w)
      | Ok new_settings \<Rightarrow>
          (case set_oidc (ar_seal ar) (ar_save_error ar) new_settings (er_oidc (app_other w)) of
             (Err x, st) \<Rightarrow> (Some (err req x), er_update (\<lambda>r. r\<lparr>er_oidc := st\<rparr>) w)
           | (Ok saved, st) \<Rightarrow>
               (case rebuild_client (ar_oidc_lib ar) (st_oidc st) (er_client (app_other w)) of
                  (failure, client) \<Rightarrow>
                    (Some (case failure of
                             None \<Rightarrow> ok req (oidc_settings_json saved)
                           | Some x \<Rightarrow> err req (''config saved but client rebuild failed: '' @ oidc_error_message x)),
                     audit_app (ar_env ar) ''oidc_config_changed'' (s_username s) (session_ip s)
                       (''enabled='' @ (if os_enabled new_settings then ''true'' else ''false''))
                       (er_update (\<lambda>r. r\<lparr>er_oidc := st, er_client := client\<rparr>) w)))))"

definition oidc_test :: "rpc_request \<Rightarrow> session \<Rightarrow> ('k, 'r, 'a, 'x) engine \<Rightarrow> rpc_response" where
  "oidc_test req s w =
     (if s_role s \<noteq> Admin then err req ''admin only''
      else
        let sample = (case Option.bind (rq_params req) (\<lambda>p. json_get p ''claims'') of Some c \<Rightarrow> c | None \<Rightarrow> JObj []) in
        (case dry_run_role sample (st_oidc (er_oidc (app_other w))) of
           Ok r \<Rightarrow> ok req (JObj [(''role'', opt_json JStr r)])
         | Err x \<Rightarrow> err req x))"

text \<open>The methods that manage users, passwords and tokens.\<close>

definition account_route :: "('k, 'r, 'a) auth_surroundings \<Rightarrow> rpc_request \<Rightarrow> session \<Rightarrow> ('k, 'r, 'a, 'x) engine \<Rightarrow>
    rpc_response option \<times> ('k, 'r, 'a, 'x) engine" where
  "account_route ar req s w =
     (let m = rq_method req; lib = ar_lib ar; e = ar_env ar; aw = app_auth w in
      if m = ''auth.me'' then (Some (ok req (me_json s)), w)
      else if m = ''auth.logout'' then with_auth req (\<lambda>_. JStr ''ok'') (logout e (s_token s) aw) w
      else if m = ''auth.change_password'' then
        (case parse_params (ar_change_password ar) req of
           Err x \<Rightarrow> (Some (invalid req x), w)
         | Ok (u, p) \<Rightarrow> with_auth req (\<lambda>_. JStr ''ok'') (change_password lib e s u p aw) w)
      else if m = ''auth.create_user'' then
        (case parse_params (ar_create_user ar) req of
           Err x \<Rightarrow> (Some (invalid req x), w)
         | Ok (u, p, r, fp) \<Rightarrow> with_auth req (\<lambda>_. JStr ''ok'') (create_user lib (ar_smb ar) e s u p r fp aw) w)
      else if m = ''auth.delete_user'' then
        (case require_str req ''username'' of
           Err r \<Rightarrow> (Some r, w)
         | Ok u \<Rightarrow> with_auth req (\<lambda>_. JStr ''ok'') (delete_user e s u aw) w)
      else if m = ''auth.list_users'' then (Some (ok req (JArr (map user_info_json (list_users aw)))), w)
      else if m = ''auth.token.list'' then
        (Some (answer req (\<lambda>ts. JArr (map api_token_info_json ts)) (list_api_tokens s aw)), w)
      else if m = ''auth.token.create'' then
        (case parse_params (ar_create_token ar) req of
           Err x \<Rightarrow> (Some (invalid req x), w)
         | Ok (n, r, fs, ex, ips) \<Rightarrow> with_auth req api_token_json (create_api_token lib e s n r fs ex ips aw) w)
      else if m = ''auth.token.delete'' then
        (case require_str req ''id'' of
           Err r \<Rightarrow> (Some r, w)
         | Ok i \<Rightarrow> with_auth req (\<lambda>_. JStr ''ok'') (delete_api_token e s i aw) w)
      else (None, w))"

text \<open>The methods that manage security keys, always those of the caller but for the reset.\<close>

definition webauthn_route :: "('k, 'r, 'a) auth_surroundings \<Rightarrow> rpc_request \<Rightarrow> session \<Rightarrow> ('k, 'r, 'a, 'x) engine \<Rightarrow>
    rpc_response option \<times> ('k, 'r, 'a, 'x) engine" where
  "webauthn_route ar req s w =
     (let m = rq_method req; lib = ar_lib ar; wl = ar_wl ar; e = ar_env ar; we = ar_we ar; aw = app_auth w;
          ws = er_webauthn (app_other w) in
      if m = ''auth.webauthn.config'' then (Some (ok req (JObj [(''rp_id'', JStr (wa_rp_id ws))])), w)
      else if m = ''auth.webauthn.register.start'' then
        (case parse_params (ar_register_start ar) req of
           Err x \<Rightarrow> (Some (invalid req x), w)
         | Ok label \<Rightarrow>
             (case register_start lib wl we (s_username s) label aw ws of
                (x, ws1) \<Rightarrow>
                  (Some (answer_wa req (\<lambda>(i, opts). JObj [(''registration_id'', JStr i), (''creation_options'', opts)]) x),
                   er_update (\<lambda>r. r\<lparr>er_webauthn := ws1\<rparr>) w)))
      else if m = ''auth.webauthn.register.finish'' then
        (case parse_params (ar_register_finish ar) req of
           Err x \<Rightarrow> (Some (invalid req x), w)
         | Ok (i, response) \<Rightarrow>
             (case register_finish lib wl e we (s_username s) i response aw ws of
                (x, aw1, ws1) \<Rightarrow>
                  (Some (answer_wa req credential_json x),
                   er_update (\<lambda>r. r\<lparr>er_webauthn := ws1\<rparr>) (w\<lparr>app_auth := aw1\<rparr>))))
      else if m = ''auth.webauthn.list'' then
        (Some (ok req (JArr (map credential_json (list_credentials lib wl (s_username s) aw)))), w)
      else if m = ''auth.webauthn.delete'' then
        (case parse_params (ar_delete_key ar) req of
           Err x \<Rightarrow> (Some (invalid req x), w)
         | Ok c \<Rightarrow>
             (case delete_credential lib wl e (s_username s) c aw of
                (x, aw1) \<Rightarrow> (Some (answer_wa req (\<lambda>_. JStr ''ok'') x), w\<lparr>app_auth := aw1\<rparr>)))
      else if m = ''auth.webauthn.reset_for_user'' then
        if s_role s \<noteq> Admin then (Some (err req ''admin only''), w)
        else (case require_str req ''username'' of
                Err r \<Rightarrow> (Some r, w)
              | Ok target \<Rightarrow>
                  with_auth req (\<lambda>n. JObj [(''removed'', JInt (int n))]) (reset_webauthn_credentials e s target aw) w)
      else (None, w))"

definition auth_try_route :: "('k, 'r, 'a) auth_surroundings \<Rightarrow> ('k, ('r, 'a, 'x) engine_rest) try_route" where
  "auth_try_route ar req s w =
     (let m = rq_method req in
      if m = ''auth.oidc.config_status'' then
        (Some (ok req (oidc_settings_json (redact_oidc_secret (st_oidc (er_oidc (app_other w)))))), w)
      else if m = ''auth.oidc.update_config'' then oidc_update_config ar req s w
      else if m = ''auth.oidc.test'' then (Some (oidc_test req s w), w)
      else case account_route ar req s w of
             (Some r, w1) \<Rightarrow> (Some r, w1)
           | (None, _) \<Rightarrow> webauthn_route ar req s w)"

section \<open>Answers\<close>

lemma answers_answer [simp]: "answers req (answer req f x)" "answers req (answer_wa req g y)"
  by (simp_all add: answer_def answer_wa_def split: sum.split)

lemma account_answers: "account_route ar req s w = (Some r, w') \<Longrightarrow> answers req r"
  by (auto simp: account_route_def Let_def with_auth_def require_str_answers split: if_splits sum.splits prod.splits)

lemma webauthn_answers: "webauthn_route ar req s w = (Some r, w') \<Longrightarrow> answers req r"
  by (auto simp: webauthn_route_def Let_def with_auth_def require_str_answers split: if_splits sum.splits prod.splits)

lemma oidc_config_answers: "oidc_update_config ar req s w = (Some r, w') \<Longrightarrow> answers req r"
  by (auto simp: oidc_update_config_def split: if_splits sum.splits prod.splits option.splits)

lemma oidc_test_answers: "answers req (oidc_test req s w)"
  by (auto simp: oidc_test_def Let_def split: sum.splits)

interpretation auth_answers: answering "auth_try_route ar" for ar :: "('k, 'r, 'a) auth_surroundings"
proof
  fix req s and w :: "('k, 'r, 'a, 'x) engine" and r w'
  assume "auth_try_route ar req s w = (Some r, w')"
  then show "answers req r"
    using account_answers [of ar req s w] webauthn_answers [of ar req s w] oidc_config_answers [of ar req s w] oidc_test_answers [of req s w]
    by (auto simp: auth_try_route_def Let_def split: if_splits prod.splits option.splits)
qed

section \<open>What a caller without administrator rights can change\<close>

text \<open>What an account is to others: its name, role, principal and linked identity.\<close>

definition account_identity :: "'k user \<Rightarrow> string \<times> role \<times> string option \<times> string option \<times> string option" where
  "account_identity u = (u_username u, u_role u, u_file_principal u, u_oidc_subject u, u_oidc_issuer u)"

definition session_identity :: "session \<Rightarrow> string \<times> string \<times> role \<times> string option \<times> u64" where
  "session_identity s = (s_token s, s_username s, s_role s, s_file_principal s, s_created_at s)"

text \<open>The step touches at most the record of one account: the others, every account's identity and
  all API tokens stay, and no session appears.\<close>

definition own_only :: "string \<Rightarrow> 'k auth_state \<Rightarrow> 'k auth_state \<Rightarrow> bool" where
  "own_only name st st' \<longleftrightarrow>
     filter (\<lambda>u. u_username u \<noteq> name) (as_users st') = filter (\<lambda>u. u_username u \<noteq> name) (as_users st)
     \<and> map account_identity (as_users st') = map account_identity (as_users st)
     \<and> as_api_tokens st' = as_api_tokens st
     \<and> session_identity ` set (as_sessions st') \<subseteq> session_identity ` set (as_sessions st)"

lemma own_only_refl [simp]: "own_only name st st"
  by (simp add: own_only_def)

lemma own_only_commit:
  "own_only name (aw_state w) st \<Longrightarrow> own_only name (aw_state w) (aw_state (snd (commit_state e st w)))"
  by (cases rule: commit_state_cases [where e = e and s = st and w = w]) simp_all

lemma own_only_record:
  assumes "\<And>u. account_identity (f u) = account_identity u"
  shows "own_only name st (st\<lparr>as_users := update_first (has_username name) f (as_users st)\<rparr>)"
proof -
  have "u_username (f u) = u_username u" for u using assms [of u] by (simp add: account_identity_def)
  then show ?thesis
    using assms filter_update_first_other [of "as_users st" "has_username name" "\<lambda>u. u_username u \<noteq> name" f]
    by (simp add: own_only_def map_update_first has_username_def)
qed

lemma own_only_sessions:
  "session_identity ` set ss \<subseteq> session_identity ` set (as_sessions st') \<Longrightarrow> own_only name st st' \<Longrightarrow>
   own_only name st (st'\<lparr>as_sessions := ss\<rparr>)"
  by (auto simp: own_only_def)

lemma revoked_identities:
  "session_identity ` set (revoke_sessions_after_password_change t a k ss) \<subseteq> session_identity ` set ss"
  by (auto simp: revoke_sessions_after_password_change_def Let_def session_identity_def dest!: set_update_firstD split: if_splits)

lemma own_only_password:
  "own_only name (aw_state w) (aw_state (snd (change_password lib e s u p w)))"
  if "s_role s \<noteq> Admin" "name = s_username s"
proof -
  have "own_only name (aw_state w)
      ((aw_state w)\<lparr>as_users := update_first (has_username name) (\<lambda>u. u\<lparr>u_password_hash := Some h, u_must_change_password := False\<rparr>) (as_users (aw_state w)),
         as_sessions := revoke_sessions_after_password_change name a k (as_sessions (aw_state w))\<rparr>)" for h a k
    by (rule own_only_sessions) (use revoked_identities in \<open>auto intro!: own_only_record simp: account_identity_def\<close>)
  note c = own_only_commit [OF this]
  show ?thesis
    using that c [of _ name "s_token s"]
    by (cases "List.find (has_username u) (as_users (aw_state w))"; cases "hash_password lib e p") (auto simp: change_password_def Let_def)
qed

lemma own_only_refused:
  assumes "s_role s \<noteq> Admin"
  shows "aw_state (snd (create_user lib smb e s u p r fp w)) = aw_state w" "aw_state (snd (delete_user e s u w)) = aw_state w"
    "aw_state (snd (create_api_token lib e s n r fs ex ips w)) = aw_state w" "aw_state (snd (delete_api_token e s i w)) = aw_state w"
    "aw_state (snd (reset_webauthn_credentials e s u w)) = aw_state w"
  using assms by (simp_all add: create_user_def delete_user_def create_api_token_def delete_api_token_def reset_webauthn_credentials_def)

lemma own_only_logout: "own_only name (aw_state w) (aw_state (snd (logout e t w)))"
proof -
  have "own_only name (aw_state w) ((aw_state w)\<lparr>as_sessions := filter P (as_sessions (aw_state w))\<rparr>)" for P
    by (auto simp: own_only_def)
  then show ?thesis by (auto simp: logout_def Let_def intro: own_only_commit)
qed

lemma own_only_keys:
  "own_only name (aw_state w) (aw_state (snd (add_webauthn_credential e name c w)))"
  "own_only name (aw_state w) (aw_state (snd (remove_webauthn_credential lib e name cid w)))"
proof -
  have "own_only name (aw_state w) (update_user name (\<lambda>u. u\<lparr>u_webauthn_credentials := g u\<rparr>) (aw_state w))" for g
    unfolding update_user_def by (rule own_only_record) (simp add: account_identity_def)
  then show "own_only name (aw_state w) (aw_state (snd (add_webauthn_credential e name c w)))"
    "own_only name (aw_state w) (aw_state (snd (remove_webauthn_credential lib e name cid w)))"
    by (auto simp: add_webauthn_credential_def remove_webauthn_credential_def Let_def intro: own_only_commit split: option.split)
qed

lemma own_only_register:
  "register_finish lib wl e we name i resp w ws = (x, w', ws') \<Longrightarrow> own_only name (aw_state w) (aw_state w')"
  using own_only_keys(1) [of name w e]
  by (auto simp: register_finish_def Let_def split: option.splits if_splits sum.splits prod.splits dest: arg_cong [where f = snd]) (metis snd_conv)+

lemma own_only_delete_key:
  "delete_credential lib wl e name cid w = (x, w') \<Longrightarrow> own_only name (aw_state w) (aw_state w')"
  using own_only_keys(2) [of name w lib e]
  by (auto simp: delete_credential_def split: sum.splits prod.splits) (metis snd_conv)+

text \<open>The whole of what stays: the accounts of others, the settings, and everything else.\<close>

definition confined :: "string \<Rightarrow> ('k, 'r, 'a, 'x) engine \<Rightarrow> ('k, 'r, 'a, 'x) engine \<Rightarrow> bool" where
  "confined name w w' \<longleftrightarrow> own_only name (aw_state (app_auth w)) (aw_state (app_auth w'))
     \<and> er_oidc (app_other w') = er_oidc (app_other w) \<and> er_client (app_other w') = er_client (app_other w)
     \<and> er_more (app_other w') = er_more (app_other w)"

lemma confined_refl [simp]: "confined name w w"
  by (simp add: confined_def)

lemma confined_auth: "own_only name (aw_state (app_auth w)) (aw_state aw) \<Longrightarrow> confined name w (w\<lparr>app_auth := aw\<rparr>)"
  by (simp add: confined_def)

lemma confined_with_auth:
  "own_only name (aw_state (app_auth w)) (aw_state (snd c)) \<Longrightarrow> with_auth req f c w = (r, w') \<Longrightarrow> confined name w w'"
  by (auto simp: with_auth_def confined_def)

lemma account_confined:
  assumes "s_role s \<noteq> Admin" and "account_route ar req s w = (r, w')"
  shows "confined (s_username s) w w'"
proof -
  note refused = own_only_refused [OF assms(1)]
  note own = own_only_password [OF assms(1) refl] own_only_logout
  show ?thesis
    using assms(2)
    by (auto simp: account_route_def Let_def split: if_splits sum.splits elim!: confined_with_auth [rotated]
        intro!: own simp: refused)
qed

lemma webauthn_confined:
  assumes "s_role s \<noteq> Admin" and "webauthn_route ar req s w = (r, w')"
  shows "confined (s_username s) w w'"
  using assms own_only_register own_only_delete_key
  by (auto simp: webauthn_route_def Let_def confined_def split: if_splits sum.splits prod.splits)

lemma auth_route_confined:
  assumes "s_role s \<noteq> Admin" and "auth_try_route ar req s w = (r, w')"
  shows "confined (s_username s) w w'"
  using assms account_confined [OF assms(1), of ar req w] webauthn_confined [OF assms(1), of ar req w]
  by (auto simp: auth_try_route_def Let_def oidc_update_config_def split: if_splits prod.splits option.splits)

lemma announce_frame [simp]:
  "aw_state (app_auth (announce e req s r w)) = aw_state (app_auth w)" "app_other (announce e req s r w) = app_other w"
  by (simp_all add: announce_def Let_def split: option.split)

lemma confined_announce [simp]: "confined name w (announce e req s r w') = confined name w w'"
  by (simp add: confined_def)

lemma confined_audit [simp]: "confined name w (audit_app e a b c d w') = confined name w w'"
  by (simp add: confined_def)

lemma request_confined:
  assumes "s_role s \<noteq> Admin" and "handlers D_auth = auth_try_route ar" and "domain_of (rq_method req) = Some D_auth"
    and "handle_rpc_request e handlers (Some req) s w = (r, w')"
  shows "confined (s_username s) w w'"
proof -
  obtain x w1 where x: "auth_try_route ar req s w = (x, w1)" by fastforce
  then have "confined (s_username s) w w1" using auth_route_confined [OF assms(1)] by blast
  moreover have "route handlers req s w = (case x of Some r \<Rightarrow> r | None \<Rightarrow> unknown_method req, w1)"
    using assms(2,3) x by (simp add: route_def split: option.split)
  ultimately show ?thesis using assms(4) by (auto simp: handle_rpc_request_def split: if_splits)
qed

text \<open>
  (C15) Without administrator rights nobody reaches beyond their own account: whatever method of
  the authentication domain a session of another role calls, with whatever parameters, through
  the router, the accounts of all other users are unchanged, no account appears, disappears or
  changes its role, principal or linked identity, no API token appears or disappears, no session
  appears, and the settings of single sign-on stay.
\<close>

theorem non_admin_confined:
  assumes "s_role s \<noteq> Admin" and "domain_of (rq_method req) = Some D_auth"
    and "handle_rpc_request e (others(D_auth := auth_try_route ar)) (Some req) s w = (r, w')"
  shows "filter (\<lambda>u. u_username u \<noteq> s_username s) (as_users (aw_state (app_auth w'))) =
      filter (\<lambda>u. u_username u \<noteq> s_username s) (as_users (aw_state (app_auth w)))
    \<and> map account_identity (as_users (aw_state (app_auth w'))) = map account_identity (as_users (aw_state (app_auth w)))
    \<and> as_api_tokens (aw_state (app_auth w')) = as_api_tokens (aw_state (app_auth w))
    \<and> session_identity ` set (as_sessions (aw_state (app_auth w'))) \<subseteq> session_identity ` set (as_sessions (aw_state (app_auth w)))
    \<and> er_oidc (app_other w') = er_oidc (app_other w) \<and> er_client (app_other w') = er_client (app_other w)
    \<and> er_more (app_other w') = er_more (app_other w)"
  using request_confined [of s "others(D_auth := auth_try_route ar)" ar req e w r w'] assms
  by (simp add: confined_def own_only_def)

text \<open>Sample surroundings: the password parser reads the two fields, the other parsers accept
  nothing.\<close>

definition plain_surroundings :: "(nat, string, nat list) auth_surroundings" where
  "plain_surroundings = \<lparr>ar_lib = plain_lib, ar_wl = echo_webauthn, ar_env = calm_auth, ar_we = \<lparr>we_now = 0, we_id = ''r1''\<rparr>,
     ar_smb = (\<lambda>_. None), ar_seal = (\<lambda>_. None), ar_save_error = None,
     ar_oidc_lib = \<lparr>ol_parse_url = (\<lambda>_. Err ''no url''), ol_discover = (\<lambda>_. None), ol_redirect = (\<lambda>_. None), ol_unseal = (\<lambda>_. None)\<rparr>,
     ar_change_password = (\<lambda>p. case (Option.bind (json_get p ''username'') as_str, Option.bind (json_get p ''new_password'') as_str) of
        (Some u, Some q) \<Rightarrow> Ok (u, q) | _ \<Rightarrow> Err ''missing field''),
     ar_create_user = (\<lambda>_. Err ''missing field''), ar_create_token = (\<lambda>_. Err ''missing field''),
     ar_oidc_settings = (\<lambda>_. Err ''missing field''), ar_register_start = (\<lambda>_. Err ''missing field''),
     ar_register_finish = (\<lambda>_. Err ''missing field''), ar_delete_key = (\<lambda>_. Err ''missing field'')\<rparr>"

definition plain_engine :: "(nat, string, nat list, nat) engine" where
  "plain_engine = \<lparr>app_auth = boot_world, app_events = [],
     app_other = \<lparr>er_webauthn = webauthn_new DEFAULT_RP_ID, er_oidc = \<lparr>st_oidc = keycloak_settings, st_saved = keycloak_settings\<rparr>,
       er_client = None, er_more = 0\<rparr>\<rparr>"

definition password_request :: rpc_request where
  "password_request = \<lparr>rq_jsonrpc = ''2.0'', rq_method = ''auth.change_password'',
     rq_params = Some (JObj [(''username'', JStr ''admin''), (''new_password'', JStr ''taken-over'')]), rq_id = JInt 4\<rparr>"

definition silent_domains :: "domain \<Rightarrow> ('k, 'o) try_route" where
  "silent_domains d req s w = (None, w)"

theorem non_admin_confined_witness:
  "let (r, w') = handle_rpc_request calm_auth (silent_domains(D_auth := auth_try_route plain_surroundings)) (Some password_request) operator_session plain_engine
   in rs_error r = Some \<lparr>re_code = - 32603, re_message = ''forbidden'', re_data = None\<rparr>
      \<and> filter (\<lambda>u. u_username u \<noteq> ''ops'') (as_users (aw_state (app_auth w'))) = as_users boot_auth"
proof -
  let ?c = "handle_rpc_request calm_auth (silent_domains(D_auth := auth_try_route plain_surroundings)) (Some password_request) operator_session plain_engine"
  have "s_role operator_session \<noteq> Admin" "domain_of (rq_method password_request) = Some D_auth" by code_simp+
  from non_admin_confined [OF this, where others = silent_domains and ar = plain_surroundings and w = plain_engine and e = calm_auth, OF surjective_pairing]
  have "filter (\<lambda>u. u_username u \<noteq> s_username operator_session) (as_users (aw_state (app_auth (snd ?c)))) =
      filter (\<lambda>u. u_username u \<noteq> s_username operator_session) (as_users (aw_state (app_auth plain_engine)))" by blast
  moreover have "filter (\<lambda>u. u_username u \<noteq> s_username operator_session) (as_users (aw_state (app_auth plain_engine))) = as_users boot_auth"
    "s_username operator_session = ''ops''" by code_simp+
  moreover have "rs_error (fst ?c) = Some \<lparr>re_code = - 32603, re_message = ''forbidden'', re_data = None\<rparr>" by code_simp
  ultimately show ?thesis by (simp add: case_prod_beta)
qed

section \<open>A namesake\<close>

text \<open>
  What the shared name of an API token and a single sign-on account means: the handlers identify
  the owner of security keys by the name of the session. A read-only token \<open>ci\<close> enrolls a
  key for the administrator who was provisioned as \<open>ci\<close>.
\<close>

definition namesake_world :: "nat auth_world" where
  "namesake_world = snd (login_or_provision_oidc plain_lib calm_auth ci_identity (Some Admin) True ''10.0.0.2''
     (token_world\<lparr>aw_state := (aw_state token_world)\<lparr>as_api_tokens := map (\<lambda>t. t\<lparr>t_role := ReadOnly\<rparr>) (as_api_tokens (aw_state token_world))\<rparr>\<rparr>))"

definition namesake_session :: session where
  "namesake_session = token_session ''raw'' (hd (as_api_tokens (aw_state namesake_world)))"

lemma token_enrolls_key_for_namesake:
  "let s = namesake_session;
       (x, ws1) = register_start plain_lib echo_webauthn \<lparr>we_now = 0, we_id = ''r1''\<rparr> (s_username s) ''key'' namesake_world (webauthn_new DEFAULT_RP_ID);
       (y, aw, ws2) = register_finish plain_lib echo_webauthn calm_auth \<lparr>we_now = 9, we_id = []\<rparr> (s_username s) ''r1'' (JStr ''ci'') namesake_world ws1
   in s_role s = ReadOnly \<and> is_ok y \<and> length (webauthn_credentials_for ''ci'' aw) = 1
      \<and> map_option u_role (List.find (has_username ''ci'') (as_users (aw_state aw))) = Some Admin"
  by code_simp

end
