(* ===== verification/Protocol.thy ===== *)
theory Protocol
  imports Rust_Str
begin

text \<open>
  The protocol service (\<open>nasty-system/src/protocol.rs\<close>): which sharing and system
  protocols are enabled, how that choice is persisted, and how enabling, disabling and boot-time
  restoration drive the systemd units. The world is the persisted file and the set of active
  units. What \<open>systemctl\<close>, the file system and the watchdog helpers answer is the
  environment \<open>proto_env\<close>: a failed call leaves the unit, or the file, as it was.
\<close>

section \<open>Protocols\<close>

datatype protocol = Nfs | Smb | Iscsi | Nvmeof | Nut | Ssh | Avahi | Smart | Watchdog | RestServer

definition protocol_ALL :: "protocol list" where
  "protocol_ALL = [Nfs, Smb, Iscsi, Nvmeof, Nut, Ssh, Avahi, Smart, Watchdog, RestServer]"

definition is_system_service :: "protocol \<Rightarrow> bool" where
  "is_system_service p = (p \<in> set [Nut, Ssh, Avahi, Smart, Watchdog, RestServer])"

fun proto_name :: "protocol \<Rightarrow> string" where
  "proto_name Nfs = ''nfs''"
| "proto_name Smb = ''smb''"
| "proto_name Iscsi = ''iscsi''"
| "proto_name Nvmeof = ''nvmeof''"
| "proto_name Nut = ''nut''"
| "proto_name Ssh = ''ssh''"
| "proto_name Avahi = ''avahi''"
| "proto_name Smart = ''smart''"
| "proto_name Watchdog = ''watchdog''"
| "proto_name RestServer = ''rest-server''"

fun display_name :: "protocol \<Rightarrow> string" where
  "display_name Nfs = ''NFS''"
| "display_name Smb = ''SMB''"
| "display_name Iscsi = ''iSCSI''"
| "display_name Nvmeof = ''NVMe-oF''"
| "display_name Nut = ''UPS (NUT)''"
| "display_name Ssh = ''SSH''"
| "display_name Avahi = ''mDNS (Avahi)''"
| "display_name Smart = ''SMART''"
| "display_name Watchdog = ''Watchdog''"
| "display_name RestServer = ''Backup Server''"

datatype nut_mode = Local | Remote

fun services_for_mode :: "nut_mode \<Rightarrow> string list" where
  "services_for_mode Local = [''nut-driver.service'', ''nut-server.service'', ''nut-monitor.service'']"
| "services_for_mode Remote = [''nut-monitor.service'']"

fun status_unit :: "nut_mode \<Rightarrow> string" where
  "status_unit Local = ''nut-server.service''"
| "status_unit Remote = ''nut-monitor.service''"

fun proto_services :: "nut_mode \<Rightarrow> protocol \<Rightarrow> string list" where
  "proto_services m Nfs = [''nfs-server.service'']"
| "proto_services m Smb = [''samba-smbd.service'', ''samba-nmbd.service'', ''samba-wsdd.service'']"
| "proto_services m Iscsi = [''target.service'']"
| "proto_services m Nvmeof = []"
| "proto_services m Nut = services_for_mode m"
| "proto_services m Ssh = [''sshd.service'']"
| "proto_services m Avahi = [''avahi-daemon.service'']"
| "proto_services m Smart = [''smartd.service'']"
| "proto_services m Watchdog = [''nasty-watchdog.service'']"
| "proto_services m RestServer = [''nasty-rest-server.service'']"

definition from_name :: "string \<Rightarrow> protocol option" where
  "from_name n =
     (if n = ''nfs'' then Some Nfs
      else if n = ''smb'' then Some Smb
      else if n = ''iscsi'' then Some Iscsi
      else if n = ''nvmeof'' then Some Nvmeof
      else if n = ''nut'' then Some Nut
      else if n = ''ssh'' then Some Ssh
      else if n = ''avahi'' then Some Avahi
      else if n = ''smart'' then Some Smart
      else if n = ''watchdog'' then Some Watchdog
      else if n = ''rest-server'' then Some RestServer
      else None)"

section \<open>Persisted state\<close>

record protocol_state =
  nfs :: bool
  smb :: bool
  iscsi :: bool
  nvmeof :: bool
  nut :: bool
  ssh :: bool
  avahi :: bool
  smart :: bool
  watchdog :: bool
  rest_server :: bool

definition protocol_state_default :: protocol_state where
  "protocol_state_default = \<lparr>nfs = False, smb = False, iscsi = False, nvmeof = False, nut = False,
     ssh = True, avahi = True, smart = True, watchdog = False, rest_server = False\<rparr>"

fun ps_get :: "protocol_state \<Rightarrow> protocol \<Rightarrow> bool" where
  "ps_get s Nfs = nfs s"
| "ps_get s Smb = smb s"
| "ps_get s Iscsi = iscsi s"
| "ps_get s Nvmeof = nvmeof s"
| "ps_get s Nut = nut s"
| "ps_get s Ssh = ssh s"
| "ps_get s Avahi = avahi s"
| "ps_get s Smart = smart s"
| "ps_get s Watchdog = watchdog s"
| "ps_get s RestServer = rest_server s"

fun ps_set :: "protocol_state \<Rightarrow> protocol \<Rightarrow> bool \<Rightarrow> protocol_state" where
  "ps_set s Nfs b = s\<lparr>nfs := b\<rparr>"
| "ps_set s Smb b = s\<lparr>smb := b\<rparr>"
| "ps_set s Iscsi b = s\<lparr>iscsi := b\<rparr>"
| "ps_set s Nvmeof b = s\<lparr>nvmeof := b\<rparr>"
| "ps_set s Nut b = s\<lparr>nut := b\<rparr>"
| "ps_set s Ssh b = s\<lparr>ssh := b\<rparr>"
| "ps_set s Avahi b = s\<lparr>avahi := b\<rparr>"
| "ps_set s Smart b = s\<lparr>smart := b\<rparr>"
| "ps_set s Watchdog b = s\<lparr>watchdog := b\<rparr>"
| "ps_set s RestServer b = s\<lparr>rest_server := b\<rparr>"

datatype proto_file = Missing | Corrupt | Valid protocol_state

record proto_world =
  pw_file :: proto_file
  pw_units :: "string set"

text \<open>Where in a call the state is saved; each save can fail on its own.\<close>

datatype save_point = SaveInitial | SavePrimary | SaveRollback | SaveAutoDisable protocol

text \<open>What the calls of a watchdog stop answer: the waits for the unit and the forced stop.\<close>

record watchdog_stop =
  ws_first_wait :: "string option"
  ws_kill :: "string option"
  ws_second_wait :: "string option"
  ws_last_wait :: "string option"

record proto_env =
  env_nut_mode :: nut_mode
  env_hosts_dc :: bool
  env_is_vm :: bool
  env_nvmet :: bool
  env_save :: "save_point \<Rightarrow> string option"
  env_preflight :: "string option"
  env_write_config :: "string option"
  env_start :: "string \<Rightarrow> string option"
  env_stop :: "string \<Rightarrow> string option"
  env_watchdog_stays_up :: bool
  env_watchdog_stop :: watchdog_stop

definition save_state :: "proto_env \<Rightarrow> save_point \<Rightarrow> protocol_state \<Rightarrow> proto_world \<Rightarrow> string option \<times> proto_world" where
  "save_state env k s W =
     (case env_save env k of
        None \<Rightarrow> (None, W\<lparr>pw_file := Valid s\<rparr>)
      | Some e \<Rightarrow> (Some (''failed to write protocol state: '' @ e), W))"

definition load_state :: "proto_env \<Rightarrow> proto_world \<Rightarrow> protocol_state \<times> proto_world" where
  "load_state env W =
     (case pw_file W of
        Valid s \<Rightarrow> (s, W)
      | Corrupt \<Rightarrow> (protocol_state_default, W)
      | Missing \<Rightarrow>
          (let s = (if env_is_vm env then protocol_state_default\<lparr>smart := False\<rparr>
                    else protocol_state_default)
           in (s, snd (save_state env SaveInitial s W))))"

section \<open>Units\<close>

definition watchdog_unit :: string where
  "watchdog_unit = ''nasty-watchdog.service''"

definition systemctl_start :: "proto_env \<Rightarrow> string \<Rightarrow> proto_world \<Rightarrow> string option \<times> proto_world" where
  "systemctl_start env u W =
     (case env_start env u of
        None \<Rightarrow> (None, W\<lparr>pw_units := insert u (pw_units W)\<rparr>)
      | Some e \<Rightarrow> (Some e, W))"

definition systemctl_stop :: "proto_env \<Rightarrow> string \<Rightarrow> proto_world \<Rightarrow> string option \<times> proto_world" where
  "systemctl_stop env u W =
     (case env_stop env u of
        None \<Rightarrow> (None, W\<lparr>pw_units := pw_units W - {u}\<rparr>)
      | Some e \<Rightarrow> (Some e, W))"

definition verify_running :: "proto_env \<Rightarrow> proto_world \<Rightarrow> string option \<times> proto_world" where
  "verify_running env W =
     (if env_watchdog_stays_up env then (None, W)
      else (Some ''watchdog service exited after restart'',
            W\<lparr>pw_units := pw_units W - {watchdog_unit}\<rparr>))"

text \<open>A unit that does not stop is killed and stopped again; the last wait has the last word.\<close>

definition watchdog_stop_error :: "proto_env \<Rightarrow> string option" where
  "watchdog_stop_error env =
     (let w = env_watchdog_stop env in
      case ws_first_wait w of
        None \<Rightarrow> ws_last_wait w
      | Some _ \<Rightarrow>
          (case ws_kill w of
             Some e \<Rightarrow> Some (''failed to force-stop watchdog: '' @ e)
           | None \<Rightarrow> (case ws_second_wait w of Some e \<Rightarrow> Some e | None \<Rightarrow> ws_last_wait w)))"

definition stop_and_verify :: "proto_env \<Rightarrow> proto_world \<Rightarrow> string option \<times> proto_world" where
  "stop_and_verify env W =
     (case watchdog_stop_error env of
        None \<Rightarrow> (None, W\<lparr>pw_units := pw_units W - {watchdog_unit}\<rparr>)
      | Some e \<Rightarrow> (Some e, W))"

definition start_one :: "proto_env \<Rightarrow> protocol \<Rightarrow> string \<Rightarrow> proto_world \<Rightarrow> string option \<times> proto_world" where
  "start_one env p u W =
     (case systemctl_start env u W of
        (None, W1) \<Rightarrow> if p = Watchdog then verify_running env W1 else (None, W1)
      | (Some e, W1) \<Rightarrow> (Some e, W1))"

text \<open>Start the units in order; on a failure, its error and the units started before it.\<close>

fun start_services :: "proto_env \<Rightarrow> protocol \<Rightarrow> string list \<Rightarrow> string list \<Rightarrow> proto_world \<Rightarrow>
    (string \<times> string list) option \<times> proto_world" where
  "start_services env p [] started W = (None, W)"
| "start_services env p (u # us) started W =
     (case start_one env p u W of
        (None, W1) \<Rightarrow> start_services env p us (started @ [u]) W1
      | (Some e, W1) \<Rightarrow> (Some (e, started), W1))"

text \<open>Stop the units in order, whatever each stop answers.\<close>

fun stop_services :: "proto_env \<Rightarrow> string list \<Rightarrow> proto_world \<Rightarrow> proto_world" where
  "stop_services env [] W = W"
| "stop_services env (u # us) W = stop_services env us (snd (systemctl_stop env u W))"

definition is_protocol_running :: "proto_env \<Rightarrow> protocol \<Rightarrow> proto_world \<Rightarrow> bool" where
  "is_protocol_running env p W =
     (case p of
        Nfs \<Rightarrow> ''nfs-server.service'' \<in> pw_units W
      | Smb \<Rightarrow> ''samba-smbd.service'' \<in> pw_units W
      | Iscsi \<Rightarrow> ''target.service'' \<in> pw_units W
      | Nvmeof \<Rightarrow> env_nvmet env
      | Nut \<Rightarrow> status_unit (env_nut_mode env) \<in> pw_units W
      | Ssh \<Rightarrow> ''sshd.service'' \<in> pw_units W
      | Avahi \<Rightarrow> ''avahi-daemon.service'' \<in> pw_units W
      | Smart \<Rightarrow> ''smartd.service'' \<in> pw_units W
      | Watchdog \<Rightarrow> ''nasty-watchdog.service'' \<in> pw_units W
      | RestServer \<Rightarrow> ''nasty-rest-server.service'' \<in> pw_units W)"

text \<open>Only the watchdog's preparation can fail; the others log and go on.\<close>

definition prepare_protocol :: "proto_env \<Rightarrow> protocol \<Rightarrow> string option" where
  "prepare_protocol env p =
     (if p = Watchdog then
        (case env_preflight env of Some e \<Rightarrow> Some e | None \<Rightarrow> env_write_config env)
      else None)"

section \<open>Operations\<close>

record protocol_status =
  st_name :: string
  st_display_name :: string
  st_enabled :: bool
  st_running :: bool
  st_system_service :: bool

definition status_of :: "protocol \<Rightarrow> bool \<Rightarrow> bool \<Rightarrow> protocol_status" where
  "status_of p enabled running = \<lparr>st_name = proto_name p, st_display_name = display_name p,
     st_enabled = enabled, st_running = running, st_system_service = is_system_service p\<rparr>"

definition is_enabled :: "proto_env \<Rightarrow> protocol \<Rightarrow> proto_world \<Rightarrow> bool \<times> proto_world" where
  "is_enabled env p W = (case load_state env W of (s, W1) \<Rightarrow> (ps_get s p, W1))"

definition list_protocols :: "proto_env \<Rightarrow> proto_world \<Rightarrow> protocol_status list \<times> proto_world" where
  "list_protocols env W =
     (case load_state env W of (s, W1) \<Rightarrow>
        (map (\<lambda>p. status_of p (ps_get s p) (is_protocol_running env p W1)) protocol_ALL, W1))"

text \<open>The two clean-up steps both failure paths of \<open>enable\<close> share, with what they add to the message.\<close>

definition watchdog_rollback :: "proto_env \<Rightarrow> protocol \<Rightarrow> proto_world \<Rightarrow> string \<times> proto_world" where
  "watchdog_rollback env p W =
     (if p = Watchdog then
        (case stop_and_verify env W of
           (None, W1) \<Rightarrow> ([], W1)
         | (Some e, W1) \<Rightarrow> (''; failed to stop watchdog during rollback: '' @ e, W1))
      else ([], W))"

definition state_rollback :: "proto_env \<Rightarrow> protocol_state \<Rightarrow> proto_world \<Rightarrow> string \<times> proto_world" where
  "state_rollback env s W =
     (case save_state env SaveRollback s W of
        (None, W1) \<Rightarrow> ([], W1)
      | (Some e, W1) \<Rightarrow> (''; state rollback failed: '' @ e, W1))"

definition smb_on_dc_message :: string where
  "smb_on_dc_message =
     ''this box hosts an Active Directory domain '' @ em_dash @ '' its domain controller serves SMB (shares included); demote it on the Settings '' @ right_arrow @ '' Directory panel before enabling standalone SMB''"

definition enable :: "proto_env \<Rightarrow> string \<Rightarrow> proto_world \<Rightarrow> (string + protocol_status) \<times> proto_world" where
  "enable env name W =
     (case from_name name of
        None \<Rightarrow> (Err (''unknown protocol: '' @ name), W)
      | Some p \<Rightarrow>
          if p = Smb \<and> env_hosts_dc env then (Err smb_on_dc_message, W)
          else
            (case load_state env W of (s0, W1) \<Rightarrow>
             let s = ps_set s0 p True in
             (case save_state env SavePrimary s W1 of
                (Some e, W2) \<Rightarrow> (Err e, W2)
              | (None, W2) \<Rightarrow>
                 (case prepare_protocol env p of
                    Some e \<Rightarrow>
                      (case watchdog_rollback env p W2 of (m1, W3) \<Rightarrow>
                       (case state_rollback env (ps_set s p False) W3 of (m2, W4) \<Rightarrow>
                          (Err (''failed to prepare '' @ display_name p @ '': '' @ e @ m1 @ m2), W4)))
                  | None \<Rightarrow>
                      (case start_services env p (proto_services (env_nut_mode env) p) [] W2 of
                         (Some (e, started), W3) \<Rightarrow>
                           (case watchdog_rollback env p (stop_services env started W3) of (m1, W4) \<Rightarrow>
                            (case state_rollback env (ps_set s p False) W4 of (m2, W5) \<Rightarrow>
                               (Err (''Failed to start '' @ display_name p @ '': '' @ e @ m1 @ m2), W5)))
                       | (None, W3) \<Rightarrow>
                           (Ok (status_of p True (is_protocol_running env p W3)), W3))))))"

definition disable :: "proto_env \<Rightarrow> string \<Rightarrow> proto_world \<Rightarrow> (string + protocol_status) \<times> proto_world" where
  "disable env name W =
     (case from_name name of
        None \<Rightarrow> (Err (''unknown protocol: '' @ name), W)
      | Some p \<Rightarrow>
          (case load_state env W of (s0, W1) \<Rightarrow>
           (case save_state env SavePrimary (ps_set s0 p False) W1 of
              (Some e, W2) \<Rightarrow> (Err e, W2)
            | (None, W2) \<Rightarrow>
                if p = Watchdog then
                  (case stop_and_verify env W2 of
                     (Some e, W3) \<Rightarrow>
                       (Err (''Watchdog is disabled in persistent state but could not be stopped: '' @ e), W3)
                   | (None, W3) \<Rightarrow> (Ok (status_of p False False), W3))
                else
                  (let W3 = stop_services env (proto_services (env_nut_mode env) p) W2
                   in (Ok (status_of p False (is_protocol_running env p W3)), W3)))))"

fun quiesce_units :: "proto_env \<Rightarrow> string list \<Rightarrow> proto_world \<Rightarrow> (string + unit) \<times> proto_world" where
  "quiesce_units env [] W = (Ok (), W)"
| "quiesce_units env (u # us) W =
     (case systemctl_stop env u W of
        (Some e, W1) \<Rightarrow> (Err e, W1)
      | (None, W1) \<Rightarrow> quiesce_units env us W1)"

definition quiesce :: "proto_env \<Rightarrow> protocol \<Rightarrow> proto_world \<Rightarrow> (string + unit) \<times> proto_world" where
  "quiesce env p W = quiesce_units env (rev (proto_services (env_nut_mode env) p)) W"

text \<open>One protocol of the boot-time loop: the state in memory, what was restored, the world.\<close>

definition restore_one :: "proto_env \<Rightarrow> protocol set \<Rightarrow> protocol \<Rightarrow>
    protocol_state \<times> protocol set \<times> proto_world \<Rightarrow> protocol_state \<times> protocol set \<times> proto_world" where
  "restore_one env excluded p x =
     (case x of (s, restored, W) \<Rightarrow>
        if \<not> ps_get s p \<or> p \<in> excluded then
          (let W1 = (if \<not> ps_get s p \<and> p = Smart
                     then stop_services env (proto_services (env_nut_mode env) p) W else W);
               W2 = (if p = Watchdog then snd (stop_and_verify env W1) else W1)
           in (s, restored, W2))
        else
          (case prepare_protocol env p of
             Some e \<Rightarrow>
               (let s1 = ps_set s p False;
                    W1 = snd (save_state env (SaveAutoDisable p) s1 W);
                    W2 = (if p = Watchdog then snd (stop_and_verify env W1) else W1)
                in (s1, restored, W2))
           | None \<Rightarrow>
               (case start_services env p (proto_services (env_nut_mode env) p) [] W of
                  (Some _, W1) \<Rightarrow>
                    (let W2 = (if p = Watchdog then snd (stop_and_verify env W1) else W1);
                         s1 = ps_set s p False
                     in (s1, restored, snd (save_state env (SaveAutoDisable p) s1 W2)))
                | (None, W1) \<Rightarrow> (s, insert p restored, W1))))"

definition restore_excluding :: "proto_env \<Rightarrow> protocol set \<Rightarrow> proto_world \<Rightarrow> protocol set \<times> proto_world" where
  "restore_excluding env excluded W =
     (case load_state env W of (s, W1) \<Rightarrow>
        (case fold (restore_one env excluded) protocol_ALL (s, {}, W1) of
           (_, restored, W2) \<Rightarrow> (restored, W2)))"

definition restore :: "proto_env \<Rightarrow> proto_world \<Rightarrow> proto_world" where
  "restore env W = snd (restore_excluding env {} W)"

section \<open>Flags: the interface of the persisted state\<close>

text \<open>
  What the service relies on of \<open>ProtocolState::get\<close> and \<open>ProtocolState::set\<close>, and what
  follows for a state on which one protocol's flag was changed, possibly twice (the flag is
  raised first and lowered again when the units do not come up).
\<close>

locale flag_store =
  fixes get :: "'s \<Rightarrow> 'k \<Rightarrow> bool"
    and set :: "'s \<Rightarrow> 'k \<Rightarrow> bool \<Rightarrow> 's"
  assumes get_set: "get (set s k b) k' = (if k = k' then b else get s k')"
    and set_set: "set (set s k a) k b = set s k b"
begin

lemma lowered: "\<not> get (set (set s k True) k False) k"
  by (simp add: get_set)

lemma frame: "k' \<noteq> k \<Longrightarrow> get (set (set s k a) k b) k' = get s k'"
  by (simp add: get_set)

lemma raised_mono: "get (set s k False) k' \<Longrightarrow> get s k'"
  by (simp add: get_set split: if_splits)

end

interpretation ps: flag_store ps_get ps_set
proof unfold_locales
  fix s k b k'
  show "ps_get (ps_set s k b) k' = (if k = k' then b else ps_get s k')"
    by (cases k; cases k') simp_all
next
  fix s k a b
  show "ps_set (ps_set s k a) k b = ps_set s k b"
    by (cases k) simp_all
qed

lemmas ps_simps [simp] = ps.get_set ps.set_set

section \<open>Facts on units and files\<close>

named_theorems unit_ops \<open>effects of the calls that act on units\<close>

lemma save_state_units [simp]: "pw_units (snd (save_state env k s W)) = pw_units W"
  by (simp add: save_state_def split: option.split)

lemma load_state_units [simp]: "pw_units (snd (load_state env W)) = pw_units W"
  by (simp add: load_state_def Let_def split: proto_file.split)

lemma load_state_Valid [simp]: "pw_file W = Valid s \<Longrightarrow> load_state env W = (s, W)"
  by (simp add: load_state_def)

lemma stop_services_file [simp]: "pw_file (stop_services env us W) = pw_file W"
  by (induction env us W rule: stop_services.induct) (simp_all add: systemctl_stop_def split: option.split)

lemma stop_services_units [unit_ops]:
  "pw_units (stop_services env us W) = pw_units W - {u \<in> set us. env_stop env u = None}"
  by (induction env us W rule: stop_services.induct) (auto simp: systemctl_stop_def split: option.splits)

lemma start_services_None [unit_ops]:
  "start_services env p us started W = (None, W') \<Longrightarrow>
   pw_file W' = pw_file W \<and> pw_units W' = pw_units W \<union> set us"
  by (induction env p us started W rule: start_services.induct)
    (auto simp: start_one_def systemctl_start_def verify_running_def
      split: option.splits if_splits prod.splits)

lemma start_services_Some [unit_ops]:
  "start_services env p us started W = (Some (e, started'), W') \<Longrightarrow>
   p = Watchdog \<longrightarrow> set us \<subseteq> {watchdog_unit} \<Longrightarrow>
   \<exists>more. started' = started @ more \<and> set more \<subseteq> set us \<and> pw_file W' = pw_file W
     \<and> pw_units W' \<subseteq> pw_units W \<union> set more
     \<and> pw_units W - (if p = Watchdog then {watchdog_unit} else {}) \<subseteq> pw_units W'"
proof (induction env p us started W rule: start_services.induct)
  case (2 env p u us started W)
  show ?case
  proof (cases "start_one env p u W")
    case (Pair r W1)
    show ?thesis
    proof (cases r)
      case (Some e')
      with Pair "2.prems" show ?thesis
        by (auto simp: start_one_def systemctl_start_def verify_running_def
            split: option.splits if_splits prod.splits)
    next
      case None
      with Pair have W1: "pw_file W1 = pw_file W" "pw_units W1 = insert u (pw_units W)"
        by (auto simp: start_one_def systemctl_start_def verify_running_def
            split: option.splits if_splits prod.splits)
      from None Pair "2.prems"(1)
      have rest: "start_services env p us (started @ [u]) W1 = (Some (e, started'), W')" by simp
      from "2.prems"(2) have us: "p = Watchdog \<longrightarrow> set us \<subseteq> {watchdog_unit}" by simp
      from Pair None have one: "start_one env p u W = (None, W1)" by simp
      from "2.IH" [OF one [symmetric] refl rest us] obtain more where
        "started' = (started @ [u]) @ more" "set more \<subseteq> set us" "pw_file W' = pw_file W1"
        "pw_units W' \<subseteq> pw_units W1 \<union> set more"
        "pw_units W1 - (if p = Watchdog then {watchdog_unit} else {}) \<subseteq> pw_units W'"
        by blast
      with W1 show ?thesis by (intro exI [of _ "u # more"]) (auto split: if_splits)
    qed
  qed
qed simp

lemma proto_services_disjoint:
  "u \<in> set (proto_services m p) \<Longrightarrow> u \<in> set (proto_services m q) \<Longrightarrow> p = q"
  by (cases p; cases q; cases m; auto)

lemma watchdog_services: "proto_services m Watchdog = [watchdog_unit]"
  by (simp add: watchdog_unit_def)

lemma watchdog_rollback_effect [unit_ops]:
  "watchdog_rollback env p W = (m, W') \<Longrightarrow> pw_file W' = pw_file W \<and>
   pw_units W' = (if p = Watchdog \<and> watchdog_stop_error env = None
                  then pw_units W - {watchdog_unit} else pw_units W)"
  by (auto simp: watchdog_rollback_def stop_and_verify_def split: option.splits if_splits)

lemma state_rollback_effect [unit_ops]:
  "state_rollback env s W = (m, W') \<Longrightarrow> pw_units W' = pw_units W \<and>
   pw_file W' = (if env_save env SaveRollback = None then Valid s else pw_file W)"
  by (auto simp: state_rollback_def save_state_def split: option.splits if_splits)

lemma save_state_None: "save_state env k s W = (None, W') \<Longrightarrow> W' = W\<lparr>pw_file := Valid s\<rparr>"
  by (auto simp: save_state_def split: option.splits)

lemma save_state_Some: "save_state env k s W = (Some e, W') \<Longrightarrow> W' = W"
  by (auto simp: save_state_def split: option.splits)

section \<open>Properties\<close>

text \<open>The wire name of a protocol and its parser are inverse to each other: a name is
  accepted exactly when it is the name of the protocol returned.\<close>

theorem from_name_iff: "from_name n = Some p \<longleftrightarrow> n = proto_name p"
proof
  assume "n = proto_name p"
  then show "from_name n = Some p" by (cases p) (simp_all add: from_name_def)
qed (auto simp: from_name_def split: if_splits)

text \<open>The two ways \<open>enable\<close> can end once the protocol is known, as one case rule.\<close>

lemma enable_cases [consumes 3, case_names refused unprepared unstarted enabled]:
  assumes "enable env n W = (r, W')" and "from_name n = Some p" and "pw_file W = Valid s"
  obtains
    (refused) m where "r = Err m" and "W' = W"
  | (unprepared) m m1 m2 W3 where "r = Err m"
      and "watchdog_rollback env p (W\<lparr>pw_file := Valid (ps_set s p True)\<rparr>) = (m1, W3)"
      and "state_rollback env (ps_set s p False) W3 = (m2, W')"
  | (unstarted) m e started W3 m1 W4 m2 where "r = Err m"
      and "start_services env p (proto_services (env_nut_mode env) p) []
             (W\<lparr>pw_file := Valid (ps_set s p True)\<rparr>) = (Some (e, started), W3)"
      and "watchdog_rollback env p (stop_services env started W3) = (m1, W4)"
      and "state_rollback env (ps_set s p False) W4 = (m2, W')"
  | (enabled) "r = Ok (status_of p True (is_protocol_running env p W'))"
      and "start_services env p (proto_services (env_nut_mode env) p) []
             (W\<lparr>pw_file := Valid (ps_set s p True)\<rparr>) = (None, W')"
proof -
  let ?W = "W\<lparr>pw_file := Valid (ps_set s p True)\<rparr>"
  note E = assms(1) [unfolded enable_def assms(2) option.case load_state_Valid [OF assms(3)] prod.case Let_def]
  show thesis
  proof (cases "p = Smb \<and> env_hosts_dc env")
    case True
    with E show thesis by (intro refused) auto
  next
    case False
    note E = E [unfolded if_not_P [OF False]]
    show thesis
    proof (cases "env_save env SavePrimary")
      case (Some e)
      with E show thesis by (intro refused) (auto simp: save_state_def)
    next
      case None
      then have "save_state env SavePrimary (ps_set s p True) W = (None, ?W)"
        by (simp add: save_state_def)
      note E = E [unfolded this prod.case option.case]
      show thesis
      proof (cases "prepare_protocol env p")
        case (Some e)
        obtain m1 W3 where r1: "watchdog_rollback env p ?W = (m1, W3)" by fastforce
        obtain m2 W4 where r2: "state_rollback env (ps_set s p False) W3 = (m2, W4)" by fastforce
        from E Some r1 r2 show thesis by (intro unprepared [OF _ r1]) auto
      next
        case None
        note E = E [unfolded None option.case]
        obtain x W3 where st: "start_services env p (proto_services (env_nut_mode env) p) [] ?W = (x, W3)"
          by fastforce
        show thesis
        proof (cases x)
          case None
          with E st show thesis by (intro enabled) auto
        next
          case (Some y)
          then obtain e started where y: "x = Some (e, started)" by (cases y) auto
          obtain m1 W4 where r1: "watchdog_rollback env p (stop_services env started W3) = (m1, W4)"
            by fastforce
          obtain m2 W5 where r2: "state_rollback env (ps_set s p False) W4 = (m2, W5)" by fastforce
          from E st y r1 r2 show thesis by (intro unstarted [OF _ st [unfolded y] r1]) auto
        qed
      qed
    qed
  qed
qed

text \<open>When enabling a protocol succeeds, its flag is persisted as raised with every other
  flag unchanged, every one of its units is active, and no other unit changed.\<close>

theorem enable_ok_effect:
  assumes "enable env n W = (Ok st, W')" and "from_name n = Some p" and "pw_file W = Valid s"
  shows "pw_file W' = Valid (ps_set s p True)
    \<and> pw_units W' = pw_units W \<union> set (proto_services (env_nut_mode env) p)
    \<and> st = status_of p True (is_protocol_running env p W')"
  using assms
proof (cases rule: enable_cases)
  case enabled
  with start_services_None [OF enabled(2)] show ?thesis by simp
qed simp_all

text \<open>When enabling a protocol fails and the clean-up calls themselves work, nothing is left
  behind: no unit is active that was not active before, the protocol's persisted flag is not
  left raised unless it was raised before the call, and no other protocol's flag changed.\<close>

theorem enable_err_rolled_back:
  assumes "enable env n W = (Err m, W')" and "from_name n = Some p" and "pw_file W = Valid s"
    and "env_save env SaveRollback = None" and "\<And>u. env_stop env u = None"
    and "watchdog_stop_error env = None"
  shows "\<exists>s'. pw_file W' = Valid s' \<and> (ps_get s' p \<longrightarrow> ps_get s p)
    \<and> (\<forall>q. q \<noteq> p \<longrightarrow> ps_get s' q = ps_get s q) \<and> pw_units W' \<subseteq> pw_units W"
  using assms(1-3)
proof (cases rule: enable_cases)
  case (unstarted m e started W3 m1 W4 m2)
  have "p = Watchdog \<longrightarrow> set (proto_services (env_nut_mode env) p) \<subseteq> {watchdog_unit}"
    by (auto simp: watchdog_unit_def)
  from start_services_Some [OF unstarted(2) this]
  have "pw_units W3 \<subseteq> pw_units W \<union> set started" by auto
  moreover have "pw_units W' \<subseteq> pw_units (stop_services env started W3)"
    using watchdog_rollback_effect [OF unstarted(3)] state_rollback_effect [OF unstarted(4)]
    by auto
  moreover have "pw_file W' = Valid (ps_set s p False)"
    using state_rollback_effect [OF unstarted(4)] assms(4) by simp
  ultimately show ?thesis
    using assms(5) by (auto simp: stop_services_units)
qed (use assms in \<open>auto dest!: watchdog_rollback_effect state_rollback_effect\<close>)

text \<open>When disabling a protocol succeeds, its flag is persisted as lowered and no other flag
  changes; if its units could be stopped, none of them is active any more.\<close>

theorem disable_ok_effect:
  assumes "disable env n W = (Ok st, W')" and "from_name n = Some p" and "pw_file W = Valid s"
    and "\<And>u. u \<in> set (proto_services (env_nut_mode env) p) \<Longrightarrow> env_stop env u = None"
  shows "pw_file W' = Valid (ps_set s p False)
    \<and> set (proto_services (env_nut_mode env) p) \<inter> pw_units W' = {}
    \<and> \<not> st_enabled st"
proof -
  let ?W = "W\<lparr>pw_file := Valid (ps_set s p False)\<rparr>"
  note E = assms(1) [unfolded disable_def assms(2) option.case load_state_Valid [OF assms(3)] prod.case]
  have save: "save_state env SavePrimary (ps_set s p False) W = (None, ?W)"
    using E by (cases "env_save env SavePrimary") (simp_all add: save_state_def)
  note E = E [unfolded save prod.case option.case]
  show ?thesis
  proof (cases "p = Watchdog")
    case True
    with E show ?thesis
      by (cases "watchdog_stop_error env") (auto simp: stop_and_verify_def status_of_def watchdog_unit_def)
  next
    case False
    with E have "W' = stop_services env (proto_services (env_nut_mode env) p) ?W"
      and "st = status_of p False (is_protocol_running env p W')"
      by (auto simp: Let_def)
    with assms(4) show ?thesis by (auto simp: stop_services_units status_of_def)
  qed
qed

section \<open>Boot-time restoration\<close>

text \<open>
  The invariant of the loop over the protocols: \<open>visited\<close> have been handled, starting from the
  persisted flags \<open>s0\<close>.
\<close>

definition restore_inv :: "proto_env \<Rightarrow> protocol set \<Rightarrow> protocol_state \<Rightarrow> protocol set \<Rightarrow>
    protocol_state \<times> protocol set \<times> proto_world \<Rightarrow> bool" where
  "restore_inv env excluded s0 visited x =
     (case x of (s, R, W) \<Rightarrow>
        (\<forall>p \<in> R. p \<in> visited \<and> ps_get s0 p \<and> p \<notin> excluded
           \<and> set (proto_services (env_nut_mode env) p) \<subseteq> pw_units W)
        \<and> (\<forall>p. p \<notin> visited \<or> p \<in> R \<or> p \<in> excluded \<longrightarrow> ps_get s p = ps_get s0 p)
        \<and> (\<forall>p \<in> visited - R - excluded. \<not> ps_get s p)
        \<and> ((\<forall>k. env_save env k = None) \<longrightarrow> pw_file W = Valid s))"

lemma stop_and_verify_units:
  "pw_file (snd (stop_and_verify env W)) = pw_file W"
  "pw_units W - {watchdog_unit} \<subseteq> pw_units (snd (stop_and_verify env W))"
  by (auto simp: stop_and_verify_def split: option.split)

lemma maybe_watchdog_stop:
  fixes p env W
  defines "W' \<equiv> if p = Watchdog then snd (stop_and_verify env W) else W"
  shows "pw_file W' = pw_file W" "pw_units W - set (proto_services m p) \<subseteq> pw_units W'"
  using stop_and_verify_units [where env = env and W = W] by (auto simp: W'_def watchdog_unit_def)

lemma start_services_frame:
  assumes "start_services env p (proto_services m p) [] W = (x, W')"
  shows "pw_file W' = pw_file W" "pw_units W - set (proto_services m p) \<subseteq> pw_units W'"
proof -
  have wd: "p = Watchdog \<longrightarrow> set (proto_services m p) \<subseteq> {watchdog_unit}"
    by (auto simp: watchdog_unit_def)
  have "pw_file W' = pw_file W \<and>
      pw_units W - (if p = Watchdog then {watchdog_unit} else {}) \<subseteq> pw_units W'"
  proof (cases x)
    case None
    with assms start_services_None show ?thesis by fastforce
  next
    case (Some y)
    with assms start_services_Some [of env p _ "[]" W "fst y" "snd y" W', OF _ wd]
    show ?thesis by auto
  qed
  then show "pw_file W' = pw_file W" "pw_units W - set (proto_services m p) \<subseteq> pw_units W'"
    by (auto simp: watchdog_unit_def split: if_splits)
qed

text \<open>The three ways one round of the loop can end.\<close>

lemma restore_one_cases [consumes 1, case_names skipped failed restored]:
  assumes "restore_one env excluded p (s, R, W) = (s', R', W')"
  obtains
    (skipped) "\<not> ps_get s p \<or> p \<in> excluded" and "s' = s" and "R' = R" and "pw_file W' = pw_file W"
      and "pw_units W - set (proto_services (env_nut_mode env) p) \<subseteq> pw_units W'"
  | (failed) "ps_get s p" and "p \<notin> excluded" and "s' = ps_set s p False" and "R' = R"
      and "env_save env (SaveAutoDisable p) = None \<longrightarrow> pw_file W' = Valid s'"
      and "pw_units W - set (proto_services (env_nut_mode env) p) \<subseteq> pw_units W'"
  | (restored) "ps_get s p" and "p \<notin> excluded" and "s' = s" and "R' = insert p R"
      and "pw_file W' = pw_file W"
      and "pw_units W' = pw_units W \<union> set (proto_services (env_nut_mode env) p)"
proof (cases "\<not> ps_get s p \<or> p \<in> excluded")
  case True
  define W1 where "W1 = (if \<not> ps_get s p \<and> p = Smart
      then stop_services env (proto_services (env_nut_mode env) p) W else W)"
  have W': "W' = (if p = Watchdog then snd (stop_and_verify env W1) else W1)" "s' = s" "R' = R"
  proof -
    have "restore_one env excluded p (s, R, W) =
        (s, R, if p = Watchdog then snd (stop_and_verify env W1) else W1)"
      using True by (simp add: restore_one_def Let_def W1_def)
    with assms show "W' = (if p = Watchdog then snd (stop_and_verify env W1) else W1)" "s' = s" "R' = R"
      by (simp_all only: prod.inject)
  qed
  have W1: "pw_file W1 = pw_file W"
      "pw_units W - set (proto_services (env_nut_mode env) p) \<subseteq> pw_units W1"
    by (auto simp: W1_def systemctl_stop_def split: option.split)
  have "pw_file W' = pw_file W"
    unfolding W'(1) maybe_watchdog_stop(1) by (rule W1)
  moreover have "pw_units W - set (proto_services (env_nut_mode env) p) \<subseteq> pw_units W'"
    unfolding W'(1) using W1(2) maybe_watchdog_stop(2) by blast
  ultimately show thesis using True W'(2,3) by (intro skipped) simp_all
next
  case False
  note on = this
  show thesis
  proof (cases "prepare_protocol env p")
    case (Some e)
    define W1 where "W1 = snd (save_state env (SaveAutoDisable p) (ps_set s p False) W)"
    have W': "W' = (if p = Watchdog then snd (stop_and_verify env W1) else W1)"
        "s' = ps_set s p False" "R' = R"
    proof -
      have "restore_one env excluded p (s, R, W) = (ps_set s p False, R,
          if p = Watchdog then snd (stop_and_verify env W1) else W1)"
        using on Some by (simp add: restore_one_def Let_def W1_def)
      with assms show "W' = (if p = Watchdog then snd (stop_and_verify env W1) else W1)"
          "s' = ps_set s p False" "R' = R"
        by (simp_all only: prod.inject)
    qed
    have W1: "env_save env (SaveAutoDisable p) = None \<longrightarrow> pw_file W1 = Valid (ps_set s p False)"
        "pw_units W1 = pw_units W"
      by (simp_all add: W1_def) (simp add: save_state_def)
    have "env_save env (SaveAutoDisable p) = None \<longrightarrow> pw_file W' = Valid s'"
      unfolding W' maybe_watchdog_stop(1) by (rule W1)
    moreover have "pw_units W - set (proto_services (env_nut_mode env) p) \<subseteq> pw_units W'"
      unfolding W'(1) W1(2) [symmetric] by (rule maybe_watchdog_stop(2))
    ultimately show thesis using on W'(2,3) by (intro failed) simp_all
  next
    case None
    obtain x W1 where st: "start_services env p (proto_services (env_nut_mode env) p) [] W = (x, W1)"
      by fastforce
    show thesis
    proof (cases x)
      case None
      with assms on st \<open>prepare_protocol env p = None\<close> have "s' = s" "R' = insert p R" "W' = W1"
        by (simp_all add: restore_one_def)
      with on st None start_services_None show thesis by (intro restored) fastforce+
    next
      case (Some y)
      define W2 where "W2 = (if p = Watchdog then snd (stop_and_verify env W1) else W1)"
      have W': "s' = ps_set s p False" "R' = R"
          "W' = snd (save_state env (SaveAutoDisable p) (ps_set s p False) W2)"
      proof -
        have "restore_one env excluded p (s, R, W) = (ps_set s p False, R,
            snd (save_state env (SaveAutoDisable p) (ps_set s p False) W2))"
          using on st Some None by (simp add: restore_one_def Let_def W2_def)
        with assms show "s' = ps_set s p False" "R' = R"
            "W' = snd (save_state env (SaveAutoDisable p) (ps_set s p False) W2)"
          by auto
      qed
      have "pw_units W - set (proto_services (env_nut_mode env) p) \<subseteq> pw_units W2"
        using start_services_frame(2) [OF st] maybe_watchdog_stop(2) [where p = p and env = env and W = W1 and m = "env_nut_mode env"]
        unfolding W2_def by blast
      then have "pw_units W - set (proto_services (env_nut_mode env) p) \<subseteq> pw_units W'"
        by (simp add: W')
      moreover have "env_save env (SaveAutoDisable p) = None \<longrightarrow> pw_file W' = Valid s'"
        by (simp add: W' save_state_def)
      ultimately show thesis using on W' by (intro failed) auto
    qed
  qed
qed

lemma restore_one_inv:
  assumes "restore_inv env excluded s0 visited x" and "p \<notin> visited"
  shows "restore_inv env excluded s0 (insert p visited) (restore_one env excluded p x)"
proof -
  obtain s R W where x: "x = (s, R, W)" by (cases x)
  obtain s' R' W' where y: "restore_one env excluded p (s, R, W) = (s', R', W')"
    by (cases "restore_one env excluded p (s, R, W)")
  let ?S = "\<lambda>q. set (proto_services (env_nut_mode env) q)"
  have keep: "?S q \<subseteq> pw_units W'" if "pw_units W - ?S p \<subseteq> pw_units W'" "q \<in> R" for q
  proof -
    from that assms x have "?S q \<subseteq> pw_units W" "q \<noteq> p" by (auto simp: restore_inv_def)
    with that(1) proto_services_disjoint show ?thesis by blast
  qed
  from y show ?thesis
  proof (cases rule: restore_one_cases)
    case skipped
    with assms x y keep show ?thesis by (auto simp: restore_inv_def)
  next
    case failed
    with assms x y keep show ?thesis by (auto simp: restore_inv_def)
  next
    case restored
    with assms x y show ?thesis by (fastforce simp: restore_inv_def)
  qed
qed

lemma fold_restore_inv:
  "distinct ps \<Longrightarrow> set ps \<inter> visited = {} \<Longrightarrow> restore_inv env excluded s0 visited x \<Longrightarrow>
   restore_inv env excluded s0 (visited \<union> set ps) (fold (restore_one env excluded) ps x)"
proof (induction ps arbitrary: visited x)
  case (Cons p ps)
  then have "restore_inv env excluded s0 (insert p visited) (restore_one env excluded p x)"
    by (auto intro: restore_one_inv)
  with Cons have "restore_inv env excluded s0 (insert p visited \<union> set ps)
      (fold (restore_one env excluded) ps (restore_one env excluded p x))"
    by (intro Cons.IH) auto
  then show ?case by simp
qed simp

lemma restore_excluding_inv:
  assumes "restore_excluding env excluded W = (R, W')" and "pw_file W = Valid s"
  shows "\<exists>s'. restore_inv env excluded s UNIV (s', R, W')"
proof -
  have all: "set protocol_ALL = UNIV"
  proof
    show "UNIV \<subseteq> set protocol_ALL"
    proof
      fix p show "p \<in> set protocol_ALL" by (cases p) (simp_all add: protocol_ALL_def)
    qed
  qed simp
  have "restore_inv env excluded s {} (s, {}, W)"
    using assms(2) by (simp add: restore_inv_def)
  from fold_restore_inv [OF _ _ this, of protocol_ALL]
  have "restore_inv env excluded s UNIV (fold (restore_one env excluded) protocol_ALL (s, {}, W))"
    by (simp add: all) (simp add: protocol_ALL_def)
  with assms show ?thesis
    by (cases "fold (restore_one env excluded) protocol_ALL (s, {}, W)")
      (auto simp: restore_excluding_def)
qed



section \<open>Witnesses\<close>

text \<open>An environment in which every call answers with success.\<close>

definition calm_env :: proto_env where
  "calm_env = \<lparr>env_nut_mode = Local, env_hosts_dc = False, env_is_vm = False, env_nvmet = False,
     env_save = (\<lambda>_. None), env_preflight = None, env_write_config = None,
     env_start = (\<lambda>_. None), env_stop = (\<lambda>_. None), env_watchdog_stays_up = True,
     env_watchdog_stop = \<lparr>ws_first_wait = None, ws_kill = None, ws_second_wait = None,
       ws_last_wait = None\<rparr>\<rparr>"

text \<open>The same, but the NetBIOS daemon does not start.\<close>

definition nmbd_broken_env :: proto_env where
  "nmbd_broken_env = calm_env\<lparr>env_start :=
     (\<lambda>u. if u = ''samba-nmbd.service'' then Some ''exit 1'' else None)\<rparr>"

definition fresh_world :: proto_world where
  "fresh_world = \<lparr>pw_file = Valid protocol_state_default, pw_units = {''sshd.service''}\<rparr>"

lemmas enable_eval = Let_def watchdog_stop_error_def enable_def from_name_def save_state_def prepare_protocol_def start_one_def
  systemctl_start_def systemctl_stop_def watchdog_rollback_def state_rollback_def
  calm_env_def nmbd_broken_env_def fresh_world_def

theorem enable_ok_effect_witness:
  "\<exists>st W'. enable calm_env ''smb'' fresh_world = (Ok st, W')
     \<and> pw_file W' = Valid (ps_set protocol_state_default Smb True)
     \<and> ''samba-wsdd.service'' \<in> pw_units W'"
proof -
  obtain st W' where e: "enable calm_env ''smb'' fresh_world = (Ok st, W')"
    by (simp add: enable_eval)
  have "from_name ''smb'' = Some Smb" "pw_file fresh_world = Valid protocol_state_default"
    by (simp_all add: from_name_def fresh_world_def)
  from enable_ok_effect [OF e this] e show ?thesis by auto
qed

theorem enable_err_rolled_back_witness:
  "\<exists>m W'. enable nmbd_broken_env ''smb'' fresh_world = (Err m, W') \<and> pw_units W' \<subseteq> {''sshd.service''}"
proof -
  obtain m W' where e: "enable nmbd_broken_env ''smb'' fresh_world = (Err m, W')"
    by (simp add: enable_eval)
  have "from_name ''smb'' = Some Smb" "pw_file fresh_world = Valid protocol_state_default"
    by (simp_all add: from_name_def fresh_world_def)
  from enable_err_rolled_back [OF e this] e show ?thesis
    by (auto simp: nmbd_broken_env_def watchdog_stop_error_def Let_def calm_env_def fresh_world_def)
qed

theorem disable_ok_effect_witness:
  "\<exists>st W'. disable calm_env ''ssh'' fresh_world = (Ok st, W') \<and> ''sshd.service'' \<notin> pw_units W'"
proof -
  obtain st W' where e: "disable calm_env ''ssh'' fresh_world = (Ok st, W')"
    by (simp add: disable_def enable_eval Let_def)
  have "from_name ''ssh'' = Some Ssh" "pw_file fresh_world = Valid protocol_state_default"
    by (simp_all add: from_name_def fresh_world_def)
  from disable_ok_effect [OF e this] e show ?thesis
    by (auto simp: calm_env_def)
qed



end
