(* ===== verification/Firewall_Rules.thy ===== *)
theory Firewall_Rules
  imports Net_Addr Protocol
begin

text \<open>
  The pure half of the firewall (\<open>nasty-system/src/firewall.rs\<close>): rules and restrictions,
  the ports each service owns, input validation, the expansion of restrictions into port
  specifications, conflict detection, and the text of the \<open>table inet nasty\<close> ruleset that is
  handed to \<open>nft\<close>. \<open>Firewall\<close> builds the stateful service on top of it.
\<close>

section \<open>Types\<close>

record firewall_restrictions =
  fr_services :: "(string \<times> string list) list"
  fr_interfaces :: "(string \<times> string list) list"

definition no_restrictions :: firewall_restrictions where
  "no_restrictions = \<lparr>fr_services = [], fr_interfaces = []\<rparr>"

datatype transport = Tcp | Udp

record port_spec =
  p_port :: u16
  p_to :: "u16 option"
  p_transport :: transport
  p_source :: "string option"
  p_iface :: "string option"

record firewall_rule =
  r_service :: string
  r_ports :: "port_spec list"
  r_active :: bool

text \<open>\<open>FirewallState\<close> has the one field \<open>rules\<close>.\<close>

type_synonym firewall_state = "firewall_rule list"

record custom_rule =
  c_id :: string
  c_label :: string
  c_transport :: transport
  c_from :: u16
  c_to :: u16
  c_source :: "string option"
  c_iface :: "string option"
  c_enabled :: bool

record custom_rule_input =
  i_label :: string
  i_transport :: transport
  i_from :: u16
  i_to :: u16
  i_source :: "string option"
  i_iface :: "string option"
  i_enabled :: bool

record published_app_port =
  pub_app :: string
  pub_host_port :: u16
  pub_container_port :: u16
  pub_transport :: string

section \<open>Restrictions\<close>

definition strip_iface_refs :: "string list \<Rightarrow> firewall_restrictions \<Rightarrow> bool \<times> firewall_restrictions" where
  "strip_iface_refs removed r =
     (if removed = [] \<or> fr_interfaces r = [] then (False, r)
      else
        (let kept = map (\<lambda>(s, ifs). (s, filter (\<lambda>i. i \<notin> set removed) ifs)) (fr_interfaces r);
             changed = list_ex (\<lambda>(s, ifs). length (filter (\<lambda>i. i \<notin> set removed) ifs) \<noteq> length ifs)
                         (fr_interfaces r)
         in (changed, r\<lparr>fr_interfaces := filter (\<lambda>(s, ifs). ifs \<noteq> []) kept\<rparr>)))"

definition apply_restrictions :: "port_spec list \<Rightarrow> string list \<Rightarrow> string list \<Rightarrow> port_spec list" where
  "apply_restrictions ports sources ifaces =
     (if sources = [] \<and> ifaces = [] then ports
      else concat (map (\<lambda>p.
        if sources \<noteq> [] \<and> ifaces \<noteq> [] then
          concat (map (\<lambda>src. map (\<lambda>ifc. p\<lparr>p_source := Some src, p_iface := Some ifc\<rparr>) ifaces) sources)
        else if sources \<noteq> [] then map (\<lambda>src. p\<lparr>p_source := Some src, p_iface := None\<rparr>) sources
        else map (\<lambda>ifc. p\<lparr>p_source := None, p_iface := Some ifc\<rparr>) ifaces) ports))"

text \<open>The lookup-and-expand step that \<open>set_rule_active\<close>, \<open>init\<close> and
  \<open>replace_rule_ports\<close> each spell out.\<close>

definition restricted_ports :: "firewall_restrictions \<Rightarrow> string \<Rightarrow> port_spec list \<Rightarrow> port_spec list" where
  "restricted_ports r service base =
     apply_restrictions base (get_or [] service (fr_services r)) (get_or [] service (fr_interfaces r))"

section \<open>Validation\<close>

definition valid_source :: "string \<Rightarrow> bool" where
  "valid_source s =
     (let (addr, prefix) = (case split_once CHR ''/'' s of
                              Some (a, p) \<Rightarrow> (a, Some p) | None \<Rightarrow> (s, None))
      in case parse_ip addr of
           None \<Rightarrow> False
         | Some ip \<Rightarrow>
             (case prefix of
                None \<Rightarrow> True
              | Some p \<Rightarrow>
                  (case parse_u8 p of
                     None \<Rightarrow> False
                   | Some bits \<Rightarrow> (case ip of V4 _ \<Rightarrow> bits \<le> 32 | V6 _ \<Rightarrow> bits \<le> 128))))"

definition iface_char :: "char \<Rightarrow> bool" where
  "iface_char c = (is_ascii_alphanumeric c \<or> c \<in> set ''._-@'')"

definition valid_iface :: "string \<Rightarrow> bool" where
  "valid_iface s = (s \<noteq> [] \<and> length s \<le> 15 \<and> list_all iface_char s)"

text \<open>The messages of the source hold the signs for at least and at most.\<close>

definition geq_sign :: string where
  "geq_sign = [CHR 0xE2, CHR 0x89, CHR 0xA5]"

definition leq_sign :: string where
  "leq_sign = [CHR 0xE2, CHR 0x89, CHR 0xA4]"

definition validate_custom_input :: "custom_rule_input \<Rightarrow> string + unit" where
  "validate_custom_input i =
     (if i_from i = 0 then Err (''port must be '' @ geq_sign @ '' 1'')
      else if i_from i > i_to i then Err (''range start must be '' @ leq_sign @ '' range end'')
      else if trim (i_label i) = [] then Err ''label is required''
      else if length (trim (i_label i)) > 64 then Err (''label must be '' @ leq_sign @ '' 64 characters'')
      else if has_control (i_label i) then Err ''label must not contain control characters''
      else case i_source i of
        Some src \<Rightarrow>
          if \<not> valid_source src then Err (''invalid source (expected an IP or CIDR): '' @ src)
          else (case i_iface i of
                  Some ifc \<Rightarrow> if \<not> valid_iface ifc then Err (''invalid interface name: '' @ ifc) else Ok ()
                | None \<Rightarrow> Ok ())
      | None \<Rightarrow>
          (case i_iface i of
             Some ifc \<Rightarrow> if \<not> valid_iface ifc then Err (''invalid interface name: '' @ ifc) else Ok ()
           | None \<Rightarrow> Ok ()))"

text \<open>The end of a specification's range: \<open>port.to.unwrap_or(port.port)\<close>.\<close>

definition p_hi :: "port_spec \<Rightarrow> u16" where
  "p_hi p = (case p_to p of None \<Rightarrow> p_port p | Some t \<Rightarrow> t)"

lemma p_hi_update [simp]: "p_hi (p\<lparr>p_source := s\<rparr>) = p_hi p" "p_hi (p\<lparr>p_iface := i\<rparr>) = p_hi p"
  by (simp_all add: p_hi_def split: option.split)

definition service_port_conflict :: "firewall_state \<Rightarrow> transport \<Rightarrow> u16 \<Rightarrow> u16 \<Rightarrow> string option" where
  "service_port_conflict state t from to =
     map_option r_service
       (List.find (\<lambda>r. list_ex (\<lambda>p. p_transport p = t \<and> p_port p \<le> to \<and> p_hi p \<ge> from) (r_ports r)) state)"

definition same_rule :: "custom_rule \<Rightarrow> custom_rule_input \<Rightarrow> bool" where
  "same_rule r i = (c_transport r = i_transport i \<and> c_from r = i_from i \<and> c_to r = i_to i
     \<and> c_source r = i_source i \<and> c_iface r = i_iface i)"

section \<open>Ports of the services\<close>

definition tcp :: "u16 \<Rightarrow> port_spec" where
  "tcp n = \<lparr>p_port = n, p_to = None, p_transport = Tcp, p_source = None, p_iface = None\<rparr>"

definition udp :: "u16 \<Rightarrow> port_spec" where
  "udp n = \<lparr>p_port = n, p_to = None, p_transport = Udp, p_source = None, p_iface = None\<rparr>"

definition tcp_range :: "u16 \<Rightarrow> u16 \<Rightarrow> port_spec" where
  "tcp_range a b = \<lparr>p_port = a, p_to = Some b, p_transport = Tcp, p_source = None, p_iface = None\<rparr>"

fun ports_for_protocol :: "protocol \<Rightarrow> port_spec list" where
  "ports_for_protocol Nfs = [tcp 2049]"
| "ports_for_protocol Smb = [tcp 445, tcp 139, udp 3702, tcp 5357]"
| "ports_for_protocol Iscsi = [tcp 3260]"
| "ports_for_protocol Nvmeof = [tcp 4420]"
| "ports_for_protocol Nut = [tcp 3493]"
| "ports_for_protocol Ssh = [tcp 22]"
| "ports_for_protocol Avahi = [udp 5353]"
| "ports_for_protocol Smart = []"
| "ports_for_protocol Watchdog = []"
| "ports_for_protocol RestServer = [tcp 8000]"

definition webui_ports :: "port_spec list" where
  "webui_ports = [tcp 80, tcp 443]"

definition rdma_ports :: "port_spec list" where
  "rdma_ports = [udp 4791, tcp 20049]"

definition dc_ports :: "port_spec list" where
  "dc_ports = concat (map (\<lambda>p. [tcp p, udp p]) [53, 88, 389, 464])
     @ map tcp [135, 139, 445, 636, 3268, 3269] @ map udp [137, 138] @ [tcp_range 49152 65535]"

text \<open>\<open>replace_rule_ports\<close>: whether anything changed, and the new state.\<close>

definition replace_rule_ports ::
    "firewall_restrictions \<Rightarrow> string \<Rightarrow> port_spec list \<Rightarrow> firewall_state \<Rightarrow> bool \<times> firewall_state" where
  "replace_rule_ports restr service base state =
     (let ports = restricted_ports restr service base
      in case List.find (\<lambda>r. r_service r = service) state of
           Some r \<Rightarrow>
             if r_ports r = ports then (False, state)
             else (True, update_first (\<lambda>r. r_service r = service) (\<lambda>r. r\<lparr>r_ports := ports\<rparr>) state)
         | None \<Rightarrow> (True, state @ [\<lparr>r_service = service, r_ports = ports, r_active = False\<rparr>]))"

section \<open>The ruleset text\<close>

fun transport_str :: "transport \<Rightarrow> string" where
  "transport_str Tcp = ''tcp''"
| "transport_str Udp = ''udp''"

definition newline :: string where
  "newline = [CHR 10]"

definition quoted :: "string \<Rightarrow> string" where
  "quoted s = CHR 34 # s @ [CHR 34]"

definition show_port :: "u16 \<Rightarrow> string" where
  "show_port n = show_nat (unat n)"

definition saddr_clause :: "string \<Rightarrow> string" where
  "saddr_clause src =
     (case parse_ip (hd (split_on CHR ''/'' src)) of
        Some (V6 _) \<Rightarrow> ''ip6 saddr '' @ src
      | _ \<Rightarrow> ''ip saddr '' @ src)"

text \<open>The interface and source conditions, in the order both chains write them.\<close>

definition iface_source_clauses :: "string option \<Rightarrow> string option \<Rightarrow> string list" where
  "iface_source_clauses ifc src =
     (case ifc of Some i \<Rightarrow> [''iifname '' @ quoted i] | None \<Rightarrow> [])
     @ (case src of Some s \<Rightarrow> [saddr_clause s] | None \<Rightarrow> [])"

definition service_line :: "string \<Rightarrow> port_spec \<Rightarrow> string" where
  "service_line service p =
     ''        '' @ join '' '' (iface_source_clauses (p_iface p) (p_source p)
        @ [case p_to p of
             Some t \<Rightarrow> transport_str (p_transport p) @ '' dport '' @ show_port (p_port p) @ ''-'' @ show_port t
           | None \<Rightarrow> transport_str (p_transport p) @ '' dport '' @ show_port (p_port p)])
     @ '' accept # '' @ service"

definition port_range_str :: "u16 \<Rightarrow> u16 \<Rightarrow> string" where
  "port_range_str a b = (if a = b then show_port a else show_port a @ ''-'' @ show_port b)"

definition custom_input_line :: "custom_rule \<Rightarrow> string" where
  "custom_input_line r =
     ''        '' @ join '' '' (iface_source_clauses (c_iface r) (c_source r)
        @ [transport_str (c_transport r) @ '' dport '' @ port_range_str (c_from r) (c_to r)])
     @ '' accept # custom:'' @ c_id r"

definition published_line :: "published_app_port \<Rightarrow> string option" where
  "published_line p =
     map_option (\<lambda>proto. ''        ct direction original ct status dnat meta l4proto '' @ proto
         @ '' ct original proto-dst '' @ show_port (pub_host_port p) @ '' accept # app-published'')
       (if eq_ignore_ascii_case (pub_transport p) ''tcp'' then Some ''tcp''
        else if eq_ignore_ascii_case (pub_transport p) ''udp'' then Some ''udp''
        else None)"

definition custom_forward_line :: "custom_rule \<Rightarrow> string" where
  "custom_forward_line r =
     ''        '' @ join '' '' ([''ct direction original'', ''ct status dnat'']
        @ iface_source_clauses (c_iface r) (c_source r)
        @ [''meta l4proto '' @ transport_str (c_transport r),
           ''ct original proto-dst '' @ port_range_str (c_from r) (c_to r)])
     @ '' accept # custom:'' @ c_id r"

definition input_header :: "string list" where
  "input_header =
     [''table inet nasty {'',
      ''    chain input {'',
      ''        type filter hook input priority 0; policy drop;'',
      ''        ct state established,related accept'',
      ''        ct state invalid drop'',
      ''        iif lo accept'',
      ''        # ICMP/ICMPv6 '' @ em_dash @ '' always allow'',
      ''        ip protocol icmp accept'',
      ''        ip6 nexthdr icmpv6 accept'',
      ''        # DHCPv6 client'',
      ''        udp dport 546 accept'']"

definition forward_header :: "string list" where
  "forward_header =
     [''    }'',
      ''    chain forward {'',
      ''        type filter hook forward priority -10; policy accept;'',
      ''        # Explicitly allowed Docker-published host ports'']"

definition forward_footer :: "string list" where
  "forward_footer = [''        ct direction original ct status dnat drop'', ''    }'', ''}'']"

text \<open>The lines of the ruleset, in the order the renderer pushes them.\<close>

definition ruleset_lines :: "firewall_state \<Rightarrow> custom_rule list \<Rightarrow> published_app_port list \<Rightarrow> string list" where
  "ruleset_lines state custom published =
     input_header
     @ concat (map (\<lambda>r. map (service_line (r_service r)) (r_ports r)) (filter r_active state))
     @ map custom_input_line (filter c_enabled custom)
     @ forward_header
     @ List.map_filter published_line published
     @ map custom_forward_line (filter c_enabled custom)
     @ forward_footer"

definition unlines :: "string list \<Rightarrow> string" where
  "unlines ls = concat (map (\<lambda>l. l @ newline) ls)"

definition render_ruleset_with_published ::
    "firewall_state \<Rightarrow> custom_rule list \<Rightarrow> published_app_port list \<Rightarrow> string" where
  "render_ruleset_with_published state custom published = unlines (ruleset_lines state custom published)"

definition render_ruleset :: "firewall_state \<Rightarrow> custom_rule list \<Rightarrow> string" where
  "render_ruleset state custom = render_ruleset_with_published state custom []"

definition render_transaction ::
    "firewall_state \<Rightarrow> custom_rule list \<Rightarrow> published_app_port list \<Rightarrow> string" where
  "render_transaction state custom published =
     ''destroy table inet nasty'' @ newline @ render_ruleset_with_published state custom published"

section \<open>Stripping restrictions\<close>

text \<open>\<open>set_restriction\<close> recovers the unrestricted ports of a rule before it expands them again.\<close>

definition strip_port :: "port_spec \<Rightarrow> port_spec" where
  "strip_port p = p\<lparr>p_source := None, p_iface := None\<rparr>"

definition push_new :: "port_spec list \<Rightarrow> port_spec \<Rightarrow> port_spec list" where
  "push_new ports p = (if strip_port p \<in> set ports then ports else ports @ [strip_port p])"

definition stripped_ports :: "port_spec list \<Rightarrow> port_spec list" where
  "stripped_ports ports = foldl push_new [] ports"

definition unrestricted :: "port_spec \<Rightarrow> bool" where
  "unrestricted p = (p_source p = None \<and> p_iface p = None)"

lemma unrestricted_strip [simp]: "unrestricted p \<Longrightarrow> strip_port p = p"
  by (simp add: unrestricted_def strip_port_def)

lemma strip_port_simps [simp]:
  "strip_port (p\<lparr>p_source := s, p_iface := i\<rparr>) = strip_port p"
  "unrestricted (strip_port p)"
  by (simp_all add: strip_port_def unrestricted_def)

lemma push_new_group:
  assumes "xs \<noteq> []" and "\<forall>q \<in> set xs. strip_port q = p"
  shows "foldl push_new acc xs = (if p \<in> set acc then acc else acc @ [p])"
proof -
  have in_acc: "foldl push_new acc xs = acc" if "p \<in> set acc" and "\<forall>q \<in> set xs. strip_port q = p" for acc xs
    using that by (induction xs) (auto simp: push_new_def)
  obtain x ys where xs: "xs = x # ys" using assms(1) by (cases xs) auto
  show ?thesis
  proof (cases "p \<in> set acc")
    case False
    then have "push_new acc x = acc @ [p]" using assms(2) xs by (simp add: push_new_def)
    moreover have "foldl push_new (acc @ [p]) ys = acc @ [p]" using assms(2) xs by (intro in_acc) auto
    ultimately show ?thesis using False xs by simp
  qed (simp add: in_acc assms(2))
qed

lemma foldl_push_new_groups:
  assumes "\<forall>p \<in> set ports. g p \<noteq> [] \<and> (\<forall>q \<in> set (g p). strip_port q = p)"
    and "distinct ports" and "set ports \<inter> set acc = {}"
  shows "foldl push_new acc (concat (map g ports)) = acc @ ports"
  using assms
proof (induction ports arbitrary: acc)
  case (Cons p ports)
  have "foldl push_new acc (g p) = acc @ [p]"
    using Cons.prems by (subst push_new_group [where p = p]) auto
  moreover have "foldl push_new (acc @ [p]) (concat (map g ports)) = (acc @ [p]) @ ports"
    using Cons.prems by (intro Cons.IH) auto
  ultimately show ?case by (simp add: foldl_append)
qed simp

lemma set_stripped_ports: "set (stripped_ports ports) = strip_port ` set ports"
proof -
  have "set (foldl push_new acc ports) = set acc \<union> strip_port ` set ports" for acc
    by (induction ports arbitrary: acc) (auto simp: push_new_def)
  then show ?thesis by (simp add: stripped_ports_def)
qed

lemma distinct_stripped_ports: "distinct (stripped_ports ports)"
proof -
  have "distinct acc \<Longrightarrow> distinct (foldl push_new acc ports)" for acc
    by (induction ports arbitrary: acc) (auto simp: push_new_def)
  then show ?thesis by (simp add: stripped_ports_def)
qed

text \<open>The specifications one base port expands to.\<close>

definition expand_port :: "string list \<Rightarrow> string list \<Rightarrow> port_spec \<Rightarrow> port_spec list" where
  "expand_port sources ifaces p =
     (let with_source = (if sources = [] then [p] else map (\<lambda>s. p\<lparr>p_source := Some s\<rparr>) sources)
      in concat (map (\<lambda>q. if ifaces = [] then [q] else map (\<lambda>i. q\<lparr>p_iface := Some i\<rparr>) ifaces) with_source))"

lemma apply_restrictions_expand:
  assumes "\<forall>p \<in> set ports. unrestricted p"
  shows "apply_restrictions ports sources ifaces = concat (map (expand_port sources ifaces) ports)"
proof -
  have none: "concat (map (expand_port [] []) ports) = ports"
    by (induction ports) (simp_all add: expand_port_def)
  have "p\<lparr>p_source := Some s, p_iface := None\<rparr> = p\<lparr>p_source := Some s\<rparr>" if "unrestricted p" for p s
    using that by (simp add: unrestricted_def)
  moreover have "p\<lparr>p_source := None, p_iface := Some i\<rparr> = p\<lparr>p_iface := Some i\<rparr>" if "unrestricted p" for p i
    using that by (simp add: unrestricted_def)
  ultimately show ?thesis
    using assms none
    by (auto simp: apply_restrictions_def expand_port_def comp_def concat_map_singleton
        intro!: arg_cong [of _ _ concat] map_cong)
qed

lemma expand_port_nonempty: "expand_port sources ifaces p \<noteq> []"
  by (cases sources; cases ifaces) (simp_all add: expand_port_def)

lemma strip_expand_port:
  assumes "unrestricted p" and "q \<in> set (expand_port sources ifaces p)"
  shows "strip_port q = p"
proof -
  have "strip_port q = strip_port p"
    using assms(2) by (auto simp: expand_port_def strip_port_def split: if_splits)
  then show ?thesis using assms(1) by simp
qed

section \<open>What a restriction admits\<close>

text \<open>
  A packet as the \<open>input\<close> chain sees it. How \<open>nft\<close> compares an address with a CIDR is the
  parameter \<open>src_in\<close>.
\<close>

record packet =
  k_transport :: transport
  k_dport :: u16
  k_source :: string
  k_iface :: string

definition spec_accepts :: "(string \<Rightarrow> string \<Rightarrow> bool) \<Rightarrow> packet \<Rightarrow> port_spec \<Rightarrow> bool" where
  "spec_accepts src_in k p =
     (p_transport p = k_transport k \<and> p_port p \<le> k_dport k \<and> k_dport k \<le> p_hi p
      \<and> (case p_source p of None \<Rightarrow> True | Some s \<Rightarrow> src_in s (k_source k))
      \<and> (case p_iface p of None \<Rightarrow> True | Some i \<Rightarrow> i = k_iface k))"

lemma expand_port_accepts:
  assumes "unrestricted p"
  shows "list_ex (spec_accepts src_in k) (expand_port sources ifaces p) \<longleftrightarrow>
    spec_accepts src_in k p
    \<and> (sources = [] \<or> list_ex (\<lambda>s. src_in s (k_source k)) sources)
    \<and> (ifaces = [] \<or> k_iface k \<in> set ifaces)"
  using assms
  by (cases "sources = []"; cases "ifaces = []")
    (auto simp: expand_port_def spec_accepts_def unrestricted_def list_ex_iff)

text \<open>
  (C28) A restriction admits exactly what it says: for unrestricted base ports, a packet is
  accepted by the expanded specifications if and only if the base ports accept it, its source
  lies in one of the listed sources (or none is listed), and it arrived on one of the listed
  interfaces (or none is listed).
\<close>

theorem apply_restrictions_accepts:
  assumes "\<forall>p \<in> set ports. unrestricted p"
  shows "list_ex (spec_accepts src_in k) (apply_restrictions ports sources ifaces) \<longleftrightarrow>
    list_ex (spec_accepts src_in k) ports
    \<and> (sources = [] \<or> list_ex (\<lambda>s. src_in s (k_source k)) sources)
    \<and> (ifaces = [] \<or> k_iface k \<in> set ifaces)"
proof -
  have "list_ex (spec_accepts src_in k) (concat (map (expand_port sources ifaces) ports)) \<longleftrightarrow>
      (\<exists>p \<in> set ports. list_ex (spec_accepts src_in k) (expand_port sources ifaces p))"
    by (auto simp: list_ex_iff)
  then show ?thesis
    using assms expand_port_accepts by (auto simp: apply_restrictions_expand list_ex_iff)
qed

theorem apply_restrictions_accepts_witness:
  "\<not> list_ex (spec_accepts (=) \<lparr>k_transport = Tcp, k_dport = 22, k_source = ''10.0.0.9'', k_iface = ''eth0''\<rparr>)
      (apply_restrictions (ports_for_protocol Ssh) [''10.0.0.5''] [''eth0''])"
  by (subst apply_restrictions_accepts) (simp_all add: unrestricted_def tcp_def)

lemma strip_expanded:
  assumes "\<forall>p \<in> set ports. unrestricted p" and "distinct ports"
  shows "stripped_ports (apply_restrictions ports sources ifaces) = ports"
  using foldl_push_new_groups [of ports "expand_port sources ifaces" "[]"] assms
    expand_port_nonempty strip_expand_port
  by (simp add: stripped_ports_def apply_restrictions_expand)

text \<open>
  Stripping undoes expansion: whatever sources and interfaces a rule was expanded with,
  the strip in \<open>set_restriction\<close> returns its unrestricted ports in their order, so that
  restrictions replace one another and never pile up.
\<close>

theorem stripped_apply_restrictions:
  assumes "\<forall>p \<in> set ports. unrestricted p" and "distinct ports"
  shows "stripped_ports (apply_restrictions ports sources ifaces) = ports"
  using assms by (rule strip_expanded)

theorem stripped_apply_restrictions_witness:
  "stripped_ports (apply_restrictions (ports_for_protocol Smb) [''10.0.0.0/8'', ''::1''] [''eth0'', ''eth1''])
     = ports_for_protocol Smb"
  by (rule stripped_apply_restrictions) (simp_all add: unrestricted_def tcp_def udp_def)

section \<open>Conflicts with service ports\<close>

definition overlaps :: "transport \<Rightarrow> u16 \<Rightarrow> u16 \<Rightarrow> port_spec \<Rightarrow> bool" where
  "overlaps t from to p \<longleftrightarrow> p_transport p = t \<and> (\<exists>n. from \<le> n \<and> n \<le> to \<and> p_port p \<le> n \<and> n \<le> p_hi p)"

text \<open>The comparison of the source is the overlap of two non-empty ranges.\<close>

lemma overlap_iff:
  assumes "from \<le> to" and "p_port p \<le> p_hi p"
  shows "overlaps t from to p \<longleftrightarrow> p_transport p = t \<and> p_port p \<le> to \<and> p_hi p \<ge> from"
proof -
  have "(\<exists>n. from \<le> n \<and> n \<le> to \<and> p_port p \<le> n \<and> n \<le> p_hi p) \<longleftrightarrow> p_port p \<le> to \<and> from \<le> p_hi p"
  proof
    assume "p_port p \<le> to \<and> from \<le> p_hi p"
    with assms show "\<exists>n. from \<le> n \<and> n \<le> to \<and> p_port p \<le> n \<and> n \<le> p_hi p"
      by (intro exI [of _ "max from (p_port p)"]) (auto simp: max_def)
  qed (auto dest: order_trans)
  then show ?thesis by (auto simp: overlaps_def)
qed

text \<open>
  \<open>service_port_conflict\<close> is sound and complete: for well-formed ranges it answers
  \<open>None\<close> exactly when no port of the requested range belongs to any service rule, active or
  not, of the same transport; otherwise it names the first service rule that owns one.
\<close>

theorem service_port_conflict_exact:
  assumes "from \<le> to" and "\<forall>r \<in> set state. \<forall>p \<in> set (r_ports r). p_port p \<le> p_hi p"
  shows "(service_port_conflict state t from to = None \<longleftrightarrow>
            (\<forall>r \<in> set state. \<forall>p \<in> set (r_ports r). \<not> overlaps t from to p))
    \<and> (\<forall>s. service_port_conflict state t from to = Some s \<longrightarrow>
            (\<exists>r \<in> set state. r_service r = s \<and> (\<exists>p \<in> set (r_ports r). overlaps t from to p)))"
proof -
  have "\<forall>r \<in> set state. list_ex (\<lambda>p. p_transport p = t \<and> p_port p \<le> to \<and> p_hi p \<ge> from) (r_ports r)
      \<longleftrightarrow> (\<exists>p \<in> set (r_ports r). overlaps t from to p)"
    using assms overlap_iff by (auto simp: list_ex_iff)
  then show ?thesis
    by (auto simp: service_port_conflict_def find_None_iff_all dest!: find_SomeD)
qed

theorem service_port_conflict_exact_witness:
  "\<not> overlaps Tcp 440 444 (tcp 445) \<and> (\<exists>r \<in> set [\<lparr>r_service = ''smb'', r_ports = [tcp 445], r_active = False\<rparr>].
     r_service r = ''smb'' \<and> (\<exists>p \<in> set (r_ports r). overlaps Tcp 440 450 p))"
proof
  show "\<not> overlaps Tcp 440 444 (tcp 445)"
    using service_port_conflict_exact [of 440 444 "[\<lparr>r_service = ''smb'', r_ports = [tcp 445], r_active = False\<rparr>]" Tcp]
    by (simp add: service_port_conflict_def p_hi_def tcp_def)
  show "\<exists>r \<in> set [\<lparr>r_service = ''smb'', r_ports = [tcp 445], r_active = False\<rparr>].
     r_service r = ''smb'' \<and> (\<exists>p \<in> set (r_ports r). overlaps Tcp 440 450 p)"
    using service_port_conflict_exact [of 440 450 "[\<lparr>r_service = ''smb'', r_ports = [tcp 445], r_active = False\<rparr>]" Tcp]
    by (simp add: service_port_conflict_def p_hi_def tcp_def)
qed

section \<open>Validated sources and interfaces\<close>

text \<open>Characters that can stand in a validated source: none ends a token or a line.\<close>

definition source_char :: "char \<Rightarrow> bool" where
  "source_char c = (ip_char c \<or> c = CHR ''/'' \<or> c = CHR ''+'')"

lemma valid_source_chars:
  assumes "valid_source s"
  shows "\<forall>c \<in> set s. source_char c"
proof (cases "split_once CHR ''/'' s")
  case None
  with assms obtain ip where "parse_ip s = Some ip"
    by (auto simp: valid_source_def split: option.splits)
  then show ?thesis by (auto simp: source_char_def dest: parse_ip_chars)
next
  case (Some ap)
  obtain a p where ap: "ap = (a, p)" by (cases ap)
  with assms Some obtain ip n where ok: "parse_ip a = Some ip" "parse_u8 p = Some n"
    by (auto simp: valid_source_def split: option.splits)
  have "is_ascii_digit c \<Longrightarrow> ip_char c" for c
    by (auto simp: ip_char_def is_digit_def digit_value_def is_ascii_digit_def)
  then show ?thesis
    using split_once_SomeD [OF Some [unfolded ap]] ok
    by (auto simp: source_char_def dest: parse_ip_chars parse_u8_chars)
qed

lemma source_char_not_newline [simp]: "\<not> source_char (CHR 10)"
  by (simp add: source_char_def ip_char_def is_digit_def digit_value_def ascii_defs)

lemma iface_char_inert [simp]: "\<not> iface_char (CHR 10)" "\<not> iface_char (CHR 34)"
  by (simp_all add: iface_char_def ascii_defs)

lemma valid_source_no_newline: "valid_source s \<Longrightarrow> CHR 10 \<notin> set s"
  using valid_source_chars by fastforce

lemma valid_iface_no_newline: "valid_iface s \<Longrightarrow> CHR 10 \<notin> set s"
  by (auto simp: valid_iface_def list_all_iff)

lemma show_nat_no [simp]: "\<not> is_ascii_digit c \<Longrightarrow> c \<notin> set (show_nat n)"
  using show_nat_digits by blast

lemma parse_u8_show_nat_iff: "parse_u8 (show_nat n) = (if n \<le> 255 then Some n else None)"
proof (cases "n \<le> 255")
  case False
  have d: "list_all is_ascii_digit (show_nat n)" using show_nat_digits by (auto simp: list_all_iff)
  have "show_nat n = [] \<or> hd (show_nat n) \<noteq> CHR ''+''"
    using show_nat_no [of "CHR ''+''" n] by (cases "show_nat n") (auto simp: ascii_defs)
  then show ?thesis using False d by (auto simp: parse_u8_def)
qed (simp add: parse_u8_show_nat)

text \<open>
  \<open>valid_source\<close> admits precisely the meaningful IPv4 prefixes: for a dotted quad of
  octets, \<open>a.b.c.d/n\<close> is a valid source if and only if \<open>n\<close> is at most 32.
\<close>

theorem valid_source_ipv4_cidr:
  assumes "a \<le> 255" "b \<le> 255" "c \<le> 255" "d \<le> 255"
  shows "valid_source (show_v4 a b c d @ ''/'' @ show_nat n) \<longleftrightarrow> n \<le> 32"
proof -
  have "CHR ''/'' \<notin> set (show_v4 a b c d)"
    by (simp add: show_v4_def ascii_defs)
  then have "split_once CHR ''/'' (show_v4 a b c d @ ''/'' @ show_nat n) = Some (show_v4 a b c d, show_nat n)"
    by simp
  then show ?thesis
    using assms by (simp add: valid_source_def parse_ip_show_v4 parse_u8_show_nat_iff)
qed

theorem valid_source_ipv4_cidr_witness:
  "valid_source (show_v4 10 0 0 0 @ ''/'' @ show_nat 8) \<and> \<not> valid_source (show_v4 10 0 0 0 @ ''/'' @ show_nat 33)"
  using valid_source_ipv4_cidr [of 10 0 0 0 8] valid_source_ipv4_cidr [of 10 0 0 0 33] by simp

section \<open>The rendered text keeps its lines\<close>

definition safe_spec :: "port_spec \<Rightarrow> bool" where
  "safe_spec p = (opt_all valid_source (p_source p) \<and> opt_all valid_iface (p_iface p))"

definition safe_rule :: "firewall_rule \<Rightarrow> bool" where
  "safe_rule r = (CHR 10 \<notin> set (r_service r) \<and> list_all safe_spec (r_ports r))"

definition safe_custom :: "custom_rule \<Rightarrow> bool" where
  "safe_custom c = (CHR 10 \<notin> set (c_id c) \<and> opt_all valid_source (c_source c)
     \<and> opt_all valid_iface (c_iface c))"

lemma split_on_unlines:
  "\<forall>l \<in> set ls. CHR 10 \<notin> set l \<Longrightarrow> split_on (CHR 10) (unlines ls) = ls @ [[]]"
  by (induction ls) (simp_all add: unlines_def newline_def split_on_before)

lemma join_no_newline:
  assumes "c \<notin> set sep" and "\<forall>s \<in> set ss. c \<notin> set s"
  shows "c \<notin> set (join sep ss)"
  using assms set_join [of sep ss] by blast

lemma no_newline_basics [simp]:
  "CHR 10 \<notin> set (transport_str t)" "CHR 10 \<notin> set (show_port n)" "CHR 10 \<notin> set (port_range_str a b)"
  by (cases t) (simp_all add: show_port_def port_range_str_def ascii_defs)

lemma clauses_no_newline:
  assumes "opt_all valid_source src" and "opt_all valid_iface ifc"
  shows "\<forall>s \<in> set (iface_source_clauses ifc src). CHR 10 \<notin> set s"
proof -
  have "CHR 10 \<notin> set (saddr_clause s)" if "valid_source s" for s
    using valid_source_no_newline [OF that] by (simp add: saddr_clause_def split: option.split ip_addr.split)
  then show ?thesis
    using assms valid_iface_no_newline
    by (auto simp: iface_source_clauses_def quoted_def split: option.splits)
qed

lemma service_line_no_newline:
  assumes "safe_spec p" and "CHR 10 \<notin> set service"
  shows "CHR 10 \<notin> set (service_line service p)"
proof -
  have "\<forall>s \<in> set (iface_source_clauses (p_iface p) (p_source p)). CHR 10 \<notin> set s"
    using assms(1) by (intro clauses_no_newline) (auto simp: safe_spec_def)
  then show ?thesis
    using assms(2) by (auto simp: service_line_def split: option.splits dest!: join_no_newline [THEN notE, rotated 2])
qed

lemma custom_line_no_newline:
  assumes "safe_custom c"
  shows "CHR 10 \<notin> set (custom_input_line c)" "CHR 10 \<notin> set (custom_forward_line c)"
proof -
  have *: "\<forall>s \<in> set (iface_source_clauses (c_iface c) (c_source c)). CHR 10 \<notin> set s"
    using assms by (intro clauses_no_newline) (auto simp: safe_custom_def)
  show "CHR 10 \<notin> set (custom_input_line c)"
    using assms * by (auto simp: custom_input_line_def safe_custom_def dest!: join_no_newline [THEN notE, rotated 2])
  show "CHR 10 \<notin> set (custom_forward_line c)"
    using assms * by (auto simp: custom_forward_line_def safe_custom_def dest!: join_no_newline [THEN notE, rotated 2])
qed

lemma published_line_no_newline: "published_line p = Some l \<Longrightarrow> CHR 10 \<notin> set l"
  by (auto simp: published_line_def split: if_splits)

lemma fixed_lines_no_newline:
  "\<forall>l \<in> set (input_header @ forward_header @ forward_footer). CHR 10 \<notin> set l"
  by (simp add: input_header_def forward_header_def forward_footer_def em_dash_def)

lemma ruleset_lines_no_newline:
  assumes "list_all safe_rule state" and "list_all safe_custom custom"
  shows "\<forall>l \<in> set (ruleset_lines state custom published). CHR 10 \<notin> set l"
  using assms fixed_lines_no_newline
  by (auto simp: ruleset_lines_def list_all_iff safe_rule_def service_line_no_newline
      custom_line_no_newline List.map_filter_def published_line_no_newline)

lemma render_lines_exact:
  assumes "list_all safe_rule state" and "list_all safe_custom custom"
  shows "split_on (CHR 10) (render_transaction state custom published) =
    ''destroy table inet nasty'' # ruleset_lines state custom published @ [[]]"
proof -
  have "render_transaction state custom published =
      unlines (''destroy table inet nasty'' # ruleset_lines state custom published)"
    by (simp add: render_transaction_def render_ruleset_with_published_def unlines_def)
  moreover have "\<forall>l \<in> set (''destroy table inet nasty'' # ruleset_lines state custom published). CHR 10 \<notin> set l"
    using ruleset_lines_no_newline [OF assms] by simp
  ultimately show ?thesis using split_on_unlines by simp
qed


definition sample_rules :: firewall_state where
  "sample_rules = [\<lparr>r_service = ''ssh'',
     r_ports = apply_restrictions (ports_for_protocol Ssh) [''10.0.0.0/8''] [''eth0''], r_active = True\<rparr>]"



end
