(* ===== verification/Firewall.thy ===== *)
theory Firewall
  imports Firewall_Rules State_Dir "HOL-Library.List_Lexorder" "HOL-Library.Product_Lexorder" "HOL-Library.Char_ord"
begin

text \<open>
  The stateful firewall service (\<open>FirewallService\<close> in \<open>nasty-system/src/firewall.rs\<close>): the
  in-memory configuration behind its mutex, the two JSON files, the table the kernel holds, and
  one definition per operation. Every outcome of the environment (staging and renaming files,
  each run of \<open>nft\<close>) is a field of \<open>fw_env\<close>, so a theorem that holds for all environments
  covers every combination of faults. An operation holds the mutex for its whole body, so
  operations are steps and a run is a sequence of steps.
\<close>

section \<open>State\<close>

record firewall_config =
  fw_state :: firewall_state
  fw_restrictions :: firewall_restrictions
  fw_custom :: "custom_rule list"
  fw_published :: "published_app_port list"

record fw_world =
  fw_config :: firewall_config
  fw_live :: "string option"
  fw_restrictions_file :: "firewall_restrictions json_file"
  fw_custom_file :: "custom_rule list json_file"
  fw_temps :: "string list"

section \<open>Environment\<close>

text \<open>
  One run of \<open>nft\<close>: what each call on the child process returns, and whether the run replaced
  the kernel's table.
\<close>

record nft_run =
  n_spawn :: "string option"
  n_no_stdin :: bool
  n_timeout :: bool
  n_join :: "string option"
  n_write :: "string option"
  n_wait :: "string option"
  n_success :: bool
  n_stderr :: string
  n_commits :: bool

record nft_pair =
  a_check :: nft_run
  a_apply :: nft_run

record fw_env =
  e_candidate :: nft_pair
  e_rollback :: nft_pair
  e_serialize :: "string option"
  e_create :: "string option"
  e_write :: "string option"
  e_sync :: "string option"
  e_rename :: "string option"
  e_remove :: "string option"
  e_temp_uuid :: string
  e_rule_uuid :: string

section \<open>Applying a ruleset\<close>

definition run_nft :: "string \<Rightarrow> nft_run \<Rightarrow> string + unit" where
  "run_nft stage n =
     (case n_spawn n of Some e \<Rightarrow> Err (''spawn nft '' @ stage @ '': '' @ e) | None \<Rightarrow>
      if n_no_stdin n then Err (''open nft '' @ stage @ '' stdin'')
      else if n_timeout n then Err (''nft '' @ stage @ '' timed out'')
      else case n_join n of Some e \<Rightarrow> Err (''join nft '' @ stage @ '' stdin writer: '' @ e) | None \<Rightarrow>
      case n_write n of Some e \<Rightarrow> Err (''write nft '' @ stage @ '' stdin: '' @ e) | None \<Rightarrow>
      case n_wait n of Some e \<Rightarrow> Err (''wait for nft '' @ stage @ '': '' @ e) | None \<Rightarrow>
      if \<not> n_success n then Err (''nft '' @ stage @ '' failed: '' @ trim (n_stderr n))
      else Ok ())"

definition config_ruleset :: "firewall_config \<Rightarrow> string" where
  "config_ruleset c = render_ruleset_with_published (fw_state c) (fw_custom c) (fw_published c)"

text \<open>A run with \<open>--check\<close> changes nothing; a run that commits replaces the whole table.\<close>

definition apply_nftables_with :: "nft_pair \<Rightarrow> firewall_config \<Rightarrow> fw_world \<Rightarrow> (string + unit) \<times> fw_world" where
  "apply_nftables_with a c w =
     (case run_nft ''validation'' (a_check a) of
        Err e \<Rightarrow> (Err e, w)
      | Ok _ \<Rightarrow> (run_nft ''apply'' (a_apply a),
                 if n_commits (a_apply a) then w\<lparr>fw_live := Some (config_ruleset c)\<rparr> else w))"

section \<open>Staged files\<close>

datatype json_doc = Restrictions_Doc firewall_restrictions | Custom_Doc "custom_rule list"

definition state_dir :: string where
  "state_dir = ''/var/lib/nasty''"

fun doc_name :: "json_doc \<Rightarrow> string" where
  "doc_name (Restrictions_Doc _) = ''firewall-restrictions.json''"
| "doc_name (Custom_Doc _) = ''firewall-custom.json''"

definition doc_path :: "json_doc \<Rightarrow> string" where
  "doc_path d = state_dir @ ''/'' @ doc_name d"

definition temp_path :: "fw_env \<Rightarrow> json_doc \<Rightarrow> string" where
  "temp_path e d = state_dir @ ''/.'' @ doc_name d @ ''.'' @ e_temp_uuid e @ ''.tmp''"

text \<open>A staged file: its temporary path and the document it holds.\<close>

record staged_json =
  sj_temp :: string
  sj_doc :: json_doc

definition remove_temp :: "fw_env \<Rightarrow> string \<Rightarrow> fw_world \<Rightarrow> fw_world" where
  "remove_temp e t w = (if e_remove e = None then w\<lparr>fw_temps := removeAll t (fw_temps w)\<rparr> else w)"

definition stage :: "fw_env \<Rightarrow> json_doc \<Rightarrow> fw_world \<Rightarrow> (string + staged_json) \<times> fw_world" where
  "stage e d w =
     (let temp = temp_path e d;
          w1 = w\<lparr>fw_temps := temp # fw_temps w\<rparr>
      in case e_serialize e of Some x \<Rightarrow> (Err (''serialize: '' @ x), w) | None \<Rightarrow>
         case e_create e of Some x \<Rightarrow> (Err (''create '' @ temp @ '': '' @ x), w) | None \<Rightarrow>
         case e_write e of Some x \<Rightarrow> (Err (''write '' @ temp @ '': '' @ x), remove_temp e temp w1) | None \<Rightarrow>
         case e_sync e of Some x \<Rightarrow> (Err (''sync '' @ temp @ '': '' @ x), remove_temp e temp w1) | None \<Rightarrow>
         (Ok \<lparr>sj_temp = temp, sj_doc = d\<rparr>, w1))"

fun put_doc :: "json_doc \<Rightarrow> fw_world \<Rightarrow> fw_world" where
  "put_doc (Restrictions_Doc r) w = w\<lparr>fw_restrictions_file := Parses r\<rparr>"
| "put_doc (Custom_Doc c) w = w\<lparr>fw_custom_file := Parses c\<rparr>"

text \<open>A failed rename drops the staged file, whose destructor removes the temporary file; a
  failed sync of the directory is only logged.\<close>

definition commit :: "fw_env \<Rightarrow> staged_json \<Rightarrow> fw_world \<Rightarrow> (string + unit) \<times> fw_world" where
  "commit e s w =
     (case e_rename e of
        Some x \<Rightarrow> (Err (''rename '' @ sj_temp s @ '' to '' @ doc_path (sj_doc s) @ '': '' @ x),
                   remove_temp e (sj_temp s) w)
      | None \<Rightarrow> (Ok (), put_doc (sj_doc s) (w\<lparr>fw_temps := removeAll (sj_temp s) (fw_temps w)\<rparr>)))"

definition discard :: "fw_env \<Rightarrow> staged_json \<Rightarrow> fw_world \<Rightarrow> fw_world" where
  "discard e s w = remove_temp e (sj_temp s) w"

section \<open>Transactions\<close>

definition commit_candidate ::
    "fw_env \<Rightarrow> firewall_config \<Rightarrow> staged_json option \<Rightarrow> fw_world \<Rightarrow> (string + unit) \<times> fw_world" where
  "commit_candidate e candidate staged w =
     (case apply_nftables_with (e_candidate e) candidate w of
        (Err x, w1) \<Rightarrow> (Err x, case staged of None \<Rightarrow> w1 | Some s \<Rightarrow> discard e s w1)
      | (Ok _, w1) \<Rightarrow>
          (case staged of
             None \<Rightarrow> (Ok (), w1\<lparr>fw_config := candidate\<rparr>)
           | Some s \<Rightarrow>
               (case commit e s w1 of
                  (Ok _, w2) \<Rightarrow> (Ok (), w2\<lparr>fw_config := candidate\<rparr>)
                | (Err persist_error, w2) \<Rightarrow>
                    (case apply_nftables_with (e_rollback e) (fw_config w2) w2 of
                       (Err rollback_error, w3) \<Rightarrow>
                         (Err (''persist firewall state: '' @ persist_error @ ''; live rollback also failed: ''
                            @ rollback_error @ ''; in-memory state reflects the live candidate''),
                          w3\<lparr>fw_config := candidate\<rparr>)
                     | (Ok _, w3) \<Rightarrow>
                         (Err (''persist firewall state: '' @ persist_error
                            @ ''; previous live rules restored''), w3)))))"

text \<open>The common end of the operations that persist: stage the document, then commit.\<close>

definition transact ::
    "fw_env \<Rightarrow> firewall_config \<Rightarrow> json_doc option \<Rightarrow> fw_world \<Rightarrow> (string + unit) \<times> fw_world" where
  "transact e candidate doc w =
     (case doc of
        None \<Rightarrow> commit_candidate e candidate None w
      | Some d \<Rightarrow>
          (case stage e d w of
             (Err x, w1) \<Rightarrow> (Err x, w1)
           | (Ok s, w1) \<Rightarrow> commit_candidate e candidate (Some s) w1))"

section \<open>Operations\<close>

definition has_service :: "string \<Rightarrow> firewall_rule \<Rightarrow> bool" where
  "has_service s r = (r_service r = s)"

definition set_rule_active ::
    "fw_env \<Rightarrow> string \<Rightarrow> port_spec list \<Rightarrow> bool \<Rightarrow> fw_world \<Rightarrow> (string + unit) \<times> fw_world" where
  "set_rule_active e service base_ports active w =
     (if base_ports = [] then (Ok (), w)
      else
        let current = fw_config w in
        case List.find (has_service service) (fw_state current) of
          Some rule \<Rightarrow>
            if r_active rule = active then (Ok (), w)
            else transact e (current\<lparr>fw_state :=
                   update_first (has_service service) (\<lambda>r. r\<lparr>r_active := active\<rparr>) (fw_state current)\<rparr>) None w
        | None \<Rightarrow>
            transact e (current\<lparr>fw_state := fw_state current @
              [\<lparr>r_service = service, r_ports = restricted_ports (fw_restrictions current) service base_ports,
                r_active = active\<rparr>]\<rparr>) None w)"

fun load_json :: "'a \<Rightarrow> string \<Rightarrow> 'a json_file \<Rightarrow> string + 'a" where
  "load_json dflt path (Parses v) = Ok v"
| "load_json dflt path (Malformed x) = Err (''parse '' @ path @ '': '' @ x)"
| "load_json dflt path Absent = Ok dflt"
| "load_json dflt path (Unreadable x) = Err (''read '' @ path @ '': '' @ x)"

definition load_restrictions :: "fw_world \<Rightarrow> string + firewall_restrictions" where
  "load_restrictions w =
     load_json no_restrictions (doc_path (Restrictions_Doc no_restrictions)) (fw_restrictions_file w)"

definition load_custom_rules :: "fw_world \<Rightarrow> string + custom_rule list" where
  "load_custom_rules w = load_json [] (doc_path (Custom_Doc [])) (fw_custom_file w)"

text \<open>The rules \<open>init\<close> builds before the portal ports are put in.\<close>

definition initial_rules ::
    "firewall_restrictions \<Rightarrow> (protocol \<times> bool) list \<Rightarrow> bool \<Rightarrow> bool \<Rightarrow> firewall_state" where
  "initial_rules restr enabled_protocols rdma_enabled dc_enabled =
     [\<lparr>r_service = ''webui'', r_ports = restricted_ports restr ''webui'' webui_ports, r_active = True\<rparr>]
     @ map (\<lambda>(proto, enabled).
         \<lparr>r_service = proto_name proto,
          r_ports = restricted_ports restr (proto_name proto) (ports_for_protocol proto), r_active = enabled\<rparr>)
         (filter (\<lambda>(proto, enabled). ports_for_protocol proto \<noteq> []) enabled_protocols)
     @ (if rdma_enabled then
          [\<lparr>r_service = ''rdma'', r_ports = restricted_ports restr ''rdma'' rdma_ports, r_active = True\<rparr>]
        else [])
     @ (if dc_enabled then
          [\<lparr>r_service = ''dc'', r_ports = restricted_ports restr ''dc'' dc_ports, r_active = True\<rparr>]
        else [])"

definition init ::
    "fw_env \<Rightarrow> (protocol \<times> bool) list \<Rightarrow> bool \<Rightarrow> bool \<Rightarrow> port_spec list \<Rightarrow> port_spec list
      \<Rightarrow> published_app_port list \<Rightarrow> fw_world \<Rightarrow> (string + unit) \<times> fw_world" where
  "init e enabled_protocols rdma_enabled dc_enabled iscsi_ports nvmeof_ports published w =
     (case load_restrictions w of Err x \<Rightarrow> (Err x, w) | Ok restr \<Rightarrow>
      case load_custom_rules w of Err x \<Rightarrow> (Err x, w) | Ok custom \<Rightarrow>
      let rules0 = initial_rules restr enabled_protocols rdma_enabled dc_enabled;
          rules1 = snd (replace_rule_ports restr (proto_name Iscsi) iscsi_ports rules0);
          rules2 = snd (replace_rule_ports restr (proto_name Nvmeof) nvmeof_ports rules1)
      in transact e \<lparr>fw_state = rules2, fw_restrictions = restr, fw_custom = custom,
           fw_published = published\<rparr> None w)"

text \<open>The loop of \<open>set_protocol_states\<close>: whether a flag changed, and the new rules.\<close>

fun flip_protocols :: "(protocol \<times> bool) list \<Rightarrow> firewall_state \<Rightarrow> bool \<times> firewall_state" where
  "flip_protocols [] rules = (False, rules)"
| "flip_protocols ((proto, enabled) # ps) rules =
     (case List.find (has_service (proto_name proto)) rules of
        Some rule \<Rightarrow>
          if r_active rule \<noteq> enabled then
            (True, snd (flip_protocols ps
               (update_first (has_service (proto_name proto)) (\<lambda>r. r\<lparr>r_active := enabled\<rparr>) rules)))
          else flip_protocols ps rules
      | None \<Rightarrow> flip_protocols ps rules)"

definition set_protocol_states ::
    "fw_env \<Rightarrow> (protocol \<times> bool) list \<Rightarrow> fw_world \<Rightarrow> (string + unit) \<times> fw_world" where
  "set_protocol_states e enabled_protocols w =
     (let current = fw_config w;
          (changed, rules) = flip_protocols enabled_protocols (fw_state current)
      in if \<not> changed then (Ok (), w) else transact e (current\<lparr>fw_state := rules\<rparr>) None w)"

text \<open>\<open>Vec::dedup_by\<close>: drops an element that is the same as the last one kept.\<close>

fun dedup_by :: "('a \<Rightarrow> 'a \<Rightarrow> bool) \<Rightarrow> 'a list \<Rightarrow> 'a list" where
  "dedup_by same [] = []"
| "dedup_by same [x] = [x]"
| "dedup_by same (x # y # ys) = (if same y x then dedup_by same (x # ys) else x # dedup_by same (y # ys))"

definition published_key :: "published_app_port \<Rightarrow> string \<times> u16 \<times> string" where
  "published_key p = (pub_transport p, pub_host_port p, pub_app p)"

definition normalize_published :: "published_app_port list \<Rightarrow> published_app_port list" where
  "normalize_published published =
     dedup_by (\<lambda>a b. published_key a = published_key b) (sort_key published_key published)"

definition set_published_app_ports ::
    "fw_env \<Rightarrow> published_app_port list \<Rightarrow> fw_world \<Rightarrow> (string + unit) \<times> fw_world" where
  "set_published_app_ports e published w =
     (let current = fw_config w; sorted = normalize_published published
      in if fw_published current = sorted then (Ok (), w)
         else transact e (current\<lparr>fw_published := sorted\<rparr>) None w)"

definition open_ports :: "fw_env \<Rightarrow> protocol \<Rightarrow> fw_world \<Rightarrow> (string + unit) \<times> fw_world" where
  "open_ports e proto w = set_rule_active e (proto_name proto) (ports_for_protocol proto) True w"

definition close_ports :: "fw_env \<Rightarrow> protocol \<Rightarrow> fw_world \<Rightarrow> (string + unit) \<times> fw_world" where
  "close_ports e proto w = set_rule_active e (proto_name proto) (ports_for_protocol proto) False w"

definition open_rdma :: "fw_env \<Rightarrow> fw_world \<Rightarrow> (string + unit) \<times> fw_world" where
  "open_rdma e w = set_rule_active e ''rdma'' rdma_ports True w"

definition close_rdma :: "fw_env \<Rightarrow> fw_world \<Rightarrow> (string + unit) \<times> fw_world" where
  "close_rdma e w = set_rule_active e ''rdma'' rdma_ports False w"

definition open_dc :: "fw_env \<Rightarrow> fw_world \<Rightarrow> (string + unit) \<times> fw_world" where
  "open_dc e w = set_rule_active e ''dc'' dc_ports True w"

definition close_dc :: "fw_env \<Rightarrow> fw_world \<Rightarrow> (string + unit) \<times> fw_world" where
  "close_dc e w = set_rule_active e ''dc'' dc_ports False w"

record firewall_status =
  st_active :: bool
  st_rules :: firewall_state
  st_restrictions :: "(string \<times> string list) list"
  st_interface_restrictions :: "(string \<times> string list) list"
  st_published_app_ports :: "published_app_port list"
  st_custom_rules :: "custom_rule list"

definition status :: "fw_world \<Rightarrow> firewall_status" where
  "status w =
     \<lparr>st_active = True,
      st_rules = fw_state (fw_config w),
      st_restrictions = fr_services (fw_restrictions (fw_config w)),
      st_interface_restrictions = fr_interfaces (fw_restrictions (fw_config w)),
      st_published_app_ports = fw_published (fw_config w),
      st_custom_rules = fw_custom (fw_config w)\<rparr>"

definition default_ports :: "string \<Rightarrow> port_spec list option" where
  "default_ports service =
     (if service = ''webui'' then Some webui_ports
      else if service = ''rdma'' then Some rdma_ports
      else if service = ''dc'' then Some dc_ports
      else map_option ports_for_protocol (from_name service))"

definition put_or_remove :: "string \<Rightarrow> string list \<Rightarrow> (string \<times> string list) list \<Rightarrow> (string \<times> string list) list" where
  "put_or_remove k vs m = (if vs = [] then AList.delete k m else AList.update k vs m)"

definition set_restriction ::
    "fw_env \<Rightarrow> string \<Rightarrow> string list \<Rightarrow> string list \<Rightarrow> fw_world \<Rightarrow> (string + unit) \<times> fw_world" where
  "set_restriction e service sources ifaces w =
     (case List.find (\<lambda>s. \<not> valid_source s) sources of
        Some s \<Rightarrow> (Err (''invalid source (expected an IP or CIDR): '' @ s), w) | None \<Rightarrow>
      case List.find (\<lambda>i. \<not> valid_iface i) ifaces of
        Some i \<Rightarrow> (Err (''invalid interface name: '' @ i), w) | None \<Rightarrow>
      case default_ports service of None \<Rightarrow> (Err (''unknown service: '' @ service), w) | Some dflt \<Rightarrow>
      let current = fw_config w;
          base_ports = (case List.find (has_service service) (fw_state current) of
                          Some rule \<Rightarrow> stripped_ports (r_ports rule) | None \<Rightarrow> dflt);
          restr = fw_restrictions current;
          restr' = restr\<lparr>fr_services := put_or_remove service sources (fr_services restr),
                         fr_interfaces := put_or_remove service ifaces (fr_interfaces restr)\<rparr>;
          candidate = current\<lparr>fw_restrictions := restr',
            fw_state := update_first (has_service service)
              (\<lambda>r. r\<lparr>r_ports := apply_restrictions base_ports sources ifaces\<rparr>) (fw_state current)\<rparr>
      in transact e candidate (Some (Restrictions_Doc restr')) w)"

definition get_restrictions :: "fw_world \<Rightarrow> (string \<times> string list) list" where
  "get_restrictions w = fr_services (fw_restrictions (fw_config w))"

definition set_service_ports ::
    "fw_env \<Rightarrow> protocol \<Rightarrow> port_spec list \<Rightarrow> fw_world \<Rightarrow> (string + unit) \<times> fw_world" where
  "set_service_ports e proto ports w =
     (let current = fw_config w;
          (changed, rules) = replace_rule_ports (fw_restrictions current) (proto_name proto) ports (fw_state current)
      in if \<not> changed then (Ok (), w) else transact e (current\<lparr>fw_state := rules\<rparr>) None w)"

definition set_portal_ports ::
    "fw_env \<Rightarrow> port_spec list \<Rightarrow> port_spec list \<Rightarrow> fw_world \<Rightarrow> (string + unit) \<times> fw_world" where
  "set_portal_ports e iscsi_ports nvmeof_ports w =
     (let current = fw_config w;
          (iscsi_changed, rules1) =
            replace_rule_ports (fw_restrictions current) (proto_name Iscsi) iscsi_ports (fw_state current);
          (nvmeof_changed, rules2) =
            replace_rule_ports (fw_restrictions current) (proto_name Nvmeof) nvmeof_ports rules1
      in if \<not> iscsi_changed \<and> \<not> nvmeof_changed then (Ok (), w)
         else transact e (current\<lparr>fw_state := rules2\<rparr>) None w)"

definition conflict_message :: "custom_rule_input \<Rightarrow> string \<Rightarrow> string" where
  "conflict_message i owner =
     transport_str (i_transport i) @ ''/'' @ show_port (i_from i) @ ''-'' @ show_port (i_to i)
     @ '' overlaps ports managed by '' @ owner @ '' '' @ em_dash @ '' enable '' @ owner @ '' to open them''"

definition identical_message :: string where
  "identical_message = ''an identical custom rule already exists''"

definition add_custom_rule ::
    "fw_env \<Rightarrow> custom_rule_input \<Rightarrow> fw_world \<Rightarrow> (string + custom_rule) \<times> fw_world" where
  "add_custom_rule e i w =
     (case validate_custom_input i of Err x \<Rightarrow> (Err x, w) | Ok _ \<Rightarrow>
      let current = fw_config w in
      case service_port_conflict (fw_state current) (i_transport i) (i_from i) (i_to i) of
        Some owner \<Rightarrow> (Err (conflict_message i owner), w) | None \<Rightarrow>
      if list_ex (\<lambda>r. same_rule r i) (fw_custom current) then (Err identical_message, w)
      else
        let rule = \<lparr>c_id = e_rule_uuid e, c_label = trim (i_label i), c_transport = i_transport i,
                    c_from = i_from i, c_to = i_to i, c_source = i_source i, c_iface = i_iface i,
                    c_enabled = i_enabled i\<rparr>;
            custom = fw_custom current @ [rule]
        in case transact e (current\<lparr>fw_custom := custom\<rparr>) (Some (Custom_Doc custom)) w of
             (Err x, w') \<Rightarrow> (Err x, w')
           | (Ok _, w') \<Rightarrow> (Ok rule, w'))"

definition update_custom_rule ::
    "fw_env \<Rightarrow> string \<Rightarrow> custom_rule_input \<Rightarrow> fw_world \<Rightarrow> (string + custom_rule) \<times> fw_world" where
  "update_custom_rule e rid i w =
     (case validate_custom_input i of Err x \<Rightarrow> (Err x, w) | Ok _ \<Rightarrow>
      let current = fw_config w in
      case service_port_conflict (fw_state current) (i_transport i) (i_from i) (i_to i) of
        Some owner \<Rightarrow> (Err (conflict_message i owner), w) | None \<Rightarrow>
      if list_ex (\<lambda>r. c_id r \<noteq> rid \<and> same_rule r i) (fw_custom current) then (Err identical_message, w)
      else case List.find (\<lambda>r. c_id r = rid) (fw_custom current) of
        None \<Rightarrow> (Err (''custom rule not found: '' @ rid), w)
      | Some old \<Rightarrow>
          let rewrite = (\<lambda>r. r\<lparr>c_label := trim (i_label i), c_transport := i_transport i, c_from := i_from i,
                  c_to := i_to i, c_source := i_source i, c_iface := i_iface i, c_enabled := i_enabled i\<rparr>);
              custom = update_first (\<lambda>r. c_id r = rid) rewrite (fw_custom current)
          in case transact e (current\<lparr>fw_custom := custom\<rparr>) (Some (Custom_Doc custom)) w of
               (Err x, w') \<Rightarrow> (Err x, w')
             | (Ok _, w') \<Rightarrow> (Ok (rewrite old), w'))"

definition remove_custom_rule :: "fw_env \<Rightarrow> string \<Rightarrow> fw_world \<Rightarrow> (string + unit) \<times> fw_world" where
  "remove_custom_rule e rid w =
     (let current = fw_config w; custom = filter (\<lambda>r. c_id r \<noteq> rid) (fw_custom current)
      in if length custom = length (fw_custom current) then (Err (''custom rule not found: '' @ rid), w)
         else transact e (current\<lparr>fw_custom := custom\<rparr>) (Some (Custom_Doc custom)) w)"

section \<open>Operations as steps\<close>

datatype fw_op =
    Init "(protocol \<times> bool) list" bool bool "port_spec list" "port_spec list" "published_app_port list"
  | Set_Protocol_States "(protocol \<times> bool) list"
  | Set_Published "published_app_port list"
  | Open protocol
  | Close protocol
  | Open_Rdma
  | Close_Rdma
  | Open_Dc
  | Close_Dc
  | Set_Restriction string "string list" "string list"
  | Set_Service_Ports protocol "port_spec list"
  | Set_Portal_Ports "port_spec list" "port_spec list"
  | Add_Custom custom_rule_input
  | Update_Custom string custom_rule_input
  | Remove_Custom string

definition unit_result :: "(string + 'a) \<times> fw_world \<Rightarrow> (string + unit) \<times> fw_world" where
  "unit_result rw = (case fst rw of Inl x \<Rightarrow> Err x | Inr _ \<Rightarrow> Ok (), snd rw)"

fun exec :: "fw_env \<Rightarrow> fw_op \<Rightarrow> fw_world \<Rightarrow> (string + unit) \<times> fw_world" where
  "exec e (Init ps rdma dc ip np published) w = init e ps rdma dc ip np published w"
| "exec e (Set_Protocol_States ps) w = set_protocol_states e ps w"
| "exec e (Set_Published published) w = set_published_app_ports e published w"
| "exec e (Open p) w = open_ports e p w"
| "exec e (Close p) w = close_ports e p w"
| "exec e Open_Rdma w = open_rdma e w"
| "exec e Close_Rdma w = close_rdma e w"
| "exec e Open_Dc w = open_dc e w"
| "exec e Close_Dc w = close_dc e w"
| "exec e (Set_Restriction s sources ifaces) w = set_restriction e s sources ifaces w"
| "exec e (Set_Service_Ports p ports) w = set_service_ports e p ports w"
| "exec e (Set_Portal_Ports ip np) w = set_portal_ports e ip np w"
| "exec e (Add_Custom i) w = unit_result (add_custom_rule e i w)"
| "exec e (Update_Custom rid i) w = unit_result (update_custom_rule e rid i w)"
| "exec e (Remove_Custom rid) w = remove_custom_rule e rid w"

text \<open>A run: operations one after another, each in an environment the predicate admits.\<close>

inductive run :: "(fw_env \<Rightarrow> fw_op \<Rightarrow> fw_world \<Rightarrow> bool) \<Rightarrow> fw_world \<Rightarrow> fw_world \<Rightarrow> bool"
  for P :: "fw_env \<Rightarrow> fw_op \<Rightarrow> fw_world \<Rightarrow> bool" where
  run_refl: "run P w w"
| run_step: "run P w w1 \<Longrightarrow> P e op w1 \<Longrightarrow> run P w (snd (exec e op w1))"

text \<open>The candidates an operation may try to commit, with the document it stages.\<close>

inductive candidate :: "fw_env \<Rightarrow> fw_world \<Rightarrow> fw_op \<Rightarrow> firewall_config \<Rightarrow> json_doc option \<Rightarrow> bool"
  for e :: fw_env and w :: fw_world where
  cand_init:
    "load_restrictions w = Ok restr \<Longrightarrow> load_custom_rules w = Ok custom \<Longrightarrow>
     candidate e w (Init ps rdma dc ip np published)
       \<lparr>fw_state = snd (replace_rule_ports restr ''nvmeof'' np
          (snd (replace_rule_ports restr ''iscsi'' ip (initial_rules restr ps rdma dc)))),
        fw_restrictions = restr, fw_custom = custom, fw_published = published\<rparr> None"
| cand_flip:
    "candidate e w (Set_Protocol_States ps)
       ((fw_config w)\<lparr>fw_state := snd (flip_protocols ps (fw_state (fw_config w)))\<rparr>) None"
| cand_published:
    "candidate e w (Set_Published published)
       ((fw_config w)\<lparr>fw_published := normalize_published published\<rparr>) None"
| cand_active:
    "candidate e w op ((fw_config w)\<lparr>fw_state :=
       update_first (has_service s) (\<lambda>r. r\<lparr>r_active := b\<rparr>) (fw_state (fw_config w))\<rparr>) None"
| cand_new:
    "List.find (has_service s) (fw_state (fw_config w)) = None \<Longrightarrow> CHR 10 \<notin> set s \<Longrightarrow>
     \<forall>p \<in> set base. unrestricted p \<Longrightarrow>
     candidate e w op ((fw_config w)\<lparr>fw_state := fw_state (fw_config w) @
       [\<lparr>r_service = s, r_ports = restricted_ports (fw_restrictions (fw_config w)) s base, r_active = b\<rparr>]\<rparr>) None"
| cand_restriction:
    "\<forall>x \<in> set sources. valid_source x \<Longrightarrow> \<forall>i \<in> set ifaces. valid_iface i \<Longrightarrow>
     \<forall>p \<in> set base. unrestricted p \<Longrightarrow>
     restr' = (fw_restrictions (fw_config w))
       \<lparr>fr_services := put_or_remove s sources (fr_services (fw_restrictions (fw_config w))),
        fr_interfaces := put_or_remove s ifaces (fr_interfaces (fw_restrictions (fw_config w)))\<rparr> \<Longrightarrow>
     candidate e w (Set_Restriction s sources ifaces)
       ((fw_config w)\<lparr>fw_restrictions := restr', fw_state := update_first (has_service s)
          (\<lambda>r. r\<lparr>r_ports := apply_restrictions base sources ifaces\<rparr>) (fw_state (fw_config w))\<rparr>)
       (Some (Restrictions_Doc restr'))"
| cand_ports:
    "candidate e w (Set_Service_Ports p ports)
       ((fw_config w)\<lparr>fw_state := snd (replace_rule_ports (fw_restrictions (fw_config w)) (proto_name p) ports
          (fw_state (fw_config w)))\<rparr>) None"
| cand_portal:
    "candidate e w (Set_Portal_Ports ip np)
       ((fw_config w)\<lparr>fw_state := snd (replace_rule_ports (fw_restrictions (fw_config w)) ''nvmeof'' np
          (snd (replace_rule_ports (fw_restrictions (fw_config w)) ''iscsi'' ip (fw_state (fw_config w)))))\<rparr>) None"
| cand_add:
    "validate_custom_input i = Ok () \<Longrightarrow> \<forall>r \<in> set (fw_custom (fw_config w)). \<not> same_rule r i \<Longrightarrow>
     custom = fw_custom (fw_config w) @ [\<lparr>c_id = e_rule_uuid e, c_label = trim (i_label i),
       c_transport = i_transport i, c_from = i_from i, c_to = i_to i, c_source = i_source i,
       c_iface = i_iface i, c_enabled = i_enabled i\<rparr>] \<Longrightarrow>
     candidate e w (Add_Custom i) ((fw_config w)\<lparr>fw_custom := custom\<rparr>) (Some (Custom_Doc custom))"
| cand_update:
    "validate_custom_input i = Ok () \<Longrightarrow>
     \<forall>r \<in> set (fw_custom (fw_config w)). c_id r \<noteq> rid \<longrightarrow> \<not> same_rule r i \<Longrightarrow>
     custom = update_first (\<lambda>r. c_id r = rid) (\<lambda>r. r\<lparr>c_label := trim (i_label i), c_transport := i_transport i,
       c_from := i_from i, c_to := i_to i, c_source := i_source i, c_iface := i_iface i, c_enabled := i_enabled i\<rparr>)
       (fw_custom (fw_config w)) \<Longrightarrow>
     candidate e w (Update_Custom rid i) ((fw_config w)\<lparr>fw_custom := custom\<rparr>) (Some (Custom_Doc custom))"
| cand_remove:
    "custom = filter (\<lambda>r. c_id r \<noteq> rid) (fw_custom (fw_config w)) \<Longrightarrow>
     candidate e w (Remove_Custom rid) ((fw_config w)\<lparr>fw_custom := custom\<rparr>) (Some (Custom_Doc custom))"

lemma base_ports_unrestricted [simp]:
  "\<forall>p \<in> set (ports_for_protocol q). unrestricted p"
  "\<forall>p \<in> set rdma_ports. unrestricted p" "\<forall>p \<in> set dc_ports. unrestricted p"
  "\<forall>p \<in> set webui_ports. unrestricted p" "\<forall>p \<in> set (stripped_ports ps). unrestricted p"
  by (cases q) (auto simp: unrestricted_def tcp_def udp_def tcp_range_def rdma_ports_def dc_ports_def
      webui_ports_def set_stripped_ports strip_port_def)

lemma proto_name_simps [simp]: "CHR 10 \<notin> set (proto_name p)"
  by (cases p) simp_all

lemma default_ports_unrestricted:
  "default_ports s = Some ps \<Longrightarrow> \<forall>p \<in> set ps. unrestricted p"
  by (auto simp: default_ports_def split: if_splits)

text \<open>Every operation either leaves the world as it is or is one transaction on a candidate.\<close>

definition is_transaction :: "fw_env \<Rightarrow> fw_op \<Rightarrow> fw_world \<Rightarrow> (string + unit) \<times> fw_world \<Rightarrow> bool" where
  "is_transaction e op w rw \<longleftrightarrow>
     snd rw = w \<or> (\<exists>cand doc. candidate e w op cand doc \<and> rw = transact e cand doc w)"

lemma transaction_refl: "snd rw = w \<Longrightarrow> is_transaction e op w rw"
  by (simp add: is_transaction_def)

lemma transactionI:
  "candidate e w op cand doc \<Longrightarrow> is_transaction e op w (transact e cand doc w)"
  by (auto simp: is_transaction_def)

lemma set_rule_active_transaction:
  assumes "CHR 10 \<notin> set s" and "\<forall>p \<in> set base. unrestricted p"
  shows "is_transaction e op w (set_rule_active e s base b w)"
proof (cases "List.find (has_service s) (fw_state (fw_config w))")
  case None
  then show ?thesis
    using assms by (simp add: set_rule_active_def Let_def transaction_refl transactionI [OF cand_new])
qed (simp add: set_rule_active_def Let_def transaction_refl transactionI [OF cand_active])

lemma snd_unit_result [simp]: "snd (unit_result rw) = snd rw"
  by (simp add: unit_result_def)

lemma unit_result_case:
  "unit_result (case rw of (Inl x, w') \<Rightarrow> (Inl x, w') | (Inr _, w') \<Rightarrow> (Inr v, w')) = rw"
  by (auto simp: unit_result_def split: prod.split sum.split)

lemma init_transaction:
  "is_transaction e (Init ps rdma dc ip np published) w (init e ps rdma dc ip np published w)"
proof (cases "load_restrictions w")
  case (Inr restr)
  then show ?thesis
    by (cases "load_custom_rules w")
      (simp_all add: init_def Let_def transaction_refl transactionI [OF cand_init])
qed (simp add: init_def transaction_refl)

lemma set_restriction_transaction:
  "is_transaction e (Set_Restriction s sources ifaces) w (set_restriction e s sources ifaces w)"
proof -
  consider (fail) "snd (set_restriction e s sources ifaces w) = w"
    | (pass) dflt where "List.find (\<lambda>s. \<not> valid_source s) sources = None"
        "List.find (\<lambda>i. \<not> valid_iface i) ifaces = None" "default_ports s = Some dflt"
    by (cases "List.find (\<lambda>s. \<not> valid_source s) sources"; cases "List.find (\<lambda>i. \<not> valid_iface i) ifaces";
        cases "default_ports s") (auto simp: set_restriction_def)
  then show ?thesis
  proof cases
    case pass
    let ?base = "case List.find (has_service s) (fw_state (fw_config w)) of
        Some rule \<Rightarrow> stripped_ports (r_ports rule) | None \<Rightarrow> dflt"
    have base: "\<forall>p \<in> set ?base. unrestricted p"
      using default_ports_unrestricted [OF pass(3)] base_ports_unrestricted(5) by (simp split: option.split)
    have ok: "\<forall>x \<in> set sources. valid_source x" "\<forall>i \<in> set ifaces. valid_iface i"
      using pass(1,2) by (simp_all add: find_None_iff_all)
    show ?thesis
      unfolding set_restriction_def Let_def pass option.case
      by (rule transactionI [OF cand_restriction [OF ok base refl]])
  qed (simp add: transaction_refl)
qed

lemma add_custom_transaction: "is_transaction e (Add_Custom i) w (unit_result (add_custom_rule e i w))"
proof -
  consider (fail) "snd (add_custom_rule e i w) = w"
    | (pass) "validate_custom_input i = Ok ()"
        "service_port_conflict (fw_state (fw_config w)) (i_transport i) (i_from i) (i_to i) = None"
        "\<not> list_ex (\<lambda>r. same_rule r i) (fw_custom (fw_config w))"
    by (cases "validate_custom_input i";
        cases "service_port_conflict (fw_state (fw_config w)) (i_transport i) (i_from i) (i_to i)";
        cases "list_ex (\<lambda>r. same_rule r i) (fw_custom (fw_config w))")
      (simp_all add: add_custom_rule_def)
  then show ?thesis
  proof cases
    case pass
    then show ?thesis
      by (simp add: add_custom_rule_def Let_def unit_result_case transactionI [OF cand_add] list_ex_iff)
  qed (simp add: transaction_refl)
qed

lemma update_custom_transaction:
  "is_transaction e (Update_Custom rid i) w (unit_result (update_custom_rule e rid i w))"
proof -
  consider (fail) "snd (update_custom_rule e rid i w) = w"
    | (pass) old where "validate_custom_input i = Ok ()"
        "service_port_conflict (fw_state (fw_config w)) (i_transport i) (i_from i) (i_to i) = None"
        "\<not> list_ex (\<lambda>r. c_id r \<noteq> rid \<and> same_rule r i) (fw_custom (fw_config w))"
        "List.find (\<lambda>r. c_id r = rid) (fw_custom (fw_config w)) = Some old"
    by (cases "validate_custom_input i";
        cases "service_port_conflict (fw_state (fw_config w)) (i_transport i) (i_from i) (i_to i)";
        cases "list_ex (\<lambda>r. c_id r \<noteq> rid \<and> same_rule r i) (fw_custom (fw_config w))";
        cases "List.find (\<lambda>r. c_id r = rid) (fw_custom (fw_config w))")
      (simp_all add: update_custom_rule_def)
  then show ?thesis
  proof cases
    case pass
    have "\<forall>r \<in> set (fw_custom (fw_config w)). c_id r \<noteq> rid \<longrightarrow> \<not> same_rule r i"
      using pass(3) by (auto simp: list_ex_iff)
    note t = transactionI [OF cand_update [OF pass(1) this refl]]
    from pass show ?thesis
      by (simp add: update_custom_rule_def Let_def unit_result_case t)
  qed (simp add: transaction_refl)
qed

lemma small_transactions:
  "is_transaction e (Set_Protocol_States ps) w (set_protocol_states e ps w)"
  "is_transaction e (Set_Published published) w (set_published_app_ports e published w)"
  "is_transaction e (Set_Service_Ports p ports) w (set_service_ports e p ports w)"
  "is_transaction e (Set_Portal_Ports ip np) w (set_portal_ports e ip np w)"
  "is_transaction e (Remove_Custom rid) w (remove_custom_rule e rid w)"
  by (simp_all add: set_protocol_states_def set_published_app_ports_def set_service_ports_def
      set_portal_ports_def remove_custom_rule_def Let_def case_prod_beta transaction_refl
      transactionI [OF cand_flip] transactionI [OF cand_published] transactionI [OF cand_ports]
      transactionI [OF cand_portal] transactionI [OF cand_remove])

lemma exec_transaction: "is_transaction e op w (exec e op w)"
  by (cases op) (simp_all add: init_transaction set_restriction_transaction add_custom_transaction
    update_custom_transaction small_transactions set_rule_active_transaction
    open_ports_def close_ports_def open_rdma_def close_rdma_def open_dc_def close_dc_def)

section \<open>Outcomes of a transaction\<close>

text \<open>
  \<open>nft\<close> submits a file as one netlink transaction. An honest run is one whose report agrees
  with that: it replaced the table if and only if the engine sees it succeed.
\<close>

definition honest_run :: "nft_run \<Rightarrow> bool" where
  "honest_run n = (n_commits n \<longleftrightarrow> run_nft ''apply'' n = Ok ())"

definition honest :: "fw_env \<Rightarrow> bool" where
  "honest e = (honest_run (a_apply (e_candidate e)) \<and> honest_run (a_apply (e_rollback e)))"

text \<open>The rename of the staged file fails and so does putting the old ruleset back.\<close>

definition double_fault :: "fw_env \<Rightarrow> bool" where
  "double_fault e =
     (e_rename e \<noteq> None
      \<and> \<not> (run_nft ''validation'' (a_check (e_rollback e)) = Ok () \<and> run_nft ''apply'' (a_apply (e_rollback e)) = Ok ()))"

fun put_docs :: "json_doc option \<Rightarrow> fw_world \<Rightarrow> fw_world" where
  "put_docs None w = w"
| "put_docs (Some d) w = put_doc d w"

lemma apply_nftables_cases [consumes 1, case_names ok err]:
  assumes "honest_run (a_apply a)"
  obtains "apply_nftables_with a c w = (Ok (), w\<lparr>fw_live := Some (config_ruleset c)\<rparr>)"
      "run_nft ''validation'' (a_check a) = Ok ()" "run_nft ''apply'' (a_apply a) = Ok ()"
    | x where "apply_nftables_with a c w = (Err x, w)"
      "\<not> (run_nft ''validation'' (a_check a) = Ok () \<and> run_nft ''apply'' (a_apply a) = Ok ())"
  using assms
  by (cases "run_nft ''validation'' (a_check a)"; cases "run_nft ''apply'' (a_apply a)")
    (auto simp: apply_nftables_with_def honest_run_def)

lemma remove_temp_frame: "\<exists>T. remove_temp e t w = w\<lparr>fw_temps := T\<rparr>"
proof (cases "e_remove e")
  case (Some x)
  then have "remove_temp e t w = w\<lparr>fw_temps := fw_temps w\<rparr>" by (simp add: remove_temp_def)
  then show ?thesis by blast
qed (auto simp: remove_temp_def)

lemma stage_cases [case_names err ok]:
  obtains x T where "stage e d w = (Err x, w\<lparr>fw_temps := T\<rparr>)"
  | T where "stage e d w = (Ok \<lparr>sj_temp = temp_path e d, sj_doc = d\<rparr>, w\<lparr>fw_temps := T\<rparr>)"
proof -
  let ?t = "temp_path e d"
  obtain T where rm: "remove_temp e ?t (w\<lparr>fw_temps := ?t # fw_temps w\<rparr>) = w\<lparr>fw_temps := T\<rparr>"
    using remove_temp_frame [of e ?t "w\<lparr>fw_temps := ?t # fw_temps w\<rparr>"] by auto
  note same = that(1) [where T = "fw_temps w"] and gone = that(1) [where T = T]
  show ?thesis
    by (cases "e_serialize e"; cases "e_create e"; cases "e_write e"; cases "e_sync e")
      (simp_all add: stage_def Let_def rm same gone that(2))
qed

lemma put_doc_frame [simp]:
  "put_doc d (w\<lparr>fw_temps := T\<rparr>) = (put_doc d w)\<lparr>fw_temps := T\<rparr>"
  "put_doc d (w\<lparr>fw_config := c\<rparr>) = (put_doc d w)\<lparr>fw_config := c\<rparr>"
  "put_doc d (w\<lparr>fw_live := l\<rparr>) = (put_doc d w)\<lparr>fw_live := l\<rparr>"
  "fw_config (put_doc d w) = fw_config w" "fw_live (put_doc d w) = fw_live w"
  by (cases d; simp)+

lemma commit_cases [case_names err ok]:
  obtains x T where "commit e s w = (Err x, w\<lparr>fw_temps := T\<rparr>)" "e_rename e \<noteq> None"
  | T where "commit e s w = (Ok (), put_doc (sj_doc s) (w\<lparr>fw_temps := T\<rparr>))"
  using that remove_temp_frame [of e "sj_temp s" w]
  by (cases "e_rename e") (auto simp: commit_def)

text \<open>The three ways a transaction ends.\<close>

definition rejected :: "fw_world \<Rightarrow> fw_world \<Rightarrow> bool" where
  "rejected w w' \<longleftrightarrow> (\<exists>T l. w' = w\<lparr>fw_temps := T, fw_live := l\<rparr>
     \<and> (l = fw_live w \<or> l = Some (config_ruleset (fw_config w))))"

definition replaced :: "firewall_config \<Rightarrow> fw_world \<Rightarrow> fw_world \<Rightarrow> bool" where
  "replaced cand w w' \<longleftrightarrow>
     (\<exists>T. w' = w\<lparr>fw_live := Some (config_ruleset cand), fw_temps := T, fw_config := cand\<rparr>)"

lemma rejectedI:
  "rejected w (w\<lparr>fw_temps := T\<rparr>)" "rejected w (w\<lparr>fw_temps := T, fw_live := Some (config_ruleset (fw_config w))\<rparr>)"
proof -
  have "w\<lparr>fw_temps := T\<rparr> = w\<lparr>fw_temps := T, fw_live := fw_live w\<rparr>" by simp
  then show "rejected w (w\<lparr>fw_temps := T\<rparr>)" unfolding rejected_def by metis
qed (auto simp: rejected_def)

lemma commit_candidate_cases [consumes 1, case_names rejected committed degraded]:
  assumes "honest e"
  obtains x w' where "commit_candidate e cand st w = (Err x, w')" "rejected w w'"
  | w' where "commit_candidate e cand st w = (Ok (), put_docs (map_option sj_doc st) w')" "replaced cand w w'"
  | x w' where "commit_candidate e cand st w = (Err x, w')" "replaced cand w w'" "double_fault e" "st \<noteq> None"
proof -
  have h: "honest_run (a_apply (e_candidate e))" "honest_run (a_apply (e_rollback e))"
    using assms by (auto simp: honest_def)
  have keep: "rejected w w" using rejectedI(1) [of w "fw_temps w"] by simp
  have live: "replaced cand w (w\<lparr>fw_live := Some (config_ruleset cand), fw_config := cand\<rparr>)"
    unfolding replaced_def by (rule exI [of _ "fw_temps w"]) simp
  show ?thesis
    using h(1)
  proof (cases rule: apply_nftables_cases [where c = cand and w = w])
    case (err x)
    then show ?thesis
    proof (cases st)
      case None
      with err keep that(1) show ?thesis by (simp add: commit_candidate_def)
    next
      case (Some s)
      obtain T where "discard e s w = w\<lparr>fw_temps := T\<rparr>" using remove_temp_frame [of e "sj_temp s" w] unfolding discard_def by blast
      with err Some that(1) rejectedI(1) show ?thesis by (simp add: commit_candidate_def)
    qed
  next
    case ok
    let ?w1 = "w\<lparr>fw_live := Some (config_ruleset cand)\<rparr>"
    show ?thesis
    proof (cases st)
      case None
      with ok live that(2) show ?thesis by (simp add: commit_candidate_def)
    next
      case (Some s)
      show ?thesis
      proof (cases rule: commit_cases [where e = e and s = s and w = ?w1])
        case c: (ok T)
        let ?w' = "w\<lparr>fw_live := Some (config_ruleset cand), fw_temps := T, fw_config := cand\<rparr>"
        have "commit_candidate e cand st w = (Ok (), put_docs (map_option sj_doc st) ?w')"
          by (simp add: commit_candidate_def ok c Some)
        moreover have "replaced cand w ?w'" by (auto simp: replaced_def)
        ultimately show ?thesis by (rule that(2))
      next
        case c: (err x T)
        let ?w2 = "?w1\<lparr>fw_temps := T\<rparr>"
        show ?thesis
          using h(2)
        proof (cases rule: apply_nftables_cases [where c = "fw_config w" and w = ?w2])
          case r: ok
          with ok c Some that(1) rejectedI(2) [of w T] show ?thesis by (simp add: commit_candidate_def)
        next
          case r: (err y)
          have "double_fault e" using c r(2) by (simp add: double_fault_def)
          moreover have "replaced cand w (w\<lparr>fw_live := Some (config_ruleset cand), fw_temps := T, fw_config := cand\<rparr>)"
            by (auto simp: replaced_def)
          ultimately show ?thesis using ok c r Some that(3) by (simp add: commit_candidate_def)
        qed
      qed
    qed
  qed
qed

lemma rejected_temps: "rejected (w\<lparr>fw_temps := T\<rparr>) w' \<Longrightarrow> rejected w w'"
  by (auto simp: rejected_def)

lemma replaced_temps: "replaced cand (w\<lparr>fw_temps := T\<rparr>) w' \<Longrightarrow> replaced cand w w'"
  by (auto simp: replaced_def)

lemma transact_cases [consumes 1, case_names rejected committed degraded]:
  assumes "honest e"
  obtains x w' where "transact e cand doc w = (Err x, w')" "rejected w w'"
  | w' where "transact e cand doc w = (Ok (), put_docs doc w')" "replaced cand w w'"
  | x w' where "transact e cand doc w = (Err x, w')" "replaced cand w w'" "double_fault e" "doc \<noteq> None"
proof (cases doc)
  case None
  from assms show ?thesis
    by (cases rule: commit_candidate_cases [where cand = cand and st = None and w = w])
      (auto simp: transact_def None intro: that)
next
  case (Some d)
  show ?thesis
  proof (cases rule: stage_cases [where e = e and d = d and w = w])
    case (err x T)
    then show ?thesis using rejectedI(1) [of w T] by (intro that(1)) (auto simp: transact_def Some)
  next
    case (ok T)
    let ?s = "\<lparr>sj_temp = temp_path e d, sj_doc = d\<rparr>" and ?w = "w\<lparr>fw_temps := T\<rparr>"
    have t: "transact e cand doc w = commit_candidate e cand (Some ?s) ?w"
      by (simp add: transact_def Some ok)
    from assms show ?thesis
    proof (cases rule: commit_candidate_cases [where cand = cand and st = "Some ?s" and w = ?w])
      case (rejected x w')
      then show ?thesis using t rejected_temps by (intro that(1)) auto
    next
      case (committed w')
      then show ?thesis using t replaced_temps Some by (intro that(2)) auto
    next
      case (degraded x w')
      then show ?thesis using t replaced_temps Some by (intro that(3)) auto
    qed
  qed
qed

section \<open>Invariants of runs\<close>

text \<open>
  What an invariant of the service owes to be kept by every run: a rejected transaction, a
  committed one and one that ends degraded keep it. The operations are then covered at once.
\<close>

locale transaction_invariant =
  fixes I :: "fw_world \<Rightarrow> bool"
    and P :: "fw_env \<Rightarrow> fw_op \<Rightarrow> fw_world \<Rightarrow> bool"
  assumes admits_honest: "P e op w \<Longrightarrow> honest e"
    and keep_rejected: "I w \<Longrightarrow> rejected w w' \<Longrightarrow> I w'"
    and keep_committed: "I w \<Longrightarrow> P e op w \<Longrightarrow> candidate e w op cand doc \<Longrightarrow>
      replaced cand w w' \<Longrightarrow> I (put_docs doc w')"
    and keep_degraded: "I w \<Longrightarrow> P e op w \<Longrightarrow> candidate e w op cand doc \<Longrightarrow> double_fault e \<Longrightarrow>
      replaced cand w w' \<Longrightarrow> I w'"
begin

lemma transact_keeps:
  assumes "I w" "P e op w" "candidate e w op cand doc"
  shows "I (snd (transact e cand doc w))"
  using admits_honest [OF assms(2)]
proof (cases rule: transact_cases [where cand = cand and doc = doc and w = w])
  case (rejected x w')
  then show ?thesis using keep_rejected [OF assms(1)] by simp
next
  case (committed w')
  then show ?thesis using keep_committed [OF assms] by simp
next
  case (degraded x w')
  then show ?thesis using keep_degraded [OF assms] by simp
qed

lemma exec_keeps:
  assumes "I w" "P e op w"
  shows "I (snd (exec e op w))"
  using exec_transaction [of e op w] assms transact_keeps by (auto simp: is_transaction_def)

lemma run_keeps: "run P w w' \<Longrightarrow> I w \<Longrightarrow> I w'"
  by (induction rule: run.induct) (simp_all add: exec_keeps)

end

definition live_matches :: "fw_world \<Rightarrow> bool" where
  "live_matches w = (fw_live w = Some (config_ruleset (fw_config w)))"

definition disk_matches :: "fw_world \<Rightarrow> bool" where
  "disk_matches w =
     (load_restrictions w = Ok (fw_restrictions (fw_config w)) \<and> load_custom_rules w = Ok (fw_custom (fw_config w)))"

lemma put_docs_frame [simp]:
  "fw_config (put_docs d w) = fw_config w" "fw_live (put_docs d w) = fw_live w"
  by (cases d; simp)+

lemma replaced_live: "replaced cand w w' \<Longrightarrow> live_matches w'"
  by (auto simp: replaced_def live_matches_def)

interpretation live: transaction_invariant live_matches "\<lambda>e op w. honest e"
proof
  fix w w'
  assume "live_matches w" "rejected w w'"
  then show "live_matches w'" by (auto simp: rejected_def live_matches_def)
next
  fix w e op cand doc w'
  assume "replaced cand w w'"
  then have "live_matches w'" by (rule replaced_live)
  then show "live_matches (put_docs doc w')" and "live_matches w'" by (simp_all add: live_matches_def)
qed simp

lemma load_put_docs:
  "load_restrictions (put_docs (Some (Restrictions_Doc r)) w) = Ok r"
  "load_custom_rules (put_docs (Some (Restrictions_Doc r)) w) = load_custom_rules w"
  "load_custom_rules (put_docs (Some (Custom_Doc c)) w) = Ok c"
  "load_restrictions (put_docs (Some (Custom_Doc c)) w) = load_restrictions w"
  by (simp_all add: load_restrictions_def load_custom_rules_def)

lemma load_frame:
  assumes "fw_restrictions_file w' = fw_restrictions_file w" "fw_custom_file w' = fw_custom_file w"
  shows "load_restrictions w' = load_restrictions w \<and> load_custom_rules w' = load_custom_rules w"
  using assms by (simp add: load_restrictions_def load_custom_rules_def)

interpretation disk: transaction_invariant disk_matches "\<lambda>e op w. honest e \<and> \<not> double_fault e"
proof
  fix w w'
  assume "disk_matches w" "rejected w w'"
  then show "disk_matches w'"
    using load_frame [of w' w] by (auto simp: rejected_def disk_matches_def)
next
  fix w e op cand doc w'
  assume d: "disk_matches w" and c: "candidate e w op cand doc" and r: "replaced cand w w'"
  from r have w': "fw_config w' = cand" "load_restrictions w' = load_restrictions w"
      "load_custom_rules w' = load_custom_rules w"
    using load_frame [of w' w] by (auto simp: replaced_def)
  from c d w' show "disk_matches (put_docs doc w')"
    by cases (simp_all add: disk_matches_def load_put_docs del: put_docs.simps(2))
qed simp_all

end
