(* ===== verification/Firewall_Runs.thy ===== *)
theory Firewall_Runs
  imports Firewall
begin

text \<open>
  What holds of every run of the firewall service: the well-formedness of the configuration
  (one rule per service, validated sources and interfaces, custom rules pairwise different),
  the agreement of the kernel, the memory and the disk, and the effect of the operations that
  close a service, restrict it or add a rule.
\<close>

section \<open>Well-formed configurations\<close>

definition restrictions_ok :: "firewall_restrictions \<Rightarrow> bool" where
  "restrictions_ok r =
     (list_all (\<lambda>(s, xs). list_all valid_source xs) (fr_services r)
      \<and> list_all (\<lambda>(s, xs). list_all valid_iface xs) (fr_interfaces r))"

definition rule_key :: "custom_rule \<Rightarrow> transport \<times> u16 \<times> u16 \<times> string option \<times> string option" where
  "rule_key r = (c_transport r, c_from r, c_to r, c_source r, c_iface r)"

definition customs_ok :: "custom_rule list \<Rightarrow> bool" where
  "customs_ok cs = (list_all safe_custom cs \<and> distinct (map c_id cs) \<and> distinct (map rule_key cs))"

definition config_ok :: "firewall_config \<Rightarrow> bool" where
  "config_ok c =
     (distinct (map r_service (fw_state c)) \<and> list_all safe_rule (fw_state c)
      \<and> restrictions_ok (fw_restrictions c) \<and> customs_ok (fw_custom c))"

definition file_ok :: "('a \<Rightarrow> bool) \<Rightarrow> 'a json_file \<Rightarrow> bool" where
  "file_ok P f = (case f of Parses v \<Rightarrow> P v | _ \<Rightarrow> True)"

definition world_ok :: "fw_world \<Rightarrow> bool" where
  "world_ok w = (config_ok (fw_config w) \<and> file_ok restrictions_ok (fw_restrictions_file w)
     \<and> file_ok customs_ok (fw_custom_file w))"

text \<open>
  What the callers of the service guarantee: each protocol is named once, the portal ports of
  iSCSI and NVMe-oF carry no unvalidated condition, and a generated rule id is new.
\<close>

fun op_ok :: "fw_env \<Rightarrow> fw_op \<Rightarrow> fw_world \<Rightarrow> bool" where
  "op_ok e (Init ps rdma dc ip np published) w =
     (distinct (map fst ps) \<and> list_all safe_spec ip \<and> list_all safe_spec np)"
| "op_ok e (Set_Service_Ports p ports) w = list_all safe_spec ports"
| "op_ok e (Set_Portal_Ports ip np) w = (list_all safe_spec ip \<and> list_all safe_spec np)"
| "op_ok e (Add_Custom i) w =
     (CHR 10 \<notin> set (e_rule_uuid e) \<and> e_rule_uuid e \<notin> c_id ` set (fw_custom (fw_config w)))"
| "op_ok e _ w = True"

subsection \<open>Restrictions\<close>

lemma set_alist_update: "set (AList.update k v m) \<subseteq> insert (k, v) (set m)"
  by (induction m) auto

lemma set_alist_delete: "set (AList.delete k m) \<subseteq> set m"
  by (auto simp: AList.delete_eq)

lemma put_or_remove_ok:
  assumes "list_all (\<lambda>(s, xs). list_all P xs) m" and "list_all P vs"
  shows "list_all (\<lambda>(s, xs). list_all P xs) (put_or_remove k vs m)"
  using assms set_alist_update [of k vs m] set_alist_delete [of k m]
  by (auto simp: put_or_remove_def list_all_iff)

lemma get_or_ok:
  assumes "list_all (\<lambda>(s, xs). list_all P xs) m"
  shows "list_all P (get_or [] s m)"
  using assms
  by (cases "map_of m s") (auto simp: get_or_def list_all_iff dest!: map_of_SomeD)

lemma apply_restrictions_safe:
  assumes "list_all safe_spec ports" and "list_all valid_source sources" and "list_all valid_iface ifaces"
  shows "list_all safe_spec (apply_restrictions ports sources ifaces)"
  using assms by (auto simp: apply_restrictions_def list_all_iff safe_spec_def)

lemma restricted_ports_safe:
  assumes "restrictions_ok r" and "list_all safe_spec ports"
  shows "list_all safe_spec (restricted_ports r s ports)"
  using assms unfolding restricted_ports_def restrictions_ok_def
  by (intro apply_restrictions_safe get_or_ok) auto

lemma unrestricted_safe: "\<forall>p \<in> set ports. unrestricted p \<Longrightarrow> list_all safe_spec ports"
  by (simp add: list_all_iff safe_spec_def unrestricted_def)

subsection \<open>Rules\<close>

definition rules_ok :: "firewall_state \<Rightarrow> bool" where
  "rules_ok rs = (distinct (map r_service rs) \<and> list_all safe_rule rs)"

lemma rules_ok_append:
  assumes "rules_ok rs" and "List.find (has_service s) rs = None" and "CHR 10 \<notin> set s" and "list_all safe_spec ports"
  shows "rules_ok (rs @ [\<lparr>r_service = s, r_ports = ports, r_active = b\<rparr>])"
  using assms by (auto simp: rules_ok_def find_None_iff_all has_service_def safe_rule_def)

lemma rules_ok_update:
  assumes "rules_ok rs" and "\<And>r. r_service (f r) = r_service r" and "\<And>r. safe_rule r \<Longrightarrow> safe_rule (f r)"
  shows "rules_ok (update_first p f rs)"
proof -
  have "map r_service (update_first p f rs) = map r_service rs"
    using assms(2) by (intro map_update_first) auto
  moreover have "list_all safe_rule (update_first p f rs)"
    using assms(1,3) by (auto simp: rules_ok_def list_all_iff dest!: set_update_firstD)
  ultimately show ?thesis using assms(1) by (simp add: rules_ok_def)
qed

lemma replace_rule_ports_ok:
  assumes "rules_ok rs" and "restrictions_ok restr" and "list_all safe_spec ports" and "CHR 10 \<notin> set s"
  shows "rules_ok (snd (replace_rule_ports restr s ports rs))"
proof -
  have safe: "list_all safe_spec (restricted_ports restr s ports)"
    using assms(2,3) by (rule restricted_ports_safe)
  have hs: "(\<lambda>r. r_service r = s) = has_service s" by (simp add: has_service_def fun_eq_iff)
  have upd: "rules_ok (update_first (has_service s) (\<lambda>r. r\<lparr>r_ports := restricted_ports restr s ports\<rparr>) rs)"
    using assms(1) safe by (intro rules_ok_update) (auto simp: safe_rule_def)
  show ?thesis
    using rules_ok_append [OF assms(1) _ assms(4) safe] upd assms(1)
    by (cases "List.find (has_service s) rs") (simp_all add: replace_rule_ports_def Let_def hs)
qed

lemma portal_ports_ok:
  assumes "rules_ok rs" and "restrictions_ok restr" and "list_all safe_spec ip" and "list_all safe_spec np"
  shows "rules_ok (snd (replace_rule_ports restr ''nvmeof'' np (snd (replace_rule_ports restr ''iscsi'' ip rs))))"
  using assms by (intro replace_rule_ports_ok) simp_all

lemma flip_protocols_ok: "rules_ok rs \<Longrightarrow> rules_ok (snd (flip_protocols ps rs))"
proof (induction ps rs rule: flip_protocols.induct)
  case (2 p b ps rs)
  have "rules_ok (update_first (has_service (proto_name p)) (\<lambda>r. r\<lparr>r_active := b\<rparr>) rs)"
    using "2.prems" by (intro rules_ok_update) (auto simp: safe_rule_def)
  with 2 show ?case by (auto split: option.split)
qed simp

lemma proto_name_inject [simp]: "proto_name p = proto_name q \<longleftrightarrow> p = q"
  by (cases p; cases q) simp_all

lemma proto_name_special [simp]:
  "''webui'' \<noteq> proto_name p" "''rdma'' \<noteq> proto_name p" "''dc'' \<noteq> proto_name p"
  "proto_name p \<noteq> ''webui''" "proto_name p \<noteq> ''rdma''" "proto_name p \<noteq> ''dc''"
  by (cases p; simp)+

lemma initial_rules_ok:
  assumes "distinct (map fst ps)" and "restrictions_ok restr"
  shows "rules_ok (initial_rules restr ps rdma dc)"
proof -
  have names: "map r_service (initial_rules restr ps rdma dc) =
      ''webui'' # map proto_name (map fst (filter (\<lambda>(p, b). ports_for_protocol p \<noteq> []) ps))
      @ (if rdma then [''rdma''] else []) @ (if dc then [''dc''] else [])"
    by (simp add: initial_rules_def comp_def case_prod_beta)
  have "distinct (map proto_name (map fst (filter (\<lambda>(p, b). ports_for_protocol p \<noteq> []) ps)))"
    using distinct_map_filter [OF assms(1)] by (simp add: distinct_map inj_on_def comp_def)
  then have "distinct (map r_service (initial_rules restr ps rdma dc))"
    unfolding names by (auto simp: image_iff)
  moreover have rule: "safe_rule \<lparr>r_service = s, r_ports = restricted_ports restr s base, r_active = b\<rparr>"
    if "\<forall>p \<in> set base. unrestricted p" and "CHR 10 \<notin> set s" for s base b
    using restricted_ports_safe [OF assms(2) unrestricted_safe] that by (simp add: safe_rule_def)
  have "list_all safe_rule (initial_rules restr ps rdma dc)"
    by (auto simp: initial_rules_def list_all_iff rule)
  ultimately show ?thesis by (simp add: rules_ok_def)
qed

subsection \<open>Custom rules\<close>

lemma validated_conditions:
  assumes "validate_custom_input i = Ok ()"
  shows "opt_all valid_source (i_source i) \<and> opt_all valid_iface (i_iface i) \<and> i_from i \<noteq> 0 \<and> i_from i \<le> i_to i"
  using assms by (auto simp: validate_custom_input_def split: if_splits option.splits)

lemma same_rule_key:
  "same_rule r i \<longleftrightarrow> rule_key r = (i_transport i, i_from i, i_to i, i_source i, i_iface i)"
  by (simp add: same_rule_def rule_key_def)

lemma customs_ok_append:
  assumes "customs_ok cs" and "validate_custom_input i = Ok ()" and "\<forall>r \<in> set cs. \<not> same_rule r i"
    and "CHR 10 \<notin> set u" and "u \<notin> c_id ` set cs"
  shows "customs_ok (cs @ [\<lparr>c_id = u, c_label = l, c_transport = i_transport i, c_from = i_from i,
    c_to = i_to i, c_source = i_source i, c_iface = i_iface i, c_enabled = b\<rparr>])" (is "customs_ok (cs @ [?r])")
proof -
  have "safe_custom ?r" using assms(4) validated_conditions [OF assms(2)] by (simp add: safe_custom_def)
  moreover have "rule_key ?r \<notin> rule_key ` set cs"
    using assms(3) unfolding same_rule_key by (auto simp: rule_key_def)
  ultimately show ?thesis using assms(1,5) by (simp add: customs_ok_def)
qed

lemma distinct_update_first:
  assumes "distinct (map k xs)" and "\<And>x. x \<in> set xs \<Longrightarrow> \<not> p x \<Longrightarrow> k x \<noteq> v" and "\<And>x. k (f x) = v"
    and "distinct (map i xs)" and "\<And>x y. p x \<Longrightarrow> p y \<Longrightarrow> i x = i y"
  shows "distinct (map k (update_first p f xs))"
  using assms
proof (induction xs)
  case (Cons x xs)
  show ?case
  proof (cases "p x")
    case True
    have "\<not> p y" if "y \<in> set xs" for y
      using that True Cons.prems(4) Cons.prems(5) [of x y] by (auto simp: image_iff)
    then have "v \<notin> k ` set xs" using Cons.prems(2) by auto
    then show ?thesis using True Cons.prems(1,3) by simp
  next
    case False
    have "k x \<noteq> v" using False Cons.prems(2) by simp
    moreover have "k ` set (update_first p f xs) \<subseteq> insert v (k ` set xs)"
      using Cons.prems(3) by (auto dest!: set_update_firstD)
    moreover have "distinct (map k (update_first p f xs))"
    proof (rule Cons.IH)
      show "distinct (map k xs)" "distinct (map i xs)" using Cons.prems(1,4) by simp_all
      show "k x \<noteq> v" if "x \<in> set xs" "\<not> p x" for x using that Cons.prems(2) by simp
      show "k (f x) = v" for x by (rule Cons.prems(3))
      show "i x = i y" if "p x" "p y" for x y using that by (rule Cons.prems(5))
    qed
    ultimately show ?thesis using False Cons.prems(1) by auto
  qed
qed simp

lemma customs_ok_update:
  assumes ok: "customs_ok cs" and v: "validate_custom_input i = Ok ()"
    and new: "\<forall>r \<in> set cs. c_id r \<noteq> rid \<longrightarrow> \<not> same_rule r i"
  shows "customs_ok (update_first (\<lambda>r. c_id r = rid) (\<lambda>r. r\<lparr>c_label := l, c_transport := i_transport i,
    c_from := i_from i, c_to := i_to i, c_source := i_source i, c_iface := i_iface i, c_enabled := b\<rparr>) cs)"
    (is "customs_ok (update_first ?p ?f cs)")
proof -
  have ids: "map c_id (update_first ?p ?f cs) = map c_id cs" by (rule map_update_first) simp
  have "distinct (map rule_key (update_first ?p ?f cs))"
    using ok new
    by (intro distinct_update_first [where i = c_id and v = "(i_transport i, i_from i, i_to i, i_source i, i_iface i)"])
      (auto simp: customs_ok_def same_rule_key rule_key_def)
  moreover have "list_all safe_custom (update_first ?p ?f cs)"
    using ok validated_conditions [OF v]
    by (auto simp: customs_ok_def list_all_iff safe_custom_def dest!: set_update_firstD)
  ultimately show ?thesis using ok ids by (simp add: customs_ok_def)
qed

lemma customs_ok_filter: "customs_ok cs \<Longrightarrow> customs_ok (filter p cs)"
  by (auto simp: customs_ok_def list_all_iff distinct_map_filter)

subsection \<open>Candidates\<close>

lemma config_ok_iff:
  "config_ok c \<longleftrightarrow> rules_ok (fw_state c) \<and> restrictions_ok (fw_restrictions c) \<and> customs_ok (fw_custom c)"
  by (auto simp: config_ok_def rules_ok_def)

lemma load_ok:
  assumes "world_ok w"
  shows "load_restrictions w = Ok r \<Longrightarrow> restrictions_ok r" "load_custom_rules w = Ok c \<Longrightarrow> customs_ok c"
  using assms
  by (cases "fw_restrictions_file w"; cases "fw_custom_file w";
      auto simp: load_restrictions_def load_custom_rules_def world_ok_def file_ok_def no_restrictions_def
        restrictions_ok_def customs_ok_def)+

lemma candidate_ok:
  assumes c: "candidate e w op cand doc" and w: "world_ok w" and op: "op_ok e op w"
  shows "config_ok cand"
proof -
  have cur: "rules_ok (fw_state (fw_config w))" "restrictions_ok (fw_restrictions (fw_config w))"
      "customs_ok (fw_custom (fw_config w))"
    using w by (simp_all add: world_ok_def config_ok_iff)
  show ?thesis
    using c
  proof cases
    case (cand_init restr custom ps rdma dc ip np published)
    have ok: "restrictions_ok restr" "customs_ok custom" using cand_init(4,5) load_ok [OF w] by blast+
    have "rules_ok (initial_rules restr ps rdma dc)"
      using op cand_init(1) ok(1) by (intro initial_rules_ok) auto
    then have "rules_ok (snd (replace_rule_ports restr ''nvmeof'' np
        (snd (replace_rule_ports restr ''iscsi'' ip (initial_rules restr ps rdma dc)))))"
      using op cand_init(1) ok(1) portal_ports_ok by simp
    with ok show ?thesis by (simp add: cand_init(2) config_ok_iff)
  next
    case (cand_flip ps)
    then show ?thesis using cur flip_protocols_ok by (simp add: config_ok_iff)
  next
    case (cand_published published)
    then show ?thesis using cur by (simp add: config_ok_iff)
  next
    case (cand_active s b)
    have "rules_ok (update_first (has_service s) (\<lambda>r. r\<lparr>r_active := b\<rparr>) (fw_state (fw_config w)))"
      using cur(1) by (intro rules_ok_update) (auto simp: safe_rule_def)
    then show ?thesis using cur by (simp add: cand_active config_ok_iff)
  next
    case (cand_new s base b)
    have "list_all safe_spec (restricted_ports (fw_restrictions (fw_config w)) s base)"
      using cur(2) cand_new by (intro restricted_ports_safe unrestricted_safe)
    then show ?thesis
      using cur rules_ok_append [OF cur(1)] cand_new by (simp add: config_ok_iff)
  next
    case (cand_restriction sources ifaces base restr' s)
    have "list_all safe_spec (apply_restrictions base sources ifaces)"
      using cand_restriction by (intro apply_restrictions_safe unrestricted_safe) (auto simp: list_all_iff)
    then have "rules_ok (update_first (has_service s)
        (\<lambda>r. r\<lparr>r_ports := apply_restrictions base sources ifaces\<rparr>) (fw_state (fw_config w)))"
      using cur(1) by (intro rules_ok_update) (auto simp: safe_rule_def)
    moreover have "restrictions_ok restr'"
      using cur(2) cand_restriction by (simp add: restrictions_ok_def put_or_remove_ok list_all_iff [of _ sources] list_all_iff [of _ ifaces])
    ultimately show ?thesis using cur cand_restriction(2) by (simp add: config_ok_iff)
  next
    case (cand_ports p ports)
    then show ?thesis
      using cur op replace_rule_ports_ok [OF cur(1,2)] by (simp add: config_ok_iff)
  next
    case (cand_portal ip np)
    then show ?thesis using op cur portal_ports_ok [OF cur(1,2)] by (simp add: config_ok_iff)
  next
    case (cand_add i custom)
    then show ?thesis
      using cur op customs_ok_append [OF cur(3)] by (simp add: config_ok_iff)
  next
    case (cand_update i rid custom)
    then show ?thesis using cur customs_ok_update [OF cur(3)] by (simp add: config_ok_iff)
  next
    case (cand_remove custom rid)
    then show ?thesis using cur customs_ok_filter by (simp add: config_ok_iff)
  qed
qed

lemma candidate_doc:
  assumes "candidate e w op cand doc"
  shows "doc = None \<or> doc = Some (Restrictions_Doc (fw_restrictions cand)) \<or> doc = Some (Custom_Doc (fw_custom cand))"
  using assms by cases simp_all

interpretation wf: transaction_invariant world_ok "\<lambda>e op w. honest e \<and> op_ok e op w"
proof
  fix w w'
  assume "world_ok w" "rejected w w'"
  then show "world_ok w'" by (auto simp: rejected_def world_ok_def)
next
  fix w e op cand doc w'
  assume w: "world_ok w" and p: "honest e \<and> op_ok e op w" and c: "candidate e w op cand doc"
    and r: "replaced cand w w'"
  have "config_ok cand" using candidate_ok [OF c w] p by blast
  then have w': "world_ok w'" "fw_config w' = cand" using w r by (auto simp: replaced_def world_ok_def)
  then show "world_ok w'" by blast
  from w' \<open>config_ok cand\<close> candidate_doc [OF c] show "world_ok (put_docs doc w')"
    by (auto simp: world_ok_def file_ok_def config_ok_iff)
qed simp

section \<open>Sample environments and worlds\<close>

definition good_run :: nft_run where
  "good_run = \<lparr>n_spawn = None, n_no_stdin = False, n_timeout = False, n_join = None, n_write = None,
     n_wait = None, n_success = True, n_stderr = [], n_commits = True\<rparr>"

definition quiet_env :: fw_env where
  "quiet_env = \<lparr>e_candidate = \<lparr>a_check = good_run, a_apply = good_run\<rparr>,
     e_rollback = \<lparr>a_check = good_run, a_apply = good_run\<rparr>,
     e_serialize = None, e_create = None, e_write = None, e_sync = None, e_rename = None, e_remove = None,
     e_temp_uuid = ''t1'', e_rule_uuid = ''u1''\<rparr>"

definition full_disk_env :: fw_env where
  "full_disk_env = quiet_env\<lparr>e_rename := Some ''no space left on device''\<rparr>"

definition ssh_config :: firewall_config where
  "ssh_config = \<lparr>fw_state = [\<lparr>r_service = ''ssh'', r_ports = [tcp 22], r_active = True\<rparr>],
     fw_restrictions = no_restrictions, fw_custom = [], fw_published = []\<rparr>"

definition ssh_world :: fw_world where
  "ssh_world = \<lparr>fw_config = ssh_config, fw_live = Some (config_ruleset ssh_config),
     fw_restrictions_file = Absent, fw_custom_file = Absent, fw_temps = []\<rparr>"

lemma run_nft_good [simp]: "run_nft s good_run = Ok ()"
  by (simp add: run_nft_def good_run_def)

lemma sample_envs [simp]: "honest quiet_env" "honest full_disk_env" "\<not> double_fault quiet_env"
    "\<not> double_fault full_disk_env"
  by (simp_all add: honest_def honest_run_def double_fault_def quiet_env_def full_disk_env_def)
    (simp_all add: good_run_def)

lemma sample_world [simp]: "live_matches ssh_world" "disk_matches ssh_world" "world_ok ssh_world"
  by (simp_all add: live_matches_def disk_matches_def ssh_world_def load_restrictions_def load_custom_rules_def
      ssh_config_def world_ok_def config_ok_def file_ok_def safe_rule_def safe_spec_def tcp_def
      restrictions_ok_def no_restrictions_def customs_ok_def)

lemma ok_pair: "is_ok (fst x) \<Longrightarrow> x = (Ok (), snd x)"
  by (cases x; cases "fst x") auto

section \<open>Kernel, memory and disk\<close>

text \<open>
  (C8) The engine never misreports the firewall: starting from a world where the table in the
  kernel is the rendering of the in-memory configuration, every run of operations, whatever
  file operations and \<open>nft\<close> calls fail in it, ends in such a world. The hypothesis is that a
  run of \<open>nft\<close> reports truthfully whether it replaced the table.
\<close>

theorem firewall_live_matches:
  assumes "run (\<lambda>e op w. honest e) w w'" and "live_matches w"
  shows "fw_live w' = Some (config_ruleset (fw_config w'))"
  using live.run_keeps [OF assms] by (simp add: live_matches_def)

theorem firewall_live_matches_witness:
  "fw_live (snd (exec full_disk_env (Set_Restriction ''ssh'' [''10.0.0.0/8''] []) ssh_world)) =
   Some (config_ruleset (fw_config (snd (exec full_disk_env (Set_Restriction ''ssh'' [''10.0.0.0/8''] []) ssh_world))))"
  by (rule firewall_live_matches [OF run_step [OF run_refl]]) simp_all

text \<open>
  (C26) What a restart reads is what the engine serves: as long as no step suffers the double
  fault (the rename of a staged file fails and so does putting the old ruleset back), every run
  keeps the two JSON files in agreement with the in-memory restrictions and custom rules.
\<close>

theorem firewall_disk_matches:
  assumes "run (\<lambda>e op w. honest e \<and> \<not> double_fault e) w w'" and "disk_matches w"
  shows "load_restrictions w' = Ok (fw_restrictions (fw_config w'))
    \<and> load_custom_rules w' = Ok (fw_custom (fw_config w'))"
  using disk.run_keeps [OF assms] by (simp add: disk_matches_def)

theorem firewall_disk_matches_witness:
  "load_restrictions (snd (exec quiet_env (Set_Restriction ''ssh'' [''10.0.0.0/8''] []) ssh_world)) =
   Ok (fw_restrictions (fw_config (snd (exec quiet_env (Set_Restriction ''ssh'' [''10.0.0.0/8''] []) ssh_world))))"
  by (rule firewall_disk_matches [OF run_step [OF run_refl], THEN conjunct1]) simp_all

text \<open>
  (C22) A failed operation changes nothing: when an operation returns an error and the step did
  not suffer the double fault, the configuration and both files are as before, and a live table
  that matched the configuration is still the same table.
\<close>

theorem firewall_error_atomic:
  assumes "honest e" and "\<not> double_fault e" and "fst (exec e op w) = Err x"
  shows "fw_config (snd (exec e op w)) = fw_config w
    \<and> fw_restrictions_file (snd (exec e op w)) = fw_restrictions_file w
    \<and> fw_custom_file (snd (exec e op w)) = fw_custom_file w
    \<and> (live_matches w \<longrightarrow> fw_live (snd (exec e op w)) = fw_live w)"
proof -
  have rej: ?thesis if "rejected w (snd (exec e op w))"
    using that by (auto simp: rejected_def live_matches_def)
  consider "snd (exec e op w) = w" | cand doc where "exec e op w = transact e cand doc w"
    using exec_transaction [of e op w] by (auto simp: is_transaction_def)
  then show ?thesis
  proof cases
    case 2
    from assms(1) show ?thesis
      by (cases rule: transact_cases [where cand = cand and doc = doc and w = w]) (use 2 assms rej in auto)
  qed simp
qed

theorem firewall_error_atomic_witness:
  "fw_config (snd (exec full_disk_env (Set_Restriction ''ssh'' [''10.0.0.0/8''] []) ssh_world)) = ssh_config"
proof -
  have "\<not> is_ok (fst (exec full_disk_env (Set_Restriction ''ssh'' [''10.0.0.0/8''] []) ssh_world))"
    by code_simp
  then obtain x where x: "fst (exec full_disk_env (Set_Restriction ''ssh'' [''10.0.0.0/8''] []) ssh_world) = Err x"
    by (cases "fst (exec full_disk_env (Set_Restriction ''ssh'' [''10.0.0.0/8''] []) ssh_world)") auto
  show ?thesis
    using firewall_error_atomic [OF sample_envs(2,4) x] by (simp add: ssh_world_def)
qed

section \<open>Every reachable configuration is well formed\<close>

text \<open>
  (C27) Whatever clients send, the ruleset cannot be corrupted: in every run whose steps respect
  \<open>op_ok\<close>, each service keeps a single rule, custom rules keep distinct ids and distinct
  match conditions, and the text sent to \<open>nft\<close> for the configuration has exactly one line
  per rendered rule, so no label, address or interface name can smuggle in another statement.
\<close>

theorem firewall_reachable_well_formed:
  assumes "run (\<lambda>e op w. honest e \<and> op_ok e op w) w w'" and "world_ok w"
  shows "distinct (map r_service (fw_state (fw_config w')))
    \<and> distinct (map c_id (fw_custom (fw_config w')))
    \<and> distinct (map rule_key (fw_custom (fw_config w')))
    \<and> split_on (CHR 10) (render_transaction (fw_state (fw_config w')) (fw_custom (fw_config w')) (fw_published (fw_config w')))
        = ''destroy table inet nasty'' # ruleset_lines (fw_state (fw_config w')) (fw_custom (fw_config w'))
            (fw_published (fw_config w')) @ [[]]"
  using wf.run_keeps [OF assms] by (simp add: world_ok_def config_ok_def customs_ok_def render_lines_exact)

definition web_rule :: custom_rule_input where
  "web_rule = \<lparr>i_label = ''web'', i_transport = Tcp, i_from = 80, i_to = 81,
     i_source = Some ''192.168.1.0/24'', i_iface = Some ''eth0'', i_enabled = True\<rparr>"

theorem firewall_reachable_well_formed_witness:
  "distinct (map c_id (fw_custom (fw_config (snd (exec quiet_env (Add_Custom web_rule) ssh_world)))))"
proof -
  have "op_ok quiet_env (Add_Custom web_rule) ssh_world" by code_simp
  then have ok: "honest quiet_env \<and> op_ok quiet_env (Add_Custom web_rule) ssh_world" by simp
  show ?thesis
    using firewall_reachable_well_formed [OF run_step [where P = "\<lambda>e op w. honest e \<and> op_ok e op w", OF run_refl ok]
        sample_world(3)] by blast
qed

section \<open>Closing, restricting and adding\<close>

lemma transact_ok:
  assumes "honest e" and "transact e cand doc w = (Ok (), w')"
  shows "fw_config w' = cand" and "live_matches w'"
proof -
  from assms(1) have "fw_config w' = cand \<and> live_matches w'"
    by (cases rule: transact_cases [where cand = cand and doc = doc and w = w])
      (use assms(2) in \<open>auto simp: replaced_def live_matches_def\<close>)
  then show "fw_config w' = cand" and "live_matches w'" by simp_all
qed

lemma update_first_active_unique:
  assumes "distinct (map r_service rs)" and "r \<in> set (update_first (has_service s) (\<lambda>r. r\<lparr>r_active := b\<rparr>) rs)"
    and "r_service r = s"
  shows "r_active r = b"
  using assms
proof (induction rs)
  case (Cons x xs)
  show ?case
  proof (cases "has_service s x")
    case True
    then have "r \<notin> set xs" using Cons.prems by (auto simp: has_service_def image_iff)
    with True Cons.prems show ?thesis by auto
  next
    case False
    with Cons show ?thesis by (auto simp: has_service_def)
  qed
qed simp

text \<open>Switching the rule of a service: every rule of the service has the new flag, there is one, no
  other rule has changed, and the kernel holds the rendering of exactly these rules.\<close>

lemma set_rule_active_effect:
  assumes "honest e" and "world_ok w" and "live_matches w" and "ports \<noteq> []"
    and "set_rule_active e s ports b w = (Ok (), w')"
  shows "\<And>r. r \<in> set (fw_state (fw_config w')) \<Longrightarrow> r_service r = s \<Longrightarrow> r_active r = b"
    and "s \<in> r_service ` set (fw_state (fw_config w'))"
    and "filter (\<lambda>r. r_service r \<noteq> s) (fw_state (fw_config w')) = filter (\<lambda>r. r_service r \<noteq> s) (fw_state (fw_config w))"
    and "live_matches w'"
proof -
  let ?rs = "fw_state (fw_config w)"
  let ?new = "update_first (has_service s) (\<lambda>r. r\<lparr>r_active := b\<rparr>) ?rs"
  have dist: "distinct (map r_service ?rs)" using assms(2) by (simp add: world_ok_def config_ok_def)
  have frame: "filter (\<lambda>r. r_service r \<noteq> s) (update_first (has_service s) (\<lambda>r. r\<lparr>r_active := b\<rparr>) rs)
      = filter (\<lambda>r. r_service r \<noteq> s) rs" for rs
    by (induction rs) (auto simp: has_service_def)
  have same: "r_service ` set ?new = r_service ` set ?rs"
    using map_update_first [of "has_service s" r_service "\<lambda>r. r\<lparr>r_active := b\<rparr>" ?rs] by (simp flip: set_map)
  have "(\<forall>r \<in> set (fw_state (fw_config w')). r_service r = s \<longrightarrow> r_active r = b)
    \<and> s \<in> r_service ` set (fw_state (fw_config w'))
    \<and> filter (\<lambda>r. r_service r \<noteq> s) (fw_state (fw_config w')) = filter (\<lambda>r. r_service r \<noteq> s) ?rs \<and> live_matches w'"
  proof (cases "List.find (has_service s) ?rs")
    case None
    then have t: "transact e ((fw_config w)\<lparr>fw_state := ?rs @ [\<lparr>r_service = s,
        r_ports = restricted_ports (fw_restrictions (fw_config w)) s ports, r_active = b\<rparr>]\<rparr>) None w = (Ok (), w')"
      using assms(4,5) by (simp add: set_rule_active_def Let_def)
    show ?thesis
      using None transact_ok [OF assms(1) t] by (auto simp: find_None_iff_all has_service_def live_matches_def)
  next
    case (Some r)
    note r = find_SomeD [OF Some]
    show ?thesis
    proof (cases "r_active r = b")
      case True
      then have "w' = w" using Some assms(4,5) by (simp add: set_rule_active_def Let_def)
      moreover have "q = r" if "q \<in> set ?rs" "r_service q = s" for q
        using r dist that by (auto simp: has_service_def distinct_map inj_on_def)
      ultimately show ?thesis using True assms(3) r by (auto simp: has_service_def)
    next
      case False
      then have t: "transact e ((fw_config w)\<lparr>fw_state := ?new\<rparr>) None w = (Ok (), w')"
        using Some assms(4,5) by (simp add: set_rule_active_def Let_def)
      have "s \<in> r_service ` set ?new" using r unfolding same by (auto simp: has_service_def)
      then show ?thesis
        using transact_ok [OF assms(1) t] update_first_active_unique [OF dist] frame by (simp add: live_matches_def)
    qed
  qed
  then show "\<And>r. r \<in> set (fw_state (fw_config w')) \<Longrightarrow> r_service r = s \<Longrightarrow> r_active r = b"
    "s \<in> r_service ` set (fw_state (fw_config w'))"
    "filter (\<lambda>r. r_service r \<noteq> s) (fw_state (fw_config w')) = filter (\<lambda>r. r_service r \<noteq> s) (fw_state (fw_config w))"
    "live_matches w'" by blast+
qed

text \<open>
  A closed protocol is closed: when \<open>close\<close> succeeds for a protocol that owns ports, no
  active rule of that service is left, no other rule has changed, and the kernel holds the
  rendering of exactly these rules.
\<close>

theorem close_ports_effect:
  assumes "honest e" and "world_ok w" and "live_matches w" and "ports_for_protocol p \<noteq> []"
    and "close_ports e p w = (Ok (), w')"
  shows "(\<forall>r \<in> set (fw_state (fw_config w')). r_service r = proto_name p \<longrightarrow> \<not> r_active r)
    \<and> filter (\<lambda>r. r_service r \<noteq> proto_name p) (fw_state (fw_config w'))
        = filter (\<lambda>r. r_service r \<noteq> proto_name p) (fw_state (fw_config w))
    \<and> fw_live w' = Some (config_ruleset (fw_config w'))"
  using set_rule_active_effect [OF assms(1-4) assms(5) [unfolded close_ports_def]] by (simp add: live_matches_def)

theorem close_ports_effect_witness:
  "map (\<lambda>r. (r_service r, r_active r)) (fw_state (fw_config (snd (close_ports quiet_env Ssh ssh_world)))) =
     [(''ssh'', False)]"
proof -
  let ?rs = "fw_state (fw_config (snd (close_ports quiet_env Ssh ssh_world)))"
  have "is_ok (fst (close_ports quiet_env Ssh ssh_world))" by code_simp
  then have "close_ports quiet_env Ssh ssh_world = (Ok (), snd (close_ports quiet_env Ssh ssh_world))"
    by (rule ok_pair)
  then have closed: "\<forall>r \<in> set ?rs. r_service r = ''ssh'' \<longrightarrow> \<not> r_active r"
    using close_ports_effect [of quiet_env ssh_world Ssh] by simp
  have "map r_service ?rs = [''ssh'']" by code_simp
  then show ?thesis using closed by (cases ?rs) auto
qed

text \<open>The candidate of a successful \<open>set_restriction\<close>.\<close>

definition restriction_base :: "string \<Rightarrow> port_spec list \<Rightarrow> firewall_state \<Rightarrow> port_spec list" where
  "restriction_base s dflt rs = (case List.find (has_service s) rs of
     Some rule \<Rightarrow> stripped_ports (r_ports rule) | None \<Rightarrow> dflt)"

lemma restriction_base_found:
  "List.find (has_service s) rs = Some r \<Longrightarrow> restriction_base s dflt rs = stripped_ports (r_ports r)"
  by (simp add: restriction_base_def)

lemma set_restriction_ok:
  assumes "honest e" and "set_restriction e s sources ifaces w = (Ok (), w')"
  obtains dflt where "default_ports s = Some dflt"
    "fw_state (fw_config w') = update_first (has_service s)
       (\<lambda>r. r\<lparr>r_ports := apply_restrictions (restriction_base s dflt (fw_state (fw_config w))) sources ifaces\<rparr>)
       (fw_state (fw_config w))"
    "fr_services (fw_restrictions (fw_config w')) =
       put_or_remove s sources (fr_services (fw_restrictions (fw_config w)))"
    "fr_interfaces (fw_restrictions (fw_config w')) =
       put_or_remove s ifaces (fr_interfaces (fw_restrictions (fw_config w)))"
proof -
  have checks: "List.find (\<lambda>s. \<not> valid_source s) sources = None" "List.find (\<lambda>i. \<not> valid_iface i) ifaces = None"
    using assms(2) by (auto simp: set_restriction_def split: option.splits)
  then obtain dflt where d: "default_ports s = Some dflt"
    using assms(2) by (auto simp: set_restriction_def split: option.splits)
  note t = assms(2) [unfolded set_restriction_def checks d option.case Let_def, folded restriction_base_def]
  from transact_ok(1) [OF assms(1) t] show ?thesis by (intro that [OF d]) simp_all
qed

lemma put_or_remove_twice: "map_of (put_or_remove k vs (put_or_remove k us m)) = map_of (put_or_remove k vs m)"
  by (auto simp: put_or_remove_def update_conv' delete_conv' fun_eq_iff)

lemma restriction_base_expanded:
  "update_first (has_service s) (\<lambda>r. r\<lparr>r_ports := apply_restrictions
       (restriction_base s dflt (update_first (has_service s)
          (\<lambda>r. r\<lparr>r_ports := apply_restrictions (restriction_base s dflt rs) src1 if1\<rparr>) rs)) src2 if2\<rparr>)
     (update_first (has_service s) (\<lambda>r. r\<lparr>r_ports := apply_restrictions (restriction_base s dflt rs) src1 if1\<rparr>) rs)
   = update_first (has_service s) (\<lambda>r. r\<lparr>r_ports := apply_restrictions (restriction_base s dflt rs) src2 if2\<rparr>) rs"
proof (cases "List.find (has_service s) rs")
  case None
  then show ?thesis by (simp add: find_None_iff_all update_first_none)
next
  case (Some r)
  let ?f = "\<lambda>r. r\<lparr>r_ports := apply_restrictions (restriction_base s dflt rs) src1 if1\<rparr>"
  have keep: "has_service s (?f x)" if "has_service s x" for x using that by (simp add: has_service_def)
  have base: "restriction_base s dflt rs = stripped_ports (r_ports r)"
    by (simp add: restriction_base_def Some)
  have "List.find (has_service s) (update_first (has_service s) ?f rs) = Some (?f r)"
    using find_update_first_same [of "has_service s" ?f rs] keep Some by simp
  then have "restriction_base s dflt (update_first (has_service s) ?f rs) = restriction_base s dflt rs"
    using strip_expanded [OF base_ports_unrestricted(5) distinct_stripped_ports, of "r_ports r" src1 if1]
    by (simp add: restriction_base_found base)
  then show ?thesis using update_first_twice [of "has_service s" ?f] keep by simp
qed

text \<open>
  Restrictions replace one another: setting a restriction on a service and then another
  one gives the same rules, and the same stored restrictions, as setting the second one alone.
  In particular an empty restriction reopens the service exactly as before.
\<close>

theorem set_restriction_last_wins:
  assumes "honest e1" and "honest e2" and "honest e3"
    and "set_restriction e1 s src1 if1 w = (Ok (), w1)" and "set_restriction e2 s src2 if2 w1 = (Ok (), w2)"
    and "set_restriction e3 s src2 if2 w = (Ok (), w3)"
  shows "fw_state (fw_config w2) = fw_state (fw_config w3)
    \<and> map_of (fr_services (fw_restrictions (fw_config w2))) = map_of (fr_services (fw_restrictions (fw_config w3)))
    \<and> map_of (fr_interfaces (fw_restrictions (fw_config w2))) = map_of (fr_interfaces (fw_restrictions (fw_config w3)))"
proof -
  obtain d1 where 1: "default_ports s = Some d1"
    "fw_state (fw_config w1) = update_first (has_service s)
       (\<lambda>r. r\<lparr>r_ports := apply_restrictions (restriction_base s d1 (fw_state (fw_config w))) src1 if1\<rparr>)
       (fw_state (fw_config w))"
    "fr_services (fw_restrictions (fw_config w1)) = put_or_remove s src1 (fr_services (fw_restrictions (fw_config w)))"
    "fr_interfaces (fw_restrictions (fw_config w1)) = put_or_remove s if1 (fr_interfaces (fw_restrictions (fw_config w)))"
    using assms(1,4) by (rule set_restriction_ok)
  obtain d2 where 2: "default_ports s = Some d2"
    "fw_state (fw_config w2) = update_first (has_service s)
       (\<lambda>r. r\<lparr>r_ports := apply_restrictions (restriction_base s d2 (fw_state (fw_config w1))) src2 if2\<rparr>)
       (fw_state (fw_config w1))"
    "fr_services (fw_restrictions (fw_config w2)) = put_or_remove s src2 (fr_services (fw_restrictions (fw_config w1)))"
    "fr_interfaces (fw_restrictions (fw_config w2)) = put_or_remove s if2 (fr_interfaces (fw_restrictions (fw_config w1)))"
    using assms(2,5) by (rule set_restriction_ok)
  obtain d3 where 3: "default_ports s = Some d3"
    "fw_state (fw_config w3) = update_first (has_service s)
       (\<lambda>r. r\<lparr>r_ports := apply_restrictions (restriction_base s d3 (fw_state (fw_config w))) src2 if2\<rparr>)
       (fw_state (fw_config w))"
    "fr_services (fw_restrictions (fw_config w3)) = put_or_remove s src2 (fr_services (fw_restrictions (fw_config w)))"
    "fr_interfaces (fw_restrictions (fw_config w3)) = put_or_remove s if2 (fr_interfaces (fw_restrictions (fw_config w)))"
    using assms(3,6) by (rule set_restriction_ok)
  have d: "d2 = d1" "d3 = d1" using 1(1) 2(1) 3(1) by simp_all
  have "fw_state (fw_config w2) = fw_state (fw_config w3)"
    unfolding 2(2) 3(2) 1(2) d by (rule restriction_base_expanded)
  then show ?thesis by (simp add: 1(3,4) 2(3,4) 3(3,4) put_or_remove_twice)
qed

definition lan_only :: fw_world where
  "lan_only = snd (set_restriction quiet_env ''ssh'' [''10.0.0.0/8''] [''eth0''] ssh_world)"

theorem set_restriction_last_wins_witness:
  "fw_state (fw_config (snd (set_restriction quiet_env ''ssh'' [] [] lan_only))) =
   fw_state (fw_config (snd (set_restriction quiet_env ''ssh'' [] [] ssh_world)))"
proof -
  have 1: "is_ok (fst (set_restriction quiet_env ''ssh'' [''10.0.0.0/8''] [''eth0''] ssh_world))" by code_simp
  have 2: "is_ok (fst (set_restriction quiet_env ''ssh'' [] [] lan_only))" by code_simp
  have 3: "is_ok (fst (set_restriction quiet_env ''ssh'' [] [] ssh_world))" by code_simp
  show ?thesis
    using set_restriction_last_wins [OF sample_envs(1) sample_envs(1) sample_envs(1)
        ok_pair [OF 1, folded lan_only_def] ok_pair [OF 2] ok_pair [OF 3]] by blast
qed

lemma service_port_conflict_none:
  assumes "service_port_conflict rs t from to = None" and "from \<le> to"
    and "\<forall>r \<in> set rs. \<forall>p \<in> set (r_ports r). p_port p \<le> p_hi p"
  shows "\<forall>r \<in> set rs. \<forall>p \<in> set (r_ports r). \<not> overlaps t from to p"
  using assms by (auto simp: service_port_conflict_def find_None_iff_all list_ex_iff overlap_iff)

text \<open>
  A custom rule never opens a port of a service: when \<open>add_custom_rule\<close> succeeds, the
  rule it returns is the last custom rule, its range is not empty and starts above port 0, no
  port specification of any service rule of the same transport meets the range, the service
  rules are as before, and the kernel holds the rendering of the result.
\<close>

theorem add_custom_rule_effect:
  assumes "honest e" and "add_custom_rule e i w = (Ok r, w')"
    and "\<forall>q \<in> set (fw_state (fw_config w)). \<forall>p \<in> set (r_ports q). p_port p \<le> p_hi p"
  shows "fw_custom (fw_config w') = fw_custom (fw_config w) @ [r] \<and> 0 < c_from r \<and> c_from r \<le> c_to r
    \<and> (\<forall>q \<in> set (fw_state (fw_config w')). \<forall>p \<in> set (r_ports q). \<not> overlaps (c_transport r) (c_from r) (c_to r) p)
    \<and> fw_state (fw_config w') = fw_state (fw_config w)
    \<and> fw_live w' = Some (config_ruleset (fw_config w'))"
proof -
  have v: "validate_custom_input i = Ok ()"
    using assms(2) by (cases "validate_custom_input i") (simp_all add: add_custom_rule_def)
  have c: "service_port_conflict (fw_state (fw_config w)) (i_transport i) (i_from i) (i_to i) = None"
    using assms(2) v
    by (cases "service_port_conflict (fw_state (fw_config w)) (i_transport i) (i_from i) (i_to i)")
      (simp_all add: add_custom_rule_def Let_def)
  have n: "\<not> list_ex (\<lambda>r. same_rule r i) (fw_custom (fw_config w))"
    using assms(2) v c by (auto simp: add_custom_rule_def Let_def)
  let ?r = "\<lparr>c_id = e_rule_uuid e, c_label = trim (i_label i), c_transport = i_transport i,
    c_from = i_from i, c_to = i_to i, c_source = i_source i, c_iface = i_iface i, c_enabled = i_enabled i\<rparr>"
  let ?custom = "fw_custom (fw_config w) @ [?r]"
  let ?t = "transact e ((fw_config w)\<lparr>fw_custom := ?custom\<rparr>) (Some (Custom_Doc ?custom)) w"
  have eq: "add_custom_rule e i w = (case ?t of (Err x, w') \<Rightarrow> (Err x, w') | (Ok _, w') \<Rightarrow> (Ok ?r, w'))"
    unfolding add_custom_rule_def using v c n by (simp add: Let_def)
  have t: "?t = (Ok (), w')" and r: "r = ?r"
    using assms(2) unfolding eq by (auto split: prod.splits sum.splits)
  have range: "i_from i \<noteq> 0" "i_from i \<le> i_to i" using validated_conditions [OF v] by auto
  show ?thesis
    using transact_ok [OF assms(1) t] r range service_port_conflict_none [OF c range(2) assms(3)]
    by (simp add: live_matches_def word_gt_0)
qed

theorem add_custom_rule_effect_witness:
  "fw_custom (fw_config (snd (add_custom_rule quiet_env web_rule ssh_world))) \<noteq> []"
proof -
  have "is_ok (fst (add_custom_rule quiet_env web_rule ssh_world))" by code_simp
  then obtain r w' where a: "add_custom_rule quiet_env web_rule ssh_world = (Ok r, w')"
    by (cases "add_custom_rule quiet_env web_rule ssh_world"; cases "fst (add_custom_rule quiet_env web_rule ssh_world)") auto
  moreover have "\<forall>q \<in> set (fw_state (fw_config ssh_world)). \<forall>p \<in> set (r_ports q). p_port p \<le> p_hi p"
    by (simp add: ssh_world_def ssh_config_def tcp_def p_hi_def)
  ultimately show ?thesis using add_custom_rule_effect [OF sample_envs(1) a] by simp
qed

end
