(* ===== verification/Rest_Server.thy ===== *)
theory Rest_Server
  imports Secrets State_Dir
begin

text \<open>
  The credentials of the on-box backup receiver (\<open>nasty-system/src/rest_server.rs\<close>): a state
  file with the user name and the sealed password, and the \<open>htpasswd\<close> file the receiver reads.
  The password hash is that of the crate \<open>bcrypt\<close>, the sealing that of \<open>systemd-creds\<close>, and
  the random text comes from the environment. The temporary files, which nothing reads, are not
  part of the state.
\<close>

section \<open>State and environment\<close>

definition DEFAULT_USERNAME :: string where
  "DEFAULT_USERNAME = ''nasty-backup''"

definition SECRETS_NAME :: string where
  "SECRETS_NAME = ''nasty.rest_server.password''"

record stored =
  sto_username :: string
  sto_password_encrypted :: string

record rest_credentials =
  rc_username :: string
  rc_password :: string

record rest_files =
  rst_state :: "stored json_file"
  rst_htpasswd :: "string option"

text \<open>The calls that replace one file: the write of the temporary file, its permissions, the rename.\<close>

record file_calls =
  fc_write :: "string option"
  fc_chmod :: "string option"
  fc_rename :: "string option"

record rest_env =
  re_creds :: creds
  re_bcrypt :: "string \<Rightarrow> string + string"
  re_random :: string
  re_serialize :: "string option"
  re_state_calls :: file_calls
  re_htpasswd_calls :: file_calls
  re_remove_state :: "string option"
  re_remove_htpasswd :: "string option"

datatype rest_error = Rest_Corrupt string | Decrypt secret_error | Encrypt secret_error | Rest_Io string | Bcrypt string

fun rest_error_message :: "rest_error \<Rightarrow> string" where
  "rest_error_message (Rest_Corrupt e) = ''rest-server credentials state corrupt at /var/lib/nasty/rest-server-credentials.json: '' @ e"
| "rest_error_message (Decrypt e) = ''decrypt rest-server password failed: '' @ secret_error_message e"
| "rest_error_message (Encrypt e) = ''encrypt rest-server password failed: '' @ secret_error_message e"
| "rest_error_message (Rest_Io e) = ''io: '' @ e"
| "rest_error_message (Bcrypt e) = ''bcrypt: '' @ e"

section \<open>Operations\<close>

definition file_error :: "file_calls \<Rightarrow> string option" where
  "file_error c =
     (case fc_write c of Some e \<Rightarrow> Some e
      | None \<Rightarrow> (case fc_chmod c of Some e \<Rightarrow> Some e | None \<Rightarrow> fc_rename c))"

definition rest_save_state :: "rest_env \<Rightarrow> stored \<Rightarrow> rest_files \<Rightarrow> (rest_error + unit) \<times> rest_files" where
  "rest_save_state e st w =
     (case re_serialize e of
        Some x \<Rightarrow> (Err (Rest_Corrupt (''serialize: '' @ x)), w)
      | None \<Rightarrow>
          (case file_error (re_state_calls e) of
             Some x \<Rightarrow> (Err (Rest_Io x), w)
           | None \<Rightarrow> (Ok (), w\<lparr>rst_state := Parses st\<rparr>)))"

definition rest_load_state :: "rest_files \<Rightarrow> rest_error + stored" where
  "rest_load_state w =
     (case rst_state w of
        Absent \<Rightarrow> Err (Rest_Io ''No such file or directory (os error 2)'')
      | Unreadable x \<Rightarrow> Err (Rest_Io x)
      | Malformed x \<Rightarrow> Err (Rest_Corrupt x)
      | Parses st \<Rightarrow> Ok st)"

definition decrypt_password :: "rest_env \<Rightarrow> stored \<Rightarrow> rest_error + string" where
  "decrypt_password e st =
     (case decrypt (re_creds e) SECRETS_NAME (sto_password_encrypted st) of Ok p \<Rightarrow> Ok p | Err x \<Rightarrow> Err (Decrypt x))"

definition write_htpasswd :: "rest_env \<Rightarrow> string \<Rightarrow> string \<Rightarrow> rest_files \<Rightarrow> (rest_error + unit) \<times> rest_files" where
  "write_htpasswd e username password w =
     (case re_bcrypt e password of
        Err x \<Rightarrow> (Err (Bcrypt x), w)
      | Ok hash \<Rightarrow>
          (case file_error (re_htpasswd_calls e) of
             Some x \<Rightarrow> (Err (Rest_Io x), w)
           | None \<Rightarrow> (Ok (), w\<lparr>rst_htpasswd := Some (username @ '':'' @ hash @ [CHR 10])\<rparr>)))"

definition persist :: "rest_env \<Rightarrow> string \<Rightarrow> string \<Rightarrow> rest_files \<Rightarrow> (rest_error + unit) \<times> rest_files" where
  "persist e username password w =
     (case encrypt (re_creds e) SECRETS_NAME password of
        Err x \<Rightarrow> (Err (Encrypt x), w)
      | Ok blob \<Rightarrow>
          (case rest_save_state e \<lparr>sto_username = username, sto_password_encrypted = blob\<rparr> w of
             (Err x, w1) \<Rightarrow> (Err x, w1)
           | (Ok _, w1) \<Rightarrow> write_htpasswd e username password w1))"

definition ensure_credentials :: "rest_env \<Rightarrow> rest_files \<Rightarrow> (rest_error + unit) \<times> rest_files" where
  "ensure_credentials e w =
     (if rst_state w \<noteq> Absent \<and> rst_htpasswd w \<noteq> None then (Ok (), w)
      else if rst_state w = Absent then persist e DEFAULT_USERNAME (re_random e) w
      else case rest_load_state w of
        Err x \<Rightarrow> (Err x, w)
      | Ok st \<Rightarrow>
          (case decrypt_password e st of
             Err x \<Rightarrow> (Err x, w)
           | Ok password \<Rightarrow> write_htpasswd e (sto_username st) password w))"

definition get_credentials :: "rest_env \<Rightarrow> rest_files \<Rightarrow> rest_error + rest_credentials" where
  "get_credentials e w =
     (case rest_load_state w of
        Err x \<Rightarrow> Err x
      | Ok st \<Rightarrow>
          (case decrypt_password e st of
             Err x \<Rightarrow> Err x
           | Ok p \<Rightarrow> Ok \<lparr>rc_username = sto_username st, rc_password = p\<rparr>))"

definition rotated_username :: "string option \<Rightarrow> rest_files \<Rightarrow> string" where
  "rotated_username new_username w =
     (let kept = (case rest_load_state w of Ok st \<Rightarrow> sto_username st | Err _ \<Rightarrow> DEFAULT_USERNAME) in
      case new_username of
        Some u \<Rightarrow> if trim u \<noteq> [] then trim u else kept
      | None \<Rightarrow> kept)"

definition rotate_password :: "rest_env \<Rightarrow> string option \<Rightarrow> rest_files \<Rightarrow> (rest_error + rest_credentials) \<times> rest_files" where
  "rotate_password e new_username w =
     (let username = rotated_username new_username w in
      case persist e username (re_random e) w of
        (Err x, w1) \<Rightarrow> (Err x, w1)
      | (Ok _, w1) \<Rightarrow> (Ok \<lparr>rc_username = username, rc_password = re_random e\<rparr>, w1))"

text \<open>The removal of a file that is not there is no error; an error is logged and the file stays.\<close>

definition wipe :: "rest_env \<Rightarrow> rest_files \<Rightarrow> rest_files" where
  "wipe e w = w\<lparr>rst_state := (if re_remove_state e = None then Absent else rst_state w),
                rst_htpasswd := (if re_remove_htpasswd e = None then None else rst_htpasswd w)\<rparr>"

section \<open>Rotation\<close>

lemma persist_ok:
  assumes "opens_what_it_seals (re_creds e)" and "persist e u p w = (Ok (), w')"
  obtains hash where "get_credentials e w' = Ok \<lparr>rc_username = u, rc_password = p\<rparr>" "re_bcrypt e p = Ok hash"
    "rst_htpasswd w' = Some (u @ '':'' @ hash @ [CHR 10])"
proof -
  from assms(2) obtain blob hash where
    "encrypt (re_creds e) SECRETS_NAME p = Ok blob" "re_bcrypt e p = Ok hash"
    "w' = w\<lparr>rst_state := Parses \<lparr>sto_username = u, sto_password_encrypted = blob\<rparr>, rst_htpasswd := Some (u @ '':'' @ hash @ [CHR 10])\<rparr>"
    by (auto simp: persist_def rest_save_state_def write_htpasswd_def split: sum.splits option.splits)
  with assms(1) show ?thesis
    by (intro that [of hash])
      (auto simp: get_credentials_def rest_load_state_def decrypt_password_def opens_what_it_seals_def)
qed

text \<open>
  (C39) The receiver's credentials: after a rotation the stored credentials are the ones handed out,
  and the \<open>htpasswd\<close> file is one line that admits this user with the hash of this password,
  provided the user name is free of colons and line breaks (and the hash, as those of \<open>bcrypt\<close>
  are, of line breaks). A later \<open>ensure_credentials\<close> leaves both files alone.
\<close>

theorem rotation_takes_effect:
  assumes "opens_what_it_seals (re_creds e)"
    and "rotate_password e new_username w = (Ok c, w')"
    and "CHR '':'' \<notin> set (rc_username c)" and "CHR 10 \<notin> set (rc_username c)"
    and "\<And>p h. re_bcrypt e p = Ok h \<Longrightarrow> CHR 10 \<notin> set h"
  shows "get_credentials e w' = Ok c \<and> rc_password c = re_random e
    \<and> (\<exists>hash text. re_bcrypt e (rc_password c) = Ok hash \<and> rst_htpasswd w' = Some text
         \<and> map (split_once CHR '':'') (split_on (CHR 10) text) = [Some (rc_username c, hash), None])
    \<and> ensure_credentials e' w' = (Ok (), w')"
proof -
  from assms(2) have c: "c = \<lparr>rc_username = rotated_username new_username w, rc_password = re_random e\<rparr>"
    and p: "persist e (rc_username c) (rc_password c) w = (Ok (), w')"
    by (auto simp: rotate_password_def Let_def split: prod.splits sum.splits)
  from assms(1) p obtain hash where h: "get_credentials e w' = Ok \<lparr>rc_username = rc_username c, rc_password = rc_password c\<rparr>"
    "re_bcrypt e (rc_password c) = Ok hash" "rst_htpasswd w' = Some (rc_username c @ '':'' @ hash @ [CHR 10])"
    by (rule persist_ok)
  have line: "CHR 10 \<notin> set (rc_username c @ '':'' @ hash)" using assms(4,5) h(2) by auto
  have "map (split_once CHR '':'') (split_on (CHR 10) (rc_username c @ '':'' @ hash @ [CHR 10])) = [Some (rc_username c, hash), None]"
    using split_on_before [OF line, of "[]"] assms(3) by simp
  moreover have "rst_state w' \<noteq> Absent" using h(1) by (auto simp: get_credentials_def rest_load_state_def)
  ultimately show ?thesis using h c by (auto simp: ensure_credentials_def)
qed

section \<open>Samples\<close>

definition good_calls :: file_calls where
  "good_calls = \<lparr>fc_write = None, fc_chmod = None, fc_rename = None\<rparr>"

definition sample_rest_env :: rest_env where
  "sample_rest_env = \<lparr>re_creds = sample_creds, re_bcrypt = (\<lambda>p. if list_all is_ascii_alphanumeric p then Ok (''$2b$'' @ p) else Err ''bad''),
     re_random = ''abc'', re_serialize = None, re_state_calls = good_calls, re_htpasswd_calls = good_calls,
     re_remove_state = None, re_remove_htpasswd = None\<rparr>"

definition no_files :: rest_files where
  "no_files = \<lparr>rst_state = Absent, rst_htpasswd = None\<rparr>"

theorem rotation_takes_effect_witness:
  "get_credentials sample_rest_env (snd (rotate_password sample_rest_env (Some '' bob '') no_files)) =
     Ok \<lparr>rc_username = ''bob'', rc_password = ''abc''\<rparr>"
proof -
  have r: "fst (rotate_password sample_rest_env (Some '' bob '') no_files) = Ok \<lparr>rc_username = ''bob'', rc_password = ''abc''\<rparr>"
    by code_simp
  have "\<not> is_ascii_alphanumeric (CHR 10)" by code_simp
  then have hash: "CHR 10 \<notin> set h" if "re_bcrypt sample_rest_env p = Ok h" for p h
    using that by (auto simp: sample_rest_env_def list_all_iff split: if_splits)
  have creds: "opens_what_it_seals (re_creds sample_rest_env)" by (simp add: sample_rest_env_def sample_creds_opens)
  show ?thesis
    by (rule rotation_takes_effect [OF creds, THEN conjunct1, OF prod.expand])
      (use r hash in simp_all)
qed

text \<open>A user name with a colon: the file then names another user, and the credentials that were
  handed out are refused.\<close>

lemma colon_in_username_locks_out:
  "case rotate_password sample_rest_env (Some ''backup:nas'') no_files of
     (Ok c, w) \<Rightarrow> rc_username c = ''backup:nas'' \<and> map_option (split_once CHR '':'') (rst_htpasswd w) = Some (Some (''backup'', ''nas:$2b$abc'' @ [CHR 10]))
   | _ \<Rightarrow> False"
  by code_simp

text \<open>A rotation whose second write fails: the new password is stored, the receiver still has the
  old one, and no later \<open>ensure_credentials\<close> repairs it.\<close>

definition full_rest_env :: rest_env where
  "full_rest_env = sample_rest_env\<lparr>re_random := ''xyz'', re_htpasswd_calls := good_calls\<lparr>fc_write := Some ''no space''\<rparr>\<rparr>"

lemma failed_rotation_splits_files:
  "let w = snd (ensure_credentials sample_rest_env no_files); (r, w1) = rotate_password full_rest_env None w in
   \<not> is_ok r \<and> rst_htpasswd w1 = Some (''nasty-backup:$2b$abc'' @ [CHR 10])
   \<and> get_credentials sample_rest_env w1 = Ok \<lparr>rc_username = ''nasty-backup'', rc_password = ''xyz''\<rparr>
   \<and> snd (ensure_credentials sample_rest_env w1) = w1"
  by code_simp

end
