(* ===== verification/Nvmeof.thy ===== *)
theory Nvmeof
  imports Block_Volume State_Dir
begin

text \<open>
  NVMe-oF subsystems (\<open>nasty-sharing/src/nvmeof.rs\<close>), the part without the kernel: the stored
  data, the checks on names, hosts and transports, the repair of a namespace, and the remapping of
  the namespaces to the devices of this boot.
\<close>

section \<open>Data\<close>

record nv_namespace =
  ns_nsid :: "32 word"
  ns_device_path :: string
  ns_enabled :: bool
  ns_backing_volume :: "block_volume_id option"
  ns_backing_volume_unresolved :: bool

record nv_port =
  nvp_port_id :: "16 word"
  nvp_transport :: string
  nvp_addr :: string
  nvp_service_id :: string
  nvp_addr_family :: string

record nvmeof_subsystem =
  sub_id :: string
  sub_nqn :: string
  sub_namespaces :: "nv_namespace list"
  sub_ports :: "nv_port list"
  sub_allowed_hosts :: "string list"
  sub_allow_any_host :: bool
  sub_enabled :: bool

datatype nvmeof_error =
    Subsystem_NotFound string
  | Subsystem_AlreadyExists string
  | DeviceNotFound string
  | Nvmeof_InvalidBackingVolume string
  | NamespaceNotFound "32 word"
  | PortNotFound "16 word"
  | Nvmeof_ConfigFs string
  | Nvmeof_Io string
  | InvalidTransport string

fun nvmeof_error_message :: "nvmeof_error \<Rightarrow> string" where
  "nvmeof_error_message (Subsystem_NotFound e) = ''subsystem not found: '' @ e"
| "nvmeof_error_message (Subsystem_AlreadyExists e) = ''subsystem already exists: '' @ e"
| "nvmeof_error_message (DeviceNotFound e) = ''device not found: '' @ e"
| "nvmeof_error_message (Nvmeof_InvalidBackingVolume e) = ''namespace backing volume cannot be repaired: '' @ e"
| "nvmeof_error_message (NamespaceNotFound n) = ''namespace not found: nsid '' @ show_nat (unat n)"
| "nvmeof_error_message (PortNotFound n) = ''port not found: '' @ show_nat (unat n)"
| "nvmeof_error_message (Nvmeof_ConfigFs e) = ''configfs error: '' @ e"
| "nvmeof_error_message (Nvmeof_Io e) = ''io error: '' @ e"
| "nvmeof_error_message (InvalidTransport e) =
     ''unsupported transport '' @ [CHR 39] @ e @ [CHR 39] @ '' (expected '' @ [CHR 34] @ ''tcp'' @ [CHR 34] @
     '' or '' @ [CHR 34] @ ''rdma'' @ [CHR 34] @ '')''"

definition NVMET_BASE :: string where
  "NVMET_BASE = ''/sys/kernel/config/nvmet''"

definition DEFAULT_NQN_PREFIX :: string where
  "DEFAULT_NQN_PREFIX = ''nqn.2137-04.storage.nasty''"

section \<open>Checks\<close>

definition subsystem_name_char :: "char \<Rightarrow> bool" where
  "subsystem_name_char c \<longleftrightarrow> is_ascii_alphanumeric c \<or> c \<in> {CHR ''-'', CHR ''.'', CHR ''_'', CHR '':''}"

definition validate_subsystem_name :: "string \<Rightarrow> nvmeof_error + unit" where
  "validate_subsystem_name name =
     (if name = [] then Err (Nvmeof_ConfigFs ''NVMe-oF subsystem name is empty'')
      else if length name > 200 then Err (Nvmeof_ConfigFs ''NVMe-oF subsystem name exceeds 200 chars'')
      else if \<not> list_all subsystem_name_char name then
        Err (Nvmeof_ConfigFs (''NVMe-oF subsystem name '' @ [CHR 39] @ name @ [CHR 39] @
          '' contains invalid characters (allowed: A-Z, a-z, 0-9, '' @
          [CHR 39] @ ''-'' @ [CHR 39] @ '', '' @ [CHR 39] @ ''.'' @ [CHR 39] @ '', '' @
          [CHR 39] @ ''_'' @ [CHR 39] @ '', '' @ [CHR 39] @ '':'' @ [CHR 39] @ '')''))
      else Ok ())"

definition validate_host_nqn :: "string \<Rightarrow> nvmeof_error + unit" where
  "validate_host_nqn nqn =
     (if nqn = [] then Err (Nvmeof_ConfigFs ''host NQN is empty'')
      else if length nqn > 223 then Err (Nvmeof_ConfigFs ''host NQN exceeds 223 chars (NVMe spec limit)'')
      else if \<not> starts_with nqn ''nqn.'' then
        Err (Nvmeof_ConfigFs (''host NQN '' @ [CHR 39] @ nqn @ [CHR 39] @ '' must start with '' @
          [CHR 39] @ ''nqn.'' @ [CHR 39] @ '' (per NVMe spec)''))
      else if CHR ''/'' \<in> set nqn \<or> CHR 92 \<in> set nqn \<or> has_control nqn \<or> CHR '' '' \<in> set nqn then
        Err (Nvmeof_ConfigFs (''host NQN '' @ [CHR 39] @ nqn @ [CHR 39] @ '' contains invalid characters (must not contain '' @
          [CHR 39] @ ''/'' @ [CHR 39] @ '', '' @ [CHR 39] @ [CHR 92] @ [CHR 39] @ '', whitespace, or control characters)''))
      else Ok ())"

definition validate_transport :: "string \<Rightarrow> nvmeof_error + unit" where
  "validate_transport t = (if t = ''tcp'' \<or> t = ''rdma'' then Ok () else Err (InvalidTransport t))"

text \<open>What passes stays in its directory.\<close>

lemma valid_names_no_slash:
  "validate_subsystem_name name = Ok () \<Longrightarrow> CHR ''/'' \<notin> set name"
  "validate_host_nqn nqn = Ok () \<Longrightarrow> CHR ''/'' \<notin> set nqn"
  by (auto simp: validate_subsystem_name_def validate_host_nqn_def subsystem_name_char_def list_all_iff ascii_defs
      split: if_splits)

section \<open>Following the volumes\<close>

definition is_managed_namespace :: "nv_namespace \<Rightarrow> bool" where
  "is_managed_namespace n \<longleftrightarrow> ns_backing_volume n \<noteq> None \<or> ns_backing_volume_unresolved n
     \<or> starts_with (ns_device_path n) ''/dev/loop''"

definition repair_subsystem_namespace :: "32 word \<Rightarrow> string \<Rightarrow> block_volume_id \<Rightarrow> nvmeof_subsystem \<Rightarrow> nvmeof_error + nvmeof_subsystem" where
  "repair_subsystem_namespace nsid device_path identity s =
     (case List.find (\<lambda>n. ns_nsid n = nsid) (sub_namespaces s) of
        None \<Rightarrow> Err (NamespaceNotFound nsid)
      | Some n \<Rightarrow>
          if \<not> ns_backing_volume_unresolved n \<and> ns_backing_volume n \<noteq> None then
            Err (Nvmeof_InvalidBackingVolume (''namespace '' @ show_nat (unat nsid) @ '' is already resolved''))
          else if \<not> starts_with (ns_device_path n) ''/dev/loop'' then
            Err (Nvmeof_InvalidBackingVolume (''namespace '' @ show_nat (unat nsid) @ '' is not an unresolved managed block volume''))
          else
            Ok (s\<lparr>sub_namespaces := update_first (\<lambda>n. ns_nsid n = nsid)
                 (\<lambda>n. n\<lparr>ns_device_path := device_path, ns_backing_volume := Some identity,
                        ns_backing_volume_unresolved := False\<rparr>) (sub_namespaces s)\<rparr>))"

definition remap_namespace :: "mappings \<Rightarrow> nv_namespace \<Rightarrow> nv_namespace \<times> bool \<times> bool" where
  "remap_namespace m n =
     (if \<not> is_managed_namespace n then (n, False, True)
      else case resolve m (ns_backing_volume n) (ns_device_path n) of
        Some (identity, device_path) \<Rightarrow>
          (n\<lparr>ns_backing_volume := Some identity, ns_device_path := device_path, ns_backing_volume_unresolved := False\<rparr>,
           ns_backing_volume n \<noteq> Some identity \<or> ns_device_path n \<noteq> device_path \<or> ns_backing_volume_unresolved n,
           True)
      | None \<Rightarrow> (n\<lparr>ns_backing_volume_unresolved := True\<rparr>, \<not> ns_backing_volume_unresolved n, False))"

fun remap_namespaces :: "mappings \<Rightarrow> nv_namespace list \<Rightarrow> nv_namespace list \<times> bool \<times> bool" where
  "remap_namespaces m [] = ([], False, True)"
| "remap_namespaces m (n # ns) =
     (case remap_namespace m n of (n', c, s) \<Rightarrow> case remap_namespaces m ns of (ns', cs, ss) \<Rightarrow> (n' # ns', c \<or> cs, s \<and> ss))"

definition remap_subsystem :: "mappings \<Rightarrow> nvmeof_subsystem \<Rightarrow> nvmeof_subsystem \<times> bool \<times> bool" where
  "remap_subsystem m s =
     (case remap_namespaces m (sub_namespaces s) of (ns, changed, safe) \<Rightarrow> (s\<lparr>sub_namespaces := ns\<rparr>, changed, safe))"

interpretation namespaces: remapping is_managed_namespace ns_backing_volume ns_device_path ns_backing_volume_unresolved
  remap_namespace remap_namespaces
proof
  fix i j m c s v d
  show "\<not> is_managed_namespace i \<Longrightarrow> remap_namespace m i = (i, False, True)"
    by (simp add: remap_namespace_def)
  show "is_managed_namespace i \<Longrightarrow> resolve m (ns_backing_volume i) (ns_device_path i) = Some (v, d) \<Longrightarrow> remap_namespace m i = (j, c, s) \<Longrightarrow>
      is_managed_namespace j \<and> ns_backing_volume j = Some v \<and> ns_device_path j = d \<and> \<not> ns_backing_volume_unresolved j \<and> s"
    by (auto simp: remap_namespace_def is_managed_namespace_def)
  show "is_managed_namespace i \<Longrightarrow> resolve m (ns_backing_volume i) (ns_device_path i) = None \<Longrightarrow> remap_namespace m i = (j, c, s) \<Longrightarrow>
      is_managed_namespace j \<and> ns_backing_volume j = ns_backing_volume i \<and> ns_device_path j = ns_device_path i
      \<and> ns_backing_volume_unresolved j \<and> \<not> s"
    by (auto simp: remap_namespace_def is_managed_namespace_def)
  show "remap_namespace m i = (j, c, s) \<Longrightarrow> c \<longleftrightarrow> j \<noteq> i"
    by (cases i) (auto simp: remap_namespace_def split: if_splits option.splits)
next
  fix m i "is"
  show "remap_namespaces m [] = ([], False, True)" by simp
  show "remap_namespaces m (i # is) =
      (case remap_namespace m i of (j, c, s) \<Rightarrow> case remap_namespaces m is of (js, cs, ss) \<Rightarrow> (j # js, c \<or> cs, s \<and> ss))"
    by simp
qed

abbreviation remapped_sub :: "mappings \<Rightarrow> nvmeof_subsystem \<Rightarrow> nvmeof_subsystem" where
  "remapped_sub m s \<equiv> fst (remap_subsystem m s)"

lemma remapped_sub_frame [simp]:
  "sub_id (remapped_sub m s) = sub_id s" "sub_nqn (remapped_sub m s) = sub_nqn s"
  by (simp_all add: remap_subsystem_def split: prod.split)

lemma remap_namespace_nsid [simp]: "ns_nsid (fst (remap_namespace m n)) = ns_nsid n"
  by (auto simp: remap_namespace_def split: option.splits)

lemma remap_subsystem_safe:
  assumes "remap_subsystem m s = (s', c, True)" and "n \<in> set (sub_namespaces s')" and "is_managed_namespace n"
  shows "namespaces.served m n"
  using assms namespaces.items_safe by (auto simp: remap_subsystem_def split: prod.splits)

lemma remap_subsystem_changed: "remap_subsystem m s = (s', c, safe) \<Longrightarrow> \<not> c \<Longrightarrow> s' = s"
  using namespaces.items_changed [of m "sub_namespaces s"] by (auto simp: remap_subsystem_def split: prod.splits)

end
