(* ===== verification/Nvmeof_Service.thy ===== *)
theory Nvmeof_Service
  imports Nvmeof Configfs Host_Addr Json_Rpc
begin

text \<open>
  The operations of \<open>NvmeofService\<close> (\<open>nasty-sharing/src/nvmeof.rs\<close>) on the stored subsystems and
  the kernel's configuration. Every call that reaches the disk or the kernel may fail, and so may
  every step through a directory. Waiting for addresses, clients and readiness changes nothing
  here.
\<close>

section \<open>World\<close>

record nvmeof_world =
  nw_dir :: "nvmeof_subsystem dir_state"
  nw_dir_envs :: "dir_env list"
  nw_cfs :: cfs

text \<open>What surrounds a call: a fresh id, which device files exist, what \<open>ip\<close> prints about the routes,
  and the text of a link to a target as the kernel shows it.\<close>

record nvmeof_env =
  ne_new_id :: string
  ne_exists :: "string \<Rightarrow> bool"
  ne_ip_route :: "string option"
  ne_ip6_route :: "(bool \<times> string) option"
  ne_link_text :: "string \<Rightarrow> string \<Rightarrow> string"

type_synonym 'a nvmeof_op = "nvmeof_world \<Rightarrow> (nvmeof_error + 'a) \<times> nvmeof_world"

definition NVMEOF_STATE_DIR :: string where
  "NVMEOF_STATE_DIR = ''/var/lib/nasty/shares/nvmeof''"

section \<open>Stored subsystems\<close>

definition nv_dir_env :: "nvmeof_world \<Rightarrow> dir_env \<times> nvmeof_world" where
  "nv_dir_env w = (case nw_dir_envs w of [] \<Rightarrow> (calm_dir, w) | e # es \<Rightarrow> (e, w\<lparr>nw_dir_envs := es\<rparr>))"

definition load_subsystems :: "nvmeof_subsystem list nvmeof_op" where
  "load_subsystems w = (case nv_dir_env w of (e, w1) \<Rightarrow>
     (case load_all_strict e NVMEOF_STATE_DIR (nw_dir w1) of Ok ss \<Rightarrow> (Ok ss, w1) | Err x \<Rightarrow> (Err (Nvmeof_Io x), w1)))"

definition save_subsystem :: "nvmeof_subsystem \<Rightarrow> unit nvmeof_op" where
  "save_subsystem s w = (case nv_dir_env w of (e, w1) \<Rightarrow>
     (case save e (sub_id s) s (nw_dir w1) of
        (Ok _, d) \<Rightarrow> (Ok (), w1\<lparr>nw_dir := d\<rparr>)
      | (Err x, d) \<Rightarrow> (Err (Nvmeof_Io x), w1\<lparr>nw_dir := d\<rparr>)))"

definition remove_subsystem :: "string \<Rightarrow> unit nvmeof_op" where
  "remove_subsystem i w = (case nv_dir_env w of (e, w1) \<Rightarrow>
     (case remove e i (nw_dir w1) of
        (Ok _, d) \<Rightarrow> (Ok (), w1\<lparr>nw_dir := d\<rparr>)
      | (Err x, d) \<Rightarrow> (Err (Nvmeof_Io x), w1\<lparr>nw_dir := d\<rparr>)))"

definition load_subsystem :: "string \<Rightarrow> nvmeof_subsystem nvmeof_op" where
  "load_subsystem i w = (case load (nw_dir w) i of Some s \<Rightarrow> (Ok s, w) | None \<Rightarrow> (Err (Subsystem_NotFound i), w))"

section \<open>Calls on the kernel\<close>

definition nv_call :: "(cfs \<Rightarrow> (string + 'a) \<times> cfs) \<Rightarrow> (string \<Rightarrow> nvmeof_error) \<Rightarrow> 'a nvmeof_op" where
  "nv_call f msg w =
     (case f (nw_cfs w) of
        (Ok a, c) \<Rightarrow> (Ok a, w\<lparr>nw_cfs := c\<rparr>)
      | (Err x, c) \<Rightarrow> (Err (msg x), w\<lparr>nw_cfs := c\<rparr>))"

definition nv_mkdir :: "string \<Rightarrow> unit nvmeof_op" where
  "nv_mkdir path = nv_call (create_dir_all path) (\<lambda>e. Nvmeof_ConfigFs (''mkdir '' @ path @ '': '' @ e))"

text \<open>\<open>metadata\<close>: whether a path is a directory, links followed.\<close>

definition stat_is_dir :: "string \<Rightarrow> cfs \<Rightarrow> (string + bool) \<times> cfs" where
  "stat_is_dir path w =
     (case draw w of
        (Some x, w1) \<Rightarrow> (Err x, w1)
      | (None, w1) \<Rightarrow>
          if \<not> cf_exists path w1 then (Err ENOENT, w1)
          else (Ok (case map_of (cf_nodes w1) path of
                      Some (Link t) \<Rightarrow> map_of (cf_nodes w1) t \<in> {Some Folder, Some Group}
                    | Some _ \<Rightarrow> True
                    | None \<Rightarrow> False), w1))"

definition nv_ensure_dir :: "string \<Rightarrow> unit nvmeof_op" where
  "nv_ensure_dir path w =
     (case stat_is_dir path (nw_cfs w) of
        (Ok True, c) \<Rightarrow> (Ok (), w\<lparr>nw_cfs := c\<rparr>)
      | (Ok False, c) \<Rightarrow> (Err (Nvmeof_ConfigFs (path @ '' exists and is not a directory'')), w\<lparr>nw_cfs := c\<rparr>)
      | (Err x, c) \<Rightarrow>
          if x = ENOENT then nv_mkdir path (w\<lparr>nw_cfs := c\<rparr>)
          else (Err (Nvmeof_ConfigFs (''stat '' @ path @ '': '' @ x)), w\<lparr>nw_cfs := c\<rparr>))"

definition nv_rmdir :: "string \<Rightarrow> unit nvmeof_op" where
  "nv_rmdir path = nv_call (remove_dir path) (\<lambda>e. Nvmeof_ConfigFs (''rmdir '' @ path @ '': '' @ e))"

definition nv_unlink :: "string \<Rightarrow> unit nvmeof_op" where
  "nv_unlink path = nv_call (remove_file path) (\<lambda>e. Nvmeof_ConfigFs (''unlink '' @ path @ '': '' @ e))"

definition nv_write :: "string \<Rightarrow> string \<Rightarrow> unit nvmeof_op" where
  "nv_write path v = nv_call (write_attr path v) (\<lambda>e. Nvmeof_ConfigFs (''write '' @ path @ ''='' @ v @ '': '' @ e))"

definition nv_symlink :: "string \<Rightarrow> string \<Rightarrow> unit nvmeof_op" where
  "nv_symlink target link = nv_call (make_link target link) (\<lambda>e. Nvmeof_ConfigFs (''symlink '' @ link @ '' -> '' @ target @ '': '' @ e))"

text \<open>\<open>read_link\<close> and \<open>canonicalize\<close>.\<close>

definition EINVAL :: string where
  "EINVAL = ''Invalid argument (os error 22)''"

definition read_link :: "(string \<Rightarrow> string \<Rightarrow> string) \<Rightarrow> string \<Rightarrow> cfs \<Rightarrow> (string + string) \<times> cfs" where
  "read_link text link w =
     (case draw w of
        (Some x, w1) \<Rightarrow> (Err x, w1)
      | (None, w1) \<Rightarrow>
          (case map_of (cf_nodes w1) link of
             Some (Link t) \<Rightarrow> (Ok (text link t), w1)
           | _ \<Rightarrow> (Err (if cf_exists link w1 then EINVAL else ENOENT), w1)))"

definition canonicalize :: "string \<Rightarrow> cfs \<Rightarrow> (string + string) \<times> cfs" where
  "canonicalize path w =
     (case draw w of
        (Some x, w1) \<Rightarrow> (Err x, w1)
      | (None, w1) \<Rightarrow>
          (case map_of (cf_nodes w1) path of
             Some (Link t) \<Rightarrow> (if cf_exists t w1 then Ok t else Err ENOENT, w1)
           | _ \<Rightarrow> (if cf_exists path w1 then Ok path else Err ENOENT, w1)))"

definition nv_ensure_symlink :: "nvmeof_env \<Rightarrow> string \<Rightarrow> string \<Rightarrow> unit nvmeof_op" where
  "nv_ensure_symlink e target link w =
     (case read_link (ne_link_text e) link (nw_cfs w) of
        (Ok existing, c) \<Rightarrow>
          if existing = target then (Ok (), w\<lparr>nw_cfs := c\<rparr>)
          else
            (case canonicalize link c of (resolved_link, c1) \<Rightarrow>
             case canonicalize target c1 of (resolved_target, c2) \<Rightarrow>
             if is_ok resolved_link \<and> resolved_link = resolved_target then (Ok (), w\<lparr>nw_cfs := c2\<rparr>)
             else (Err (Nvmeof_ConfigFs (''symlink '' @ link @ '' points to '' @ existing @ '' instead of '' @ target)), w\<lparr>nw_cfs := c2\<rparr>))
      | (Err x, c) \<Rightarrow>
          if x = ENOENT then nv_symlink target link (w\<lparr>nw_cfs := c\<rparr>)
          else (Err (Nvmeof_ConfigFs (''readlink '' @ link @ '': '' @ x)), w\<lparr>nw_cfs := c\<rparr>))"

section \<open>Directories\<close>

text \<open>One step through a directory, which may fail, and the loops over its entries: one that hands
  a failure on, and one that stops there.\<close>

definition nv_next_entry :: "unit nvmeof_op" where
  "nv_next_entry = nv_call (attempt (\<lambda>c. c)) Nvmeof_Io"

fun for_entries :: "(string \<Rightarrow> unit nvmeof_op) \<Rightarrow> string list \<Rightarrow> unit nvmeof_op" where
  "for_entries body [] w = nv_next_entry w"
| "for_entries body (x # xs) w = and_then nv_next_entry (\<lambda>_. and_then (body x) (\<lambda>_. for_entries body xs)) w"

fun while_entries :: "(string \<Rightarrow> nvmeof_world \<Rightarrow> nvmeof_world) \<Rightarrow> string list \<Rightarrow> nvmeof_world \<Rightarrow> nvmeof_world" where
  "while_entries body [] w = ignore nv_next_entry w"
| "while_entries body (x # xs) w =
     (case nv_next_entry w of (Err _, w1) \<Rightarrow> w1 | (Ok _, w1) \<Rightarrow> while_entries body xs (body x w1))"

definition nv_read_dir :: "string \<Rightarrow> string list nvmeof_op" where
  "nv_read_dir path = nv_call (read_dir path) Nvmeof_Io"

text \<open>A loop over a directory of the kernel; one that is missing has no entries.\<close>

definition each_in :: "string \<Rightarrow> (string \<Rightarrow> unit nvmeof_op) \<Rightarrow> unit nvmeof_op" where
  "each_in path body w =
     (case nv_read_dir path w of
        (Ok names, w1) \<Rightarrow> for_entries body names w1
      | (Err x, w1) \<Rightarrow> (if x = Nvmeof_Io ENOENT then Ok () else Err x, w1))"

definition for_each_in :: "string \<Rightarrow> (string \<Rightarrow> nvmeof_world \<Rightarrow> nvmeof_world) \<Rightarrow> nvmeof_world \<Rightarrow> nvmeof_world" where
  "for_each_in path body w =
     (case nv_read_dir path w of (Err _, w1) \<Rightarrow> w1 | (Ok names, w1) \<Rightarrow> while_entries body names w1)"

definition dir_is_empty :: "string \<Rightarrow> nvmeof_world \<Rightarrow> bool \<times> nvmeof_world" where
  "dir_is_empty path w =
     (case nv_read_dir path w of
        (Err _, w1) \<Rightarrow> (True, w1)
      | (Ok names, w1) \<Rightarrow> (case nv_next_entry w1 of (Err _, w2) \<Rightarrow> (True, w2) | (Ok _, w2) \<Rightarrow> (names = [], w2)))"

section \<open>Ports\<close>

definition ports_dir :: string where
  "ports_dir = NVMET_BASE @ ''/ports''"

definition port_path_of :: "16 word \<Rightarrow> string" where
  "port_path_of i = ports_dir @ ''/'' @ show_u16 i"

definition subsystem_path :: "string \<Rightarrow> string" where
  "subsystem_path nqn = NVMET_BASE @ ''/subsystems/'' @ nqn"

definition namespace_path :: "string \<Rightarrow> 32 word \<Rightarrow> string" where
  "namespace_path nqn nsid = subsystem_path nqn @ ''/namespaces/'' @ show_u32 nsid"

definition host_path_of :: "string \<Rightarrow> string" where
  "host_path_of host_nqn = NVMET_BASE @ ''/hosts/'' @ host_nqn"

fun max_port_id :: "16 word \<Rightarrow> string list \<Rightarrow> nvmeof_world \<Rightarrow> 16 word \<times> nvmeof_world" where
  "max_port_id m [] w = (m, ignore nv_next_entry w)"
| "max_port_id m (x # xs) w =
     (case nv_next_entry w of
        (Err _, w1) \<Rightarrow> (m, w1)
      | (Ok _, w1) \<Rightarrow> max_port_id (case parse_u16 x of Some i \<Rightarrow> max m i | None \<Rightarrow> m) xs w1)"

definition next_port_id :: "nvmeof_world \<Rightarrow> 16 word \<times> nvmeof_world" where
  "next_port_id w =
     (case nv_read_dir ports_dir w of
        (Err _, w1) \<Rightarrow> (1, w1)
      | (Ok names, w1) \<Rightarrow> (case max_port_id 0 names w1 of (m, w2) \<Rightarrow> (m + 1, w2)))"

definition read_trimmed :: "string \<Rightarrow> nvmeof_world \<Rightarrow> string option \<times> nvmeof_world" where
  "read_trimmed path w =
     (case nv_call (read_attr path) Nvmeof_Io w of
        (Ok v, w1) \<Rightarrow> (Some (trim v), w1)
      | (Err _, w1) \<Rightarrow> (None, w1))"

definition port_matches :: "string \<Rightarrow> string \<Rightarrow> string \<Rightarrow> string \<Rightarrow> string \<Rightarrow> nvmeof_world \<Rightarrow> bool \<times> nvmeof_world" where
  "port_matches transport addr svc fam base w =
     (case read_trimmed (base @ ''/addr_trtype'') w of (t, w1) \<Rightarrow>
      case read_trimmed (base @ ''/addr_traddr'') w1 of (a, w2) \<Rightarrow>
      case read_trimmed (base @ ''/addr_trsvcid'') w2 of (s, w3) \<Rightarrow>
      case read_trimmed (base @ ''/addr_adrfam'') w3 of (f, w4) \<Rightarrow>
        (t = Some transport \<and> a = Some addr \<and> s = Some svc \<and> f = Some fam, w4))"

fun find_port :: "string \<Rightarrow> string \<Rightarrow> string \<Rightarrow> string \<Rightarrow> string list \<Rightarrow> nvmeof_world \<Rightarrow> 16 word option \<times> nvmeof_world" where
  "find_port transport addr svc fam [] w = (None, ignore nv_next_entry w)"
| "find_port transport addr svc fam (x # xs) w =
     (case nv_next_entry w of
        (Err _, w1) \<Rightarrow> (None, w1)
      | (Ok _, w1) \<Rightarrow>
          (case parse_u16 x of
             None \<Rightarrow> find_port transport addr svc fam xs w1
           | Some port_id \<Rightarrow>
               (case port_matches transport addr svc fam (port_path_of port_id) w1 of
                  (True, w2) \<Rightarrow> (Some port_id, w2)
                | (False, w2) \<Rightarrow> find_port transport addr svc fam xs w2)))"

definition find_existing_port :: "string \<Rightarrow> string \<Rightarrow> 16 word \<Rightarrow> string \<Rightarrow> nvmeof_world \<Rightarrow> 16 word option \<times> nvmeof_world" where
  "find_existing_port transport addr svc_id addr_family w =
     (case nv_read_dir ports_dir w of
        (Err _, w1) \<Rightarrow> (None, w1)
      | (Ok names, w1) \<Rightarrow> find_port transport addr (show_u16 svc_id) addr_family names w1)"

definition write_port :: "16 word \<Rightarrow> string \<Rightarrow> string \<Rightarrow> string \<Rightarrow> string \<Rightarrow> unit nvmeof_op" where
  "write_port i transport addr service_id addr_family =
     (let port_path = port_path_of i in
      and_then (nv_write (port_path @ ''/addr_trtype'') transport) (\<lambda>_.
      and_then (nv_write (port_path @ ''/addr_traddr'') addr) (\<lambda>_.
      and_then (nv_write (port_path @ ''/addr_trsvcid'') service_id) (\<lambda>_.
        nv_write (port_path @ ''/addr_adrfam'') addr_family))))"

section \<open>Restoring the kernel's state\<close>

definition restore_namespace :: "nvmeof_env \<Rightarrow> string \<Rightarrow> nv_namespace \<Rightarrow> unit nvmeof_op" where
  "restore_namespace e ns_path n =
     and_then (nv_write (ns_path @ ''/enable'') ''0'') (\<lambda>_ w.
     if \<not> ne_exists e (ns_device_path n) then (Err (DeviceNotFound (ns_device_path n)), w)
     else
       and_then (nv_write (ns_path @ ''/device_path'') (ns_device_path n)) (\<lambda>_.
       and_then (nv_write (ns_path @ ''/buffered_io'') ''0'') (\<lambda>_.
         if ns_enabled n then nv_write (ns_path @ ''/enable'') ''1'' else (\<lambda>w. (Ok (), w)))) w)"

text \<open>The steps of a restore do not stop at a failure: each yields the failures it met.\<close>

type_synonym nvmeof_step = "nvmeof_world \<Rightarrow> string list \<times> nvmeof_world"

definition reporting :: "string \<Rightarrow> unit nvmeof_op \<Rightarrow> nvmeof_step" where
  "reporting what f w =
     (case f w of (Ok _, w1) \<Rightarrow> ([], w1) | (Err x, w1) \<Rightarrow> ([what @ '': '' @ nvmeof_error_message x], w1))"

fun collect_failures :: "('a \<Rightarrow> nvmeof_step) \<Rightarrow> 'a list \<Rightarrow> nvmeof_step" where
  "collect_failures f [] w = ([], w)"
| "collect_failures f (x # xs) w =
     (case f x w of (fs, w1) \<Rightarrow> case collect_failures f xs w1 of (gs, w2) \<Rightarrow> (fs @ gs, w2))"

definition restore_one_namespace :: "nvmeof_env \<Rightarrow> string \<Rightarrow> nv_namespace \<Rightarrow> nvmeof_step" where
  "restore_one_namespace e nqn n =
     reporting (nqn @ '' namespace '' @ show_u32 (ns_nsid n))
       (and_then (nv_ensure_dir (namespace_path nqn (ns_nsid n))) (\<lambda>_. restore_namespace e (namespace_path nqn (ns_nsid n)) n))"

definition restore_host :: "nvmeof_env \<Rightarrow> string \<Rightarrow> string \<Rightarrow> nvmeof_step" where
  "restore_host e nqn host_nqn =
     reporting (nqn @ '' host '' @ host_nqn)
       (and_then (nv_ensure_dir (host_path_of host_nqn)) (\<lambda>_.
          nv_ensure_symlink e (host_path_of host_nqn) (subsystem_path nqn @ ''/allowed_hosts/'' @ host_nqn)))"

definition restore_port :: "nvmeof_env \<Rightarrow> string \<Rightarrow> nv_port \<Rightarrow> nvmeof_step" where
  "restore_port e nqn p w =
     (let bind = (\<lambda>i. reporting (nqn @ '' port '' @ show_u16 i @ '' bind'')
            (nv_ensure_symlink e (subsystem_path nqn) (port_path_of i @ ''/subsystems/'' @ nqn)))
      in case find_existing_port (nvp_transport p) (nvp_addr p)
              (case parse_u16 (nvp_service_id p) of Some n \<Rightarrow> n | None \<Rightarrow> 4420) (nvp_addr_family p) w of
           (Some existing, w1) \<Rightarrow> bind existing w1
         | (None, w1) \<Rightarrow>
             (case reporting (nqn @ '' port '' @ show_u16 (nvp_port_id p))
                  (and_then (nv_ensure_dir (port_path_of (nvp_port_id p))) (\<lambda>_.
                     write_port (nvp_port_id p) (nvp_transport p) (nvp_addr p) (nvp_service_id p) (nvp_addr_family p))) w1 of
                ([], w2) \<Rightarrow> bind (nvp_port_id p) w2
              | (fs, w2) \<Rightarrow> (fs, w2)))"

definition restore_subsystem :: "nvmeof_env \<Rightarrow> nvmeof_subsystem \<Rightarrow> nvmeof_step" where
  "restore_subsystem e s w =
     (let nqn = sub_nqn s in
      case reporting (nqn @ '' subsystem'') (nv_ensure_dir (subsystem_path nqn)) w of
        ([], w1) \<Rightarrow>
          (case reporting (nqn @ '' access policy'')
               (nv_write (subsystem_path nqn @ ''/attr_allow_any_host'') (if sub_allow_any_host s then ''1'' else ''0'')) w1 of
             ([], w2) \<Rightarrow>
               (case collect_failures (restore_one_namespace e nqn) (sub_namespaces s) w2 of (f1, w3) \<Rightarrow>
                case collect_failures (restore_host e nqn) (sub_allowed_hosts s) w3 of (f2, w4) \<Rightarrow>
                case collect_failures (restore_port e nqn) (sub_ports s) w4 of (f3, w5) \<Rightarrow> (f1 @ f2 @ f3, w5))
           | (fs, w2) \<Rightarrow> (fs, w2))
      | (fs, w1) \<Rightarrow> (fs, w1))"

text \<open>The protocol's flag is read from the file of flags, here its content if it could be read and
  parsed.\<close>

definition nvmeof_flag :: "json option \<Rightarrow> bool" where
  "nvmeof_flag proto_state =
     (case proto_state of None \<Rightarrow> False | Some j \<Rightarrow> json_get j ''nvmeof'' = Some (JBool True))"

definition nvmeof_restore :: "nvmeof_env \<Rightarrow> json option \<Rightarrow> unit nvmeof_op" where
  "nvmeof_restore e proto_state w =
     (if \<not> nvmeof_flag proto_state then (Ok (), w)
      else and_then load_subsystems (\<lambda>subsystems w.
        case collect_failures (restore_subsystem e) subsystems w of (failures, w1) \<Rightarrow>
          (if failures = [] then Ok () else Err (Nvmeof_ConfigFs (join ''; '' failures)), w1)) w)"

section \<open>Quiescing\<close>

definition disable_entry :: "string \<Rightarrow> string \<Rightarrow> unit nvmeof_op" where
  "disable_entry namespace_dir name =
     (let enable = namespace_dir @ ''/'' @ name @ ''/enable'' in
      nv_call (write_attr enable ''0'') (\<lambda>x. Nvmeof_ConfigFs (''disable '' @ enable @ '': '' @ x)))"

definition quiesce_subsystem :: "string \<Rightarrow> unit nvmeof_op" where
  "quiesce_subsystem nqn w =
     (let namespace_dir = subsystem_path nqn @ ''/namespaces'' in
      if \<not> starts_with nqn DEFAULT_NQN_PREFIX then (Ok (), w)
      else each_in namespace_dir (disable_entry namespace_dir) w)"

definition nvmeof_quiesce :: "unit nvmeof_op" where
  "nvmeof_quiesce = each_in (NVMET_BASE @ ''/subsystems'') quiesce_subsystem"

fun namespaces_active :: "string \<Rightarrow> nv_namespace list \<Rightarrow> bool nvmeof_op" where
  "namespaces_active nqn [] w = (Ok True, w)"
| "namespaces_active nqn (n # ns) w =
     (if \<not> ns_enabled n then namespaces_active nqn ns w
      else case nv_call (read_attr (namespace_path nqn (ns_nsid n) @ ''/enable'')) Nvmeof_Io w of
        (Ok v, w1) \<Rightarrow> if trim v = ''1'' then namespaces_active nqn ns w1 else (Ok False, w1)
      | (Err x, w1) \<Rightarrow> (if x = Nvmeof_Io ENOENT then Ok False else Err x, w1))"

fun subsystems_active :: "nvmeof_subsystem list \<Rightarrow> bool nvmeof_op" where
  "subsystems_active [] w = (Ok True, w)"
| "subsystems_active (s # ss) w =
     (case namespaces_active (sub_nqn s) (sub_namespaces s) w of
        (Ok True, w1) \<Rightarrow> subsystems_active ss w1
      | (r, w1) \<Rightarrow> (r, w1))"

definition is_active :: "bool nvmeof_op" where
  "is_active = and_then load_subsystems subsystems_active"

section \<open>Following the volumes\<close>

definition expected_namespace :: "string \<Rightarrow> nv_namespace list \<Rightarrow> string \<Rightarrow> unit nvmeof_op" where
  "expected_namespace nqn expected name w =
     (case parse_u32 name of
        None \<Rightarrow> (Err (Nvmeof_ConfigFs (''live subsystem '' @ [CHR 39] @ nqn @ [CHR 39] @ '' has invalid namespace entry '' @
           [CHR 39] @ name @ [CHR 39])), w)
      | Some nsid \<Rightarrow>
          if nsid \<in> set (map ns_nsid expected) then (Ok (), w)
          else (Err (Nvmeof_ConfigFs (''live subsystem '' @ [CHR 39] @ nqn @ [CHR 39] @ '' namespace '' @ show_u32 nsid @
             '' has no persisted state'')), w))"

text \<open>A later subsystem of the same name hides an earlier one.\<close>

definition expected_subsystem :: "nvmeof_subsystem list \<Rightarrow> string \<Rightarrow> unit nvmeof_op" where
  "expected_subsystem expected nqn w =
     (if \<not> starts_with nqn DEFAULT_NQN_PREFIX then (Ok (), w)
      else case map_of (rev (map (\<lambda>s. (sub_nqn s, sub_namespaces s)) expected)) nqn of
        None \<Rightarrow> (Err (Nvmeof_ConfigFs (''live subsystem '' @ [CHR 39] @ nqn @ [CHR 39] @ '' has no persisted state'')), w)
      | Some ns \<Rightarrow> each_in (subsystem_path nqn @ ''/namespaces'') (expected_namespace nqn ns) w)"

definition validate_managed_configfs_inventory :: "nvmeof_subsystem list \<Rightarrow> unit nvmeof_op" where
  "validate_managed_configfs_inventory expected = each_in (NVMET_BASE @ ''/subsystems'') (expected_subsystem expected)"

record nv_remap_outcome =
  nro_safe_to_restore :: bool
  nro_changed :: bool

fun nv_remap_loop :: "mappings \<Rightarrow> nvmeof_subsystem list \<Rightarrow> bool \<Rightarrow> bool \<Rightarrow> nvmeof_world \<Rightarrow> (bool \<times> bool) \<times> nvmeof_world" where
  "nv_remap_loop m [] safe any_changed w = ((safe, any_changed), w)"
| "nv_remap_loop m (s # ss) safe any_changed w =
     (case remap_subsystem m s of (s', changed, subsystem_safe) \<Rightarrow>
      case (if changed then save_subsystem s' w else (Ok (), w)) of (saved, w1) \<Rightarrow>
        nv_remap_loop m ss (safe \<and> subsystem_safe \<and> is_ok saved) (any_changed \<or> changed) w1)"

definition nvmeof_remap_device_paths :: "mappings \<Rightarrow> nvmeof_world \<Rightarrow> nv_remap_outcome \<times> nvmeof_world" where
  "nvmeof_remap_device_paths m w =
     (case load_subsystems w of
        (Err _, w1) \<Rightarrow> (\<lparr>nro_safe_to_restore = False, nro_changed = False\<rparr>, w1)
      | (Ok subsystems, w1) \<Rightarrow>
          (case validate_managed_configfs_inventory subsystems w1 of (r, w2) \<Rightarrow>
           case nv_remap_loop m subsystems (is_ok r) False w2 of ((safe, changed), w3) \<Rightarrow>
             (\<lparr>nro_safe_to_restore = safe, nro_changed = changed\<rparr>, w3)))"

definition nvmeof_list :: "nvmeof_subsystem list nvmeof_op" where
  "nvmeof_list = load_subsystems"

definition nvmeof_get :: "string \<Rightarrow> nvmeof_subsystem nvmeof_op" where
  "nvmeof_get i = load_subsystem i"

definition repair_namespace :: "string \<Rightarrow> 32 word \<Rightarrow> string \<Rightarrow> block_volume_id \<Rightarrow> (nvmeof_subsystem \<times> nvmeof_subsystem) nvmeof_op" where
  "repair_namespace subsystem_id nsid device_path identity =
     and_then (load_subsystem subsystem_id) (\<lambda>previous.
     and_then (\<lambda>w. (repair_subsystem_namespace nsid device_path identity previous, w)) (\<lambda>s.
     and_then (save_subsystem s) (\<lambda>_ w. (Ok (s, previous), w))))"

definition restore_subsystem_state :: "nvmeof_subsystem \<Rightarrow> unit nvmeof_op" where
  "restore_subsystem_state s = save_subsystem s"

section \<open>Namespaces\<close>

definition next_nsid :: "nv_namespace list \<Rightarrow> 32 word" where
  "next_nsid ns = (case map ns_nsid ns of [] \<Rightarrow> 1 | i # is \<Rightarrow> fold max is i + 1)"

definition add_namespace :: "nvmeof_env \<Rightarrow> string \<Rightarrow> string \<Rightarrow> block_volume_id option \<Rightarrow> nvmeof_subsystem nvmeof_op" where
  "add_namespace e subsystem_id device_path backing_volume w =
     (if \<not> ne_exists e device_path then (Err (DeviceNotFound device_path), w)
      else and_then (load_subsystem subsystem_id) (\<lambda>s.
        let nsid = next_nsid (sub_namespaces s); ns_path = namespace_path (sub_nqn s) nsid;
            s' = s\<lparr>sub_namespaces := sub_namespaces s @ [\<lparr>ns_nsid = nsid, ns_device_path = device_path, ns_enabled = True,
                     ns_backing_volume = backing_volume, ns_backing_volume_unresolved = False\<rparr>]\<rparr>
        in and_then (nv_mkdir ns_path) (\<lambda>_.
           and_then (nv_write (ns_path @ ''/device_path'') device_path) (\<lambda>_.
           and_then (nv_write (ns_path @ ''/buffered_io'') ''0'') (\<lambda>_.
           and_then (nv_write (ns_path @ ''/enable'') ''1'') (\<lambda>_.
           and_then (save_subsystem s') (\<lambda>_ w. (Ok s', w))))))) w)"

definition remove_namespace :: "string \<Rightarrow> 32 word \<Rightarrow> nvmeof_subsystem nvmeof_op" where
  "remove_namespace subsystem_id nsid =
     and_then (load_subsystem subsystem_id) (\<lambda>s w.
     case position (\<lambda>n. ns_nsid n = nsid) (sub_namespaces s) of
       None \<Rightarrow> (Err (NamespaceNotFound nsid), w)
     | Some k \<Rightarrow>
         let s' = s\<lparr>sub_namespaces := remove_nth k (sub_namespaces s)\<rparr> in
         and_then (nv_rmdir (namespace_path (sub_nqn s) nsid)) (\<lambda>_.
         and_then (save_subsystem s') (\<lambda>_ w. (Ok s', w))) w)"

section \<open>Adding and removing ports\<close>

definition port_addr :: "nvmeof_env \<Rightarrow> string option \<Rightarrow> string" where
  "port_addr e addr =
     (case addr of
        Some a \<Rightarrow>
          if a \<noteq> [] \<and> a \<noteq> ''0.0.0.0'' then a
          else (case detect_primary_ip (ne_ip_route e) of Some ip \<Rightarrow> ip | None \<Rightarrow> ''0.0.0.0'')
      | None \<Rightarrow> (case detect_primary_ip (ne_ip_route e) of Some ip \<Rightarrow> ip | None \<Rightarrow> ''0.0.0.0''))"

definition create_port :: "string \<Rightarrow> string \<Rightarrow> 16 word \<Rightarrow> string \<Rightarrow> 16 word nvmeof_op" where
  "create_port transport addr svc_id addr_family w =
     (case find_existing_port transport addr svc_id addr_family w of
        (Some existing, w1) \<Rightarrow> (Ok existing, w1)
      | (None, w1) \<Rightarrow>
          (case next_port_id w1 of (pid, w2) \<Rightarrow>
             and_then (nv_mkdir (port_path_of pid)) (\<lambda>_.
             and_then (write_port pid transport addr (show_u16 svc_id) addr_family) (\<lambda>_ w. (Ok pid, w))) w2))"

definition add_port :: "nvmeof_env \<Rightarrow> string \<Rightarrow> string option \<Rightarrow> string option \<Rightarrow> 16 word option \<Rightarrow> string option \<Rightarrow> nvmeof_subsystem nvmeof_op" where
  "add_port e subsystem_id transport addr service_id addr_family =
     and_then (load_subsystem subsystem_id) (\<lambda>s.
     let transport = (case transport of Some t \<Rightarrow> t | None \<Rightarrow> ''tcp'') in
     and_then (\<lambda>w. (validate_transport transport, w)) (\<lambda>_.
     let addr = port_addr e addr;
         svc_id = (case service_id of Some n \<Rightarrow> n | None \<Rightarrow> 4420);
         addr_family = (case addr_family of Some f \<Rightarrow> f | None \<Rightarrow> ''ipv4'')
     in and_then (create_port transport addr svc_id addr_family) (\<lambda>port_id.
        and_then (nv_symlink (subsystem_path (sub_nqn s)) (port_path_of port_id @ ''/subsystems/'' @ sub_nqn s)) (\<lambda>_.
        let s' = s\<lparr>sub_ports := sub_ports s @ [\<lparr>nvp_port_id = port_id, nvp_transport = transport, nvp_addr = addr,
                     nvp_service_id = show_u16 svc_id, nvp_addr_family = addr_family\<rparr>]\<rparr>
        in and_then (save_subsystem s') (\<lambda>_ w. (Ok s', w))))))"

text \<open>A port goes when no subsystem is linked to it any more.\<close>

definition drop_unused_port :: "16 word \<Rightarrow> nvmeof_world \<Rightarrow> nvmeof_world" where
  "drop_unused_port i w =
     (case dir_is_empty (port_path_of i @ ''/subsystems'') w of
        (True, w1) \<Rightarrow> ignore (nv_rmdir (port_path_of i)) w1
      | (False, w1) \<Rightarrow> w1)"

definition remove_port :: "string \<Rightarrow> 16 word \<Rightarrow> nvmeof_subsystem nvmeof_op" where
  "remove_port subsystem_id port_id =
     and_then (load_subsystem subsystem_id) (\<lambda>s w.
     case position (\<lambda>p. nvp_port_id p = port_id) (sub_ports s) of
       None \<Rightarrow> (Err (PortNotFound port_id), w)
     | Some k \<Rightarrow>
         let s' = s\<lparr>sub_ports := remove_nth k (sub_ports s)\<rparr> in
         and_then (save_subsystem s') (\<lambda>_ w. (Ok s', w))
           (drop_unused_port port_id (ignore (nv_unlink (port_path_of port_id @ ''/subsystems/'' @ sub_nqn s)) w)))"

text \<open>Ports on the address of a private network: made for every subsystem that has none, and
  removed again.\<close>

definition ensure_tailscale_port :: "nvmeof_env \<Rightarrow> string \<Rightarrow> nvmeof_subsystem \<Rightarrow> nvmeof_world \<Rightarrow> nvmeof_world" where
  "ensure_tailscale_port e tailscale_ip s w =
     (if list_ex (\<lambda>p. nvp_addr p = tailscale_ip) (sub_ports s) then w
      else
        (let (transport, svc_id) = (case sub_ports s of p # _ \<Rightarrow> (nvp_transport p, nvp_service_id p) | [] \<Rightarrow> (''tcp'', ''4420''));
             svc_port = (case parse_u16 svc_id of Some n \<Rightarrow> n | None \<Rightarrow> 4420)
         in ignore (add_port e (sub_id s) (Some transport) (Some tailscale_ip) (Some svc_port) (Some ''ipv4'')) w))"

definition ensure_tailscale_ports :: "nvmeof_env \<Rightarrow> string \<Rightarrow> nvmeof_world \<Rightarrow> nvmeof_world" where
  "ensure_tailscale_ports e tailscale_ip w =
     (case nv_dir_env w of (de, w1) \<Rightarrow> fold (ensure_tailscale_port e tailscale_ip) (load_all de (nw_dir w1)) w1)"

definition remove_ports_for_ip :: "string \<Rightarrow> nvmeof_world \<Rightarrow> nvmeof_world" where
  "remove_ports_for_ip ip w =
     (case nv_dir_env w of (de, w1) \<Rightarrow>
        fold (\<lambda>s. fold (\<lambda>i. ignore (remove_port (sub_id s) i))
               (map nvp_port_id (filter (\<lambda>p. nvp_addr p = ip) (sub_ports s))))
          (load_all de (nw_dir w1)) w1)"

section \<open>Hosts\<close>

definition add_host :: "string \<Rightarrow> string \<Rightarrow> nvmeof_subsystem nvmeof_op" where
  "add_host subsystem_id host_nqn =
     and_then (\<lambda>w. (validate_host_nqn host_nqn, w)) (\<lambda>_.
     and_then (load_subsystem subsystem_id) (\<lambda>s.
     and_then (\<lambda>w. if cf_exists (host_path_of host_nqn) (nw_cfs w) then (Ok (), w) else nv_mkdir (host_path_of host_nqn) w) (\<lambda>_.
     and_then (nv_symlink (host_path_of host_nqn) (subsystem_path (sub_nqn s) @ ''/allowed_hosts/'' @ host_nqn)) (\<lambda>_.
     and_then (nv_write (subsystem_path (sub_nqn s) @ ''/attr_allow_any_host'') ''0'') (\<lambda>_.
     let s' = s\<lparr>sub_allow_any_host := False,
                sub_allowed_hosts := (if host_nqn \<in> set (sub_allowed_hosts s) then sub_allowed_hosts s
                                      else sub_allowed_hosts s @ [host_nqn])\<rparr>
     in and_then (save_subsystem s') (\<lambda>_ w. (Ok s', w)))))))"

definition remove_host :: "string \<Rightarrow> string \<Rightarrow> nvmeof_subsystem nvmeof_op" where
  "remove_host subsystem_id host_nqn =
     and_then (load_subsystem subsystem_id) (\<lambda>s.
     and_then (nv_unlink (subsystem_path (sub_nqn s) @ ''/allowed_hosts/'' @ host_nqn)) (\<lambda>_.
     let s' = s\<lparr>sub_allowed_hosts := filter (\<lambda>h. h \<noteq> host_nqn) (sub_allowed_hosts s)\<rparr>
     in and_then (save_subsystem s') (\<lambda>_ w. (Ok s', w))))"

section \<open>Creating and deleting subsystems\<close>

definition nvmeof_delete :: "string \<Rightarrow> unit nvmeof_op" where
  "nvmeof_delete i =
     and_then (load_subsystem i) (\<lambda>s w.
     let nqn = sub_nqn s; ns_dir = subsystem_path nqn @ ''/namespaces''; hosts_dir = subsystem_path nqn @ ''/allowed_hosts'';
         w1 = for_each_in ns_dir (\<lambda>name. ignore (nv_write (ns_dir @ ''/'' @ name @ ''/enable'') ''0'')) w;
         w2 = fold (\<lambda>p. ignore (nv_unlink (port_path_of (nvp_port_id p) @ ''/subsystems/'' @ nqn))) (sub_ports s) w1;
         w3 = for_each_in ns_dir (\<lambda>name. ignore (nv_rmdir (ns_dir @ ''/'' @ name))) w2;
         w4 = for_each_in hosts_dir (\<lambda>name. ignore (nv_unlink (hosts_dir @ ''/'' @ name))) w3;
         w5 = fold (\<lambda>p. drop_unused_port (nvp_port_id p)) (sub_ports s) w4
     in and_then (nv_rmdir (subsystem_path nqn)) (\<lambda>_. remove_subsystem i) w5)"

record create_subsystem_request =
  cs_name :: string
  cs_allow_any_host :: "bool option"
  cs_device_path :: "string option"
  cs_backing_volume :: "block_volume_id option"
  cs_addr :: "string option"
  cs_port :: "16 word option"
  cs_allowed_hosts :: "string list option"

fun check_hosts :: "string list \<Rightarrow> nvmeof_error + unit" where
  "check_hosts [] = Ok ()"
| "check_hosts (h # hs) = (case validate_host_nqn h of Err x \<Rightarrow> Err x | Ok _ \<Rightarrow> check_hosts hs)"

definition new_subsystem :: "nvmeof_env \<Rightarrow> create_subsystem_request \<Rightarrow> string \<Rightarrow> nvmeof_subsystem nvmeof_op" where
  "new_subsystem e req nqn =
     (let allow_any = (case cs_allow_any_host req of Some b \<Rightarrow> b | None \<Rightarrow> True);
          s = \<lparr>sub_id = ne_new_id e, sub_nqn = nqn, sub_namespaces = [], sub_ports = [], sub_allowed_hosts = [],
               sub_allow_any_host = allow_any, sub_enabled = True\<rparr>
      in and_then (nv_mkdir (subsystem_path nqn)) (\<lambda>_.
         and_then (nv_write (subsystem_path nqn @ ''/attr_allow_any_host'') (if allow_any then ''1'' else ''0'')) (\<lambda>_.
         and_then (save_subsystem s) (\<lambda>_ w. (Ok s, w)))))"

text \<open>The ports of a subsystem that is made with a device: one on the address asked for or the
  primary one, and unless an address was asked for, one on the primary IPv6 address, which may
  fail.\<close>

definition default_ports_for :: "nvmeof_env \<Rightarrow> create_subsystem_request \<Rightarrow> nvmeof_subsystem \<Rightarrow> nvmeof_subsystem nvmeof_op" where
  "default_ports_for e req s =
     (let svc_port = (case cs_port req of Some n \<Rightarrow> n | None \<Rightarrow> 4420) in
      and_then (add_port e (sub_id s) (Some ''tcp'') (Some (case cs_addr req of Some a \<Rightarrow> a | None \<Rightarrow> ''0.0.0.0''))
                 (Some svc_port) (Some ''ipv4'')) (\<lambda>s1 w.
        case (cs_addr req, detect_primary_ipv6 (ne_ip6_route e)) of
          (None, Some v6) \<Rightarrow>
            (case add_port e (sub_id s1) (Some ''tcp'') (Some v6) (Some svc_port) (Some ''ipv6'') w of
               (Ok s2, w1) \<Rightarrow> (Ok s2, w1)
             | (Err _, w1) \<Rightarrow> (Ok s1, w1))
        | _ \<Rightarrow> (Ok s1, w)))"

definition with_namespace :: "nvmeof_env \<Rightarrow> create_subsystem_request \<Rightarrow> nvmeof_subsystem \<Rightarrow> nvmeof_subsystem nvmeof_op" where
  "with_namespace e req s =
     (case cs_device_path req of
        None \<Rightarrow> (\<lambda>w. (Ok s, w))
      | Some device_path \<Rightarrow>
          and_then (if sub_namespaces s = [] then add_namespace e (sub_id s) device_path (cs_backing_volume req)
                    else (\<lambda>w. (Ok s, w))) (\<lambda>s1.
            if sub_ports s1 = [] then default_ports_for e req s1 else (\<lambda>w. (Ok s1, w))))"

fun add_hosts :: "nvmeof_subsystem \<Rightarrow> string list \<Rightarrow> nvmeof_subsystem nvmeof_op" where
  "add_hosts s [] w = (Ok s, w)"
| "add_hosts s (h # hs) w = and_then (add_host (sub_id s) h) (\<lambda>s1. add_hosts s1 hs) w"

definition nvmeof_create :: "nvmeof_env \<Rightarrow> create_subsystem_request \<Rightarrow> nvmeof_subsystem nvmeof_op" where
  "nvmeof_create e req =
     and_then (\<lambda>w. (validate_subsystem_name (cs_name req), w)) (\<lambda>_.
     and_then (\<lambda>w. (case cs_allowed_hosts req of None \<Rightarrow> Ok () | Some hs \<Rightarrow> check_hosts hs, w)) (\<lambda>_.
     and_then load_subsystems (\<lambda>subsystems.
     let nqn = DEFAULT_NQN_PREFIX @ '':'' @ cs_name req in
     case List.find (\<lambda>s. sub_nqn s = nqn) subsystems of
       Some existing \<Rightarrow> (\<lambda>w. (Ok existing, w))
     | None \<Rightarrow>
         and_then (new_subsystem e req nqn) (\<lambda>s.
         and_then (with_namespace e req s) (\<lambda>s1.
           case cs_allowed_hosts req of None \<Rightarrow> (\<lambda>w. (Ok s1, w)) | Some hs \<Rightarrow> add_hosts s1 hs)))))"

end
