(* ===== verification/Nvmeof_Behaviour.thy ===== *)
theory Nvmeof_Behaviour
  imports Nvmeof_Service
begin

text \<open>
  What the operations on NVMe-oF subsystems guarantee: after a verdict that it is safe, a restore
  that succeeds has every namespace on the device of its volume; and quiescing turns every
  namespace off.
\<close>

section \<open>Stored subsystems\<close>

text \<open>Every subsystem lies in the file of its id.\<close>

definition filed_entries :: "(string \<times> nvmeof_subsystem json_file) list \<Rightarrow> bool" where
  "filed_entries fs \<longleftrightarrow> distinct (map fst fs) \<and>
     (\<forall>(name, f) \<in> set fs. \<forall>s. is_json name \<longrightarrow> f = Parses s \<longrightarrow> name = item_file (sub_id s))"

abbreviation filed :: "nvmeof_subsystem dir_state \<Rightarrow> bool" where
  "filed d \<equiv> filed_entries (entries d)"

lemma filedD: "filed_entries fs \<Longrightarrow> (name, Parses s) \<in> set fs \<Longrightarrow> is_json name \<Longrightarrow> name = item_file (sub_id s)"
  by (auto simp: filed_entries_def)

lemma strict_filed:
  assumes "load_all_strict e path d = Ok ss" and "filed d"
  shows "s \<in> set ss \<Longrightarrow> is_json (item_file (sub_id s)) \<and> load d (sub_id s) = Some s"
    and "load d i = Some s \<Longrightarrow> is_json (item_file i) \<Longrightarrow> s \<in> set ss"
    and "distinct (map sub_id ss)"
proof -
  let ?fs = "filter (\<lambda>(name, f). is_json name) (entries d)"
  have parses: "map Parses ss = map snd ?fs"
  proof (cases d)
    case (Dir fs)
    with assms(1) have "strict_items path (readable_entries e fs) = Ok ss" "de_entry e = None"
      by (auto simp: load_all_strict_def readable_entries_def split: option.splits sum.splits)
    then show ?thesis using strict_items_ok [of path fs ss] Dir by (simp add: readable_entries_def)
  qed (use assms(1) in \<open>simp add: load_all_strict_def\<close>)
  have distinct: "distinct (map fst (entries d))" using assms(2) by (simp add: filed_entries_def)
  show "is_json (item_file (sub_id s)) \<and> load d (sub_id s) = Some s" if "s \<in> set ss"
  proof -
    have "Parses s \<in> set (map Parses ss)" using that by simp
    then obtain name where name: "(name, Parses s) \<in> set (entries d)" "is_json name" unfolding parses by auto
    then have "name = item_file (sub_id s)" using filedD [OF assms(2)] by blast
    then show ?thesis using name map_of_is_SomeI [OF distinct name(1)] by (simp add: load_def file_at_def get_or_def)
  qed
  show "s \<in> set ss" if l: "load d i = Some s" and j: "is_json (item_file i)"
  proof -
    have "map_of (entries d) (item_file i) = Some (Parses s)"
      using l by (auto simp: load_def file_at_def get_or_def split: option.splits elim: parsed.elims)
    then have "Parses s \<in> set (map snd ?fs)" using j by (force dest: map_of_SomeD)
    then show ?thesis unfolding parses [symmetric] by auto
  qed
  have "map (\<lambda>s. item_file (sub_id s)) ss = map fst ?fs"
  proof (rule nth_equalityI)
    show "length (map (\<lambda>s. item_file (sub_id s)) ss) = length (map fst ?fs)" using arg_cong [OF parses, of length] by simp
    fix k assume "k < length (map (\<lambda>s. item_file (sub_id s)) ss)"
    then have k: "k < length ss" "k < length ?fs" using arg_cong [OF parses, of length] by simp_all
    then have "snd (?fs ! k) = Parses (ss ! k)" using arg_cong [OF parses, of "\<lambda>xs. xs ! k"] by simp
    moreover have "?fs ! k \<in> set ?fs" using k(2) by (rule nth_mem)
    ultimately have "fst (?fs ! k) = item_file (sub_id (ss ! k))"
      using filedD [OF assms(2), of "fst (?fs ! k)" "ss ! k"] by (cases "?fs ! k") auto
    then show "map (\<lambda>s. item_file (sub_id s)) ss ! k = map fst ?fs ! k" using k by simp
  qed
  moreover have "distinct (map fst ?fs)" using distinct by (rule distinct_map_filter)
  ultimately have "distinct (map (\<lambda>s. item_file (sub_id s)) ss)" by simp
  then show "distinct (map sub_id ss)" by (auto simp: distinct_map inj_on_def)
qed

lemma in_update: "x \<in> set (AList.update k v al) \<Longrightarrow> x = (k, v) \<or> x \<in> set al"
  by (induction al) (auto split: if_splits)

lemma tmp_not_json: "\<not> is_json (tmp_file i)"
  by (simp add: is_json_def extension_def tmp_file_def)

lemma filed_save:
  assumes "filed d"
  shows "filed (snd (save e (sub_id s) s d))"
proof -
  have u: "filed_entries (AList.update (item_file (sub_id s)) (Parses s) fs)" "filed_entries (AList.update (tmp_file i) (Parses s) fs)"
    if "filed_entries fs" for fs i
    using that by (auto simp: filed_entries_def AList.distinct_update tmp_not_json dest!: in_update)
  have "filed_entries (AList.delete k (entries d))" for k
    using assms AList.distinct_delete [of "entries d" k] by (auto simp: filed_entries_def AList.delete_eq)
  with u assms show ?thesis by (auto simp: save_def Let_def split: option.splits)
qed

lemma nv_dir_env_frame [simp]:
  "nw_dir (snd (nv_dir_env w)) = nw_dir w" "nw_cfs (snd (nv_dir_env w)) = nw_cfs w"
  by (simp_all add: nv_dir_env_def split: list.split)

lemma save_subsystem_cases [case_names ok err]:
  obtains w' where "save_subsystem s w = (Ok (), w')" "nw_cfs w' = nw_cfs w" "filed (nw_dir w) \<longrightarrow> filed (nw_dir w')"
      "load (nw_dir w') = (load (nw_dir w))(sub_id s \<mapsto> s)"
  | x w' where "save_subsystem s w = (Err (Nvmeof_Io x), w')" "nw_cfs w' = nw_cfs w" "filed (nw_dir w) \<longrightarrow> filed (nw_dir w')"
      "load (nw_dir w') = load (nw_dir w)"
proof -
  obtain e w1 where e: "nv_dir_env w = (e, w1)" by fastforce
  then have w1: "nw_dir w1 = nw_dir w" "nw_cfs w1 = nw_cfs w" using nv_dir_env_frame [of w] by simp_all
  obtain r d where s: "save e (sub_id s) s (nw_dir w1) = (r, d)" by fastforce
  then have f: "filed (nw_dir w) \<longrightarrow> filed d" using filed_save [of "nw_dir w1" e s] w1 by simp
  show ?thesis
  proof (cases r)
    case (Inl x)
    then show ?thesis using that(2) [of x "w1\<lparr>nw_dir := d\<rparr>"] e s w1 f sd.put_err [of e "sub_id s" s "nw_dir w1" x d]
      by (auto simp: save_subsystem_def fun_eq_iff)
  next
    case (Inr u)
    then show ?thesis using that(1) [of "w1\<lparr>nw_dir := d\<rparr>"] e s w1 f sd.lookup_put [of e "sub_id s" s "nw_dir w1" d]
      by (auto simp: save_subsystem_def fun_eq_iff)
  qed
qed

lemma load_subsystems_ok:
  assumes "load_subsystems w = (Ok ss, w')"
  shows "\<exists>e. load_all_strict e NVMEOF_STATE_DIR (nw_dir w) = Ok ss" "nw_dir w' = nw_dir w" "nw_cfs w' = nw_cfs w"
proof -
  obtain e w1 where e: "nv_dir_env w = (e, w1)" by fastforce
  then have "w' = w1" and "load_all_strict e NVMEOF_STATE_DIR (nw_dir w) = Ok ss"
    using assms nv_dir_env_frame [of w] by (auto simp: load_subsystems_def split: sum.splits)
  then show "\<exists>e. load_all_strict e NVMEOF_STATE_DIR (nw_dir w) = Ok ss" "nw_dir w' = nw_dir w" "nw_cfs w' = nw_cfs w"
    using e nv_dir_env_frame [of w] by auto
qed

section \<open>The verdict\<close>

lemma nv_remap_loop_safe:
  assumes "nv_remap_loop m ss safe any w = ((True, any'), w')"
  shows "safe \<and> nw_cfs w' = nw_cfs w \<and> (filed (nw_dir w) \<longrightarrow> filed (nw_dir w'))
    \<and> (\<forall>s \<in> set ss. snd (snd (remap_subsystem m s)))
    \<and> (\<forall>i. i \<notin> sub_id ` set ss \<longrightarrow> load (nw_dir w') i = load (nw_dir w) i)
    \<and> (distinct (map sub_id ss) \<longrightarrow> (\<forall>s \<in> set ss. load (nw_dir w) (sub_id s) = Some s) \<longrightarrow>
         (\<forall>s \<in> set ss. load (nw_dir w') (sub_id s) = Some (remapped_sub m s)))"
  using assms
proof (induction ss arbitrary: safe any w)
  case (Cons s ss)
  obtain s1 c ok where s1: "remap_subsystem m s = (s1, c, ok)" by (cases "remap_subsystem m s")
  obtain saved w1 where w1: "(if c then save_subsystem s1 w else (Ok (), w)) = (saved, w1)" by fastforce
  have rest: "nv_remap_loop m ss (safe \<and> ok \<and> is_ok saved) (any \<or> c) w1 = ((True, any'), w')"
    using Cons.prems s1 w1 by simp
  note IH = Cons.IH [OF rest]
  have id: "sub_id s1 = sub_id s" using s1 remapped_sub_frame(1) [of m s] by simp
  have "is_ok saved" using IH by blast
  then have step: "nw_cfs w1 = nw_cfs w \<and> (filed (nw_dir w) \<longrightarrow> filed (nw_dir w1))
    \<and> (\<forall>i. i \<noteq> sub_id s \<longrightarrow> load (nw_dir w1) i = load (nw_dir w) i)
    \<and> (load (nw_dir w) (sub_id s) = Some s \<longrightarrow> load (nw_dir w1) (sub_id s) = Some s1)"
  proof (cases c)
    case True
    then show ?thesis using w1 id \<open>is_ok saved\<close> by (cases rule: save_subsystem_cases [where s = s1 and w = w]) auto
  next
    case False
    then show ?thesis using w1 remap_subsystem_changed [OF s1] by simp
  qed
  have "load (nw_dir w') (sub_id u) = Some (remapped_sub m u)"
    if d: "distinct (map sub_id (s # ss))" and l: "\<forall>u \<in> set (s # ss). load (nw_dir w) (sub_id u) = Some u" and u: "u \<in> set (s # ss)" for u
  proof (cases "u = s")
    case True
    then show ?thesis using d l step IH s1 by auto
  next
    case False
    have "\<forall>u \<in> set ss. load (nw_dir w1) (sub_id u) = Some u" using d l step by (metis distinct.simps(2) image_eqI list.map(2) list.set_intros(2) list.set_map)
    then show ?thesis using False u d IH by simp
  qed
  moreover have "load (nw_dir w') i = load (nw_dir w) i" if "i \<notin> sub_id ` set (s # ss)" for i
    using that step IH by simp
  ultimately show ?case using IH step s1 by simp
qed simp

text \<open>What passes the inventory: every subsystem of ours the kernel has is stored, and so is every
  namespace it has there.\<close>

definition inventoried :: "nvmeof_subsystem list \<Rightarrow> cfs \<Rightarrow> bool" where
  "inventoried ss c \<longleftrightarrow> (\<forall>nqn \<in> set (children (NVMET_BASE @ ''/subsystems'') c). starts_with nqn DEFAULT_NQN_PREFIX \<longrightarrow>
     (\<exists>s \<in> set ss. sub_nqn s = nqn \<and>
        (\<forall>name \<in> set (children (subsystem_path nqn @ ''/namespaces'') c). \<exists>n \<in> set (sub_namespaces s). parse_u32 name = Some (ns_nsid n))))"

text \<open>Calls that look, or turn attributes off: the tree stays, and what was off stays off.\<close>

definition passes :: "nvmeof_world \<Rightarrow> nvmeof_world \<Rightarrow> bool" where
  "passes w w' \<longleftrightarrow> nw_dir w' = nw_dir w \<and> cf_nodes (nw_cfs w') = cf_nodes (nw_cfs w)
     \<and> set (cf_faults (nw_cfs w')) \<subseteq> set (cf_faults (nw_cfs w))
     \<and> (\<forall>p. attr (nw_cfs w') p = attr (nw_cfs w) p \<or> attr (nw_cfs w') p = ''0'')"

lemma passes_refl [simp]: "passes w w"
  by (simp add: passes_def)

lemma passes_trans [trans]: "passes u v \<Longrightarrow> passes v w \<Longrightarrow> passes u w"
  unfolding passes_def by (metis subset_trans)

lemma passes_children: "passes w w' \<Longrightarrow> children p (nw_cfs w') = children p (nw_cfs w)"
  by (simp add: passes_def children_def)

definition passing :: "(nvmeof_world \<Rightarrow> 'a \<times> nvmeof_world) \<Rightarrow> bool" where
  "passing f \<longleftrightarrow> (\<forall>w. passes w (snd (f w)))"

lemma passingD: "passing f \<Longrightarrow> f w = (r, w') \<Longrightarrow> passes w w'"
  by (metis passing_def snd_conv)

lemma draw_passes:
  assumes "draw (nw_cfs w) = (r, c)"
  shows "passes w (w\<lparr>nw_cfs := c\<rparr>)" "r = Some x \<Longrightarrow> Some x \<in> set (cf_faults (nw_cfs w))"
  using assms by (auto simp: passes_def draw_def attr_def split: list.splits)

lemma nv_next_entry_passes [simp]: "passing nv_next_entry"
  unfolding passing_def
proof
  fix w
  show "passes w (snd (nv_next_entry w))"
  proof (cases "draw (nw_cfs w)")
    case (Pair r c)
    then show ?thesis using draw_passes(1) [OF Pair]
      by (cases r) (simp_all add: nv_next_entry_def nv_call_def attempt_def)
  qed
qed

lemma nv_read_dir_cases [case_names ok err]:
  obtains w' where "nv_read_dir p w = (Ok (children p (nw_cfs w)), w')" "passes w w'"
  | x w' where "nv_read_dir p w = (Err (Nvmeof_Io x), w')" "passes w w'" "Some x \<in> set (cf_faults (nw_cfs w))"
proof (cases "draw (nw_cfs w)")
  case (Pair r c)
  note c = draw_passes(1) [OF Pair]
  show ?thesis
  proof (cases r)
    case None
    then show ?thesis using that(1) [of "w\<lparr>nw_cfs := c\<rparr>"] Pair c passes_children [OF c]
      by (simp add: nv_read_dir_def nv_call_def read_dir_def)
  next
    case (Some x)
    then show ?thesis using that(2) [of x "w\<lparr>nw_cfs := c\<rparr>"] Pair Some c draw_passes(2) [OF Pair]
      by (simp add: nv_read_dir_def nv_call_def read_dir_def)
  qed
qed

lemma for_entries_Cons_cases [consumes 1, case_names entry body rest]:
  assumes "for_entries body (x # xs) w = (r, w')"
  obtains e where "nv_next_entry w = (Err e, w')" "r = Err e"
  | e w1 where "nv_next_entry w = (Ok (), w1)" "body x w1 = (Err e, w')" "r = Err e"
  | w1 w2 where "nv_next_entry w = (Ok (), w1)" "body x w1 = (Ok (), w2)" "for_entries body xs w2 = (r, w')"
  using assms that by (auto simp: and_then_def split: prod.splits sum.splits)

lemma for_entries_passes:
  assumes "\<And>x. passing (body x)" and "for_entries body xs w = (r, w')"
  shows "passes w w'"
  using assms(2)
proof (induction xs arbitrary: w)
  case Nil
  then show ?case using passingD [OF nv_next_entry_passes] by simp
next
  case (Cons x xs)
  note next_passes = passingD [OF nv_next_entry_passes] and body_passes = passingD [OF assms(1)]
  from Cons.prems show ?case
  proof (cases rule: for_entries_Cons_cases)
    case (entry e)
    then show ?thesis using next_passes by blast
  next
    case (body e w1)
    then show ?thesis using next_passes body_passes passes_trans by blast
  next
    case (rest w1 w2)
    then show ?thesis using next_passes body_passes Cons.IH [OF rest(3)] passes_trans by meson
  qed
qed

lemma for_entries_passing: "(\<And>x. passing (body x)) \<Longrightarrow> passing (for_entries body xs)"
  unfolding passing_def [of "for_entries body xs"] by (metis for_entries_passes prod.collapse)

lemma for_entries_all:
  assumes "\<And>x. passing (body x)" and "for_entries body xs w = (Ok (), w')" and "x \<in> set xs"
  shows "\<exists>v v'. passes w v \<and> body x v = (Ok (), v') \<and> passes v' w'"
  using assms(2,3)
proof (induction xs arbitrary: w)
  case (Cons y ys)
  from Cons.prems(1) show ?case
  proof (cases rule: for_entries_Cons_cases)
    case (rest w1 w2)
    have s: "passes w w1" "passes w1 w2"
      using passingD [OF nv_next_entry_passes rest(1)] passingD [OF assms(1) rest(2)] by simp_all
    show ?thesis
    proof (cases "x = y")
      case True
      then show ?thesis using rest(2) s(1) for_entries_passes [OF assms(1) rest(3)] by blast
    next
      case False
      then show ?thesis using Cons.IH [OF rest(3)] Cons.prems(2) passes_trans [OF s] by (auto intro: passes_trans)
    qed
  qed simp_all
qed simp

text \<open>Unless the kernel denies that a directory is there.\<close>

abbreviation sees_dirs :: "nvmeof_world \<Rightarrow> bool" where
  "sees_dirs w \<equiv> Some ENOENT \<notin> set (cf_faults (nw_cfs w))"

lemma honest_later: "passes w w' \<Longrightarrow> sees_dirs w \<Longrightarrow> sees_dirs w'"
  by (auto simp: passes_def)

lemma each_in_passing: "(\<And>x. passing (body x)) \<Longrightarrow> passing (each_in path body)"
  unfolding passing_def [of "each_in path body"]
proof
  fix w assume body: "\<And>x. passing (body x)"
  show "passes w (snd (each_in path body w))"
  proof (cases rule: nv_read_dir_cases [where p = path and w = w])
    case (ok w1)
    then show ?thesis using for_entries_passing [OF body] passes_trans by (auto simp: each_in_def passing_def)
  next
    case (err x w1)
    then show ?thesis by (simp add: each_in_def)
  qed
qed

lemma each_in_all:
  assumes "\<And>x. passing (body x)" and "each_in path body w = (Ok (), w')" and "sees_dirs w" and "x \<in> set (children path (nw_cfs w))"
  shows "\<exists>v v'. passes w v \<and> body x v = (Ok (), v') \<and> passes v' w'"
proof (cases rule: nv_read_dir_cases [where p = path and w = w])
  case (ok w1)
  then have "for_entries body (children path (nw_cfs w)) w1 = (Ok (), w')" using assms(2) by (simp add: each_in_def)
  from for_entries_all [OF assms(1) this assms(4)] ok(2) show ?thesis by (auto intro: passes_trans)
next
  case (err y w1)
  then show ?thesis using assms(2,3) by (auto simp: each_in_def split: if_splits)
qed

section \<open>Quiescing\<close>

lemma write_off_passes: "passing (nv_call (write_attr p ''0'') msg)"
  unfolding passing_def
proof
  fix w
  show "passes w (snd (nv_call (write_attr p ''0'') msg w))"
  proof (cases "draw (nw_cfs w)")
    case (Pair r c)
    then show ?thesis using draw_passes(1) [OF Pair]
      by (cases r) (auto simp: nv_call_def write_attr_def cf_write_def attempt_def passes_def attr_def)
  qed
qed

lemma disable_passing [simp]: "passing (disable_entry d name)"
  unfolding disable_entry_def Let_def by (rule write_off_passes)

lemma disable_done: "disable_entry d name w = (Ok (), w') \<Longrightarrow> attr (nw_cfs w') (d @ ''/'' @ name @ ''/enable'') = ''0''"
  by (auto simp: disable_entry_def nv_call_def write_attr_def cf_write_def attempt_def attr_def split: if_splits prod.splits option.splits)

lemma quiesce_subsystem_passing [simp]: "passing (quiesce_subsystem nqn)"
  using each_in_passing [OF disable_passing, of "subsystem_path nqn @ ''/namespaces''"]
  by (simp add: passing_def quiesce_subsystem_def Let_def)

lemma off_stays: "passes w w' \<Longrightarrow> attr (nw_cfs w) p = ''0'' \<Longrightarrow> attr (nw_cfs w') p = ''0''"
  unfolding passes_def by metis

lemma in_children:
  assumes "map_of (cf_nodes c) (path @ CHR ''/'' # name) \<noteq> None" and "CHR ''/'' \<notin> set name"
  shows "name \<in> set (children path c)"
proof -
  let ?p = "path @ CHR ''/'' # name"
  have "?p \<in> set (filter (below path) (map fst (cf_nodes c)))"
    using assms(1) by (simp add: map_of_eq_None_iff below_def starts_with_iff)
  from imageI [OF this, of "drop (length path + 1)"] show ?thesis using assms(2) by (simp add: children_def)
qed

text \<open>
  (C10) Quiescing stops every export: when it reports success, and the kernel did not deny a
  directory it has, every namespace of every subsystem that carries our prefix is switched off,
  whether it is stored or not; and neither the store nor the kernel's directories have changed.
\<close>

theorem quiesce_turns_everything_off:
  assumes "nvmeof_quiesce w = (Ok (), w')" and "sees_dirs w"
  shows "(\<forall>nqn name. starts_with nqn DEFAULT_NQN_PREFIX \<longrightarrow> CHR ''/'' \<notin> set nqn \<longrightarrow> CHR ''/'' \<notin> set name \<longrightarrow>
      map_of (cf_nodes (nw_cfs w)) (subsystem_path nqn) \<noteq> None \<longrightarrow>
      map_of (cf_nodes (nw_cfs w)) (subsystem_path nqn @ ''/namespaces/'' @ name) \<noteq> None \<longrightarrow>
      attr (nw_cfs w') (subsystem_path nqn @ ''/namespaces/'' @ name @ ''/enable'') = ''0'')
    \<and> nw_dir w' = nw_dir w \<and> cf_nodes (nw_cfs w') = cf_nodes (nw_cfs w)"
proof -
  have "attr (nw_cfs w') (subsystem_path nqn @ ''/namespaces/'' @ name @ ''/enable'') = ''0''"
    if n: "starts_with nqn DEFAULT_NQN_PREFIX" "CHR ''/'' \<notin> set nqn" "CHR ''/'' \<notin> set name"
      and has: "map_of (cf_nodes (nw_cfs w)) (subsystem_path nqn) \<noteq> None"
        "map_of (cf_nodes (nw_cfs w)) (subsystem_path nqn @ ''/namespaces/'' @ name) \<noteq> None" for nqn name
  proof -
    let ?d = "subsystem_path nqn @ ''/namespaces''"
    have "nqn \<in> set (children (NVMET_BASE @ ''/subsystems'') (nw_cfs w))"
      using has(1) n(2) by (intro in_children) (simp_all add: subsystem_path_def)
    from each_in_all [OF quiesce_subsystem_passing assms(1) [unfolded nvmeof_quiesce_def] assms(2) this]
    obtain v v' where v: "passes w v" "quiesce_subsystem nqn v = (Ok (), v')" "passes v' w'" by blast
    then have inner: "each_in ?d (disable_entry ?d) v = (Ok (), v')" using n(1) by (simp add: quiesce_subsystem_def Let_def)
    have "name \<in> set (children ?d (nw_cfs v))"
      using has(2) n(3) passes_children [OF v(1)] by (simp add: in_children)
    from each_in_all [OF disable_passing inner honest_later [OF v(1) assms(2)] this]
    obtain u u' where "disable_entry ?d name u = (Ok (), u')" "passes u' v'" by blast
    then show ?thesis using disable_done off_stays v(3) by fastforce
  qed
  moreover have "passes w w'"
    using passingD [OF each_in_passing [OF quiesce_subsystem_passing] assms(1) [unfolded nvmeof_quiesce_def]] .
  ultimately show ?thesis by (simp add: passes_def)
qed

section \<open>The inventory\<close>

lemma expected_namespace_passing [simp]: "passing (expected_namespace nqn ns x)"
  by (simp add: passing_def expected_namespace_def split: option.split)

lemma expected_subsystem_passing [simp]: "passing (expected_subsystem ss nqn)"
  using each_in_passing [OF expected_namespace_passing]
  by (simp add: passing_def expected_subsystem_def split: option.split)

lemma inventory_ok:
  assumes "validate_managed_configfs_inventory ss w = (Ok (), w')" and "sees_dirs w"
  shows "inventoried ss (nw_cfs w')"
proof -
  have p: "passes w w'"
    using passingD [OF each_in_passing [OF expected_subsystem_passing] assms(1) [unfolded validate_managed_configfs_inventory_def]] .
  have "\<exists>s \<in> set ss. sub_nqn s = nqn \<and> (\<forall>name \<in> set (children (subsystem_path nqn @ ''/namespaces'') (nw_cfs w)).
      \<exists>n \<in> set (sub_namespaces s). parse_u32 name = Some (ns_nsid n))"
    if nqn: "nqn \<in> set (children (NVMET_BASE @ ''/subsystems'') (nw_cfs w))" "starts_with nqn DEFAULT_NQN_PREFIX" for nqn
  proof -
    from each_in_all [OF expected_subsystem_passing assms(1) [unfolded validate_managed_configfs_inventory_def] assms(2) nqn(1)]
    obtain v v' where v: "passes w v" "expected_subsystem ss nqn v = (Ok (), v')" by blast
    then obtain ns where ns: "map_of (rev (map (\<lambda>s. (sub_nqn s, sub_namespaces s)) ss)) nqn = Some ns"
      "each_in (subsystem_path nqn @ ''/namespaces'') (expected_namespace nqn ns) v = (Ok (), v')"
      using nqn(2) by (auto simp: expected_subsystem_def split: option.splits)
    from map_of_SomeD [OF ns(1)] obtain s where s: "s \<in> set ss" "sub_nqn s = nqn" "sub_namespaces s = ns" by auto
    have "\<exists>n \<in> set ns. parse_u32 name = Some (ns_nsid n)"
      if "name \<in> set (children (subsystem_path nqn @ ''/namespaces'') (nw_cfs w))" for name
    proof -
      have "name \<in> set (children (subsystem_path nqn @ ''/namespaces'') (nw_cfs v))" using that passes_children [OF v(1)] by simp
      from each_in_all [OF expected_namespace_passing ns(2) honest_later [OF v(1) assms(2)] this]
      obtain u u' where "expected_namespace nqn ns name u = (Ok (), u')" by blast
      then show ?thesis by (auto simp: expected_namespace_def split: option.splits if_splits)
    qed
    then show ?thesis using s by blast
  qed
  then show ?thesis unfolding inventoried_def passes_children [OF p] by blast
qed

section \<open>Restoring\<close>

text \<open>Calls that write no attributes but those of a set, and nothing to the store.\<close>

definition touches :: "string set \<Rightarrow> (nvmeof_world \<Rightarrow> 'a \<times> nvmeof_world) \<Rightarrow> bool" where
  "touches S f \<longleftrightarrow> (\<forall>w. nw_dir (snd (f w)) = nw_dir w \<and> (\<forall>p. p \<notin> S \<longrightarrow> attr (nw_cfs (snd (f w))) p = attr (nw_cfs w) p))"

lemma touchesD: "touches S f \<Longrightarrow> f w = (r, w') \<Longrightarrow> p \<notin> S \<Longrightarrow> attr (nw_cfs w') p = attr (nw_cfs w) p"
  by (metis touches_def snd_conv)

lemma touches_dir: "touches S f \<Longrightarrow> f w = (r, w') \<Longrightarrow> nw_dir w' = nw_dir w"
  by (metis touches_def snd_conv)

lemma touches_mono: "touches S f \<Longrightarrow> S \<subseteq> T \<Longrightarrow> touches T f"
  by (auto simp: touches_def)

lemma touchesI:
  assumes "\<And>w r w'. f w = (r, w') \<Longrightarrow> nw_dir w' = nw_dir w \<and> (\<forall>p. p \<notin> S \<longrightarrow> attr (nw_cfs w') p = attr (nw_cfs w) p)"
  shows "touches S f"
  unfolding touches_def using assms by (metis prod.collapse)

lemma touches_and_then [intro]:
  assumes "touches S f" and "\<And>a. touches S (g a)"
  shows "touches S (and_then f g)"
proof (rule touchesI)
  fix w r w'
  assume run: "and_then f g w = (r, w')"
  obtain x w1 where x: "f w = (x, w1)" by fastforce
  show "nw_dir w' = nw_dir w \<and> (\<forall>p. p \<notin> S \<longrightarrow> attr (nw_cfs w') p = attr (nw_cfs w) p)"
  proof (cases x)
    case (Inl e)
    then show ?thesis using run x touches_dir [OF assms(1) x] touchesD [OF assms(1) x] by (simp add: and_then_def)
  next
    case (Inr a)
    then have "g a w1 = (r, w')" using run x by (simp add: and_then_def)
    then show ?thesis using touches_dir [OF assms(1) x] touchesD [OF assms(1) x] touches_dir [OF assms(2)] touchesD [OF assms(2)] by metis
  qed
qed

lemma touches_call:
  assumes "\<And>c. cf_attrs (snd (f c)) = cf_attrs c \<and> cf_kernel (snd (f c)) = cf_kernel c"
  shows "touches S (nv_call f msg)"
  using assms by (auto simp: touches_def nv_call_def attr_def split: prod.splits sum.splits) (metis snd_conv)+

lemma attempt_attrs:
  "(\<And>c. cf_attrs (f c) = cf_attrs c \<and> cf_kernel (f c) = cf_kernel c) \<Longrightarrow>
   cf_attrs (snd (attempt f c)) = cf_attrs c \<and> cf_kernel (snd (attempt f c)) = cf_kernel c"
  by (auto simp: attempt_def draw_def split: list.splits option.splits)

lemma make_groups_attrs: "cf_attrs (snd (make_groups ps c)) = cf_attrs c \<and> cf_kernel (snd (make_groups ps c)) = cf_kernel c"
proof (induction ps arbitrary: c)
  case (Cons p ps)
  obtain r c1 where a: "attempt (make_node p Group) c = (r, c1)" by fastforce
  then have "cf_attrs c1 = cf_attrs c \<and> cf_kernel c1 = cf_kernel c"
    using attempt_attrs [of "make_node p Group" c] by (simp add: make_node_def)
  then show ?case using Cons.IH [of c] Cons.IH [of c1] a by (cases r) auto
qed simp

lemma nv_mkdir_touches [simp]: "touches S (nv_mkdir p)"
  unfolding nv_mkdir_def
proof (rule touches_call)
  fix c
  obtain r c1 where g: "make_groups (ancestors [] p) c = (r, c1)" by fastforce
  then show "cf_attrs (snd (create_dir_all p c)) = cf_attrs c \<and> cf_kernel (snd (create_dir_all p c)) = cf_kernel c"
    using make_groups_attrs [of "ancestors [] p" c] attempt_attrs [of "make_node p Folder" c1]
    by (cases r) (simp_all add: create_dir_all_def make_node_def)
qed

lemma nv_symlink_touches [simp]: "touches S (nv_symlink t l)"
  unfolding nv_symlink_def
  by (rule touches_call) (use attempt_attrs [of "make_node l (Link t)"] in \<open>simp add: make_link_def cf_symlink_def make_node_def\<close>)

lemma nv_write_touches: "p \<in> S \<Longrightarrow> touches S (nv_write p v)"
  by (auto simp: touches_def nv_write_def nv_call_def write_attr_def cf_write_def attempt_def draw_def attr_def
      split: prod.splits sum.splits list.splits option.splits)

lemma drawing_touches:
  assumes "\<And>c. snd (f c) = snd (draw c) \<or> snd (f c) = c"
  shows "touches S (nv_call f msg)"
  by (rule touches_call) (metis assms draw_frame(2,3))

lemma nv_ensure_dir_touches [simp]: "touches S (nv_ensure_dir p)"
proof (rule touchesI)
  fix w r w' assume run: "nv_ensure_dir p w = (r, w')"
  obtain x c where x: "stat_is_dir p (nw_cfs w) = (x, c)" by fastforce
  then have "c = snd (draw (nw_cfs w))" by (auto simp: stat_is_dir_def split: prod.splits option.splits if_splits)
  then have c: "attr c = attr (nw_cfs w)" by simp
  show "nw_dir w' = nw_dir w \<and> (\<forall>p. p \<notin> S \<longrightarrow> attr (nw_cfs w') p = attr (nw_cfs w) p)"
  proof (cases "x = Err ENOENT")
    case True
    then have "nv_mkdir p (w\<lparr>nw_cfs := c\<rparr>) = (r, w')" using run x by (simp add: nv_ensure_dir_def)
    then show ?thesis using touches_dir [OF nv_mkdir_touches] touchesD [OF nv_mkdir_touches] c by fastforce
  next
    case False
    then have "w' = w\<lparr>nw_cfs := c\<rparr>" using run x by (cases x) (auto simp: nv_ensure_dir_def split: bool.splits)
    then show ?thesis using c by simp
  qed
qed

lemma read_link_draw: "snd (read_link txt l c) = snd (draw c)" and canonicalize_draw: "snd (canonicalize q c) = snd (draw c)"
  by (simp_all add: read_link_def canonicalize_def split: prod.splits option.splits node.splits)

lemma nv_ensure_symlink_touches [simp]: "touches S (nv_ensure_symlink e t l)"
proof (rule touchesI)
  fix w r w' assume run: "nv_ensure_symlink e t l w = (r, w')"
  obtain x c where x: "read_link (ne_link_text e) l (nw_cfs w) = (x, c)" by fastforce
  obtain y c1 where y: "canonicalize l c = (y, c1)" by fastforce
  obtain z c2 where z: "canonicalize t c1 = (z, c2)" by fastforce
  have c: "attr c = attr (nw_cfs w)" "attr c2 = attr (nw_cfs w)"
    using x y z read_link_draw [of "ne_link_text e" l "nw_cfs w"] canonicalize_draw [of l c] canonicalize_draw [of t c1]
    by (metis draw_attr snd_conv)+
  show "nw_dir w' = nw_dir w \<and> (\<forall>p. p \<notin> S \<longrightarrow> attr (nw_cfs w') p = attr (nw_cfs w) p)"
  proof (cases "x = Err ENOENT")
    case True
    then have "nv_symlink t l (w\<lparr>nw_cfs := c\<rparr>) = (r, w')" using run x by (simp add: nv_ensure_symlink_def)
    then show ?thesis using touches_dir [OF nv_symlink_touches] touchesD [OF nv_symlink_touches] c by fastforce
  next
    case False
    then have "w' = w\<lparr>nw_cfs := c\<rparr> \<or> w' = w\<lparr>nw_cfs := c2\<rparr>"
      using run x y z by (cases x) (auto simp: nv_ensure_symlink_def split: if_splits)
    then show ?thesis using c by auto
  qed
qed

lemma nv_next_entry_touches [simp]: "touches S nv_next_entry"
  unfolding nv_next_entry_def by (rule touches_call) (rule attempt_attrs, simp)

lemma nv_read_dir_touches [simp]: "touches S (nv_read_dir p)"
  unfolding nv_read_dir_def by (rule drawing_touches) (simp add: read_dir_def split: prod.splits option.splits)

lemma read_trimmed_touches [simp]: "touches S (read_trimmed p)"
proof -
  have "touches S (nv_call (read_attr p) Nvmeof_Io)"
    by (rule drawing_touches) (simp add: read_attr_def cf_read_def split: prod.splits option.splits)
  then show ?thesis unfolding touches_def read_trimmed_def by (auto split: prod.splits sum.splits) (metis snd_conv)+
qed

lemma touches_case [intro]:
  assumes "touches S f" and "\<And>a. touches S (g a)"
  shows "touches S (\<lambda>w. case f w of (a, w1) \<Rightarrow> g a w1)"
proof (rule touchesI)
  fix w r w'
  assume "(case f w of (a, w1) \<Rightarrow> g a w1) = (r, w')"
  then obtain a w1 where a: "f w = (a, w1)" "g a w1 = (r, w')" by (cases "f w") auto
  show "nw_dir w' = nw_dir w \<and> (\<forall>p. p \<notin> S \<longrightarrow> attr (nw_cfs w') p = attr (nw_cfs w) p)"
    using touches_dir [OF assms(1) a(1)] touchesD [OF assms(1) a(1)] touches_dir [OF assms(2) a(2)] touchesD [OF assms(2) a(2)] by simp
qed

lemma touches_return [simp]: "touches S (\<lambda>w. (r, w))" "touches S (Pair r)"
  by (simp_all add: touches_def)

lemma touches_list_case: "touches S f \<Longrightarrow> (\<And>x xs. touches S (g x xs)) \<Longrightarrow> touches S (case l of [] \<Rightarrow> f | x # xs \<Rightarrow> g x xs)"
  by (cases l) simp_all

lemma port_matches_touches [simp]: "touches S (port_matches tr a sv f base)"
  unfolding port_matches_def by (intro touches_case) simp_all

lemma find_port_touches [simp]: "touches S (find_port tr a sv f xs)"
proof (induction xs)
  case Nil
  have "find_port tr a sv f [] = (\<lambda>w. case nv_next_entry w of (_, w1) \<Rightarrow> (None, w1))" by (auto simp: ignore_def split: prod.split)
  then show ?case by (auto intro!: touches_case)
next
  case (Cons x xs)
  let ?m = "\<lambda>i. (\<lambda>w. case port_matches tr a sv f (port_path_of i) w of (b, w2) \<Rightarrow> (if b then Pair (Some i) else find_port tr a sv f xs) w2)"
  have "find_port tr a sv f (x # xs) = (\<lambda>w. case nv_next_entry w of (r, w1) \<Rightarrow>
      (case r of Err _ \<Rightarrow> Pair None | Ok _ \<Rightarrow> (case parse_u16 x of None \<Rightarrow> find_port tr a sv f xs | Some i \<Rightarrow> ?m i)) w1)"
    by (auto split: prod.split sum.split option.split)
  moreover have "touches S (?m i)" for i using Cons by (auto intro!: touches_case)
  ultimately show ?case using Cons by (auto intro!: touches_case split: sum.split option.split)
qed

lemma find_existing_port_touches [simp]: "touches S (find_existing_port tr a sv f)"
proof -
  have "find_existing_port tr a sv f = (\<lambda>w. case nv_read_dir ports_dir w of (r, w1) \<Rightarrow>
      (case r of Err _ \<Rightarrow> Pair None | Ok names \<Rightarrow> find_port tr a (show_u16 sv) f names) w1)"
    by (auto simp: find_existing_port_def split: prod.split sum.split)
  then show ?thesis by (auto intro!: touches_case split: sum.split)
qed

lemma reporting_touches: "touches S f \<Longrightarrow> touches S (reporting what f)"
proof -
  assume "touches S f"
  moreover have "reporting what f = (\<lambda>w. case f w of (r, w1) \<Rightarrow>
      (case r of Ok _ \<Rightarrow> Pair [] | Err x \<Rightarrow> Pair [what @ '': '' @ nvmeof_error_message x]) w1)"
    by (auto simp: reporting_def split: prod.split sum.split)
  ultimately show ?thesis by (auto intro!: touches_case split: sum.split)
qed

lemma collect_touches: "(\<And>x. x \<in> set xs \<Longrightarrow> touches S (f x)) \<Longrightarrow> touches S (collect_failures f xs)"
proof (induction xs)
  case (Cons x xs)
  have "collect_failures f (x # xs) = (\<lambda>w. case f x w of (fs, w1) \<Rightarrow> (\<lambda>w1. case collect_failures f xs w1 of (gs, w2) \<Rightarrow> (fs @ gs, w2)) w1)"
    by auto
  then show ?case using Cons by (auto intro!: touches_case)
qed (simp add: touches_def)

text \<open>Where the steps write.\<close>

definition port_attrs :: "string set" where
  "port_attrs = {p. starts_with p (ports_dir @ ''/'')}"

definition sub_attrs :: "string \<Rightarrow> string set" where
  "sub_attrs nqn = {p. \<exists>x. p = subsystem_path nqn @ CHR ''/'' # x}"

definition ns_attrs :: "string \<Rightarrow> 32 word \<Rightarrow> string set" where
  "ns_attrs nqn i = {p. \<exists>x. p = namespace_path nqn i @ CHR ''/'' # x}"

lemma ns_attrs_sub: "ns_attrs nqn i \<subseteq> sub_attrs nqn"
  by (auto simp: ns_attrs_def sub_attrs_def namespace_path_def)

lemma sub_attrs_disjoint:
  assumes "CHR ''/'' \<notin> set nqn" and "CHR ''/'' \<notin> set nqn'" and "p \<in> sub_attrs nqn" and "p \<in> sub_attrs nqn'"
  shows "nqn = nqn'"
proof -
  obtain x y where "nqn @ CHR ''/'' # x = nqn' @ CHR ''/'' # y" using assms(3,4) by (auto simp: sub_attrs_def subsystem_path_def)
  from arg_cong [OF this, of "split_once CHR ''/''"] show ?thesis using assms(1,2) by simp
qed

lemma show_u32_slash [simp]: "CHR ''/'' \<notin> set (show_u32 k)"
  using show_nat_digits [of "unat k"] by (auto simp: show_u32_def is_ascii_digit_def)

lemma ns_attrs_disjoint:
  assumes "p \<in> ns_attrs nqn i" and "p \<in> ns_attrs nqn j"
  shows "i = j"
proof -
  obtain x y where "show_u32 i @ CHR ''/'' # x = show_u32 j @ CHR ''/'' # y" using assms by (auto simp: ns_attrs_def namespace_path_def)
  from arg_cong [OF this, of "split_once CHR ''/''"] have "show_u32 i = show_u32 j" by simp
  then show ?thesis by (simp add: show_u32_def word_unat_eq_iff)
qed

lemma sub_attrs_not_port: "p \<in> sub_attrs nqn \<Longrightarrow> p \<notin> port_attrs"
  by (auto simp: sub_attrs_def port_attrs_def subsystem_path_def ports_dir_def starts_with_iff)

lemma write_port_touches [simp]: "touches port_attrs (write_port i tr a sv f)"
  unfolding write_port_def Let_def
  by (intro touches_and_then nv_write_touches) (simp_all add: port_attrs_def port_path_of_def starts_with_iff)

lemma restore_port_touches [simp]: "touches port_attrs (restore_port e nqn p)"
proof -
  let ?bind = "\<lambda>i. reporting (nqn @ '' port '' @ show_u16 i @ '' bind'') (nv_ensure_symlink e (subsystem_path nqn) (port_path_of i @ ''/subsystems/'' @ nqn))"
  let ?new_port = "reporting (nqn @ '' port '' @ show_u16 (nvp_port_id p)) (and_then (nv_ensure_dir (port_path_of (nvp_port_id p))) (\<lambda>_.
      write_port (nvp_port_id p) (nvp_transport p) (nvp_addr p) (nvp_service_id p) (nvp_addr_family p)))"
  have "restore_port e nqn p = (\<lambda>w. case find_existing_port (nvp_transport p) (nvp_addr p)
        (case parse_u16 (nvp_service_id p) of Some n \<Rightarrow> n | None \<Rightarrow> 4420) (nvp_addr_family p) w of (x, w1) \<Rightarrow>
      (case x of Some i \<Rightarrow> ?bind i | None \<Rightarrow> (\<lambda>w. case ?new_port w of (fs, w2) \<Rightarrow> (case fs of [] \<Rightarrow> ?bind (nvp_port_id p) | _ \<Rightarrow> Pair fs) w2)) w1)"
    by (auto simp: restore_port_def Let_def split: prod.split option.split list.split)
  moreover have "touches port_attrs (?bind i)" for i by (rule reporting_touches) simp
  moreover have "touches port_attrs ?new_port" by (intro reporting_touches touches_and_then) simp_all
  ultimately show ?thesis by (auto intro!: touches_case split: option.split list.split)
qed

lemma restore_host_touches [simp]: "touches S (restore_host e nqn h)"
  unfolding restore_host_def by (intro reporting_touches touches_and_then) simp_all

lemma ns_attrsI [simp]: "namespace_path nqn i @ CHR ''/'' # x \<in> ns_attrs nqn i"
  by (simp add: ns_attrs_def)

lemma restore_namespace_touches: "touches (ns_attrs nqn i) (restore_namespace e (namespace_path nqn i) n)"
proof -
  have "touches (ns_attrs nqn i) (\<lambda>w. if \<not> ne_exists e (ns_device_path n) then (Err (DeviceNotFound (ns_device_path n)), w)
     else and_then (nv_write (namespace_path nqn i @ ''/device_path'') (ns_device_path n)) (\<lambda>_.
       and_then (nv_write (namespace_path nqn i @ ''/buffered_io'') ''0'') (\<lambda>_.
         if ns_enabled n then nv_write (namespace_path nqn i @ ''/enable'') ''1'' else (\<lambda>w. (Ok (), w)))) w)"
    by (cases "ne_exists e (ns_device_path n)") (auto intro!: touches_and_then nv_write_touches)
  then show ?thesis unfolding restore_namespace_def by (intro touches_and_then nv_write_touches) simp_all
qed

lemma restore_one_namespace_touches: "touches (ns_attrs nqn (ns_nsid n)) (restore_one_namespace e nqn n)"
  unfolding restore_one_namespace_def by (intro reporting_touches touches_and_then restore_namespace_touches) simp

lemma restore_subsystem_touches: "touches (sub_attrs (sub_nqn s) \<union> port_attrs) (restore_subsystem e s)"
proof -
  let ?S = "sub_attrs (sub_nqn s) \<union> port_attrs" and ?nqn = "sub_nqn s"
  let ?dir = "reporting (?nqn @ '' subsystem'') (nv_ensure_dir (subsystem_path ?nqn))"
  let ?policy = "reporting (?nqn @ '' access policy'') (nv_write (subsystem_path ?nqn @ ''/attr_allow_any_host'') (if sub_allow_any_host s then ''1'' else ''0''))"
  let ?ns = "collect_failures (restore_one_namespace e ?nqn) (sub_namespaces s)"
    and ?hs = "collect_failures (restore_host e ?nqn) (sub_allowed_hosts s)" and ?ps = "collect_failures (restore_port e ?nqn) (sub_ports s)"
  have parts: "touches ?S ?dir" "touches ?S ?policy" "touches ?S ?ns" "touches ?S ?hs" "touches ?S ?ps"
    using ns_attrs_sub
    by (auto intro!: reporting_touches nv_write_touches collect_touches touches_mono [OF restore_port_touches]
        touches_mono [OF restore_one_namespace_touches] simp: sub_attrs_def)
  have "restore_subsystem e s = (\<lambda>w. case ?dir w of (fs, w1) \<Rightarrow> (case fs of [] \<Rightarrow> (\<lambda>w1. case ?policy w1 of (gs, w2) \<Rightarrow> (case gs of
      [] \<Rightarrow> (\<lambda>w2. case ?ns w2 of (f1, w3) \<Rightarrow> (\<lambda>w3. case ?hs w3 of (f2, w4) \<Rightarrow> (\<lambda>w4. case ?ps w4 of (f3, w5) \<Rightarrow> (f1 @ f2 @ f3, w5)) w4) w3)
      | _ \<Rightarrow> Pair gs) w2) | _ \<Rightarrow> Pair fs) w1)"
    by (rule ext) (simp add: restore_subsystem_def Let_def split: prod.split list.split)
  then show ?thesis using parts by (simp only:) (intro touches_case touches_list_case parts touches_return)
qed

text \<open>The kernel serves a namespace as it is stored.\<close>

definition live_as_stored :: "cfs \<Rightarrow> string \<Rightarrow> nv_namespace \<Rightarrow> bool" where
  "live_as_stored c nqn n \<longleftrightarrow> attr c (namespace_path nqn (ns_nsid n) @ ''/device_path'') = ns_device_path n
     \<and> attr c (namespace_path nqn (ns_nsid n) @ ''/enable'') = (if ns_enabled n then ''1'' else ''0'')"

lemma live_kept:
  assumes "touches S f" and "f w = (r, w')" and "S \<inter> ns_attrs nqn (ns_nsid n) = {}" and "live_as_stored (nw_cfs w) nqn n"
  shows "live_as_stored (nw_cfs w') nqn n"
proof -
  have "namespace_path nqn (ns_nsid n) @ CHR ''/'' # x \<notin> S" for x
    using assms(3) ns_attrsI [of nqn "ns_nsid n" x] by blast
  then show ?thesis using assms(4) touchesD [OF assms(1,2)] by (simp add: live_as_stored_def)
qed

lemma reporting_nil: "reporting what f w = ([], w') \<Longrightarrow> f w = (Ok (), w')"
  by (auto simp: reporting_def split: prod.splits sum.splits)

lemma nv_write_ok: "nv_write p v w = (Ok (), w') \<Longrightarrow> attr (nw_cfs w') = (attr (nw_cfs w))(p := v)"
  by (auto simp: nv_write_def nv_call_def write_attr_def cf_write_def attempt_def draw_def attr_def fun_eq_iff
      split: prod.splits sum.splits list.splits option.splits if_splits)

lemma and_then_ok: "and_then f g w = (Ok b, w') \<Longrightarrow> \<exists>a w1. f w = (Ok a, w1) \<and> g a w1 = (Ok b, w')"
  by (auto simp: and_then_def split: prod.splits sum.splits)

lemma restore_one_namespace_ok:
  assumes "restore_one_namespace e nqn n w = ([], w')"
  shows "live_as_stored (nw_cfs w') nqn n"
proof -
  let ?p = "namespace_path nqn (ns_nsid n)"
  obtain w1 where "restore_namespace e ?p n w1 = (Ok (), w')"
    using reporting_nil [OF assms [unfolded restore_one_namespace_def]] by (auto dest: and_then_ok)
  then obtain w2 w3 w4 where w2: "nv_write (?p @ ''/enable'') ''0'' w1 = (Ok (), w2)"
    and w3: "nv_write (?p @ ''/device_path'') (ns_device_path n) w2 = (Ok (), w3)"
    and w4: "nv_write (?p @ ''/buffered_io'') ''0'' w3 = (Ok (), w4)"
    and w5: "(if ns_enabled n then nv_write (?p @ ''/enable'') ''1'' else (\<lambda>w. (Ok (), w))) w4 = (Ok (), w')"
    unfolding restore_namespace_def by (fastforce dest!: and_then_ok split: if_splits)
  show ?thesis
    using nv_write_ok [OF w2] nv_write_ok [OF w3] nv_write_ok [OF w4] w5
    by (auto simp: live_as_stored_def dest!: nv_write_ok split: if_splits)
qed

lemma collect_holds:
  assumes "collect_failures f xs w = ([], w')" and "x \<in> set xs"
    and "\<And>v v'. f x v = ([], v') \<Longrightarrow> Q v'"
    and "\<And>y v v'. y \<in> set xs \<Longrightarrow> y \<noteq> x \<Longrightarrow> f y v = ([], v') \<Longrightarrow> Q v \<Longrightarrow> Q v'"
  shows "Q w'"
proof -
  have later: "collect_failures f ys v = ([], w') \<Longrightarrow> set ys \<subseteq> set xs \<Longrightarrow> Q v \<Longrightarrow> Q w'" for ys v
  proof (induction ys arbitrary: v)
    case (Cons y ys)
    then obtain v1 where "f y v = ([], v1)" "collect_failures f ys v1 = ([], w')" by (auto split: prod.splits)
    then show ?case using Cons assms(3,4) by (cases "y = x") auto
  qed simp
  have "collect_failures f ys v = ([], w') \<Longrightarrow> x \<in> set ys \<Longrightarrow> set ys \<subseteq> set xs \<Longrightarrow> Q w'" for ys v
  proof (induction ys arbitrary: v)
    case (Cons y ys)
    then obtain v1 where v1: "f y v = ([], v1)" "collect_failures f ys v1 = ([], w')" by (auto split: prod.splits)
    then show ?case using Cons assms(3) later by (cases "y = x") auto
  qed simp
  then show ?thesis using assms(1,2) by blast
qed

lemma restore_subsystem_ok:
  assumes "restore_subsystem e s w = ([], w')" and "n \<in> set (sub_namespaces s)" and "distinct (map ns_nsid (sub_namespaces s))"
  shows "live_as_stored (nw_cfs w') (sub_nqn s) n"
proof -
  let ?nqn = "sub_nqn s"
  obtain w2 w3 w4 where w3: "collect_failures (restore_one_namespace e ?nqn) (sub_namespaces s) w2 = ([], w3)"
    and w4: "collect_failures (restore_host e ?nqn) (sub_allowed_hosts s) w3 = ([], w4)"
    and w5: "collect_failures (restore_port e ?nqn) (sub_ports s) w4 = ([], w')"
    using assms(1) by (auto simp: restore_subsystem_def Let_def split: prod.splits list.splits)
  have "live_as_stored (nw_cfs w3) ?nqn n"
  proof (rule collect_holds [OF w3 assms(2)])
    fix y v v'
    assume "y \<in> set (sub_namespaces s)" "y \<noteq> n" "restore_one_namespace e ?nqn y v = ([], v')" "live_as_stored (nw_cfs v) ?nqn n"
    moreover from this have "ns_nsid y \<noteq> ns_nsid n" using assms(2,3) by (auto simp: distinct_map inj_on_def)
    then have "ns_attrs ?nqn (ns_nsid y) \<inter> ns_attrs ?nqn (ns_nsid n) = {}" using ns_attrs_disjoint by blast
    ultimately show "live_as_stored (nw_cfs v') ?nqn n" using live_kept [OF restore_one_namespace_touches] by blast
  qed (rule restore_one_namespace_ok)
  then have "live_as_stored (nw_cfs w4) ?nqn n"
    using live_kept [OF collect_touches [OF restore_host_touches] w4, of "{}"] by simp
  moreover have "port_attrs \<inter> ns_attrs ?nqn (ns_nsid n) = {}" using ns_attrs_sub sub_attrs_not_port by blast
  ultimately show ?thesis using live_kept [OF collect_touches [OF restore_port_touches] w5] by blast
qed

lemma restore_ok:
  assumes "nvmeof_restore e ps w = (Ok (), w')" and "nvmeof_flag ps" and "load_subsystems w = (Ok ss, w1)"
    and "distinct (map sub_nqn ss)" and "\<forall>s \<in> set ss. CHR ''/'' \<notin> set (sub_nqn s) \<and> distinct (map ns_nsid (sub_namespaces s))"
    and "s \<in> set ss" and "n \<in> set (sub_namespaces s)"
  shows "live_as_stored (nw_cfs w') (sub_nqn s) n"
proof -
  have "collect_failures (restore_subsystem e) ss w1 = ([], w')"
    using assms(1-3) by (auto simp: nvmeof_restore_def and_then_def split: prod.splits if_splits)
  then show ?thesis
  proof (rule collect_holds [OF _ assms(6)])
    fix v v'
    assume "restore_subsystem e s v = ([], v')"
    then show "live_as_stored (nw_cfs v') (sub_nqn s) n" using restore_subsystem_ok assms(5,6,7) by blast
  next
    fix y v v'
    assume y: "y \<in> set ss" "y \<noteq> s" and run: "restore_subsystem e y v = ([], v')" and "live_as_stored (nw_cfs v) (sub_nqn s) n"
    moreover have "(sub_attrs (sub_nqn y) \<union> port_attrs) \<inter> ns_attrs (sub_nqn s) (ns_nsid n) = {}"
    proof -
      have "sub_nqn y \<noteq> sub_nqn s" using y assms(4,6) by (auto simp: distinct_map inj_on_def)
      then have "sub_attrs (sub_nqn y) \<inter> sub_attrs (sub_nqn s) = {}" using sub_attrs_disjoint y(1) assms(5,6) by blast
      then show ?thesis using ns_attrs_sub [of "sub_nqn s" "ns_nsid n"] sub_attrs_not_port by blast
    qed
    ultimately show "live_as_stored (nw_cfs v') (sub_nqn s) n" using live_kept [OF restore_subsystem_touches run] by blast
  qed
qed

section \<open>Exports follow their volumes\<close>

lemma remap_namespaces_nsid: "map ns_nsid (fst (remap_namespaces m ns)) = map ns_nsid ns"
proof (induction ns)
  case (Cons n ns)
  then show ?case by (simp add: case_prod_beta)
qed simp

lemma remapped_sub_nsid: "map ns_nsid (sub_namespaces (remapped_sub m s)) = map ns_nsid (sub_namespaces s)"
  using remap_namespaces_nsid [of m "sub_namespaces s"] by (simp add: remap_subsystem_def case_prod_beta)

text \<open>After a safe verdict, what is stored is what was stored, remapped; the kernel's tree is the one
  that was inspected.\<close>

lemma verdict_stored:
  assumes "nvmeof_remap_device_paths m w = (outcome, w1)" and "nro_safe_to_restore outcome"
    and "load_subsystems w1 = (Ok ss, w2)" and "filed (nw_dir w)"
  obtains olds v v' where "set ss = remapped_sub m ` set olds" "\<forall>s \<in> set olds. snd (snd (remap_subsystem m s))"
    "validate_managed_configfs_inventory olds v = (Ok (), v')" "nw_cfs v = nw_cfs w" "nw_cfs w1 = nw_cfs v'"
    "load_subsystems w = (Ok olds, v)" "filed (nw_dir w1)"
proof -
  obtain r0 v where r0: "load_subsystems w = (r0, v)" by fastforce
  have "is_ok r0" using assms(1,2) r0 by (cases r0) (auto simp: nvmeof_remap_device_paths_def)
  then obtain olds where v: "load_subsystems w = (Ok olds, v)" using r0 by (auto simp: is_ok_iff)
  obtain r v' where v': "validate_managed_configfs_inventory olds v = (r, v')" by fastforce
  obtain safe c u where u: "nv_remap_loop m olds (is_ok r) False v' = ((safe, c), u)" by (metis prod.exhaust)
  have "(\<lparr>nro_safe_to_restore = safe, nro_changed = c\<rparr>, u) = (outcome, w1)"
    using assms(1) v v' u by (simp add: nvmeof_remap_device_paths_def)
  then have loop: "nv_remap_loop m olds (is_ok r) False v' = ((True, c), w1)" using assms(2) u by auto
  have dir: "nw_dir v = nw_dir w" "nw_cfs v = nw_cfs w" using load_subsystems_ok [OF v] by simp_all
  have "passes v v'"
    using passingD [OF each_in_passing [OF expected_subsystem_passing] v' [unfolded validate_managed_configfs_inventory_def]] .
  then have dir': "nw_dir v' = nw_dir w" using dir by (simp add: passes_def)
  obtain e where e: "load_all_strict e NVMEOF_STATE_DIR (nw_dir w) = Ok olds" using load_subsystems_ok(1) [OF v] by blast
  obtain e1 where e1: "load_all_strict e1 NVMEOF_STATE_DIR (nw_dir w1) = Ok ss" using load_subsystems_ok(1) [OF assms(3)] by blast
  note old = strict_filed [OF e assms(4)]
  note L = nv_remap_loop_safe [OF loop]
  have ok: "is_ok r" and cfs: "nw_cfs w1 = nw_cfs v'" and safe: "\<forall>s \<in> set olds. snd (snd (remap_subsystem m s))"
    and filed1: "filed (nw_dir w1)" and frame: "\<And>i. i \<notin> sub_id ` set olds \<Longrightarrow> load (nw_dir w1) i = load (nw_dir w) i"
    using L assms(4) unfolding dir' by blast+
  note new = strict_filed [OF e1 filed1]
  have stored: "load (nw_dir w1) (sub_id s) = Some (remapped_sub m s)" if "s \<in> set olds" for s
    using L old(1,3) that unfolding dir' by blast
  have "remapped_sub m s \<in> set ss" if "s \<in> set olds" for s
    using new(2) [OF stored [OF that]] old(1) [OF that] by simp
  moreover have "s \<in> remapped_sub m ` set olds" if s: "s \<in> set ss" for s
  proof (cases "sub_id s \<in> sub_id ` set olds")
    case True
    then obtain o1 where o1: "o1 \<in> set olds" "sub_id s = sub_id o1" by (rule imageE)
    then have "s = remapped_sub m o1" using stored [OF o1(1)] new(1) [OF s] by simp
    then show ?thesis using o1(1) by blast
  next
    case False
    then have "load (nw_dir w) (sub_id s) = Some s" using frame new(1) [OF s] by simp
    then show ?thesis using old(2) new(1) [OF s] False by blast
  qed
  ultimately have "set ss = remapped_sub m ` set olds" by blast
  moreover have "r = Ok ()" using ok by (simp add: is_ok_iff)
  ultimately show ?thesis using that [of olds v v'] safe cfs v v' dir(2) filed1 by simp
qed

definition stored_in :: "nvmeof_subsystem dir_state \<Rightarrow> nvmeof_subsystem \<Rightarrow> bool" where
  "stored_in d s \<longleftrightarrow> is_json (item_file (sub_id s)) \<and> load d (sub_id s) = Some s"

text \<open>Every file is named after its subsystem, names are used once and have no slash, namespaces have
  their own numbers.\<close>

definition well_stored :: "nvmeof_subsystem dir_state \<Rightarrow> bool" where
  "well_stored d \<longleftrightarrow> filed d \<and> (\<forall>s. stored_in d s \<longrightarrow> CHR ''/'' \<notin> set (sub_nqn s) \<and> distinct (map ns_nsid (sub_namespaces s)))
     \<and> (\<forall>s t. stored_in d s \<and> stored_in d t \<and> sub_nqn s = sub_nqn t \<longrightarrow> s = t)"

lemma loaded_stored:
  assumes "load_subsystems w = (Ok ss, w')" and "filed (nw_dir w)"
  shows "s \<in> set ss \<longleftrightarrow> stored_in (nw_dir w) s" and "distinct (map sub_id ss)"
proof -
  obtain e where e: "load_all_strict e NVMEOF_STATE_DIR (nw_dir w) = Ok ss" using load_subsystems_ok(1) [OF assms(1)] by blast
  show "s \<in> set ss \<longleftrightarrow> stored_in (nw_dir w) s" using strict_filed(1,2) [OF e assms(2)] by (auto simp: stored_in_def)
  show "distinct (map sub_id ss)" using strict_filed(3) [OF e assms(2)] .
qed

text \<open>Restoring leaves the files alone.\<close>

lemma restore_dir: "nvmeof_restore e ps w = (r, w') \<Longrightarrow> nw_dir w' = nw_dir w"
proof -
  assume run: "nvmeof_restore e ps w = (r, w')"
  obtain x w1 where x: "load_subsystems w = (x, w1)" by fastforce
  have w1: "nw_dir w1 = nw_dir w"
    using x nv_dir_env_frame [of w] by (cases "nv_dir_env w") (auto simp: load_subsystems_def split: sum.splits)
  have "touches UNIV (collect_failures (restore_subsystem e) ss)" for ss
    by (rule collect_touches) (use restore_subsystem_touches in \<open>auto simp: touches_def\<close>)
  then have "nw_dir (snd (collect_failures (restore_subsystem e) ss w1)) = nw_dir w" for ss using w1 by (simp add: touches_def)
  then show ?thesis using run x w1
    by (auto simp: nvmeof_restore_def and_then_def split: if_splits sum.splits prod.splits) (metis snd_conv)+
qed

text \<open>
  The kernel serves the right volumes: when the remapping at start says that NVMe-oF may be
  restored and the restore succeeds, the kernel has every stored namespace on its stored device,
  switched on exactly if it is stored as enabled; that device is the one the namespace's volume is
  attached at in this boot, for every managed namespace; and the kernel had no namespace of ours
  that is not stored.
\<close>

definition serves_right_volumes :: "mappings \<Rightarrow> nvmeof_world \<Rightarrow> bool" where
  "serves_right_volumes m w \<longleftrightarrow> (\<forall>s n. stored_in (nw_dir w) s \<and> n \<in> set (sub_namespaces s) \<longrightarrow>
        attr (nw_cfs w) (namespace_path (sub_nqn s) (ns_nsid n) @ ''/device_path'') = ns_device_path n
      \<and> attr (nw_cfs w) (namespace_path (sub_nqn s) (ns_nsid n) @ ''/enable'') = (if ns_enabled n then ''1'' else ''0'')
      \<and> (is_managed_namespace n \<longrightarrow> (\<exists>v. ns_backing_volume n = Some v \<and> map_of (bm_current m) v = Some (ns_device_path n))))"

lemma nvmeof_serves_right_volumes:
  assumes "nvmeof_remap_device_paths m w = (outcome, w1)" and "nro_safe_to_restore outcome"
    and "nvmeof_restore e proto_state w1 = (Ok (), w')" and "nvmeof_flag proto_state"
    and "well_stored (nw_dir w)" and "sees_dirs w"
  shows "serves_right_volumes m w'
    \<and> (\<forall>nqn \<in> set (children (NVMET_BASE @ ''/subsystems'') (nw_cfs w)). starts_with nqn DEFAULT_NQN_PREFIX \<longrightarrow>
         (\<exists>s. stored_in (nw_dir w') s \<and> sub_nqn s = nqn \<and> (\<forall>name \<in> set (children (subsystem_path nqn @ ''/namespaces'') (nw_cfs w)).
            \<exists>n \<in> set (sub_namespaces s). parse_u32 name = Some (ns_nsid n))))"
proof -
  have filed: "filed (nw_dir w)" using assms(5) by (simp add: well_stored_def)
  obtain x w2 where "load_subsystems w1 = (x, w2)" by fastforce
  then obtain ss where ss: "load_subsystems w1 = (Ok ss, w2)" using assms(3,4)
    by (cases x) (auto simp: nvmeof_restore_def and_then_def)
  obtain olds v v' where v: "set ss = remapped_sub m ` set olds" "\<forall>s \<in> set olds. snd (snd (remap_subsystem m s))"
    "validate_managed_configfs_inventory olds v = (Ok (), v')" "nw_cfs v = nw_cfs w" "nw_cfs w1 = nw_cfs v'"
    "load_subsystems w = (Ok olds, v)" "filed (nw_dir w1)"
    by (rule verdict_stored [OF assms(1,2) ss filed])
  note old = loaded_stored [OF v(6) filed] and new = loaded_stored [OF ss v(7)]
  have stored: "stored_in (nw_dir w') s \<longleftrightarrow> s \<in> set ss" for s using new(1) restore_dir [OF assms(3)] by simp
  have names: "\<forall>s \<in> set ss. CHR ''/'' \<notin> set (sub_nqn s) \<and> distinct (map ns_nsid (sub_namespaces s))"
    using assms(5) old(1) unfolding v(1) by (simp add: well_stored_def remapped_sub_nsid)
  have "s = t" if "s \<in> set ss" "t \<in> set ss" "sub_nqn s = sub_nqn t" for s t
    using that old(1) assms(5) unfolding v(1) well_stored_def by fastforce
  then have dist: "distinct (map sub_nqn ss)" using new(2) by (auto simp: distinct_map inj_on_def)
  have live: "live_as_stored (nw_cfs w') (sub_nqn s) n" if "s \<in> set ss" "n \<in> set (sub_namespaces s)" for s n
    using restore_ok [OF assms(3,4) ss dist names that] .
  have served: "namespaces.served m n" if s: "s \<in> set ss" "n \<in> set (sub_namespaces s)" "is_managed_namespace n" for s n
  proof -
    obtain o1 where o1: "o1 \<in> set olds" "s = remapped_sub m o1" using s(1) v(1) by blast
    then have "remap_subsystem m o1 = (s, fst (snd (remap_subsystem m o1)), True)" using v(2) by (simp add: prod_eq_iff)
    then show ?thesis using remap_subsystem_safe s(2,3) by blast
  qed
  have "passes v v'" using passingD [OF each_in_passing [OF expected_subsystem_passing] v(3) [unfolded validate_managed_configfs_inventory_def]] .
  then have kids: "children path (nw_cfs w) = children path (nw_cfs v')" for path using v(4) by (simp add: passes_def children_def)
  have inv: "inventoried olds (nw_cfs v')" using inventory_ok [OF v(3)] v(4) assms(6) by simp
  have "\<exists>s. stored_in (nw_dir w') s \<and> sub_nqn s = nqn \<and> (\<forall>name \<in> set (children (subsystem_path nqn @ ''/namespaces'') (nw_cfs w)).
      \<exists>n \<in> set (sub_namespaces s). parse_u32 name = Some (ns_nsid n))"
    if nqn: "nqn \<in> set (children (NVMET_BASE @ ''/subsystems'') (nw_cfs w))" "starts_with nqn DEFAULT_NQN_PREFIX" for nqn
  proof -
    from inv nqn obtain o1 where o1: "o1 \<in> set olds" "sub_nqn o1 = nqn"
      "\<forall>name \<in> set (children (subsystem_path nqn @ ''/namespaces'') (nw_cfs w)). \<exists>n \<in> set (sub_namespaces o1). parse_u32 name = Some (ns_nsid n)"
      unfolding inventoried_def kids by blast
    have "\<exists>k \<in> set (sub_namespaces (remapped_sub m o1)). ns_nsid k = ns_nsid n" if "n \<in> set (sub_namespaces o1)" for n
      using that arg_cong [OF remapped_sub_nsid [of m o1], of set] by (simp add: set_map) (metis imageE imageI)
    then have "\<forall>name \<in> set (children (subsystem_path nqn @ ''/namespaces'') (nw_cfs w)). \<exists>k \<in> set (sub_namespaces (remapped_sub m o1)). parse_u32 name = Some (ns_nsid k)"
      using o1(3) by metis
    moreover have "stored_in (nw_dir w') (remapped_sub m o1)" "sub_nqn (remapped_sub m o1) = nqn" using o1(1,2) v(1) stored by simp_all
    ultimately show ?thesis by blast
  qed
  moreover have "serves_right_volumes m w'"
    using live served stored unfolding serves_right_volumes_def live_as_stored_def namespaces.served_def by blast
  ultimately show ?thesis by blast
qed

text \<open>A subsystem whose volume comes up at another device after a reboot.\<close>

definition nv_vol7 :: block_volume_id where
  "nv_vol7 = \<lparr>bv_filesystem_uuid = ''pool'', bv_subvolume_id = 7\<rparr>"

definition sample_namespace :: nv_namespace where
  "sample_namespace = \<lparr>ns_nsid = 1, ns_device_path = ''/dev/loop0'', ns_enabled = True, ns_backing_volume = Some nv_vol7,
     ns_backing_volume_unresolved = False\<rparr>"

definition sample_subsystem :: nvmeof_subsystem where
  "sample_subsystem = \<lparr>sub_id = ''id1'', sub_nqn = DEFAULT_NQN_PREFIX @ '':t'', sub_namespaces = [sample_namespace],
     sub_ports = [\<lparr>nvp_port_id = 1, nvp_transport = ''tcp'', nvp_addr = ''10.0.0.5'', nvp_service_id = ''9'', nvp_addr_family = ''ipv4''\<rparr>],
     sub_allowed_hosts = [], sub_allow_any_host = True, sub_enabled = True\<rparr>"

definition fresh_cfs :: cfs where
  "fresh_cfs = \<lparr>cf_nodes = [], cf_attrs = [], cf_kernel = (\<lambda>_. []), cf_faults = []\<rparr>"

definition sample_nvmeof :: nvmeof_world where
  "sample_nvmeof = \<lparr>nw_dir = Dir [(''id1.json'', Parses sample_subsystem)], nw_dir_envs = [], nw_cfs = fresh_cfs\<rparr>"

definition sample_nvmeof_env :: nvmeof_env where
  "sample_nvmeof_env = \<lparr>ne_new_id = ''id2'', ne_exists = (\<lambda>_. True), ne_ip_route = Some ''src 10.0.0.5'', ne_ip6_route = None,
     ne_link_text = (\<lambda>_ t. t)\<rparr>"

definition nv_moved :: mappings where
  "nv_moved = \<lparr>bm_current = [(nv_vol7, ''/dev/loop3'')], bm_preexisting = []\<rparr>"

definition nvmeof_on :: "json option" where
  "nvmeof_on = Some (JObj [(''nvmeof'', JBool True)])"

definition live_nvmeof :: nvmeof_world where
  "live_nvmeof = snd (nvmeof_restore sample_nvmeof_env nvmeof_on sample_nvmeof)"

theorem quiesce_turns_everything_off_witness:
  "attr (nw_cfs live_nvmeof) (subsystem_path (DEFAULT_NQN_PREFIX @ '':t'') @ ''/namespaces/'' @ ''1'' @ ''/enable'') = ''1'' \<and>
   attr (nw_cfs (snd (nvmeof_quiesce live_nvmeof))) (subsystem_path (DEFAULT_NQN_PREFIX @ '':t'') @ ''/namespaces/'' @ ''1'' @ ''/enable'') = ''0''"
proof -
  have on: "attr (nw_cfs live_nvmeof) (subsystem_path (DEFAULT_NQN_PREFIX @ '':t'') @ ''/namespaces/'' @ ''1'' @ ''/enable'') = ''1''" by code_simp
  have "fst (nvmeof_quiesce live_nvmeof) = Ok ()" by code_simp
  then have run: "nvmeof_quiesce live_nvmeof = (Ok (), snd (nvmeof_quiesce live_nvmeof))" by (simp add: prod_eq_iff)
  have sees_dirs: "sees_dirs live_nvmeof" by code_simp
  have here: "starts_with (DEFAULT_NQN_PREFIX @ '':t'') DEFAULT_NQN_PREFIX" "CHR ''/'' \<notin> set (DEFAULT_NQN_PREFIX @ '':t'')" "CHR ''/'' \<notin> set ''1''"
    "map_of (cf_nodes (nw_cfs live_nvmeof)) (subsystem_path (DEFAULT_NQN_PREFIX @ '':t'')) \<noteq> None"
    "map_of (cf_nodes (nw_cfs live_nvmeof)) (subsystem_path (DEFAULT_NQN_PREFIX @ '':t'') @ ''/namespaces/'' @ ''1'') \<noteq> None" by code_simp+
  from quiesce_turns_everything_off [OF run sees_dirs, THEN conjunct1, rule_format, OF here] on show ?thesis by blast
qed

section \<open>What goes wrong\<close>

text \<open>An explicit empty list of hosts leaves a subsystem open to every host, although the request's
  documentation says that only the listed hosts are permitted.\<close>

definition new_export :: "string list option \<Rightarrow> create_subsystem_request" where
  "new_export hosts = \<lparr>cs_name = ''v'', cs_allow_any_host = None, cs_device_path = Some ''/dev/loop3'', cs_backing_volume = None,
     cs_addr = Some ''10.0.0.5'', cs_port = Some 9, cs_allowed_hosts = hosts\<rparr>"

definition empty_nvmeof :: nvmeof_world where
  "empty_nvmeof = \<lparr>nw_dir = Dir_Missing, nw_dir_envs = [], nw_cfs = fresh_cfs\<rparr>"

lemma no_hosts_means_any_host:
  "let (r, w) = nvmeof_create sample_nvmeof_env (new_export (Some [])) empty_nvmeof in
   is_ok r \<and> map_option sub_allow_any_host (load (nw_dir w) ''id2'') = Some True
   \<and> attr (nw_cfs w) (subsystem_path (DEFAULT_NQN_PREFIX @ '':v'') @ ''/attr_allow_any_host'') = ''1''"
  by code_simp

text \<open>When admitting the first listed host fails, creating the subsystem fails, and the export stays
  behind: stored, bound to its port, switched on, and open to every host.\<close>

lemma failed_host_leaves_open_export:
  "let (r, w) = nvmeof_create sample_nvmeof_env (new_export (Some [''nqn.h'']))
         (empty_nvmeof\<lparr>nw_cfs := fresh_cfs\<lparr>cf_faults := replicate 25 None @ [Some ''EIO'']\<rparr>\<rparr>)
   in \<not> is_ok r \<and> map_option (\<lambda>s. (sub_allow_any_host s, length (sub_ports s))) (load (nw_dir w) ''id2'') = Some (True, 1)
      \<and> attr (nw_cfs w) (subsystem_path (DEFAULT_NQN_PREFIX @ '':v'') @ ''/attr_allow_any_host'') = ''1''
      \<and> attr (nw_cfs w) (namespace_path (DEFAULT_NQN_PREFIX @ '':v'') 1 @ ''/enable'') = ''1''"
  by code_simp

end
