(* ===== verification/Service_Routes.thy ===== *)
theory Service_Routes
  imports Auth_Routes Firewall_Runs Rest_Server Iscsi_Behaviour Nvmeof_Behaviour
begin

text \<open>
  The handlers of the \<open>service.*\<close> methods (\<open>nasty-engine/src/router/service.rs\<close>), where the
  services meet: enabling a protocol checks the caller, points the exports of a block protocol at
  the volumes of this boot, opens the firewall, starts the units and restores the exports, and
  undoes what it did when a step fails. Storage is an argument: attaching the block volumes, and
  making a subvolume.
\<close>

section \<open>State and surroundings\<close>

record 'v services =
  sv_protocols :: proto_world
  sv_firewall :: fw_world
  sv_iscsi :: iscsi_world
  sv_nvmeof :: nvmeof_world
  sv_rest :: rest_files
  sv_base_iqn :: "string option"
  sv_base_nqn :: "string option"
  sv_rest_path :: "string option"
  sv_volumes :: 'v

text \<open>The environments of the single calls, the questions to the file system and the errors of the
  plain writes. \<open>sr_other_flags\<close> is what the file of flags parses to when it is not one this
  engine wrote; \<open>sr_restart\<close> is whether a restart leaves the backup server running, and
  \<open>None\<close> when the command could not be run.\<close>

record 'v service_surroundings =
  sr_env :: auth_env
  sr_enable_env :: proto_env
  sr_quiesce_env :: proto_env
  sr_disable_env :: proto_env
  sr_open_env :: fw_env
  sr_close_env :: fw_env
  sr_iscsi_env :: iscsi_env
  sr_nvmeof_env :: nvmeof_env
  sr_rest_env :: rest_env
  sr_other_flags :: "json option"
  sr_attach :: "'v \<Rightarrow> mappings \<times> 'v"
  sr_create_subvolume :: "string \<Rightarrow> string \<Rightarrow> 'v \<Rightarrow> 'v"
  sr_exists :: "string \<Rightarrow> bool"
  sr_canonicalize :: "string \<Rightarrow> string option"
  sr_write_iqn :: "string option"
  sr_write_nqn :: "string option"
  sr_write_rest_path :: "string option"
  sr_restart :: "bool option"

type_synonym ('k, 'r, 'a, 'v) service_engine = "('k, 'r, 'a, 'v services) engine"

abbreviation services_of :: "('k, 'r, 'a, 'v) service_engine \<Rightarrow> 'v services" where
  "services_of w \<equiv> er_more (app_other w)"

abbreviation put_services :: "'v services \<Rightarrow> ('k, 'r, 'a, 'v) service_engine \<Rightarrow> ('k, 'r, 'a, 'v) service_engine" where
  "put_services sv w \<equiv> er_update (\<lambda>r. r\<lparr>er_more := sv\<rparr>) w"

definition status_json :: "protocol_status \<Rightarrow> json" where
  "status_json st = JObj [(''name'', JStr (st_name st)), (''display_name'', JStr (st_display_name st)),
     (''enabled'', JBool (st_enabled st)), (''running'', JBool (st_running st)), (''system_service'', JBool (st_system_service st))]"

definition flags_json :: "protocol_state \<Rightarrow> json" where
  "flags_json s = JObj [(''nfs'', JBool (nfs s)), (''smb'', JBool (smb s)), (''iscsi'', JBool (iscsi s)), (''nvmeof'', JBool (nvmeof s)),
     (''nut'', JBool (nut s)), (''ssh'', JBool (ssh s)), (''avahi'', JBool (avahi s)), (''smart'', JBool (smart s)),
     (''watchdog'', JBool (watchdog s)), (''rest_server'', JBool (rest_server s))]"

definition flags_of :: "'v service_surroundings \<Rightarrow> proto_world \<Rightarrow> json option" where
  "flags_of sr W = (case pw_file W of Valid s \<Rightarrow> Some (flags_json s) | Missing \<Rightarrow> None | Corrupt \<Rightarrow> sr_other_flags sr)"

section \<open>Sources only an administrator may export\<close>

text \<open>The components of a path: whether it starts at the root, and the names without empty ones and
  inner dots.\<close>

definition path_parts :: "string \<Rightarrow> bool \<times> string list" where
  "path_parts p =
     (let pieces = split_on CHR ''/'' p; rooted = (p \<noteq> [] \<and> hd p = CHR ''/'');
          names = filter (\<lambda>c. c \<noteq> [] \<and> c \<noteq> ''.'') pieces
      in (rooted, if \<not> rooted \<and> hd pieces = ''.'' then ''.'' # names else names))"

definition under_fs :: "string \<Rightarrow> bool" where
  "under_fs p = (case path_parts p of (rooted, c # _) \<Rightarrow> rooted \<and> c = ''fs'' | _ \<Rightarrow> False)"

definition path_file_name :: "string \<Rightarrow> string option" where
  "path_file_name p =
     (case path_parts p of (_, cs) \<Rightarrow> if cs = [] \<or> last cs = ''..'' \<or> last cs = ''.'' then None else Some (last cs))"

definition path_parent :: "string \<Rightarrow> string option" where
  "path_parent p =
     (case path_parts p of (rooted, cs) \<Rightarrow> if cs = [] then None else Some ((if rooted then ''/'' else []) @ join ''/'' (butlast cs)))"

definition canonical_fileio_source :: "'v service_surroundings \<Rightarrow> string \<Rightarrow> string option" where
  "canonical_fileio_source sr requested =
     (if sr_exists sr requested then sr_canonicalize sr requested
      else case path_file_name requested of
        None \<Rightarrow> None
      | Some name \<Rightarrow>
          (case path_parent requested of
             None \<Rightarrow> None
           | Some parent \<Rightarrow> map_option (\<lambda>d. d @ ''/'' @ name) (sr_canonicalize sr parent)))"

definition fileio_source_is_lexically_managed :: "string \<Rightarrow> bool" where
  "fileio_source_is_lexically_managed requested = (under_fs requested \<and> ''..'' \<notin> set (snd (path_parts requested)))"

definition fileio_source_is_managed :: "'v service_surroundings \<Rightarrow> string \<Rightarrow> bool" where
  "fileio_source_is_managed sr requested =
     (case canonical_fileio_source sr requested of
        Some path \<Rightarrow> under_fs path
      | None \<Rightarrow> fileio_source_is_lexically_managed requested)"

definition lun_admin_only :: "'v service_surroundings \<Rightarrow> lun \<Rightarrow> bool" where
  "lun_admin_only sr l =
     (if lun_backstore_type l = ''block'' then lun_backing_volume l = None \<or> lun_backing_volume_unresolved l
      else if lun_backstore_type l = ''fileio'' then \<not> fileio_source_is_managed sr (lun_backstore_path l)
      else True)"

definition protocol_has_admin_only_sources :: "'v service_surroundings \<Rightarrow> protocol \<Rightarrow> 'v services \<Rightarrow> (string + bool) \<times> 'v services" where
  "protocol_has_admin_only_sources sr p sv =
     (if p = Iscsi then
        (case iscsi_list (sv_iscsi sv) of
           (Err x, w) \<Rightarrow> (Err (iscsi_error_message x), sv\<lparr>sv_iscsi := w\<rparr>)
         | (Ok targets, w) \<Rightarrow> (Ok (list_ex (\<lambda>t. list_ex (lun_admin_only sr) (it_luns t)) targets), sv\<lparr>sv_iscsi := w\<rparr>))
      else if p = Nvmeof then
        (case nvmeof_list (sv_nvmeof sv) of
           (Err x, w) \<Rightarrow> (Err (nvmeof_error_message x), sv\<lparr>sv_nvmeof := w\<rparr>)
         | (Ok ss, w) \<Rightarrow>
             (Ok (list_ex (\<lambda>s. list_ex (\<lambda>n. ns_backing_volume n = None \<or> ns_backing_volume_unresolved n) (sub_namespaces s)) ss),
              sv\<lparr>sv_nvmeof := w\<rparr>))
      else (Ok False, sv))"

section \<open>Steps\<close>

definition protocols_enable :: "'v service_surroundings \<Rightarrow> string \<Rightarrow> 'v services \<Rightarrow> (string + protocol_status) \<times> 'v services" where
  "protocols_enable sr name sv =
     (case enable (sr_enable_env sr) name (sv_protocols sv) of (r, W) \<Rightarrow>
        (r, sv\<lparr>sv_protocols := W,
               sv_rest := (if from_name name = Some RestServer \<and> env_save (sr_enable_env sr) SavePrimary = None
                           then snd (ensure_credentials (sr_rest_env sr) (sv_rest sv)) else sv_rest sv)\<rparr>))"

definition protocols_disable :: "'v service_surroundings \<Rightarrow> string \<Rightarrow> 'v services \<Rightarrow> (string + protocol_status) \<times> 'v services" where
  "protocols_disable sr name sv =
     (case disable (sr_disable_env sr) name (sv_protocols sv) of (r, W) \<Rightarrow> (r, sv\<lparr>sv_protocols := W\<rparr>))"

definition protocols_quiesce :: "'v service_surroundings \<Rightarrow> protocol \<Rightarrow> 'v services \<Rightarrow> (string + unit) \<times> 'v services" where
  "protocols_quiesce sr p sv =
     (case quiesce (sr_quiesce_env sr) p (sv_protocols sv) of (r, W) \<Rightarrow> (r, sv\<lparr>sv_protocols := W\<rparr>))"

definition firewall_open :: "'v service_surroundings \<Rightarrow> protocol \<Rightarrow> 'v services \<Rightarrow> (string + unit) \<times> 'v services" where
  "firewall_open sr p sv = (case open_ports (sr_open_env sr) p (sv_firewall sv) of (r, fw) \<Rightarrow> (r, sv\<lparr>sv_firewall := fw\<rparr>))"

definition firewall_close :: "'v service_surroundings \<Rightarrow> protocol \<Rightarrow> 'v services \<Rightarrow> (string + unit) \<times> 'v services" where
  "firewall_close sr p sv = (case close_ports (sr_close_env sr) p (sv_firewall sv) of (r, fw) \<Rightarrow> (r, sv\<lparr>sv_firewall := fw\<rparr>))"

definition nvmeof_quiesce_all :: "'v services \<Rightarrow> (string + unit) \<times> 'v services" where
  "nvmeof_quiesce_all sv =
     (case nvmeof_quiesce (sv_nvmeof sv) of
        (Ok _, w) \<Rightarrow> (Ok (), sv\<lparr>sv_nvmeof := w\<rparr>)
      | (Err x, w) \<Rightarrow> (Err (nvmeof_error_message x), sv\<lparr>sv_nvmeof := w\<rparr>))"

text \<open>\<open>systemctl restart\<close> also starts a unit that is down.\<close>

definition restart_rest_server :: "'v service_surroundings \<Rightarrow> 'v services \<Rightarrow> 'v services" where
  "restart_rest_server sr sv =
     (let u = ''nasty-rest-server.service''; W = sv_protocols sv in
      case sr_restart sr of
        None \<Rightarrow> sv
      | Some up \<Rightarrow> sv\<lparr>sv_protocols := W\<lparr>pw_units := (if up then insert u (pw_units W) else pw_units W - {u})\<rparr>\<rparr>)"

text \<open>The exports at the devices of this boot, and whether they may be brought up.\<close>

definition remap_exports :: "'v service_surroundings \<Rightarrow> protocol \<Rightarrow> 'v services \<Rightarrow> bool \<times> 'v services" where
  "remap_exports sr p sv =
     (case sr_attach sr (sv_volumes sv) of (m, vols) \<Rightarrow>
      let sv1 = sv\<lparr>sv_volumes := vols\<rparr> in
      if p = Iscsi then
        (case remap_device_paths (sr_iscsi_env sr) m (sv_iscsi sv1) of (out, w) \<Rightarrow> (ro_safe_to_restore out, sv1\<lparr>sv_iscsi := w\<rparr>))
      else
        (case nvmeof_remap_device_paths m (sv_nvmeof sv1) of (out, w) \<Rightarrow> (nro_safe_to_restore out, sv1\<lparr>sv_nvmeof := w\<rparr>)))"

definition quiesce_exports :: "'v service_surroundings \<Rightarrow> protocol \<Rightarrow> 'v services \<Rightarrow> (string + unit) \<times> 'v services" where
  "quiesce_exports sr p sv = (if p = Iscsi then protocols_quiesce sr p sv else nvmeof_quiesce_all sv)"

text \<open>What a block protocol needs before it is opened; \<open>Some\<close> is the error that ends the request.\<close>

definition prepare_exports :: "'v service_surroundings \<Rightarrow> protocol \<Rightarrow> 'v services \<Rightarrow> string option \<times> 'v services" where
  "prepare_exports sr p sv =
     (case remap_exports sr p sv of (safe, sv1) \<Rightarrow>
      if \<not> safe then
        (case quiesce_exports sr p sv1 of (q, sv2) \<Rightarrow>
           (Some (display_name p @ '' backing volumes could not be resolved safely'' @
              (case q of Ok _ \<Rightarrow> [] | Err x \<Rightarrow> ''; live export quiescing also failed: '' @ x)),
            ignore (firewall_close sr p) sv2))
      else if p = Iscsi then
        (case protocols_quiesce sr p sv1 of
           (Ok _, sv2) \<Rightarrow> (None, sv2)
         | (Err x, sv2) \<Rightarrow> (Some (''failed to reload remapped iSCSI state: '' @ x), sv2))
      else (None, sv1))"

text \<open>The way back when NVMe-oF was enabled and its exports could not be restored.\<close>

definition also_failed :: "string \<Rightarrow> string + 'b \<Rightarrow> string" where
  "also_failed what r = (case r of Ok _ \<Rightarrow> [] | Err x \<Rightarrow> ''; '' @ what @ '' also failed: '' @ x)"

definition undo_nvmeof :: "'v service_surroundings \<Rightarrow> string \<Rightarrow> string \<Rightarrow> 'v services \<Rightarrow> string \<times> 'v services" where
  "undo_nvmeof sr name error sv =
     (case nvmeof_quiesce_all sv of (q, sv1) \<Rightarrow>
      case protocols_disable sr name sv1 of (d, sv2) \<Rightarrow>
      case firewall_close sr Nvmeof sv2 of (c, sv3) \<Rightarrow>
        (''failed to restore NVMe-oF safely: '' @ error @ also_failed ''live namespace quiescing'' q @
         also_failed ''protocol rollback'' d @ also_failed ''firewall rollback'' c, sv3))"

text \<open>The firewall first, then the units, then the exports; the firewall is closed again when the units
  do not start.\<close>

definition open_and_enable :: "'v service_surroundings \<Rightarrow> string \<Rightarrow> protocol \<Rightarrow> 'v services \<Rightarrow> (string + protocol_status) \<times> 'v services" where
  "open_and_enable sr name p sv =
     (case firewall_open sr p sv of
        (Err x, sv1) \<Rightarrow> (Err (''firewall update failed: '' @ x), sv1)
      | (Ok _, sv1) \<Rightarrow>
          (case protocols_enable sr name sv1 of
             (Err x, sv2) \<Rightarrow> (case firewall_close sr p sv2 of (c, sv3) \<Rightarrow> (Err (x @ also_failed ''firewall rollback'' c), sv3))
           | (Ok st, sv2) \<Rightarrow>
               if p \<noteq> Nvmeof then (Ok st, sv2)
               else
                 (case nvmeof_restore (sr_nvmeof_env sr) (flags_of sr (sv_protocols sv2)) (sv_nvmeof sv2) of
                    (Ok _, nw) \<Rightarrow> (Ok st, sv2\<lparr>sv_nvmeof := nw\<rparr>)
                  | (Err x, nw) \<Rightarrow>
                      (case undo_nvmeof sr name (nvmeof_error_message x) (sv2\<lparr>sv_nvmeof := nw\<rparr>) of (m, sv3) \<Rightarrow> (Err m, sv3)))))"

section \<open>Handlers\<close>

text \<open>What the caller has to be; \<open>Some\<close> is the refusal.\<close>

definition enable_guards :: "'v service_surroundings \<Rightarrow> rpc_request \<Rightarrow> session \<Rightarrow> protocol \<Rightarrow> ('k, 'r, 'a, 'v) service_engine \<Rightarrow>
    rpc_response option \<times> ('k, 'r, 'a, 'v) service_engine" where
  "enable_guards sr req s p w =
     (case require_unscoped_mutation (sr_env sr) req s ''global_protocol_enable'' w of
        (Some r, w1) \<Rightarrow> (Some r, w1)
      | (None, w1) \<Rightarrow>
          if p = Watchdog then require_root_equivalent (sr_env sr) req s ''watchdog_reboot_policy'' w1
          else if p = Iscsi \<or> p = Nvmeof then
            (case protocol_has_admin_only_sources sr p (services_of w1) of
               (Err x, sv) \<Rightarrow> (Some (err req x), put_services sv w1)
             | (Ok True, sv) \<Rightarrow> require_root_equivalent (sr_env sr) req s ''raw_block_protocol_restore'' (put_services sv w1)
             | (Ok False, sv) \<Rightarrow> (None, put_services sv w1))
          else (None, w1))"

definition reply :: "rpc_request \<Rightarrow> (string + protocol_status) \<times> 'v services \<Rightarrow> ('k, 'r, 'a, 'v) service_engine \<Rightarrow>
    rpc_response \<times> ('k, 'r, 'a, 'v) service_engine" where
  "reply req c w =
     (case c of (Ok st, sv) \<Rightarrow> (ok req (status_json st), put_services sv w) | (Err x, sv) \<Rightarrow> (err req x, put_services sv w))"

definition enable_known :: "'v service_surroundings \<Rightarrow> rpc_request \<Rightarrow> string \<Rightarrow> protocol \<Rightarrow> ('k, 'r, 'a, 'v) service_engine \<Rightarrow>
    rpc_response \<times> ('k, 'r, 'a, 'v) service_engine" where
  "enable_known sr req name p w =
     (if p = Iscsi \<or> p = Nvmeof then
        (case prepare_exports sr p (services_of w) of
           (Some x, sv) \<Rightarrow> (err req x, put_services sv w)
         | (None, sv) \<Rightarrow> reply req (open_and_enable sr name p sv) w)
      else reply req (open_and_enable sr name p (services_of w)) w)"

definition enable_route :: "'v service_surroundings \<Rightarrow> rpc_request \<Rightarrow> session \<Rightarrow> string \<Rightarrow> ('k, 'r, 'a, 'v) service_engine \<Rightarrow>
    rpc_response \<times> ('k, 'r, 'a, 'v) service_engine" where
  "enable_route sr req s name w =
     (case from_name name of
        Some p \<Rightarrow> (case enable_guards sr req s p w of (Some r, w1) \<Rightarrow> (r, w1) | (None, w1) \<Rightarrow> enable_known sr req name p w1)
      | None \<Rightarrow> reply req (protocols_enable sr name (services_of w)) w)"

definition disable_route :: "'v service_surroundings \<Rightarrow> rpc_request \<Rightarrow> session \<Rightarrow> string \<Rightarrow> ('k, 'r, 'a, 'v) service_engine \<Rightarrow>
    rpc_response \<times> ('k, 'r, 'a, 'v) service_engine" where
  "disable_route sr req s name w =
     (case require_unscoped_mutation (sr_env sr) req s ''global_protocol_disable'' w of
        (Some r, w1) \<Rightarrow> (r, w1)
      | (None, w1) \<Rightarrow>
          (case protocols_disable sr name (services_of w1) of
             (Err x, sv) \<Rightarrow> (err req x, put_services sv w1)
           | (Ok st, sv) \<Rightarrow>
               (case from_name name of
                  None \<Rightarrow> (ok req (status_json st), put_services sv w1)
                | Some p \<Rightarrow>
                    (case firewall_close sr p sv of
                       (Ok _, sv1) \<Rightarrow> (ok req (status_json st), put_services sv1 w1)
                     | (Err x, sv1) \<Rightarrow> (err req (''protocol disabled but firewall update failed: '' @ x), put_services sv1 w1)))))"

text \<open>Names and places: read with a default, written trimmed, an error of the writes of the names only
  logged.\<close>

definition put_name :: "string option \<Rightarrow> string option \<Rightarrow> string option \<Rightarrow> string option" where
  "put_name asked error old =
     (case asked of None \<Rightarrow> old | Some n \<Rightarrow> (case error of None \<Rightarrow> Some (trim n) | Some _ \<Rightarrow> old))"

definition configure_rest_server :: "'v service_surroundings \<Rightarrow> string \<Rightarrow> 'v services \<Rightarrow> (string + unit) \<times> 'v services" where
  "configure_rest_server sr path sv =
     (let vols = (if starts_with path ''/fs/'' \<and> \<not> sr_exists sr path then
                    (case split_once CHR ''/'' (drop 4 path) of
                       Some (fs_name, subvol_name) \<Rightarrow> sr_create_subvolume sr fs_name subvol_name (sv_volumes sv)
                     | None \<Rightarrow> sv_volumes sv)
                  else sv_volumes sv);
          sv1 = sv\<lparr>sv_volumes := vols\<rparr>
      in case sr_write_rest_path sr of
           Some x \<Rightarrow> (Err (''write config: '' @ x), sv1)
         | None \<Rightarrow> (Ok (), restart_rest_server sr (sv1\<lparr>sv_rest_path := Some path\<rparr>)))"

definition credentials_json :: "rest_credentials \<Rightarrow> json" where
  "credentials_json c = JObj [(''username'', JStr (rc_username c)), (''password'', JStr (rc_password c))]"

definition rest_server_route :: "'v service_surroundings \<Rightarrow> rpc_request \<Rightarrow> ('k, 'r, 'a, 'v) service_engine \<Rightarrow>
    rpc_response option \<times> ('k, 'r, 'a, 'v) service_engine" where
  "rest_server_route sr req w =
     (let m = rq_method req; sv = services_of w; e = sr_rest_env sr in
      if m = ''service.rest_server.config'' then
        (Some (ok req (JObj [(''path'', JStr (trim (case sv_rest_path sv of Some p \<Rightarrow> p | None \<Rightarrow> ''/var/lib/nasty/rest-server'')))])), w)
      else if m = ''service.rest_server.credentials'' then
        (case ensure_credentials e (sv_rest sv) of
           (Err x, f) \<Rightarrow> (Some (err req (''ensure credentials: '' @ rest_error_message x)), put_services (sv\<lparr>sv_rest := f\<rparr>) w)
         | (Ok _, f) \<Rightarrow>
             (Some (case get_credentials e f of Ok c \<Rightarrow> ok req (credentials_json c) | Err x \<Rightarrow> err req (rest_error_message x)),
              put_services (sv\<lparr>sv_rest := f\<rparr>) w))
      else if m = ''service.rest_server.rotate_credentials'' then
        (case rotate_password e (str_param req ''username'') (sv_rest sv) of
           (Ok c, f) \<Rightarrow> (Some (ok req (credentials_json c)), put_services (restart_rest_server sr (sv\<lparr>sv_rest := f\<rparr>)) w)
         | (Err x, f) \<Rightarrow> (Some (err req (rest_error_message x)), put_services (sv\<lparr>sv_rest := f\<rparr>) w))
      else if m = ''service.rest_server.configure'' then
        (case require_str req ''path'' of
           Err r \<Rightarrow> (Some r, w)
         | Ok path \<Rightarrow>
             (case configure_rest_server sr path sv of
                (Ok _, sv1) \<Rightarrow> (Some (ok req (JStr ''ok'')), put_services sv1 w)
              | (Err x, sv1) \<Rightarrow> (Some (err req x), put_services sv1 w)))
      else (None, w))"

definition service_try_route :: "'v service_surroundings \<Rightarrow> ('k, ('r, 'a, 'v services) engine_rest) try_route" where
  "service_try_route sr req s w =
     (let m = rq_method req; sv = services_of w in
      if m = ''service.protocol.list'' then
        (case list_protocols (sr_enable_env sr) (sv_protocols sv) of (sts, W) \<Rightarrow>
           (Some (ok req (JArr (map status_json sts))), put_services (sv\<lparr>sv_protocols := W\<rparr>) w))
      else if m = ''service.protocol.enable'' then
        (case require_str req ''name'' of
           Err r \<Rightarrow> (Some r, w)
         | Ok name \<Rightarrow> (case enable_route sr req s name w of (r, w1) \<Rightarrow> (Some r, w1)))
      else if m = ''service.protocol.disable'' then
        (case require_str req ''name'' of
           Err r \<Rightarrow> (Some r, w)
         | Ok name \<Rightarrow> (case disable_route sr req s name w of (r, w1) \<Rightarrow> (Some r, w1)))
      else if m = ''service.base_names.get'' then
        (Some (ok req (JObj [(''iqn_prefix'', JStr (trim (case sv_base_iqn sv of Some n \<Rightarrow> n | None \<Rightarrow> ''iqn.2137-04.storage.nasty''))),
                             (''nqn_prefix'', JStr (trim (case sv_base_nqn sv of Some n \<Rightarrow> n | None \<Rightarrow> ''nqn.2137-04.storage.nasty'')))])), w)
      else if m = ''service.base_names.update'' then
        (Some (ok req (JStr ''ok'')),
         put_services (sv\<lparr>sv_base_iqn := put_name (str_param req ''iqn_prefix'') (sr_write_iqn sr) (sv_base_iqn sv),
                         sv_base_nqn := put_name (str_param req ''nqn_prefix'') (sr_write_nqn sr) (sv_base_nqn sv)\<rparr>) w)
      else rest_server_route sr req w)"

end
