(* ===== verification/Service_Behaviour.thy ===== *)
theory Service_Behaviour
  imports Service_Routes
begin

text \<open>
  What enabling and disabling a protocol mean across the services: what holds of the caller, the
  flags, the units, the firewall and the exports when the request succeeds, and what a failed
  request leaves behind. The effects are put together from those of the single services.
\<close>

section \<open>Frames of the steps\<close>

lemma access_passed: "require_endpoint_access e req s a reason b w = (None, w') \<Longrightarrow> authorize_session s a = Ok ()"
  by (auto simp: require_endpoint_access_def split: sum.splits)

lemma access_refused: "require_endpoint_access e req s a reason b w = (Some r, w') \<Longrightarrow> rs_error r \<noteq> None"
  by (auto simp: require_endpoint_access_def err_def split: sum.splits)

lemma access_frame: "app_other (snd (require_endpoint_access e req s a reason b w)) = app_other w"
  by (simp add: require_endpoint_access_def audit_app_def split: sum.splits)

lemmas require_defs = require_root_equivalent_def require_unscoped_mutation_def

text \<open>Two states that agree on everything but what reading the exports uses up.\<close>

definition alike :: "'v services \<Rightarrow> 'v services \<Rightarrow> bool" where
  "alike sv sv' \<longleftrightarrow> sv_protocols sv' = sv_protocols sv \<and> sv_firewall sv' = sv_firewall sv
     \<and> nw_dir (sv_nvmeof sv') = nw_dir (sv_nvmeof sv) \<and> nw_cfs (sv_nvmeof sv') = nw_cfs (sv_nvmeof sv)
     \<and> sv_volumes sv' = sv_volumes sv"

lemma load_subsystems_frame: "load_subsystems w = (r, w') \<Longrightarrow> nw_dir w' = nw_dir w \<and> nw_cfs w' = nw_cfs w"
  using nv_dir_env_frame [of w] by (cases "nv_dir_env w") (auto simp: load_subsystems_def split: sum.splits)

lemma sources_alike: "alike sv (snd (protocol_has_admin_only_sources sr p sv))"
  by (auto simp: protocol_has_admin_only_sources_def alike_def nvmeof_list_def split: prod.splits sum.splits
      dest: load_subsystems_frame)

text \<open>What passing the guards says about the caller.\<close>

definition may_enable :: "'v service_surroundings \<Rightarrow> session \<Rightarrow> protocol \<Rightarrow> 'v services \<Rightarrow> bool" where
  "may_enable sr s p sv \<longleftrightarrow> authorize_session s UnscopedMutation = Ok ()
     \<and> (p = Watchdog \<or> (p = Iscsi \<or> p = Nvmeof) \<and> fst (protocol_has_admin_only_sources sr p sv) \<noteq> Ok False
        \<longrightarrow> authorize_session s RootEquivalent = Ok ())"

lemma guards_effect:
  assumes "enable_guards sr req s p w = (x, w')"
  shows "alike (services_of w) (services_of w')" and "x = None \<Longrightarrow> may_enable sr s p (services_of w)"
    and "\<And>r. x = Some r \<Longrightarrow> rs_error r \<noteq> None"
proof -
  obtain y w1 where y: "require_unscoped_mutation (sr_env sr) req s ''global_protocol_enable'' w = (y, w1)" by fastforce
  have w1: "app_other w1 = app_other w" using access_frame y by (metis require_unscoped_mutation_def snd_conv)
  have "alike (services_of w) (services_of w') \<and> (x = None \<longrightarrow> may_enable sr s p (services_of w)) \<and> (\<forall>r. x = Some r \<longrightarrow> rs_error r \<noteq> None)"
  proof (cases y)
    case (Some r)
    then show ?thesis using assms y w1 access_refused [OF y [unfolded require_unscoped_mutation_def Some]]
      by (auto simp: enable_guards_def alike_def)
  next
    case None
    note u = access_passed [OF y [unfolded require_unscoped_mutation_def None]]
    let ?root = "\<lambda>reason. require_endpoint_access (sr_env sr) req s RootEquivalent reason True"
    obtain a sv where a: "protocol_has_admin_only_sources sr p (services_of w) = (a, sv)" by fastforce
    have sv: "alike (services_of w) sv" using sources_alike a by (metis snd_conv)
    consider "p = Watchdog" | "p = Iscsi \<or> p = Nvmeof" | "p \<noteq> Watchdog" "p \<noteq> Iscsi" "p \<noteq> Nvmeof" by blast
    then show ?thesis
    proof cases
      case 1
      then have "?root ''watchdog_reboot_policy'' w1 = (x, w')"
        using assms y None by (simp add: enable_guards_def require_root_equivalent_def)
      then show ?thesis
        using access_frame [of "sr_env sr" req s RootEquivalent "''watchdog_reboot_policy''" True w1] u w1
        by (auto simp: may_enable_def alike_def dest: access_passed access_refused)
    next
      case 2
      show ?thesis
      proof (cases "a = Ok True")
        case True
        then have "?root ''raw_block_protocol_restore'' (put_services sv w1) = (x, w')"
          using assms y None a w1 2 by (auto simp: enable_guards_def require_root_equivalent_def)
        then show ?thesis
          using access_frame [of "sr_env sr" req s RootEquivalent "''raw_block_protocol_restore''" True "put_services sv w1"] u sv
          by (auto simp: may_enable_def dest: access_passed access_refused)
      next
        case False
        then show ?thesis using assms y None a w1 2 u sv
          by (auto simp: enable_guards_def may_enable_def err_def split: sum.splits bool.splits)
      qed
    next
      case 3
      then show ?thesis using assms y None u w1 by (auto simp: enable_guards_def may_enable_def alike_def)
    qed
  qed
  then show "alike (services_of w) (services_of w')" and "x = None \<Longrightarrow> may_enable sr s p (services_of w)"
    and "\<And>r. x = Some r \<Longrightarrow> rs_error r \<noteq> None" by blast+
qed

lemma quiesce_units_frame:
  "pw_file (snd (quiesce_units env us W)) = pw_file W" "pw_units (snd (quiesce_units env us W)) \<subseteq> pw_units W"
proof (induction us arbitrary: W)
  case (Cons u us)
  {
    case 1
    then show ?case using Cons.IH(1) by (simp add: systemctl_stop_def split: option.split)
  next
    case 2
    then show ?case using Cons.IH(2) [of "W\<lparr>pw_units := pw_units W - {u}\<rparr>"] by (auto simp: systemctl_stop_def split: option.split)
  }
qed simp_all

text \<open>What the units and flags of a state may have lost to a later one: units only.\<close>

definition fewer_units :: "'v services \<Rightarrow> 'v services \<Rightarrow> bool" where
  "fewer_units sv sv' \<longleftrightarrow> pw_file (sv_protocols sv') = pw_file (sv_protocols sv) \<and> pw_units (sv_protocols sv') \<subseteq> pw_units (sv_protocols sv)"

lemma step_frames [simp]:
  "sv_firewall (snd (protocols_quiesce sr p sv)) = sv_firewall sv" "fewer_units sv (snd (protocols_quiesce sr p sv))"
  "sv_firewall (snd (nvmeof_quiesce_all sv)) = sv_firewall sv" "sv_protocols (snd (nvmeof_quiesce_all sv)) = sv_protocols sv"
  "sv_firewall (snd (remap_exports sr p sv)) = sv_firewall sv" "sv_protocols (snd (remap_exports sr p sv)) = sv_protocols sv"
  "sv_firewall (snd (protocols_disable sr n sv)) = sv_firewall sv"
  "sv_protocols (snd (protocols_disable sr n sv)) = snd (disable (sr_disable_env sr) n (sv_protocols sv))"
  "sv_firewall (snd (firewall_close sr p sv)) = snd (close_ports (sr_close_env sr) p (sv_firewall sv))"
  "sv_protocols (snd (firewall_close sr p sv)) = sv_protocols sv"
  using quiesce_units_frame [of "sr_quiesce_env sr" "rev (proto_services (env_nut_mode (sr_quiesce_env sr)) p)" "sv_protocols sv"]
  by (auto simp: protocols_quiesce_def quiesce_def nvmeof_quiesce_all_def remap_exports_def protocols_disable_def
      firewall_close_def fewer_units_def Let_def split: prod.splits sum.splits)

lemma ignore_eq: "ignore f w = snd (f w)"
  by (simp add: ignore_def)

text \<open>The state after the preparation, for every protocol.\<close>

definition prepared :: "'v service_surroundings \<Rightarrow> protocol \<Rightarrow> 'v services \<Rightarrow> 'v services \<Rightarrow> bool" where
  "prepared sr p sv sv1 \<longleftrightarrow> (if p = Iscsi \<or> p = Nvmeof then prepare_exports sr p sv = (None, sv1) else sv1 = sv)"

lemma prepared_frame:
  assumes "prepared sr p sv sv1"
  shows "sv_firewall sv1 = sv_firewall sv" and "fewer_units sv sv1" and "p = Nvmeof \<Longrightarrow> remap_exports sr p sv = (True, sv1)"
proof -
  obtain safe sv2 where r: "remap_exports sr p sv = (safe, sv2)" by fastforce
  obtain q sv3 where q: "protocols_quiesce sr p sv2 = (q, sv3)" by fastforce
  have sv2: "sv_firewall sv2 = sv_firewall sv" "sv_protocols sv2 = sv_protocols sv"
    using step_frames(5,6) [where sr = sr and p = p and sv = sv] r by simp_all
  have sv3: "sv_firewall sv3 = sv_firewall sv2" "fewer_units sv2 sv3" using step_frames(1,2) [where sr = sr and p = p and sv = sv2] q by simp_all
  have "sv_firewall sv1 = sv_firewall sv \<and> fewer_units sv sv1 \<and> (p = Nvmeof \<longrightarrow> remap_exports sr p sv = (True, sv1))"
    using assms r q sv2 sv3
    by (auto simp: prepared_def prepare_exports_def fewer_units_def split: if_splits sum.splits prod.splits)
  then show "sv_firewall sv1 = sv_firewall sv" and "fewer_units sv sv1" and "p = Nvmeof \<Longrightarrow> remap_exports sr p sv = (True, sv1)"
    by blast+
qed

lemma unprepared_frame:
  assumes "prepare_exports sr p sv = (Some x, sv1)"
  shows "fewer_units sv sv1 \<and> (sv_firewall sv1 = sv_firewall sv \<or> sv_firewall sv1 = snd (close_ports (sr_close_env sr) p (sv_firewall sv)))"
proof -
  obtain safe sv2 where r: "remap_exports sr p sv = (safe, sv2)" by fastforce
  have sv2: "sv_firewall sv2 = sv_firewall sv" "sv_protocols sv2 = sv_protocols sv"
    using step_frames(5,6) [where sr = sr and p = p and sv = sv] r by simp_all
  show ?thesis
  proof (cases safe)
    case True
    then have "sv1 = snd (protocols_quiesce sr p sv2)"
      using assms r by (auto simp: prepare_exports_def split: if_splits sum.splits prod.splits)
    then show ?thesis using step_frames(1,2) [where sr = sr and p = p and sv = sv2] sv2 by (simp add: fewer_units_def)
  next
    case False
    then have "sv1 = snd (firewall_close sr p (snd (quiesce_exports sr p sv2)))"
      using assms r by (auto simp: prepare_exports_def ignore_eq split: prod.splits)
    moreover have "sv_firewall (snd (quiesce_exports sr p sv2)) = sv_firewall sv" "fewer_units sv (snd (quiesce_exports sr p sv2))"
      using step_frames(1,2) [where sr = sr and p = p and sv = sv2] step_frames(3,4) [where sv = sv2] sv2 by (auto simp: quiesce_exports_def fewer_units_def)
    ultimately show ?thesis by (simp add: fewer_units_def)
  qed
qed

section \<open>Opening and enabling\<close>

text \<open>The effect on the firewall also for protocols without ports, which have no rule.\<close>

lemma switched:
  assumes "honest e" and "world_ok fw" and "live_matches fw" and "set_rule_active e s ports b fw = (Ok (), fw')"
  shows "ports \<noteq> [] \<longrightarrow> s \<in> r_service ` set (fw_state (fw_config fw'))
      \<and> (\<forall>rule \<in> set (fw_state (fw_config fw')). r_service rule = s \<longrightarrow> r_active rule = b)"
    and "filter (\<lambda>rule. r_service rule \<noteq> s) (fw_state (fw_config fw')) = filter (\<lambda>rule. r_service rule \<noteq> s) (fw_state (fw_config fw))"
    and "live_matches fw'"
proof -
  have "fw' = fw" if "ports = []" using assms(4) that by (simp add: set_rule_active_def)
  then show "filter (\<lambda>rule. r_service rule \<noteq> s) (fw_state (fw_config fw')) = filter (\<lambda>rule. r_service rule \<noteq> s) (fw_state (fw_config fw))"
    and "live_matches fw'"
    using assms(3) set_rule_active_effect(3,4) [OF assms(1-3) _ assms(4)] by blast+
  show "ports \<noteq> [] \<longrightarrow> s \<in> r_service ` set (fw_state (fw_config fw'))
      \<and> (\<forall>rule \<in> set (fw_state (fw_config fw')). r_service rule = s \<longrightarrow> r_active rule = b)"
    using set_rule_active_effect(1,2) [OF assms(1-3) _ assms(4)] by blast
qed

lemma opened_enabled:
  assumes "open_and_enable sr n p sv = (Ok st, sv')"
  shows "open_ports (sr_open_env sr) p (sv_firewall sv) = (Ok (), sv_firewall sv')"
    and "enable (sr_enable_env sr) n (sv_protocols sv) = (Ok st, sv_protocols sv')"
    and "p = Nvmeof \<Longrightarrow> nvmeof_restore (sr_nvmeof_env sr) (flags_of sr (sv_protocols sv')) (sv_nvmeof sv) = (Ok (), sv_nvmeof sv')"
  using assms
  by (auto simp: open_and_enable_def firewall_open_def protocols_enable_def split: prod.splits sum.splits if_splits)

lemma not_enabled [consumes 1, case_names closed stopped undone]:
  assumes "open_and_enable sr n p sv = (Err m, sv')"
  obtains (closed) x where "open_ports (sr_open_env sr) p (sv_firewall sv) = (Err x, sv_firewall sv')" "sv_protocols sv' = sv_protocols sv"
  | (stopped) fw x where "open_ports (sr_open_env sr) p (sv_firewall sv) = (Ok (), fw)"
      "enable (sr_enable_env sr) n (sv_protocols sv) = (Err x, sv_protocols sv')"
      "sv_firewall sv' = snd (close_ports (sr_close_env sr) p fw)"
  | (undone) fw st W where "p = Nvmeof" "open_ports (sr_open_env sr) p (sv_firewall sv) = (Ok (), fw)"
      "enable (sr_enable_env sr) n (sv_protocols sv) = (Ok st, W)" "sv_protocols sv' = snd (disable (sr_disable_env sr) n W)"
      "sv_firewall sv' = snd (close_ports (sr_close_env sr) p fw)"
proof -
  obtain o1 fw where o1: "open_ports (sr_open_env sr) p (sv_firewall sv) = (o1, fw)" by fastforce
  obtain o2 W where o2: "enable (sr_enable_env sr) n (sv_protocols sv) = (o2, W)" by fastforce
  show thesis
  proof (cases o1)
    case (Inl x)
    then show thesis using assms o1 by (intro closed) (auto simp: open_and_enable_def firewall_open_def)
  next
    case (Inr _)
    note o1 = o1 [unfolded Inr]
    obtain sv2 where sv2: "protocols_enable sr n (sv\<lparr>sv_firewall := fw\<rparr>) = (o2, sv2)" "sv_protocols sv2 = W" "sv_firewall sv2 = fw"
      using o2 by (auto simp: protocols_enable_def)
    show thesis
    proof (cases o2)
      case (Inl x)
      then have "sv' = snd (firewall_close sr p sv2)"
        using assms o1 sv2 by (auto simp: open_and_enable_def firewall_open_def split: prod.splits)
      then show thesis using o1 o2 Inl sv2 by (intro stopped) auto
    next
      case (Inr st)
      then obtain y nw where "p = Nvmeof"
        "undo_nvmeof sr n y (sv2\<lparr>sv_nvmeof := nw\<rparr>) = (m, sv')"
        using assms o1 sv2 by (auto simp: open_and_enable_def firewall_open_def split: prod.splits sum.splits if_splits)
      moreover from this have "sv' = snd (firewall_close sr Nvmeof (snd (protocols_disable sr n (snd (nvmeof_quiesce_all (sv2\<lparr>sv_nvmeof := nw\<rparr>))))))"
        by (auto simp: undo_nvmeof_def split: prod.splits)
      ultimately show thesis using o1 o2 Inr sv2 by (intro undone [of fw st W]) auto
    qed
  qed
qed

section \<open>The requests\<close>

lemma announce_other [simp]: "app_other (announce e req s r w) = app_other w"
  by (simp add: announce_def audit_app_def Let_def split: option.split)

lemma handle_service:
  assumes "handle_rpc_request e (others(D_service := h)) (Some req) s w = (r, w')" and "domain_of (rq_method req) = Some D_service"
  obtains "rs_error r \<noteq> None" "app_other w' = app_other w"
  | x w1 where "h req s w = (x, w1)" "app_other w' = app_other w1" "case x of Some y \<Rightarrow> r = y | None \<Rightarrow> rs_error r \<noteq> None"
proof -
  obtain x w1 where x: "h req s w = (x, w1)" by fastforce
  show thesis
  proof (cases "s_must_change_password s \<and> rq_method req \<notin> set before_password_change \<or> denied (s_role s) (rq_method req)")
    case True
    then show thesis using assms(1) by (intro that(1)) (auto simp: handle_rpc_request_def audit_app_def split: if_splits)
  next
    case False
    then have "route (others(D_service := h)) req s w = (r, w1)" "w' = announce e req s r w1"
      using assms x by (auto simp: handle_rpc_request_def route_def split: option.splits prod.splits)
    then show thesis using assms(2) x by (intro that(2) [OF x]) (auto simp: route_def unknown_method_def split: option.splits)
  qed
qed

lemma enable_domain: "domain_of ''service.protocol.enable'' = Some D_service" "domain_of ''service.protocol.disable'' = Some D_service"
  by code_simp+

lemma enable_requested:
  assumes "rq_method req = ''service.protocol.enable''" and "str_param req ''name'' = Some (proto_name p)"
  shows "service_try_route sr req s w = (case enable_guards sr req s p w of
      (Some r, w1) \<Rightarrow> (Some r, w1)
    | (None, w1) \<Rightarrow> (case enable_known sr req (proto_name p) p w1 of (r, w2) \<Rightarrow> (Some r, w2)))"
proof -
  have "from_name (proto_name p) = Some p" by (simp add: from_name_iff)
  then show ?thesis
    using assms by (simp add: service_try_route_def require_str_def enable_route_def split: option.splits prod.splits)
qed

text \<open>A successful request went through every step.\<close>

lemma enable_succeeded:
  assumes "handle_rpc_request e (others(D_service := service_try_route sr)) (Some req) s w = (r, w')" and "rs_error r = None"
    and "rq_method req = ''service.protocol.enable''" and "str_param req ''name'' = Some (proto_name p)"
  obtains sv1 sv2 st where "may_enable sr s p (services_of w)" "alike (services_of w) sv1" "prepared sr p sv1 sv2"
    "open_and_enable sr (proto_name p) p sv2 = (Ok st, services_of w')"
proof -
  have "domain_of (rq_method req) = Some D_service" using assms(3) enable_domain by simp
  with assms(1) show thesis
  proof (cases rule: handle_service)
    case 1
    then show thesis using assms(2) by simp
  next
    case (2 x w1)
    obtain y w2 where y: "enable_guards sr req s p w = (y, w2)" by fastforce
    have "y = None" and "x = Some r"
      using 2 assms(2) y guards_effect(3) [OF y] by (auto simp: enable_requested [OF assms(3,4)] split: option.splits prod.splits)
    then have known: "enable_known sr req (proto_name p) p w2 = (r, w1)"
      using 2(1) y by (auto simp: enable_requested [OF assms(3,4)] split: prod.splits)
    note g = guards_effect [OF y]
    have "\<exists>sv2 st. prepared sr p (services_of w2) sv2 \<and> open_and_enable sr (proto_name p) p sv2 = (Ok st, services_of w1)"
      using known assms(2) unfolding enable_known_def prepared_def
      by (auto simp: reply_def err_def split: if_splits prod.splits option.splits sum.splits)
    then show thesis using that g \<open>y = None\<close> 2(2) by auto
  qed
qed

text \<open>A failed one stopped at one of them.\<close>

lemma enable_failed [consumes 4, case_names refused unprepared failed]:
  assumes "handle_rpc_request e (others(D_service := service_try_route sr)) (Some req) s w = (r, w')" and "rs_error r \<noteq> None"
    and "rq_method req = ''service.protocol.enable''" and "str_param req ''name'' = Some (proto_name p)"
  obtains (refused) "alike (services_of w) (services_of w')"
  | (unprepared) sv1 x where "alike (services_of w) sv1" "prepare_exports sr p sv1 = (Some x, services_of w')"
  | (failed) sv1 sv2 m where "alike (services_of w) sv1" "prepared sr p sv1 sv2"
      "open_and_enable sr (proto_name p) p sv2 = (Err m, services_of w')"
proof -
  have "domain_of (rq_method req) = Some D_service" using assms(3) enable_domain by simp
  with assms(1) show thesis
  proof (cases rule: handle_service)
    case 1
    then show thesis by (intro refused) (simp add: alike_def)
  next
    case (2 x w1)
    obtain y w2 where y: "enable_guards sr req s p w = (y, w2)" by fastforce
    note g = guards_effect [OF y]
    show thesis
    proof (cases y)
      case (Some _)
      then show thesis using 2 y g by (intro refused) (auto simp: enable_requested [OF assms(3,4)])
    next
      case None
      then have known: "enable_known sr req (proto_name p) p w2 = (r, w1)"
        using 2 y by (auto simp: enable_requested [OF assms(3,4)] split: prod.splits)
      have "(\<exists>x. prepare_exports sr p (services_of w2) = (Some x, services_of w1))
          \<or> (\<exists>sv2 m. prepared sr p (services_of w2) sv2 \<and> open_and_enable sr (proto_name p) p sv2 = (Err m, services_of w1))"
        using known assms(2) unfolding enable_known_def prepared_def
        by (auto simp: reply_def split: if_splits prod.splits option.splits sum.splits)
      then show thesis using unprepared failed g(1) 2(2) by auto
    qed
  qed
qed

text \<open>
  (C12) A protocol that was enabled is on: when the request succeeds, the caller was allowed to enable it (an administrator for the watchdog and for exports of raw devices or
  files outside the pools), its flag is stored with every other flag as it was, its units run, its
  rule is open, if it has ports, with every other rule as it was, and the kernel holds the
  rendering of the rules.
\<close>

theorem enabled_means_on:
  assumes "handle_rpc_request e (others(D_service := service_try_route sr)) (Some req) s w = (r, w')" and "rs_error r = None"
    and "rq_method req = ''service.protocol.enable''" and "str_param req ''name'' = Some (proto_name p)"
    and "pw_file (sv_protocols (services_of w)) = Valid flags"
    and "honest (sr_open_env sr)" and "world_ok (sv_firewall (services_of w))" and "live_matches (sv_firewall (services_of w))"
  shows "may_enable sr s p (services_of w)
    \<and> pw_file (sv_protocols (services_of w')) = Valid (ps_set flags p True)
    \<and> set (proto_services (env_nut_mode (sr_enable_env sr)) p) \<subseteq> pw_units (sv_protocols (services_of w'))
    \<and> (ports_for_protocol p \<noteq> [] \<longrightarrow> proto_name p \<in> r_service ` set (fw_state (fw_config (sv_firewall (services_of w'))))
         \<and> (\<forall>rule \<in> set (fw_state (fw_config (sv_firewall (services_of w')))). r_service rule = proto_name p \<longrightarrow> r_active rule))
    \<and> filter (\<lambda>rule. r_service rule \<noteq> proto_name p) (fw_state (fw_config (sv_firewall (services_of w')))) =
        filter (\<lambda>rule. r_service rule \<noteq> proto_name p) (fw_state (fw_config (sv_firewall (services_of w))))
    \<and> fw_live (sv_firewall (services_of w')) = Some (config_ruleset (fw_config (sv_firewall (services_of w'))))"
proof -
  obtain sv1 sv2 st where sv: "may_enable sr s p (services_of w)" "alike (services_of w) sv1" "prepared sr p sv1 sv2"
    and run: "open_and_enable sr (proto_name p) p sv2 = (Ok st, services_of w')"
    by (rule enable_succeeded [OF assms(1-4)])
  note f = prepared_frame [OF sv(3)] and o = opened_enabled [OF run]
  have fw: "sv_firewall sv2 = sv_firewall (services_of w)" and flags: "pw_file (sv_protocols sv2) = Valid flags"
    using f sv(2) assms(5) by (simp_all add: alike_def fewer_units_def)
  have on: "from_name (proto_name p) = Some p" by (simp add: from_name_iff)
  note opened = switched [OF assms(6-8) o(1) [unfolded open_ports_def fw]]
  show ?thesis
    using sv(1) enable_ok_effect [OF o(2) on flags] opened by (auto simp: live_matches_def)
qed

section \<open>Failing closed\<close>

lemma open_failed:
  assumes "honest e" and "open_ports e p fw = (Err x, fw')"
  shows "fw_config fw' = fw_config fw"
proof -
  have t: "fw_config fw' = fw_config fw" if "transact e cand None fw = (Err x, fw')" for cand
    using assms(1) by (cases rule: transact_cases [where cand = cand and doc = None and w = fw]) (use that in \<open>auto simp: rejected_def\<close>)
  show ?thesis
    using assms(2) t by (auto simp: open_ports_def set_rule_active_def Let_def split: if_splits option.splits)
qed

lemma ports_keep:
  assumes "honest e" and "world_ok fw" and "live_matches fw"
  shows "world_ok (snd (open_ports e p fw)) \<and> live_matches (snd (open_ports e p fw))"
    and "live_matches (snd (close_ports e p fw))"
  using wf.exec_keeps [of fw e "Open p"] live.exec_keeps [of fw e "Open p"] live.exec_keeps [of fw e "Close p"] assms by simp_all

definition not_newly_open :: "protocol \<Rightarrow> fw_world \<Rightarrow> fw_world \<Rightarrow> bool" where
  "not_newly_open p fw fw' \<longleftrightarrow> (\<forall>rule \<in> set (fw_state (fw_config fw')). r_service rule = proto_name p \<and> r_active rule \<longrightarrow>
     (\<exists>old \<in> set (fw_state (fw_config fw)). r_service old = proto_name p \<and> r_active old))"

lemma not_newly_open_same: "fw_config fw' = fw_config fw \<Longrightarrow> not_newly_open p fw fw'"
  by (auto simp: not_newly_open_def)

lemma closed_again:
  assumes "honest e" and "world_ok fw" and "live_matches fw" and "is_ok (fst (close_ports e p fw))"
    and "ports_for_protocol p = [] \<Longrightarrow> fw_config fw = fw_config fw0"
  shows "not_newly_open p fw0 (snd (close_ports e p fw))"
proof (cases "ports_for_protocol p = []")
  case True
  then show ?thesis using assms(5) by (intro not_newly_open_same) (simp add: close_ports_def set_rule_active_def)
next
  case False
  have "close_ports e p fw = (Ok (), snd (close_ports e p fw))" using ok_pair [OF assms(4)] .
  from set_rule_active_effect(1) [OF assms(1-3) False this [unfolded close_ports_def]]
  show ?thesis by (auto simp: not_newly_open_def close_ports_def)
qed

text \<open>What a failed request may have changed: units are gone, the flag is down.\<close>

definition no_more :: "protocol \<Rightarrow> protocol_state \<Rightarrow> proto_world \<Rightarrow> proto_world \<Rightarrow> bool" where
  "no_more p flags W W' \<longleftrightarrow> (\<exists>flags'. pw_file W' = Valid flags' \<and> (ps_get flags' p \<longrightarrow> ps_get flags p)
     \<and> (\<forall>q. q \<noteq> p \<longrightarrow> ps_get flags' q = ps_get flags q)) \<and> pw_units W' \<subseteq> pw_units W"

lemma nvmeof_undone:
  assumes "enable env (proto_name Nvmeof) W = (Ok st, W1)" and "pw_file W = Valid flags" and "env_save env' SavePrimary = None"
  shows "no_more Nvmeof flags W (snd (disable env' (proto_name Nvmeof) W1))"
proof -
  have n: "from_name (proto_name Nvmeof) = Some Nvmeof" by (simp add: from_name_iff)
  from enable_ok_effect [OF assms(1) n assms(2)]
  have W1: "pw_file W1 = Valid (ps_set flags Nvmeof True)" "pw_units W1 = pw_units W" by simp_all
  have "\<forall>q. q \<noteq> Nvmeof \<longrightarrow> ps_get (ps_set flags Nvmeof False) q = ps_get flags q" by (simp only: ps_simps) simp
  then show ?thesis using n W1 assms(3)
    by (simp add: disable_def load_state_def save_state_def no_more_def Let_def)
qed


section \<open>Disabling\<close>


section \<open>Volumes behind NVMe-oF\<close>

lemma nvmeof_flag_set: "pw_file W = Valid flags \<Longrightarrow> nvmeof flags \<Longrightarrow> nvmeof_flag (flags_of sr W)"
  by (simp add: flags_of_def flags_json_def nvmeof_flag_def)

text \<open>
  (C2) Enabling NVMe-oF never serves a wrong volume: when the request succeeds, the kernel has every
  stored namespace on its stored device, switched on exactly if it is stored as enabled; for a
  namespace on a volume of the pools that device is where the volume is attached in this boot; and
  the kernel had no namespace of ours that is not stored.
\<close>

theorem enabled_nvmeof_serves_right_volumes:
  assumes "handle_rpc_request e (others(D_service := service_try_route sr)) (Some req) s w = (r, w')" and "rs_error r = None"
    and "rq_method req = ''service.protocol.enable''" and "str_param req ''name'' = Some ''nvmeof''"
    and "pw_file (sv_protocols (services_of w)) = Valid flags" and "sr_attach sr (sv_volumes (services_of w)) = (m, vols)"
    and "well_stored (nw_dir (sv_nvmeof (services_of w)))" and "sees_dirs (sv_nvmeof (services_of w))"
  shows "serves_right_volumes m (sv_nvmeof (services_of w'))
    \<and> (\<forall>nqn \<in> set (children (NVMET_BASE @ ''/subsystems'') (nw_cfs (sv_nvmeof (services_of w)))). starts_with nqn DEFAULT_NQN_PREFIX \<longrightarrow>
         (\<exists>sub. stored_in (nw_dir (sv_nvmeof (services_of w'))) sub \<and> sub_nqn sub = nqn
            \<and> (\<forall>name \<in> set (children (subsystem_path nqn @ ''/namespaces'') (nw_cfs (sv_nvmeof (services_of w)))).
                 \<exists>n \<in> set (sub_namespaces sub). parse_u32 name = Some (ns_nsid n))))"
proof -
  have name: "str_param req ''name'' = Some (proto_name Nvmeof)" using assms(4) by simp
  obtain sv1 sv2 st where sv: "alike (services_of w) sv1" "prepared sr Nvmeof sv1 sv2"
    and run: "open_and_enable sr (proto_name Nvmeof) Nvmeof sv2 = (Ok st, services_of w')"
    by (rule enable_succeeded [OF assms(1-3) name])
  note f = prepared_frame [OF sv(2)] and o = opened_enabled [OF run]
  have "sr_attach sr (sv_volumes sv1) = (m, vols)" using sv(1) assms(6) by (simp add: alike_def)
  then obtain out where out: "nvmeof_remap_device_paths m (sv_nvmeof sv1) = (out, sv_nvmeof sv2)" "nro_safe_to_restore out"
    using f(3) by (auto simp: remap_exports_def Let_def split: prod.splits)
  have "pw_file (sv_protocols sv2) = Valid flags" using f(2) sv(1) assms(5) by (simp add: alike_def fewer_units_def)
  moreover have "from_name (proto_name Nvmeof) = Some Nvmeof" by (simp add: from_name_iff)
  ultimately have "pw_file (sv_protocols (services_of w')) = Valid (ps_set flags Nvmeof True)" using enable_ok_effect [OF o(2)] by blast
  then have flag: "nvmeof_flag (flags_of sr (sv_protocols (services_of w')))" by (rule nvmeof_flag_set) simp
  have same: "nw_dir (sv_nvmeof sv1) = nw_dir (sv_nvmeof (services_of w))" "nw_cfs (sv_nvmeof sv1) = nw_cfs (sv_nvmeof (services_of w))"
    using sv(1) by (simp_all add: alike_def)
  show ?thesis
    using nvmeof_serves_right_volumes [OF out o(3) flag] assms(7,8) unfolding same by simp
qed

section \<open>Answers\<close>

lemma reply_answers: "answers req (fst (reply req c w))"
  by (simp add: reply_def split: prod.split sum.split)

lemma enable_route_answers: "answers req (fst (enable_route sr req s n w))"
proof (cases "from_name n")
  case None
  then show ?thesis using reply_answers by (simp add: enable_route_def)
next
  case (Some p)
  obtain x w1 where x: "enable_guards sr req s p w = (x, w1)" by fastforce
  have "answers req r" if "x = Some r" for r
    using x that by (auto simp: enable_guards_def require_defs split: if_splits prod.splits option.splits sum.splits bool.splits dest: require_access_answers)
  moreover have "answers req (fst (enable_known sr req n p w1))"
    by (auto simp: enable_known_def reply_answers split: prod.split option.split)
  ultimately show ?thesis using Some x by (cases x) (simp_all add: enable_route_def)
qed

lemma disable_route_answers: "disable_route sr req s n w = (r, w') \<Longrightarrow> answers req r"
  by (auto simp: disable_route_def require_defs split: prod.splits option.splits sum.splits dest: require_access_answers)

lemma rest_server_answers: "rest_server_route sr req w = (Some r, w') \<Longrightarrow> answers req r"
  by (auto simp: rest_server_route_def Let_def require_str_answers split: if_splits prod.splits sum.splits)

interpretation service_answers: answering "service_try_route sr :: ('k, ('r, 'a, 'v services) engine_rest) try_route"
  for sr :: "'v service_surroundings"
proof
  fix req s and w :: "('k, 'r, 'a, 'v) service_engine" and r w'
  assume "service_try_route sr req s w = (Some r, w')"
  then show "answers req r"
    using enable_route_answers [of req sr s _ w] disable_route_answers [of sr req s _ w] rest_server_answers [of sr req w]
    by (auto simp: service_try_route_def Let_def require_str_answers split: if_splits prod.splits sum.splits) (metis fst_conv)+
qed


section \<open>Sample requests\<close>

definition sample_services :: "nat services" where
  "sample_services = \<lparr>sv_protocols = fresh_world, sv_firewall = ssh_world, sv_iscsi = sample_iscsi, sv_nvmeof = sample_nvmeof,
     sv_rest = no_files, sv_base_iqn = None, sv_base_nqn = None, sv_rest_path = None, sv_volumes = 0\<rparr>"

definition sample_service_engine :: "(nat, string, nat list, nat) service_engine" where
  "sample_service_engine = \<lparr>app_auth = boot_world, app_events = [],
     app_other = \<lparr>er_webauthn = webauthn_new DEFAULT_RP_ID, er_oidc = \<lparr>st_oidc = keycloak_settings, st_saved = keycloak_settings\<rparr>,
       er_client = None, er_more = sample_services\<rparr>\<rparr>"

definition calm_services :: "nat service_surroundings" where
  "calm_services = \<lparr>sr_env = calm_auth, sr_enable_env = calm_env, sr_quiesce_env = calm_env, sr_disable_env = calm_env,
     sr_open_env = quiet_env, sr_close_env = quiet_env, sr_iscsi_env = sample_iscsi_env, sr_nvmeof_env = sample_nvmeof_env,
     sr_rest_env = sample_rest_env, sr_other_flags = None, sr_attach = (\<lambda>v. (nv_moved, v + 1)), sr_create_subvolume = (\<lambda>_ _ v. v),
     sr_exists = (\<lambda>_. True), sr_canonicalize = Some, sr_write_iqn = None, sr_write_nqn = None, sr_write_rest_path = None,
     sr_restart = Some True\<rparr>"

definition named_request :: "string \<Rightarrow> string \<Rightarrow> rpc_request" where
  "named_request m n = \<lparr>rq_jsonrpc = ''2.0'', rq_method = m, rq_params = Some (JObj [(''name'', JStr n)]), rq_id = JInt 7\<rparr>"

abbreviation sample_call :: "nat service_surroundings \<Rightarrow> string \<Rightarrow> string \<Rightarrow> rpc_response \<times> (nat, string, nat list, nat) service_engine" where
  "sample_call sr m n \<equiv> handle_rpc_request calm_auth (silent_domains(D_service := service_try_route sr)) (Some (named_request m n))
     operator_session sample_service_engine"

lemma sample_request:
  "rq_method (named_request m n) = m" "str_param (named_request m n) ''name'' = Some n"
  by (simp_all add: named_request_def str_param_def)

lemma sample_state:
  "services_of sample_service_engine = sample_services" "pw_file (sv_protocols sample_services) = Valid protocol_state_default"
  "world_ok (sv_firewall sample_services)" "live_matches (sv_firewall sample_services)"
  by (simp_all add: sample_service_engine_def sample_services_def fresh_world_def)

theorem enabled_means_on_witness:
  "''nfs-server.service'' \<in> pw_units (sv_protocols (services_of (snd (sample_call calm_services ''service.protocol.enable'' ''nfs''))))
   \<and> ''nfs'' \<in> r_service ` set (fw_state (fw_config (sv_firewall (services_of (snd (sample_call calm_services ''service.protocol.enable'' ''nfs''))))))"
proof -
  let ?c = "sample_call calm_services ''service.protocol.enable'' ''nfs''"
  have ok: "rs_error (fst ?c) = None" by code_simp
  have name: "str_param (named_request ''service.protocol.enable'' ''nfs'') ''name'' = Some (proto_name Nfs)" by (simp add: sample_request)
  have honest: "honest (sr_open_env calm_services)" "ports_for_protocol Nfs \<noteq> []" by (simp_all add: calm_services_def)
  have "''nfs-server.service'' \<in> set (proto_services (env_nut_mode (sr_enable_env calm_services)) Nfs)" by code_simp
  then show ?thesis
    using enabled_means_on [OF surjective_pairing ok sample_request(1) name, unfolded sample_state(1), OF sample_state(2) honest(1) sample_state(3,4)] honest(2)
    by auto
qed

lemma quiet_close: "is_ok (fst (close_ports quiet_env p fw))"
proof -
  have "is_ok (fst (transact quiet_env cand None w))" for cand w
    by (simp add: transact_def commit_candidate_def quiet_env_def apply_nftables_with_def run_nft_def good_run_def)
  then show ?thesis by (auto simp: close_ports_def set_rule_active_def Let_def split: option.split)
qed

definition broken_services :: "nat service_surroundings" where
  "broken_services = calm_services\<lparr>sr_enable_env := calm_env\<lparr>env_start := (\<lambda>_. Some ''exit 1'')\<rparr>\<rparr>"



theorem enabled_nvmeof_serves_right_volumes_witness:
  "attr (nw_cfs (sv_nvmeof (services_of (snd (sample_call calm_services ''service.protocol.enable'' ''nvmeof'')))))
     (namespace_path (DEFAULT_NQN_PREFIX @ '':t'') 1 @ ''/device_path'') = ''/dev/loop3''"
proof -
  let ?c = "sample_call calm_services ''service.protocol.enable'' ''nvmeof''" and ?s = "remapped_sub nv_moved sample_subsystem"
  let ?nw = "sv_nvmeof (services_of (snd ?c))"
  have "case ?c of (r, w) \<Rightarrow> rs_error r = None \<and> load (nw_dir (sv_nvmeof (services_of w))) ''id1'' = Some ?s" by code_simp
  then have ok: "rs_error (fst ?c) = None" and loaded: "load (nw_dir ?nw) ''id1'' = Some ?s" by (simp_all only: case_prod_beta)
  have attach: "sr_attach calm_services (sv_volumes sample_services) = (nv_moved, 1)" by code_simp
  have only: "s = sample_subsystem" if "stored_in (nw_dir sample_nvmeof) s" for s
    using that by (auto simp: stored_in_def sample_nvmeof_def load_def file_at_def get_or_def item_file_def split: if_splits)
  have "filed (nw_dir sample_nvmeof)" by (simp add: sample_nvmeof_def filed_entries_def sample_subsystem_def item_file_def)
  moreover have "CHR ''/'' \<notin> set (sub_nqn sample_subsystem) \<and> distinct (map ns_nsid (sub_namespaces sample_subsystem))" by code_simp
  ultimately have stored: "well_stored (nw_dir (sv_nvmeof sample_services))" using only by (auto simp: well_stored_def sample_services_def)
  have sees: "sees_dirs (sv_nvmeof sample_services)" by code_simp
  have serves: "serves_right_volumes nv_moved ?nw"
    using enabled_nvmeof_serves_right_volumes [OF surjective_pairing ok sample_request, unfolded sample_state(1), OF sample_state(2) attach stored sees]
    by blast
  have "sub_id ?s = ''id1''" "is_json (item_file (sub_id ?s))" by code_simp+
  then have "stored_in (nw_dir ?nw) ?s" using loaded by (simp only: stored_in_def simp_thms)
  moreover have "hd (sub_namespaces ?s) \<in> set (sub_namespaces ?s)" by code_simp
  ultimately have "attr (nw_cfs ?nw) (namespace_path (sub_nqn ?s) (ns_nsid (hd (sub_namespaces ?s))) @ ''/device_path'') = ns_device_path (hd (sub_namespaces ?s))"
    using serves unfolding serves_right_volumes_def by blast
  moreover have "sub_nqn ?s = DEFAULT_NQN_PREFIX @ '':t''" "ns_nsid (hd (sub_namespaces ?s)) = 1" "ns_device_path (hd (sub_namespaces ?s)) = ''/dev/loop3''"
    by code_simp+
  ultimately show ?thesis by simp
qed


section \<open>Two surprises\<close>

text \<open>Enabling a protocol that is on already, when the flags cannot be saved, closes its port: the
  clean-up does not ask whether the port was open before. The flag and the units stay.\<close>

lemma failed_reenable_closes_port:
  assumes "enable (sr_enable_env sr) n (sv_protocols sv) = (Err x, sv_protocols sv)"
    and "open_ports (sr_open_env sr) p (sv_firewall sv) = (Ok (), sv_firewall sv)" and "ports_for_protocol p \<noteq> []"
    and "honest (sr_close_env sr)" and "world_ok (sv_firewall sv)" and "live_matches (sv_firewall sv)"
    and "is_ok (fst (close_ports (sr_close_env sr) p (sv_firewall sv)))"
    and "open_and_enable sr n p sv = (r, sv')"
  shows "sv_protocols sv' = sv_protocols sv"
    and "rule \<in> set (fw_state (fw_config (sv_firewall sv'))) \<Longrightarrow> r_service rule = proto_name p \<Longrightarrow> \<not> r_active rule"
proof -
  have sv': "sv_protocols sv' = sv_protocols sv \<and> sv_firewall sv' = snd (close_ports (sr_close_env sr) p (sv_firewall sv))"
    using assms(1,2,8) step_frames(9,10) [where sr = sr and p = p]
    by (auto simp: open_and_enable_def firewall_open_def protocols_enable_def firewall_close_def split: prod.splits)
  then show "sv_protocols sv' = sv_protocols sv" by simp
  show "\<not> r_active rule" if "rule \<in> set (fw_state (fw_config (sv_firewall sv')))" "r_service rule = proto_name p"
    using set_rule_active_effect(1) [OF assms(4-6,3) ok_pair [OF assms(7), unfolded close_ports_def]] that sv'
    by (simp add: close_ports_def)
qed

text \<open>Changing the directory of the backup server, or its password, starts the server also when it is
  disabled: \<open>systemctl restart\<close> starts a unit that is down.\<close>

lemma configuring_starts_disabled_server:
  assumes "sr_write_rest_path sr = None" and "sr_restart sr = Some True" and "configure_rest_server sr path sv = (r, sv')"
  shows "''nasty-rest-server.service'' \<in> pw_units (sv_protocols sv')" and "pw_file (sv_protocols sv') = pw_file (sv_protocols sv)"
  using assms by (auto simp: configure_rest_server_def restart_rest_server_def Let_def)

end
