(* ===== verification/Spec2Isabelle.thy ===== *)
theory Spec2Isabelle
  imports Portal Socket Iscsi_Portals Service_Behaviour
begin

text \<open>
  A verification of the engine of a network storage appliance (\<open>src/engine\<close>, Rust). The engine is
  one daemon: clients reach it over a WebSocket or over REST, sign in, and send JSON-RPC requests;
  a gate decides by role which method a session may call; the handlers drive the services of the
  appliance (protocols and their units, the firewall, block exports over iSCSI and NVMe-oF, the
  backup receiver), which keep their state in JSON files and in the kernel.

  \<^bold>\<open>Conventions.\<close> Strings are lists of UTF-8 bytes. Machine integers keep their width (\<open>64 word\<close>
  for times, \<open>16\<close> and \<open>32 word\<close> for ports and identifiers). A fallible call returns a sum, with
  the abbreviations \<open>Err\<close> and \<open>Ok\<close>; an operation with effects returns its result and the state
  after it. System calls, processes and crates that are not part of the repository are arguments:
  records of functions (\<open>auth_lib\<close>, \<open>webauthn_lib\<close>, \<open>oidc_lib\<close>, \<open>creds\<close>) or records that
  say how each call of an operation ends (\<open>proto_env\<close>, \<open>fw_env\<close>, \<open>auth_env\<close>, \<open>dir_env\<close>,
  \<open>rest_env\<close>), so that a theorem covers every combination of failures. The configuration file
  system of the kernel is a tree whose calls draw their failures from a list.

  \<^bold>\<open>Theories.\<close>
  \<^item> Shared: \<open>Prelude\<close> (vectors, hash maps, results), \<open>Rust_Str\<close> (\<open>str\<close>), \<open>Net_Addr\<close>
    (parsing of IP addresses), \<open>Json_Rpc\<close> (\<open>nasty-common/src/jsonrpc.rs\<close>), \<open>State_Dir\<close>
    (\<open>nasty-common/src/state.rs\<close>), \<open>Secrets\<close> (\<open>nasty-common/src/secrets.rs\<close>), \<open>Block_Volume\<close>
    (\<open>nasty-common/src/block_volume.rs\<close>), \<open>Configfs\<close> (the kernel's tree).
  \<^item> Protocols: \<open>Protocol\<close> is \<open>ProtocolService\<close> of \<open>nasty-system/src/protocol.rs\<close>. Shown: what
    enabling and disabling do, the roll-back of a failed start, and that the restore at boot starts
    exactly what is enabled and not excluded.
  \<^item> Firewall: \<open>Firewall_Rules\<close> (rules, validation, the text given to \<open>nft\<close>), \<open>Firewall\<close>
    (\<open>FirewallService\<close> as transactions over memory, files and kernel) and \<open>Firewall_Runs\<close>, all of
    \<open>nasty-system/src/firewall.rs\<close>. Shown: kernel, memory and disk agree after every run of
    operations, an error changes nothing, the configuration stays well formed, and a restriction
    accepts exactly the packets it should.
  \<^item> Authentication: \<open>Auth_State\<close>, \<open>Auth_Store\<close>, \<open>Auth\<close> (\<open>nasty-engine/src/auth.rs\<close>),
    \<open>Webauthn\<close> (\<open>auth_webauthn.rs\<close>), \<open>Oidc\<close> (\<open>auth_oidc.rs\<close> and the settings behind it).
    \<open>Auth_Runs\<close> and \<open>Auth_Behaviour\<close> show that the memory is what a restart loads, that sessions
    are backed by users, when a login is locked, what a password change revokes, and that
    registrations and sign-ins are bound to the account that started them.
  \<^item> The way in: \<open>Registry\<close> (all methods with their roles), \<open>Router\<close> (gate and dispatch),
    \<open>Gateway\<close> (REST), \<open>Portal\<close> and \<open>Socket\<close> (sign-in and the WebSocket of \<open>main.rs\<close>),
    \<open>Auth_Routes\<close> and \<open>Service_Routes\<close> (the handlers of two domains). \<open>Gate\<close> shows that the gate
    enforces the registry, that a refused request changes nothing and that a change is audited;
    \<open>Handlers\<close> has the contract of a handler as a locale, from which the form of every answer
    follows.
  \<^item> Exports: \<open>Iscsi\<close>, \<open>Iscsi_Service\<close>, \<open>Iscsi_Behaviour\<close>, \<open>Iscsi_Portals\<close>
    (\<open>nasty-sharing/src/iscsi.rs\<close>), \<open>Nvmeof\<close>, \<open>Nvmeof_Service\<close>, \<open>Nvmeof_Behaviour\<close>
    (\<open>nvmeof.rs\<close>), \<open>Host_Addr\<close> (\<open>v6.rs\<close>), \<open>Rest_Server\<close> (\<open>nasty-system/src/rest_server.rs\<close>).
    Shown: an export that is restored is on the device its volume has in this boot, admitting an
    initiator fails closed, a plan between portal sets is safe at every step, the portal operations
    refine operations on a set, and quiescing turns every namespace off.
  \<^item> Composition: \<open>Service_Behaviour\<close> follows one request through the gate, the handler and all
    services: what holds when a protocol was enabled or disabled, and what a failed request leaves.

  \<^bold>\<open>Interfaces.\<close> What a component relies on is a locale, interpreted on the model's own definitions:
  \<open>flag_store\<close> (the persisted flags), \<open>transaction_invariant\<close> (what a firewall invariant owes),
  \<open>item_store\<close> (the state directory), \<open>remapping\<close> (following volumes to devices, once for iSCSI
  units and once for NVMe-oF namespaces), \<open>answering\<close> (handlers),
  \<open>auth_invariant\<close> (what an invariant of the accounts owes) and \<open>challenges\<close> (security-key challenges
  in flight, for registrations and for sign-ins).

  \<^bold>\<open>Termination.\<close> All definitions are total. No fuel is used: the loops run over finite lists, and
  the searches for a free name or number have a termination proof or are bounded by the list they
  search.

  \<^bold>\<open>Not modelled.\<close> Concurrency inside an operation: every operation runs under its lock in the code,
  and interleavings appear as sequences of operations (the runs of \<open>Firewall\<close> and \<open>Auth_Runs\<close>, the
  events of \<open>Socket\<close>). Waiting and time-outs of the sharing services. Log messages. The crates for
  filesystems and subvolumes, NFS and SMB, backups, containers, virtual machines, metrics, network
  configuration, updates, alerts and directory services: most of their code drives external
  programs and the kernel's files; the handlers of their domains are an argument of the router.
  The text of API documents, the web interface and the NixOS modules. Cryptography, JSON text and
  TLS belong to crates outside the repository.
\<close>

end
